(* ===== verification/Prelude.thy ===== *)
theory Prelude
  imports Main "HOL-Library.AList" "HOL-Library.Multiset"
begin

text \<open>
  Shared vocabulary of the development.

  A Go function that returns \<open>(T, error)\<close> is modelled by a value of the sum type
  \<open>'e + 'a\<close> (\<open>Inl\<close> the error, \<open>Inr\<close> the result); a Go function that returns only
  \<open>error\<close> by \<open>'e option\<close> (\<open>None\<close> is Go's \<open>nil\<close>).  \<open>foldE\<close> is the shape
  of a \<open>for ... range\<close> loop whose body may return early with an error.  A Go map that is
  iterated is an association list with distinct keys; one that is only looked up is a HOL map.

  The theory also holds the facts on lists and association lists that several components use and
  the named collections the component proofs draw on.
\<close>

named_theorems go_defs "definitions of the modelled Go library functions"
named_theorems res_splits "case splits on results of modelled calls"

type_synonym ('e, 'a) result = "'e + 'a"

fun bindE :: "'e + 'a \<Rightarrow> ('a \<Rightarrow> 'e + 'b) \<Rightarrow> 'e + 'b" where
  "bindE (Inl e) f = Inl e"
| "bindE (Inr a) f = f a"

fun foldE :: "('x \<Rightarrow> 's \<Rightarrow> 'e + 's) \<Rightarrow> 'x list \<Rightarrow> 's \<Rightarrow> 'e + 's" where
  "foldE f [] s = Inr s"
| "foldE f (x # xs) s = (case f x s of Inl e \<Rightarrow> Inl e | Inr s' \<Rightarrow> foldE f xs s')"

fun is_ok :: "'e + 'a \<Rightarrow> bool" where
  "is_ok (Inl e) = False"
| "is_ok (Inr a) = True"

fun map_err :: "('e \<Rightarrow> 'f) \<Rightarrow> 'e + 'a \<Rightarrow> 'f + 'a" where
  "map_err f (Inl e) = Inl (f e)"
| "map_err f (Inr a) = Inr a"

text \<open>
  Calls of a database or a file system may fail.  A \<open>faults\<close> list says for each call in turn
  whether it fails; no call fails once the list is used up.
\<close>

type_synonym faults = "bool list"

fun fault :: "faults \<Rightarrow> bool" where
  "fault [] = False"
| "fault (f # fs) = f"

declare sum.splits [res_splits] option.splits [res_splits] prod.splits [res_splits] if_splits [res_splits]

text \<open>A step that leaves an observation of the world alone.\<close>

definition keeps :: "('w \<Rightarrow> 'o) \<Rightarrow> ('w \<Rightarrow> 'a \<times> 'w) \<Rightarrow> bool" where
  "keeps obs f \<longleftrightarrow> (\<forall>w. obs (snd (f w)) = obs w)"

section \<open>Results\<close>

lemma bindE_Inr_iff [simp]: "bindE r f = Inr b \<longleftrightarrow> (\<exists>a. r = Inr a \<and> f a = Inr b)"
  by (cases r) auto

lemma bindE_Inl_iff: "bindE r f = Inl e \<longleftrightarrow> r = Inl e \<or> (\<exists>a. r = Inr a \<and> f a = Inl e)"
  by (cases r) auto

lemma map_err_Inr_iff [simp]: "map_err f r = Inr a \<longleftrightarrow> r = Inr a"
  by (cases r) auto

lemma map_err_Inl_iff [simp]: "map_err f r = Inl e \<longleftrightarrow> (\<exists>e'. r = Inl e' \<and> e = f e')"
  by (cases r) auto

lemma is_ok_iff: "is_ok r \<longleftrightarrow> (\<exists>a. r = Inr a)"
  by (cases r) auto

lemma foldE_append [simp]:
  "foldE f (xs @ ys) s = bindE (foldE f xs s) (foldE f ys)"
  by (induction xs arbitrary: s) (auto split: sum.splits)

lemma foldE_Cons_Inr:
  "foldE f (x # xs) s = Inr t \<longleftrightarrow> (\<exists>s'. f x s = Inr s' \<and> foldE f xs s' = Inr t)"
  by (auto split: sum.splits)

text \<open>A loop keeps an invariant that its body keeps.\<close>

lemma foldE_invariant:
  assumes "foldE f xs s = Inr s'" and "I s"
    and "\<And>x s s'. x \<in> set xs \<Longrightarrow> I s \<Longrightarrow> f x s = Inr s' \<Longrightarrow> I s'"
  shows "I s'"
  using assms
proof (induction xs arbitrary: s)
  case Nil
  then show ?case by simp
next
  case (Cons x xs)
  from Cons.prems(1) obtain s1 where s1: "f x s = Inr s1" "foldE f xs s1 = Inr s'"
    by (auto split: sum.splits)
  have "I s1" using Cons.prems(2,3) s1(1) by auto
  with s1(2) Cons.prems(3) show ?case by (auto intro: Cons.IH)
qed

section \<open>Association lists\<close>

lemma map_of_update [simp]: "map_of (AList.update k v xs) = (map_of xs)(k \<mapsto> v)"
  by (simp add: update_conv')

lemma map_of_delete [simp]: "map_of (AList.delete k xs) = (map_of xs)(k := None)"
  by (simp add: delete_conv')

lemma distinct_keys_update [simp]:
  "distinct (map fst xs) \<Longrightarrow> distinct (map fst (AList.update k v xs))"
  by (rule distinct_update)

lemma distinct_keys_delete [simp]:
  "distinct (map fst xs) \<Longrightarrow> distinct (map fst (AList.delete k xs))"
  by (rule distinct_delete)

lemma set_keys_map_of: "k \<in> set (map fst xs) \<longleftrightarrow> map_of xs k \<noteq> None"
  by (induction xs) auto

lemma set_AList_update: "x \<in> set (AList.update k v xs) \<Longrightarrow> x = (k, v) \<or> x \<in> set xs"
  by (induction xs) (auto split: if_splits)

lemma set_AList_delete: "x \<in> set (AList.delete k xs) \<longleftrightarrow> x \<in> set xs \<and> fst x \<noteq> k"
  by (auto simp: AList.delete_eq)

section \<open>Lists\<close>

definition trim :: "('a \<Rightarrow> bool) \<Rightarrow> 'a list \<Rightarrow> 'a list" where
  "trim P xs = rev (dropWhile P (rev (dropWhile P xs)))"

lemma trim_Nil [simp]: "trim P [] = []"
  by (simp add: trim_def)

lemma dropWhile_id: "(xs \<noteq> [] \<Longrightarrow> \<not> P (hd xs)) \<Longrightarrow> dropWhile P xs = xs"
  by (cases xs) auto

lemma set_trim: "x \<in> set (trim P xs) \<Longrightarrow> x \<in> set xs"
  by (auto simp: trim_def dest!: set_dropWhileD)

lemma hd_trim: "trim P xs \<noteq> [] \<Longrightarrow> \<not> P (hd (trim P xs))"
proof -
  let ?ys = "dropWhile P xs"
  assume ne: "trim P xs \<noteq> []"
  then have ys: "?ys \<noteq> []" by (metis dropWhile.simps(1) rev.simps(1) trim_def)
  then have hd: "\<not> P (hd ?ys)" by (rule hd_dropWhile)
  obtain zs where zs: "?ys = trim P xs @ zs"
    by (metis rev_append rev_rev_ident takeWhile_dropWhile_id trim_def)
  with ne have "hd (trim P xs) = hd ?ys" by simp
  with hd show ?thesis by simp
qed

lemma last_trim: "trim P xs \<noteq> [] \<Longrightarrow> \<not> P (last (trim P xs))"
  unfolding trim_def by (metis hd_dropWhile last_rev rev_is_Nil_conv dropWhile_eq_Nil_conv)

lemma trim_id: "(xs \<noteq> [] \<Longrightarrow> \<not> P (hd xs) \<and> \<not> P (last xs)) \<Longrightarrow> trim P xs = xs"
  by (cases "xs = []") (simp_all add: trim_def dropWhile_id hd_rev)

lemma trim_idem [simp]: "trim P (trim P xs) = trim P xs"
  by (rule trim_id) (simp add: hd_trim last_trim)

lemma trim_map: "(\<And>x. x \<in> set xs \<Longrightarrow> P (f x) = P x) \<Longrightarrow> trim P (map f xs) = map f (trim P xs)"
proof -
  assume a: "\<And>x. x \<in> set xs \<Longrightarrow> P (f x) = P x"
  have d: "dropWhile P (map f ys) = map f (dropWhile P ys)" if "set ys \<subseteq> set xs" for ys
    using that a by (induction ys) auto
  have s: "set (rev (dropWhile P xs)) \<subseteq> set xs" by (auto dest: set_dropWhileD)
  have "trim P (map f xs) = rev (dropWhile P (map f (rev (dropWhile P xs))))"
    by (simp add: trim_def d rev_map)
  also have "\<dots> = map f (trim P xs)"
    by (simp add: trim_def d [OF s] rev_map)
  finally show ?thesis .
qed

lemma trim_eq_Nil_iff: "trim P xs = [] \<longleftrightarrow> (\<forall>x\<in>set xs. P x)"
proof
  assume "trim P xs = []"
  then have "\<forall>x\<in>set (dropWhile P xs). P x" by (simp add: trim_def)
  then have "dropWhile P xs = []" by (metis hd_dropWhile list.set_sel(1))
  then show "\<forall>x\<in>set xs. P x" by simp
qed (auto simp: trim_def dest: set_dropWhileD)

lemma mset_eq_imp_sort_eq: "mset xs = mset ys \<Longrightarrow> sort xs = sort (ys :: 'a::linorder list)"
  by (metis properties_for_sort sorted_sort mset_sort)

text \<open>No two neighbouring occurrences of an element.\<close>

fun no_double :: "'a \<Rightarrow> 'a list \<Rightarrow> bool" where
  "no_double a [] = True"
| "no_double a [x] = True"
| "no_double a (x # y # zs) = (\<not> (x = a \<and> y = a) \<and> no_double a (y # zs))"

lemma no_double_append:
  "no_double a (xs @ ys) \<longleftrightarrow> no_double a xs \<and> no_double a ys \<and>
     \<not> (xs \<noteq> [] \<and> ys \<noteq> [] \<and> last xs = a \<and> hd ys = a)"
proof (induction a xs rule: no_double.induct)
  case (2 a x)
  then show ?case by (cases ys) auto
qed auto

lemma no_double_trim: "no_double a xs \<Longrightarrow> no_double a (trim P xs)"
proof -
  assume a: "no_double a xs"
  obtain us where us: "xs = us @ dropWhile P xs" by (metis takeWhile_dropWhile_id)
  obtain vs where vs: "dropWhile P xs = trim P xs @ vs"
    by (metis rev_append rev_rev_ident takeWhile_dropWhile_id trim_def)
  have "xs = us @ trim P xs @ vs" using us vs by simp
  with a show ?thesis by (metis no_double_append)
qed

end
