(* ===== verification/GoStrings.thy ===== *)
theory GoStrings
  imports Prelude "HOL-Library.Char_ord" "HOL-Library.List_Lexorder" "HOL-Library.Sublist"
begin

text \<open>
  The parts of Go's \<open>strings\<close>, \<open>strconv\<close>, \<open>sort\<close> and \<open>net\<close> packages that the
  program uses, on HOL strings.

  A HOL character stands for one code point U+0000 to U+00FF, and the functions below are Go's on
  strings over those code points: \<open>unicode_IsSpace\<close> and \<open>unicode_ToLower\<close> are the
  Latin-1 part of Go's tables, \<open>go_len\<close> is the number of UTF-8 bytes (two for a code point
  above U+007F), and the lexicographic order of HOL strings is the byte order of their encodings,
  because UTF-8 preserves the order of code points.
\<close>

definition code_point :: "char \<Rightarrow> nat" where
  "code_point c = of_char c"

definition unicode_IsSpace :: "char \<Rightarrow> bool" where
  "unicode_IsSpace c \<longleftrightarrow> code_point c \<in> {9, 10, 11, 12, 13, 32, 133, 160}"

definition is_upper :: "char \<Rightarrow> bool" where
  "is_upper c \<longleftrightarrow> (65 \<le> code_point c \<and> code_point c \<le> 90) \<or>
     (192 \<le> code_point c \<and> code_point c \<le> 222 \<and> code_point c \<noteq> 215)"

definition unicode_ToLower :: "char \<Rightarrow> char" where
  "unicode_ToLower c = (if is_upper c then char_of (code_point c + 32) else c)"

definition TrimSpace :: "string \<Rightarrow> string" where
  "TrimSpace s = trim unicode_IsSpace s"

definition ToLower :: "string \<Rightarrow> string" where
  "ToLower s = map unicode_ToLower s"

text \<open>\<open>strings.Trim(s, cutset)\<close> and \<open>strings.TrimRight\<close> for a one-character cutset.\<close>

definition Trim :: "char \<Rightarrow> string \<Rightarrow> string" where
  "Trim c s = trim (\<lambda>x. x = c) s"

definition TrimRight :: "char \<Rightarrow> string \<Rightarrow> string" where
  "TrimRight c s = rev (dropWhile (\<lambda>x. x = c) (rev s))"

definition HasPrefix :: "string \<Rightarrow> string \<Rightarrow> bool" where
  "HasPrefix s p \<longleftrightarrow> take (length p) s = p"

definition HasSuffix :: "string \<Rightarrow> string \<Rightarrow> bool" where
  "HasSuffix s p \<longleftrightarrow> HasPrefix (rev s) (rev p)"

definition TrimPrefix :: "string \<Rightarrow> string \<Rightarrow> string" where
  "TrimPrefix s p = (if HasPrefix s p then drop (length p) s else s)"

definition EqualFold :: "string \<Rightarrow> string \<Rightarrow> bool" where
  "EqualFold s t \<longleftrightarrow> ToLower s = ToLower t"

text \<open>\<open>strings.Split(s, sep)\<close> for a one-character separator.\<close>

fun Split :: "char \<Rightarrow> string \<Rightarrow> string list" where
  "Split c [] = [[]]"
| "Split c (x # xs) =
     (if x = c then [] # Split c xs
      else (case Split c xs of [] \<Rightarrow> [[x]] | w # ws \<Rightarrow> (x # w) # ws))"

definition go_len :: "string \<Rightarrow> nat" where
  "go_len s = length s + length (filter (\<lambda>c. 128 \<le> code_point c) s)"

text \<open>\<open>strconv.Itoa\<close>.\<close>

function show_digits :: "int \<Rightarrow> string" where
  "show_digits n = (if n < 10 then [char_of (48 + n)] else show_digits (n div 10) @ [char_of (48 + n mod 10)])"
  by pat_completeness auto
termination
  by (relation "measure nat") auto

declare show_digits.simps [simp del]

definition Itoa :: "int \<Rightarrow> string" where
  "Itoa i = (if i < 0 then CHR ''-'' # show_digits (- i) else show_digits i)"

text \<open>\<open>net.JoinHostPort\<close>: a host with a colon is an IPv6 literal and is bracketed.\<close>

definition JoinHostPort :: "string \<Rightarrow> string \<Rightarrow> string" where
  "JoinHostPort host port =
     (if CHR '':'' \<in> set host then ''['' @ host @ '']:'' @ port else host @ '':'' @ port)"

lemmas string_defs = TrimSpace_def ToLower_def Trim_def HasPrefix_def HasSuffix_def EqualFold_def

definition is_lower_alpha :: "char \<Rightarrow> bool" where
  "is_lower_alpha c \<longleftrightarrow> 97 \<le> code_point c \<and> code_point c \<le> 122"

definition is_digit :: "char \<Rightarrow> bool" where
  "is_digit c \<longleftrightarrow> 48 \<le> code_point c \<and> code_point c \<le> 57"

section \<open>Characters\<close>

lemma code_point_less: "code_point c < 256"
  unfolding code_point_def by (cases c) (simp add: of_char_def)

lemma code_point_char_of: "n < 256 \<Longrightarrow> code_point (char_of n) = n"
  by (simp add: code_point_def)

lemma code_point_eq_iff: "code_point c = code_point d \<longleftrightarrow> c = d"
  by (simp add: code_point_def)

lemma code_point_ToLower:
  "code_point (unicode_ToLower c) = (if is_upper c then code_point c + 32 else code_point c)"
  by (auto simp: unicode_ToLower_def is_upper_def code_point_char_of)

lemma unicode_ToLower_id: "\<not> is_upper c \<Longrightarrow> unicode_ToLower c = c"
  by (simp add: unicode_ToLower_def)

lemma not_upper_ToLower [simp]: "\<not> is_upper (unicode_ToLower c)"
proof (cases "is_upper c")
  case True
  then show ?thesis by (auto simp: is_upper_def code_point_ToLower)
next
  case False
  then show ?thesis by (simp add: unicode_ToLower_id)
qed

lemma IsSpace_ToLower [simp]: "unicode_IsSpace (unicode_ToLower c) = unicode_IsSpace c"
  by (auto simp: unicode_IsSpace_def code_point_ToLower is_upper_def)

lemma unicode_ToLower_eq_iff:
  "\<not> is_upper d \<Longrightarrow> code_point d < 97 \<Longrightarrow> unicode_ToLower c = d \<longleftrightarrow> c = d"
proof -
  assume d: "\<not> is_upper d" "code_point d < 97"
  show ?thesis
  proof
    assume e: "unicode_ToLower c = d"
    show "c = d"
    proof (cases "is_upper c")
      case True
      then have "code_point d \<ge> 97" using e code_point_ToLower [of c] by (auto simp: is_upper_def)
      with d(2) show ?thesis by simp
    next
      case False
      with e show ?thesis by (simp add: unicode_ToLower_id)
    qed
  next
    assume "c = d"
    with d(1) show "unicode_ToLower c = d" by (simp add: unicode_ToLower_id)
  qed
qed

lemma ToLower_eq_dot [simp]: "unicode_ToLower c = CHR ''.'' \<longleftrightarrow> c = CHR ''.''"
  by (rule unicode_ToLower_eq_iff) (simp_all add: is_upper_def code_point_def)

section \<open>Strings\<close>

lemma ToLower_ToLower [simp]: "ToLower (ToLower s) = ToLower s"
  by (simp add: ToLower_def unicode_ToLower_id)

lemma ToLower_Nil [simp]: "ToLower [] = []" and ToLower_eq_Nil [simp]: "ToLower s = [] \<longleftrightarrow> s = []"
  by (simp_all add: ToLower_def)

lemma TrimSpace_TrimSpace [simp]: "TrimSpace (TrimSpace s) = TrimSpace s"
  by (simp add: TrimSpace_def)

lemma TrimSpace_Nil [simp]: "TrimSpace [] = []"
  by (simp add: TrimSpace_def)

lemma TrimSpace_ToLower: "TrimSpace (ToLower s) = ToLower (TrimSpace s)"
  by (simp add: TrimSpace_def ToLower_def trim_map)

lemma Trim_dot_ToLower: "Trim (CHR ''.'') (ToLower s) = ToLower (Trim (CHR ''.'') s)"
  by (simp add: Trim_def ToLower_def trim_map)

lemma HasPrefix_iff: "HasPrefix s p \<longleftrightarrow> prefix p s"
  unfolding HasPrefix_def by (metis append_eq_conv_conj append_take_drop_id prefix_def)

lemma HasSuffix_iff: "HasSuffix s p \<longleftrightarrow> suffix p s"
  by (simp add: HasSuffix_def HasPrefix_iff suffix_to_prefix)

lemma Split_not_Nil [simp]: "Split c s \<noteq> []"
  by (cases s) (auto split: list.splits)

lemma Split_no_sep: "w \<in> set (Split c s) \<Longrightarrow> c \<notin> set w"
  by (induction s arbitrary: w) (auto split: if_splits list.splits)

lemma Split_append: "Split c (xs @ c # ys) = Split c xs @ Split c ys"
  by (induction xs) (auto split: list.splits)

lemma Split_single: "c \<notin> set s \<Longrightarrow> Split c s = [s]"
  by (induction s) auto

lemma set_Split: "x \<in> set s \<Longrightarrow> x = c \<or> (\<exists>w\<in>set (Split c s). x \<in> set w)"
  by (induction s) (auto split: list.splits)

lemma set_in_Split: "w \<in> set (Split c s) \<Longrightarrow> x \<in> set w \<Longrightarrow> x \<in> set s"
proof (induction s arbitrary: w)
  case (Cons a s)
  then show ?case by (cases "Split c s") (fastforce split: if_splits)+
qed simp

lemma hd_Split_Cons: "x \<noteq> c \<Longrightarrow> \<exists>w ws. Split c (x # xs) = (x # w) # ws"
  by (cases "Split c xs") auto

lemma last_Split: "s \<noteq> [] \<Longrightarrow> last s \<noteq> c \<Longrightarrow> last (Split c s) \<noteq> [] \<and> last (last (Split c s)) = last s"
proof (induction s)
  case (Cons x xs)
  then show ?case by (cases "xs = []") (auto split: list.splits)
qed simp

lemma last_Split_sep: "s \<noteq> [] \<Longrightarrow> last s = c \<Longrightarrow> last (Split c s) = []"
  using Split_append [of c "butlast s" "[]"] by (metis append_butlast_last_id last_snoc Split.simps(1))

end
