(* ===== verification/GoNet.thy ===== *)
theory GoNet
  imports GoStrings
begin

text \<open>
  \<open>netip.ParseAddr\<close> and \<open>net.ParseIP\<close> of Go's standard library: dotted-decimal IPv4
  without leading zeros, and IPv6 with groups of one to four hexadecimal digits, at most one
  \<open>::\<close>, an optional trailing IPv4 part and an optional zone.  An address is the list of its
  bytes.  Planner and discovery use the two functions to refuse IP literals as hostnames and to
  recognise unspecified listener addresses.
\<close>

datatype addr = IPv4 "nat list" | IPv6 "nat list" string

definition digit_value :: "char \<Rightarrow> nat" where
  "digit_value c = code_point c - 48"

definition decimal_value :: "string \<Rightarrow> nat" where
  "decimal_value w = foldl (\<lambda>v c. 10 * v + digit_value c) 0 w"

definition valid_octet :: "string \<Rightarrow> bool" where
  "valid_octet w \<longleftrightarrow> w \<noteq> [] \<and> list_all is_digit w \<and> (length w = 1 \<or> hd w \<noteq> CHR ''0'') \<and>
     decimal_value w \<le> 255"

definition parseIPv4Fields :: "string \<Rightarrow> nat list option" where
  "parseIPv4Fields s =
     (let fields = Split (CHR ''.'') s
      in if length fields = 4 \<and> list_all valid_octet fields then Some (map decimal_value fields) else None)"

definition is_hex :: "char \<Rightarrow> bool" where
  "is_hex c \<longleftrightarrow> is_digit c \<or> (97 \<le> code_point c \<and> code_point c \<le> 102) \<or>
     (65 \<le> code_point c \<and> code_point c \<le> 70)"

definition hex_value :: "char \<Rightarrow> nat" where
  "hex_value c = (if is_digit c then code_point c - 48
     else if 97 \<le> code_point c then code_point c - 87 else code_point c - 55)"

definition hex_group :: "string \<Rightarrow> nat" where
  "hex_group w = foldl (\<lambda>v c. 16 * v + hex_value c) 0 w"

function ipv6_loop :: "nat list \<Rightarrow> nat option \<Rightarrow> string \<Rightarrow> (nat list \<times> nat option) option" where
  "ipv6_loop ip ell s =
     (if 16 \<le> length ip then (if s = [] then Some (ip, ell) else None)
      else let h = takeWhile is_hex s; r = dropWhile is_hex s in
        if h = [] \<or> 4 < length h then None
        else if r \<noteq> [] \<and> hd r = CHR ''.'' then
          (if (ell = None \<and> length ip \<noteq> 12) \<or> 16 < length ip + 4 then None
           else map_option (\<lambda>f. (ip @ f, ell)) (parseIPv4Fields s))
        else
          (let ip' = ip @ [hex_group h div 256, hex_group h mod 256] in
           if r = [] then Some (ip', ell)
           else if hd r \<noteq> CHR '':'' \<or> length r = 1 then None
           else if hd (tl r) = CHR '':'' then
             (if ell \<noteq> None then None
              else if tl (tl r) = [] then Some (ip', Some (length ip'))
              else ipv6_loop ip' (Some (length ip')) (tl (tl r)))
           else ipv6_loop ip' ell (tl r)))"
  by pat_completeness auto
termination
  by (relation "measure (\<lambda>(ip, ell, s). 16 - length ip)") auto

declare ipv6_loop.simps [simp del]

definition ipv6_expand :: "nat list \<times> nat option \<Rightarrow> nat list option" where
  "ipv6_expand p =
     (case p of (ip, ell) \<Rightarrow>
       if length ip < 16 then
         map_option (\<lambda>e. take e ip @ replicate (16 - length ip) 0 @ drop e ip) ell
       else if ell = None then Some ip else None)"

definition parseIPv6 :: "string \<Rightarrow> addr option" where
  "parseIPv6 t =
     (let s = takeWhile (\<lambda>c. c \<noteq> CHR ''%'') t; zone = drop 1 (dropWhile (\<lambda>c. c \<noteq> CHR ''%'') t) in
      if CHR ''%'' \<in> set t \<and> zone = [] then None
      else if HasPrefix s ''::'' then
        (if length s = 2 then Some (IPv6 (replicate 16 0) zone)
         else map_option (\<lambda>ip. IPv6 ip zone) (Option.bind (ipv6_loop [] (Some 0) (drop 2 s)) ipv6_expand))
      else map_option (\<lambda>ip. IPv6 ip zone) (Option.bind (ipv6_loop [] None s) ipv6_expand))"

definition ParseAddr :: "string \<Rightarrow> addr option" where
  "ParseAddr s =
     (case dropWhile (\<lambda>c. c \<notin> {CHR ''.'', CHR '':'', CHR ''%''}) s of
        [] \<Rightarrow> None
      | c # _ \<Rightarrow>
          if c = CHR ''.'' then map_option IPv4 (parseIPv4Fields s)
          else if c = CHR '':'' then parseIPv6 s
          else None)"

fun IsUnspecified :: "addr \<Rightarrow> bool" where
  "IsUnspecified (IPv4 ip) = (ip = [0, 0, 0, 0])"
| "IsUnspecified (IPv6 ip zone) = (ip = replicate 16 0 \<and> zone = [])"

definition ParseIP_ok :: "string \<Rightarrow> bool" where
  "ParseIP_ok s =
     (case ParseAddr s of None \<Rightarrow> False | Some (IPv4 _) \<Rightarrow> True | Some (IPv6 _ zone) \<Rightarrow> zone = [])"

text \<open>Without a colon or percent sign only the IPv4 form parses.\<close>

lemma ParseIP_ok_no_colon:
  assumes "CHR '':'' \<notin> set s" "CHR ''%'' \<notin> set s"
  shows "ParseIP_ok s \<longleftrightarrow> parseIPv4Fields s \<noteq> None"
proof (cases "dropWhile (\<lambda>c. c \<notin> {CHR ''.'', CHR '':'', CHR ''%''}) s")
  case Nil
  then have "CHR ''.'' \<notin> set s" by auto
  then have "Split (CHR ''.'') s = [s]" by (rule Split_single)
  moreover have "ParseAddr s = None" unfolding ParseAddr_def Nil by simp
  ultimately show ?thesis by (simp add: ParseIP_ok_def parseIPv4Fields_def)
next
  case (Cons c cs)
  then have "c \<in> set s" by (metis list.set_intros(1) set_dropWhileD)
  moreover from Cons have "c \<in> {CHR ''.'', CHR '':'', CHR ''%''}"
    by (metis (no_types, lifting) hd_dropWhile list.sel(1) list.simps(3))
  ultimately have "c = CHR ''.''" using assms by auto
  then have "ParseAddr s = map_option IPv4 (parseIPv4Fields s)" unfolding ParseAddr_def Cons by simp
  then show ?thesis by (auto simp: ParseIP_ok_def split: option.splits)
qed

end
