(* ===== verification/GoContext.thy ===== *)
theory GoContext
  imports Prelude
begin

text \<open>
  Go's \<open>context.Context\<close> as the program observes it: a sequence of \<open>ctx.Err()\<close> polls that
  answer \<open>nil\<close> for a while and then, once the context is done, always the same error.
  \<open>polls_left\<close> is the number of polls that still answer \<open>nil\<close>; \<open>None\<close> is a context
  that is never done, as \<open>context.Background()\<close>.  Every interleaving of a cancellation with the
  program's own steps is one value of \<open>polls_left\<close>.
\<close>

datatype ctx_error = Canceled | DeadlineExceeded

record ctx =
  polls_left :: "nat option"
  reason :: ctx_error

definition Background :: ctx where
  "Background = \<lparr>polls_left = None, reason = Canceled\<rparr>"

definition ctx_Err :: "ctx \<Rightarrow> ctx_error option" where
  "ctx_Err c = (if polls_left c = Some 0 then Some (reason c) else None)"

definition ctx_step :: "ctx \<Rightarrow> ctx" where
  "ctx_step c = c\<lparr>polls_left := map_option (\<lambda>n. n - 1) (polls_left c)\<rparr>"

lemma ctx_Err_Background [simp]: "ctx_Err Background = None"
  by (simp add: ctx_Err_def Background_def)

lemma ctx_step_Background [simp]: "ctx_step Background = Background"
  by (simp add: ctx_step_def Background_def)

text \<open>A done context stays done.\<close>

lemma ctx_Err_mono: "ctx_Err c = Some e \<Longrightarrow> ctx_Err (ctx_step c) = Some e"
  by (auto simp: ctx_Err_def ctx_step_def split: if_splits)

text \<open>A context that is never done.\<close>

definition never_done :: "ctx \<Rightarrow> bool" where
  "never_done c \<longleftrightarrow> polls_left c = None"

lemma never_done_Err [simp]: "never_done c \<Longrightarrow> ctx_Err c = None"
  by (simp add: never_done_def ctx_Err_def)

lemma never_done_step [simp]: "never_done c \<Longrightarrow> never_done (ctx_step c)"
  by (simp add: never_done_def ctx_step_def)

lemma never_done_Background [simp]: "never_done Background"
  by (simp add: never_done_def Background_def)

end
