(* ===== verification/Models.thy ===== *)
theory Models
  imports GoNet GoContext
begin

text \<open>
  The data the components exchange: \<open>MinecraftServer\<close> (\<open>pkg/models/server.go\<close>),
  \<open>Policy\<close> (\<open>internal/routepolicy/policy.go\<close>), \<open>Backend\<close> and \<open>Route\<close>
  (\<open>internal/router/router.go\<close>) and \<open>ReconciliationResult\<close>
  (\<open>internal/router/reconciliation_result.go\<close>).  Go's \<open>int\<close> fields are HOL integers: the
  program never does arithmetic on identifiers and ports.
\<close>

text \<open>SQLite's \<open>length\<close> of a text, as the checks of the tables use it: it stops at a NUL.\<close>

definition sqlite_length :: "string \<Rightarrow> nat" where
  "sqlite_length s = length (takeWhile (\<lambda>c. c \<noteq> CHR 0x00) s)"

record MinecraftServer =
  srv_ID :: int
  srv_UUID :: string
  srv_Identifier :: string
  srv_Name :: string
  srv_NodeID :: int
  srv_EggID :: int
  srv_AllocationID :: int
  srv_BackendIP :: string
  srv_BackendPort :: int
  srv_Suspended :: bool
  srv_Status :: "string option"

record Policy =
  pol_ServerUUID :: string
  pol_PrimaryHostname :: string
  pol_Aliases :: "string list"
  pol_Excluded :: bool
  pol_Revision :: int

record Backend =
  backend_Host :: string
  backend_Port :: int

record Route =
  route_ServerID :: string
  route_Hostname :: string
  route_Backend :: Backend

record ReconciliationResult =
  Desired :: nat
  Created :: nat
  Updated :: nat
  Deleted :: nat
  Changed :: bool

definition zero_result :: ReconciliationResult where
  "zero_result = \<lparr>Desired = 0, Created = 0, Updated = 0, Deleted = 0, Changed = False\<rparr>"

definition desired_result :: "nat \<Rightarrow> ReconciliationResult" where
  "desired_result n = zero_result\<lparr>Desired := n\<rparr>"

end
