(* ===== verification/Planner.thy ===== *)
theory Planner
  imports Models
begin

text \<open>
  The route planner: \<open>internal/router/planner.go\<close>, the hostname functions and the service of
  \<open>internal/router/router.go\<close> and the engine names of \<open>internal/router/engine.go\<close>.

  \<open>Plan\<close> is the loop of the source over an explicit state, the routes appended so far and the
  set of hostnames seen.  The reference definition \<open>plan_routes\<close> says in one expression which
  routes a plan has, \<open>plan_valid\<close> when there is one, and the two are proved to agree.
\<close>

datatype plan_error =
    RouteServerIdentity | RouteBackendInvalid | RoutePolicyIdentity | ExcludedRoutePolicy
  | RouteHostnameInvalid | RouteHostnameCollision

datatype new_error = ErrNilDiscoveryService | ErrEmptyDomain

record Planner =
  planner_domain :: string

section \<open>Hostnames\<close>

definition normalizeDomain :: "string \<Rightarrow> string" where
  "normalizeDomain domain = Trim (CHR ''.'') (ToLower (TrimSpace domain))"

definition normalizeHostname :: "string \<Rightarrow> string" where
  "normalizeHostname hostname = Trim (CHR ''.'') (ToLower (TrimSpace hostname))"

fun label_loop :: "string \<Rightarrow> string \<Rightarrow> bool \<Rightarrow> string" where
  "label_loop [] builder lastWasHyphen = builder"
| "label_loop (c # cs) builder lastWasHyphen =
     (if is_lower_alpha c then label_loop cs (builder @ [c]) False
      else if is_digit c then label_loop cs (builder @ [c]) False
      else if c = CHR ''-'' \<or> c = CHR ''_'' \<or> c = CHR '' '' then
        (if builder \<noteq> [] \<and> \<not> lastWasHyphen then label_loop cs (builder @ ''-'') True
         else label_loop cs builder lastWasHyphen)
      else label_loop cs builder lastWasHyphen)"

definition normalizeHostnameLabel :: "string \<Rightarrow> string" where
  "normalizeHostnameLabel value = Trim (CHR ''-'') (label_loop (ToLower (TrimSpace value)) [] False)"

definition buildHostname :: "MinecraftServer \<Rightarrow> string \<Rightarrow> string" where
  "buildHostname server domain =
     (let label = normalizeHostnameLabel (srv_Name server);
          label = (if label = [] then normalizeHostnameLabel (srv_Identifier server) else label)
      in if label = [] then [] else label @ ''.'' @ domain)"

definition label_char :: "char \<Rightarrow> bool" where
  "label_char c \<longleftrightarrow> is_lower_alpha c \<or> is_digit c \<or> c = CHR ''-''"

definition valid_label :: "string \<Rightarrow> bool" where
  "valid_label label \<longleftrightarrow>
     label \<noteq> [] \<and> go_len label \<le> 63 \<and> hd label \<noteq> CHR ''-'' \<and> last label \<noteq> CHR ''-'' \<and>
     list_all label_char label"

definition isValidHostname :: "string \<Rightarrow> bool" where
  "isValidHostname hostname \<longleftrightarrow>
     hostname \<noteq> [] \<and> go_len hostname \<le> 253 \<and>
     list_all valid_label (Split (CHR ''.'') hostname) \<and> \<not> ParseIP_ok hostname"

section \<open>Planning\<close>

type_synonym plan_state = "Route list \<times> string set"

definition NewPlanner :: "string \<Rightarrow> new_error + Planner" where
  "NewPlanner domain =
     (let domain = normalizeDomain domain
      in if domain = [] then Inl ErrEmptyDomain else Inr \<lparr>planner_domain = domain\<rparr>)"

definition appendRoute :: "MinecraftServer \<Rightarrow> string \<Rightarrow> plan_state \<Rightarrow> plan_error + plan_state" where
  "appendRoute server hostname st =
     (case st of (routes, hostnames) \<Rightarrow>
       let hostname = normalizeHostname hostname in
       if \<not> isValidHostname hostname then Inl RouteHostnameInvalid
       else if hostname \<in> hostnames then Inl RouteHostnameCollision
       else Inr (routes @ [\<lparr>route_ServerID = srv_UUID server, route_Hostname = hostname,
                   route_Backend = \<lparr>backend_Host = srv_BackendIP server,
                                    backend_Port = srv_BackendPort server\<rparr>\<rparr>],
                 insert hostname hostnames))"

definition planServer ::
  "Planner \<Rightarrow> (string \<rightharpoonup> Policy) \<Rightarrow> MinecraftServer \<Rightarrow> plan_state \<Rightarrow> plan_error + plan_state" where
  "planServer p policies server st =
     (if srv_Suspended server then Inr st
      else if TrimSpace (srv_UUID server) = [] then Inl RouteServerIdentity
      else if TrimSpace (srv_BackendIP server) = [] \<or> srv_BackendPort server \<le> 0 then Inl RouteBackendInvalid
      else case policies (srv_UUID server) of
        None \<Rightarrow> appendRoute server (buildHostname server (planner_domain p)) st
      | Some policy \<Rightarrow>
          if pol_ServerUUID policy \<noteq> srv_UUID server then Inl RoutePolicyIdentity
          else if pol_Excluded policy then
            (if pol_PrimaryHostname policy \<noteq> [] \<or> pol_Aliases policy \<noteq> [] then Inl ExcludedRoutePolicy
             else Inr st)
          else
            bindE
              (appendRoute server
                 (if pol_PrimaryHostname policy \<noteq> [] then pol_PrimaryHostname policy
                  else buildHostname server (planner_domain p)) st)
              (foldE (appendRoute server) (pol_Aliases policy)))"

definition Plan ::
  "Planner \<Rightarrow> MinecraftServer list \<Rightarrow> (string \<rightharpoonup> Policy) \<Rightarrow> plan_error + Route list" where
  "Plan p servers policies =
     bindE (foldE (planServer p policies) servers ([], {})) (\<lambda>(routes, hostnames). Inr routes)"

section \<open>The routing service\<close>

datatype 'e routes_error = RoutesDiscover 'e | RoutesPolicies 'e | RoutesPlan plan_error

record ('e) Service =
  svc_discovery :: "'e + MinecraftServer list"
  svc_planner :: Planner
  svc_policies :: "('e + Policy list) option"

text \<open>
  \<open>New\<close> receives the discovery source as what its \<open>Discover\<close> call answers
  (\<open>None\<close> is a nil source) and the optional policy source as what its \<open>List\<close> call answers.
\<close>

definition New ::
  "('e + MinecraftServer list) option \<Rightarrow> string \<Rightarrow> ('e + Policy list) option \<Rightarrow> new_error + 'e Service" where
  "New discovery domain policies =
     (case discovery of
        None \<Rightarrow> Inl ErrNilDiscoveryService
      | Some d \<Rightarrow>
          bindE (NewPlanner domain)
            (\<lambda>planner. Inr \<lparr>svc_discovery = d, svc_planner = planner, svc_policies = policies\<rparr>))"

definition policy_map :: "Policy list \<Rightarrow> string \<rightharpoonup> Policy" where
  "policy_map stored = foldl (\<lambda>m policy. m(pol_ServerUUID policy \<mapsto> policy)) Map.empty stored"

definition Routes :: "'e Service \<Rightarrow> 'e routes_error + Route list" where
  "Routes s =
     bindE (map_err RoutesDiscover (svc_discovery s)) (\<lambda>servers.
     bindE (case svc_policies s of
              None \<Rightarrow> Inr Map.empty
            | Some stored \<Rightarrow> bindE (map_err RoutesPolicies stored) (\<lambda>ps. Inr (policy_map ps))) (\<lambda>policies.
     map_err RoutesPlan (Plan (svc_planner s) servers policies)))"

section \<open>Engines\<close>

datatype Engine = EngineMCRouter | EngineInfrared

definition engine_name :: "Engine \<Rightarrow> string" where
  "engine_name e = (case e of EngineMCRouter \<Rightarrow> ''mc-router'' | EngineInfrared \<Rightarrow> ''infrared'')"

definition ParseEngine :: "string \<Rightarrow> Engine option" where
  "ParseEngine value =
     (let engine = TrimSpace value
      in if engine = ''mc-router'' then Some EngineMCRouter
         else if engine = ''infrared'' then Some EngineInfrared else None)"

section \<open>Reference definitions\<close>

definition server_hostnames :: "Planner \<Rightarrow> (string \<rightharpoonup> Policy) \<Rightarrow> MinecraftServer \<Rightarrow> string list" where
  "server_hostnames p policies server =
     (if srv_Suspended server then []
      else case policies (srv_UUID server) of
        None \<Rightarrow> [normalizeHostname (buildHostname server (planner_domain p))]
      | Some policy \<Rightarrow>
          if pol_Excluded policy then []
          else normalizeHostname
                 (if pol_PrimaryHostname policy \<noteq> [] then pol_PrimaryHostname policy
                  else buildHostname server (planner_domain p))
               # map normalizeHostname (pol_Aliases policy))"

definition server_route :: "MinecraftServer \<Rightarrow> string \<Rightarrow> Route" where
  "server_route server hostname =
     \<lparr>route_ServerID = srv_UUID server, route_Hostname = hostname,
      route_Backend = \<lparr>backend_Host = srv_BackendIP server, backend_Port = srv_BackendPort server\<rparr>\<rparr>"

definition plan_routes :: "Planner \<Rightarrow> MinecraftServer list \<Rightarrow> (string \<rightharpoonup> Policy) \<Rightarrow> Route list" where
  "plan_routes p servers policies =
     concat (map (\<lambda>server. map (server_route server) (server_hostnames p policies server)) servers)"

definition server_valid :: "(string \<rightharpoonup> Policy) \<Rightarrow> MinecraftServer \<Rightarrow> bool" where
  "server_valid policies server \<longleftrightarrow>
     srv_Suspended server \<or>
     (TrimSpace (srv_UUID server) \<noteq> [] \<and> TrimSpace (srv_BackendIP server) \<noteq> [] \<and>
      0 < srv_BackendPort server \<and>
      (case policies (srv_UUID server) of
         None \<Rightarrow> True
       | Some policy \<Rightarrow>
           pol_ServerUUID policy = srv_UUID server \<and>
           (pol_Excluded policy \<longrightarrow> pol_PrimaryHostname policy = [] \<and> pol_Aliases policy = [])))"

definition plan_valid :: "Planner \<Rightarrow> MinecraftServer list \<Rightarrow> (string \<rightharpoonup> Policy) \<Rightarrow> bool" where
  "plan_valid p servers policies \<longleftrightarrow>
     list_all (server_valid policies) servers \<and>
     list_all isValidHostname (map route_Hostname (plan_routes p servers policies)) \<and>
     distinct (map route_Hostname (plan_routes p servers policies))"

section \<open>The loop and the reference definition agree\<close>

lemma appendRoute_iff:
  "appendRoute server h (rs, H) = Inr st \<longleftrightarrow>
     isValidHostname (normalizeHostname h) \<and> normalizeHostname h \<notin> H \<and>
     st = (rs @ [server_route server (normalizeHostname h)], insert (normalizeHostname h) H)"
  by (simp add: appendRoute_def server_route_def Let_def) blast

lemma foldE_appendRoute_iff:
  "foldE (appendRoute server) hs (rs, H) = Inr st \<longleftrightarrow>
     list_all isValidHostname (map normalizeHostname hs) \<and> distinct (map normalizeHostname hs) \<and>
     set (map normalizeHostname hs) \<inter> H = {} \<and>
     st = (rs @ map (server_route server) (map normalizeHostname hs), H \<union> set (map normalizeHostname hs))"
proof (induction hs arbitrary: rs H)
  case Nil
  then show ?case by auto
next
  case (Cons h hs)
  let ?n = "normalizeHostname h"
  have "foldE (appendRoute server) (h # hs) (rs, H) = Inr st \<longleftrightarrow>
      isValidHostname ?n \<and> ?n \<notin> H \<and>
      foldE (appendRoute server) hs (rs @ [server_route server ?n], insert ?n H) = Inr st"
    by (simp add: foldE_Cons_Inr appendRoute_iff del: foldE.simps)
  then show ?case unfolding Cons.IH by (simp add: insert_commute) blast
qed

lemma planServer_iff:
  "planServer p policies server (rs, H) = Inr st \<longleftrightarrow>
     server_valid policies server \<and>
     list_all isValidHostname (server_hostnames p policies server) \<and>
     distinct (server_hostnames p policies server) \<and>
     set (server_hostnames p policies server) \<inter> H = {} \<and>
     st = (rs @ map (server_route server) (server_hostnames p policies server),
           H \<union> set (server_hostnames p policies server))"
proof (cases "policies (srv_UUID server)")
  case None
  then show ?thesis
    by (auto simp: planServer_def server_valid_def server_hostnames_def appendRoute_iff)
next
  case (Some policy)
  let ?primary = "if pol_PrimaryHostname policy \<noteq> [] then pol_PrimaryHostname policy
    else buildHostname server (planner_domain p)"
  have "bindE (appendRoute server ?primary (rs, H)) (foldE (appendRoute server) (pol_Aliases policy)) =
      foldE (appendRoute server) (?primary # pol_Aliases policy) (rs, H)"
    by (cases "appendRoute server ?primary (rs, H)") auto
  with Some show ?thesis
    by (auto simp: planServer_def server_valid_def server_hostnames_def
        foldE_appendRoute_iff simp del: foldE.simps bindE_Inr_iff)
qed

lemma foldE_planServer_iff:
  "foldE (planServer p policies) servers (rs, H) = Inr st \<longleftrightarrow>
     list_all (server_valid policies) servers \<and>
     list_all isValidHostname (map route_Hostname (plan_routes p servers policies)) \<and>
     distinct (map route_Hostname (plan_routes p servers policies)) \<and>
     set (map route_Hostname (plan_routes p servers policies)) \<inter> H = {} \<and>
     st = (rs @ plan_routes p servers policies,
           H \<union> set (map route_Hostname (plan_routes p servers policies)))"
proof (induction servers arbitrary: rs H)
  case Nil
  then show ?case by (auto simp: plan_routes_def)
next
  case (Cons server servers)
  let ?ns = "server_hostnames p policies server"
  let ?ms = "map route_Hostname (plan_routes p servers policies)"
  have pr: "plan_routes p (server # servers) policies =
      map (server_route server) ?ns @ plan_routes p servers policies"
    by (simp add: plan_routes_def)
  have ns: "map route_Hostname (plan_routes p (server # servers) policies) =
      ?ns @ map route_Hostname (plan_routes p servers policies)"
    by (simp add: pr server_route_def comp_def)
  have disj: "A \<inter> B = {} \<and> C \<inter> (B \<union> A) = {} \<longleftrightarrow> A \<inter> C = {} \<and> (A \<union> C) \<inter> B = {}" for A B C :: "string set"
    by blast
  have "foldE (planServer p policies) (server # servers) (rs, H) = Inr st \<longleftrightarrow>
      server_valid policies server \<and> list_all isValidHostname ?ns \<and> distinct ?ns \<and>
      set ?ns \<inter> H = {} \<and>
      foldE (planServer p policies) servers (rs @ map (server_route server) ?ns, H \<union> set ?ns) = Inr st"
    by (simp add: foldE_Cons_Inr planServer_iff del: foldE.simps)
  then show ?case
    unfolding Cons.IH ns
    unfolding pr list_all_append distinct_append list.pred_inject(2) set_append
      append_assoc Un_assoc using disj [of "set ?ns" H "set ?ms"] by argo
qed

lemma Plan_iff:
  "Plan p servers policies = Inr routes \<longleftrightarrow>
     plan_valid p servers policies \<and> routes = plan_routes p servers policies"
  by (auto simp: Plan_def plan_valid_def foldE_planServer_iff)

section \<open>Hostname and label facts\<close>

lemma label_char_facts:
  assumes "label_char c"
  shows "\<not> is_upper c" "\<not> unicode_IsSpace c" "unicode_ToLower c = c" "c \<noteq> CHR ''.''"
    "c \<noteq> CHR '':''" "c \<noteq> CHR ''%''" "code_point c < 128"
proof -
  have cp: "code_point c = 45 \<or> (48 \<le> code_point c \<and> code_point c \<le> 57) \<or>
      (97 \<le> code_point c \<and> code_point c \<le> 122)"
    using assms by (auto simp: label_char_def is_lower_alpha_def is_digit_def code_point_def)
  then show "\<not> is_upper c" "\<not> unicode_IsSpace c" "code_point c < 128"
    by (auto simp: is_upper_def unicode_IsSpace_def)
  then show "unicode_ToLower c = c" by (simp add: unicode_ToLower_id)
  from cp show "c \<noteq> CHR ''.''" "c \<noteq> CHR '':''" "c \<noteq> CHR ''%''"
    by (auto simp: code_point_def)
qed

lemma valid_hostname_chars:
  assumes "list_all valid_label (Split (CHR ''.'') h)" "c \<in> set h"
  shows "c = CHR ''.'' \<or> label_char c"
  using set_Split [OF assms(2), of "CHR ''.''"] assms(1)
  by (auto simp: list_all_iff valid_label_def)

lemma valid_hostname_ends:
  assumes "list_all valid_label (Split (CHR ''.'') h)" "h \<noteq> []"
  shows "hd h \<noteq> CHR ''.''" "last h \<noteq> CHR ''.''"
proof -
  show "hd h \<noteq> CHR ''.''"
    using assms by (cases h) (auto simp: valid_label_def)
  show "last h \<noteq> CHR ''.''"
  proof
    assume "last h = CHR ''.''"
    with assms(2) have "last (Split (CHR ''.'') h) = []" by (rule last_Split_sep)
    moreover have "last (Split (CHR ''.'') h) \<in> set (Split (CHR ''.'') h)" by simp
    ultimately show False using assms(1) by (auto simp: list_all_iff valid_label_def)
  qed
qed

lemma valid_hostname_not_space:
  assumes "list_all valid_label (Split (CHR ''.'') h)" "c \<in> set h"
  shows "\<not> unicode_IsSpace c" "unicode_ToLower c = c"
proof -
  have "\<not> unicode_IsSpace (CHR ''.'')" "unicode_ToLower (CHR ''.'') = CHR ''.''"
    by (simp_all add: unicode_IsSpace_def code_point_def)
  then show "\<not> unicode_IsSpace c" "unicode_ToLower c = c"
    using valid_hostname_chars [OF assms] label_char_facts(2,3) by blast+
qed

text \<open>The normalisations of every consumer leave a valid hostname unchanged.\<close>

lemma valid_hostname_fixed:
  assumes v: "list_all valid_label (Split (CHR ''.'') h)" and ne: "h \<noteq> []"
  shows "TrimSpace h = h" "ToLower h = h" "Trim (CHR ''.'') h = h"
proof -
  show "TrimSpace h = h"
    unfolding TrimSpace_def using valid_hostname_not_space(1) [OF v] ne by (intro trim_id) simp
  show "ToLower h = h"
    unfolding ToLower_def using valid_hostname_not_space(2) [OF v] by (simp add: map_idI)
  show "Trim (CHR ''.'') h = h"
    unfolding Trim_def using valid_hostname_ends [OF v] by (intro trim_id) simp
qed

lemma isValidHostname_normalize_id: "isValidHostname h \<Longrightarrow> normalizeHostname h = h"
  by (simp add: isValidHostname_def normalizeHostname_def valid_hostname_fixed)

definition normal_label :: "string \<Rightarrow> bool" where
  "normal_label l \<longleftrightarrow> list_all label_char l \<and> no_double (CHR ''-'') l \<and>
     (l \<noteq> [] \<longrightarrow> hd l \<noteq> CHR ''-'' \<and> last l \<noteq> CHR ''-'')"

lemma label_loop_normal:
  assumes "list_all label_char b" "no_double (CHR ''-'') b" "b \<noteq> [] \<Longrightarrow> hd b \<noteq> CHR ''-''"
    "l \<longleftrightarrow> b \<noteq> [] \<and> last b = CHR ''-''"
  shows "list_all label_char (label_loop cs b l) \<and> no_double (CHR ''-'') (label_loop cs b l)"
  using assms
proof (induction cs b l rule: label_loop.induct)
  case (2 c cs b l)
  have h: "is_lower_alpha c \<Longrightarrow> c \<noteq> CHR ''-''" "is_digit c \<Longrightarrow> c \<noteq> CHR ''-''"
    by (auto simp: is_lower_alpha_def is_digit_def code_point_def)
  consider (al) "is_lower_alpha c \<or> is_digit c"
    | (sep) "\<not> (is_lower_alpha c \<or> is_digit c)" "c = CHR ''-'' \<or> c = CHR ''_'' \<or> c = CHR '' ''" "b \<noteq> []" "\<not> l"
    | (skip) "\<not> is_lower_alpha c" "\<not> is_digit c"
        "c = CHR ''-'' \<or> c = CHR ''_'' \<or> c = CHR '' '' \<Longrightarrow> b = [] \<or> l"
    by blast
  then show ?case
  proof cases
    case al
    then have c: "label_char c" "c \<noteq> CHR ''-''" using h by (auto simp: label_char_def)
    then have "list_all label_char (b @ [c])" "no_double (CHR ''-'') (b @ [c])"
      "hd (b @ [c]) \<noteq> CHR ''-''" "last (b @ [c]) \<noteq> CHR ''-''"
      using "2.prems" by (auto simp: no_double_append hd_append)
    with al 2(1,2) show ?thesis by auto
  next
    case sep
    have "label_char (CHR ''-'')" by (simp add: label_char_def)
    with sep "2.prems" have "list_all label_char (b @ ''-'')" "no_double (CHR ''-'') (b @ ''-'')"
      "hd (b @ ''-'') \<noteq> CHR ''-''"
      by (auto simp: no_double_append)
    with sep 2(3) show ?thesis by auto
  next
    case skip
    with 2 show ?thesis by auto
  qed
qed simp

lemma normalizeHostnameLabel_normal: "normal_label (normalizeHostnameLabel s)"
proof -
  let ?b = "label_loop (ToLower (TrimSpace s)) [] False"
  have b: "list_all label_char ?b" "no_double (CHR ''-'') ?b"
    using label_loop_normal [of "[]" False "ToLower (TrimSpace s)"] by auto
  then have "list_all label_char (trim (\<lambda>x. x = CHR ''-'') ?b)"
    by (auto simp: list_all_iff dest: set_trim)
  moreover have "no_double (CHR ''-'') (trim (\<lambda>x. x = CHR ''-'') ?b)"
    using b(2) by (rule no_double_trim)
  ultimately show ?thesis
    using hd_trim last_trim by (fastforce simp: normal_label_def normalizeHostnameLabel_def Trim_def)
qed

lemma label_loop_id:
  assumes "list_all label_char cs" "no_double (CHR ''-'') (b @ cs)" "b = [] \<Longrightarrow> cs \<noteq> [] \<Longrightarrow> hd cs \<noteq> CHR ''-''"
    "l \<longleftrightarrow> b \<noteq> [] \<and> last b = CHR ''-''"
  shows "label_loop cs b l = b @ cs"
  using assms
proof (induction cs b l rule: label_loop.induct)
  case (2 c cs b l)
  have h: "is_lower_alpha c \<Longrightarrow> c \<noteq> CHR ''-''" "is_digit c \<Longrightarrow> c \<noteq> CHR ''-''"
    by (auto simp: is_lower_alpha_def is_digit_def code_point_def)
  show ?case
  proof (cases "c = CHR ''-''")
    case True
    with 2 have "b \<noteq> []" "\<not> l" by (auto simp: no_double_append)
    with True 2 h show ?thesis by auto
  next
    case False
    with 2 h show ?thesis by (auto simp: label_char_def)
  qed
qed simp

lemma normal_label_fixed: "normal_label l \<Longrightarrow> normalizeHostnameLabel l = l"
proof -
  assume n: "normal_label l"
  then have c: "\<And>c. c \<in> set l \<Longrightarrow> label_char c" by (simp add: normal_label_def list_all_iff)
  have "TrimSpace l = l"
    unfolding TrimSpace_def by (rule trim_id) (simp add: c label_char_facts)
  moreover have "ToLower l = l"
    unfolding ToLower_def by (rule map_idI) (simp add: c label_char_facts)
  moreover have "label_loop l [] False = l"
    using n label_loop_id [of l "[]" False] by (auto simp: normal_label_def)
  moreover have "Trim (CHR ''-'') l = l"
    unfolding Trim_def using n by (intro trim_id) (auto simp: normal_label_def)
  ultimately show ?thesis by (simp add: normalizeHostnameLabel_def)
qed

section \<open>Properties\<close>

definition example_server :: MinecraftServer where
  "example_server =
     \<lparr>srv_ID = 7, srv_UUID = ''6f1c'', srv_Identifier = ''6f'', srv_Name = ''Techopolis SMP'', srv_NodeID = 1,
      srv_EggID = 2, srv_AllocationID = 3, srv_BackendIP = ''10.0.0.5'', srv_BackendPort = 25566,
      srv_Suspended = False, srv_Status = None\<rparr>"

definition example_planner :: Planner where
  "example_planner = \<lparr>planner_domain = ''mc.example.com''\<rparr>"

definition example_policy :: Policy where
  "example_policy =
     \<lparr>pol_ServerUUID = ''6f1c'', pol_PrimaryHostname = ''play.mc.example.com'',
      pol_Aliases = [''smp.mc.example.com''], pol_Excluded = False, pol_Revision = 1\<rparr>"

lemma example_plan:
  "Plan example_planner [example_server] Map.empty =
     Inr [server_route example_server ''techopolis-smp.mc.example.com'']"
  by code_simp

lemma example_policy_plan:
  "Plan example_planner [example_server] [''6f1c'' \<mapsto> example_policy] =
     Inr [server_route example_server ''play.mc.example.com'', server_route example_server ''smp.mc.example.com'']"
  by code_simp

text \<open>
  C1. The planning loop of \<open>Planner.Plan\<close> succeeds exactly when every active server and its
  policy are well formed, every hostname it derives is a valid DNS name and no two hostnames
  coincide, and it then returns, in discovery order, one route for the primary hostname and one for
  each alias of every server that is neither suspended nor excluded.
\<close>

theorem plan_refines_reference:
  "Plan p servers policies = Inr routes \<longleftrightarrow>
     plan_valid p servers policies \<and> routes = plan_routes p servers policies"
  by (rule Plan_iff)

definition route_safe :: "MinecraftServer list \<Rightarrow> Route \<Rightarrow> bool" where
  "route_safe servers r \<longleftrightarrow>
     isValidHostname (route_Hostname r) \<and> normalizeHostname (route_Hostname r) = route_Hostname r \<and>
     TrimSpace (backend_Host (route_Backend r)) \<noteq> [] \<and> 0 < backend_Port (route_Backend r) \<and>
     list_ex (\<lambda>server. \<not> srv_Suspended server \<and> route_ServerID r = srv_UUID server \<and>
        backend_Host (route_Backend r) = srv_BackendIP server \<and> backend_Port (route_Backend r) = srv_BackendPort server) servers"

lemma plan_routesE:
  assumes "r \<in> set (plan_routes p servers policies)"
  obtains server h where "server \<in> set servers" "\<not> srv_Suspended server" "r = server_route server h"
    "h \<in> set (server_hostnames p policies server)"
  using assms that by (fastforce simp: plan_routes_def server_hostnames_def split: if_splits)

lemma plan_valid_route_safe:
  assumes "plan_valid p servers policies" "r \<in> set (plan_routes p servers policies)"
  shows "route_safe servers r"
proof -
  from assms(2) obtain server h where s: "server \<in> set servers" "\<not> srv_Suspended server"
    "r = server_route server h" by (rule plan_routesE)
  then have "server_valid policies server" using assms(1) by (simp add: plan_valid_def list_all_iff)
  moreover have "isValidHostname (route_Hostname r)"
    using assms by (auto simp: plan_valid_def list_all_iff)
  ultimately show ?thesis
    using s by (auto simp: route_safe_def server_valid_def server_route_def list_ex_iff
        isValidHostname_normalize_id)
qed

text \<open>
  C8. Every plan is safe to hand to a backend: its hostnames are pairwise different, valid and
  already in normal form, every route has a nonempty backend host and a positive port, and its server
  identity, host and port are those of one discovered server that is not suspended.
\<close>

theorem plan_routes_safe:
  assumes "Plan p servers policies = Inr routes"
  shows "distinct (map route_Hostname routes) \<and> list_all (route_safe servers) routes"
  using assms by (auto simp: Plan_iff plan_valid_def list_all_iff intro: plan_valid_route_safe [unfolded plan_valid_def])

theorem plan_routes_safe_witness:
  "distinct (map route_Hostname [server_route example_server ''techopolis-smp.mc.example.com'']) \<and>
   list_all (route_safe [example_server]) [server_route example_server ''techopolis-smp.mc.example.com'']"
  using plan_routes_safe [OF example_plan] .

text \<open>
  C21. The order in which discovery lists the servers decides neither whether a plan exists nor
  which routes it has: for two listings of the same servers, the planner fails on both or returns the
  same routes up to order.
\<close>

theorem plan_order_independent:
  assumes "mset servers = mset servers'"
  shows "(case (Plan p servers policies, Plan p servers' policies) of
            (Inr routes, Inr routes') \<Rightarrow> mset routes = mset routes'
          | (Inl _, Inl _) \<Rightarrow> True
          | _ \<Rightarrow> False)"
proof -
  have m: "mset (plan_routes p servers policies) = mset (plan_routes p servers' policies)"
    unfolding plan_routes_def mset_concat map_map sum_mset_sum_list [symmetric] mset_map assms ..
  have "mset (map route_Hostname (plan_routes p servers policies)) =
      mset (map route_Hostname (plan_routes p servers' policies))"
    using m by simp
  moreover have "set servers = set servers'" using assms by (metis set_mset_mset)
  ultimately have v: "plan_valid p servers policies \<longleftrightarrow> plan_valid p servers' policies"
    unfolding plan_valid_def list_all_iff by (metis mset_eq_imp_distinct_iff mset_eq_setD)
  show ?thesis
  proof (cases "plan_valid p servers policies")
    case True
    with v have "Plan p servers policies = Inr (plan_routes p servers policies)"
      "Plan p servers' policies = Inr (plan_routes p servers' policies)"
      using Plan_iff by blast+
    with m show ?thesis by simp
  next
    case False
    with v obtain e e' where "Plan p servers policies = Inl e" "Plan p servers' policies = Inl e'"
      by (metis Plan_iff sum.exhaust)
    then show ?thesis by simp
  qed
qed

theorem plan_order_independent_witness:
  "(case (Plan example_planner [example_server, example_server\<lparr>srv_Suspended := True\<rparr>] Map.empty,
          Plan example_planner [example_server\<lparr>srv_Suspended := True\<rparr>, example_server] Map.empty) of
      (Inr routes, Inr routes') \<Rightarrow> mset routes = mset routes'
    | (Inl _, Inl _) \<Rightarrow> True
    | _ \<Rightarrow> False)"
  by (rule plan_order_independent) simp

text \<open>
  A stored policy acts only through the UUID it is keyed by: two policy sets that agree on the
  UUIDs of the discovered servers give the same plan, so policies of servers that are not discovered
  are ignored.
\<close>

lemma plan_uses_discovered_policies:
  assumes "\<And>server. server \<in> set servers \<Longrightarrow> policies (srv_UUID server) = policies' (srv_UUID server)"
  shows "Plan p servers policies = Plan p servers policies'"
proof -
  have "foldE (planServer p policies) servers st = foldE (planServer p policies') servers st" for st
    using assms by (induction servers arbitrary: st) (auto simp: planServer_def split: sum.splits)
  then show ?thesis by (simp add: Plan_def)
qed

lemma plan_uses_discovered_policies_example:
  "Plan example_planner [example_server] [''6f1c'' \<mapsto> example_policy, ''dead'' \<mapsto> example_policy] =
   Plan example_planner [example_server] [''6f1c'' \<mapsto> example_policy]"
  by (rule plan_uses_discovered_policies) (simp add: example_server_def)

text \<open>
  Renaming a server in Pelican does not move a route that an operator configured: when every
  server that is renamed has a policy with a primary hostname or an exclusion, the plan stays the
  same.
\<close>

lemma plan_rename_stable:
  assumes "\<And>server. server \<in> set servers \<Longrightarrow> f server \<noteq> srv_Name server \<Longrightarrow>
      (\<exists>policy. policies (srv_UUID server) = Some policy \<and>
         (pol_Excluded policy \<or> pol_PrimaryHostname policy \<noteq> []))"
  shows "Plan p (map (\<lambda>server. server\<lparr>srv_Name := f server\<rparr>) servers) policies = Plan p servers policies"
proof -
  have a: "appendRoute (s\<lparr>srv_Name := n\<rparr>) = appendRoute s" for s n
    by (simp add: appendRoute_def Let_def fun_eq_iff)
  have "planServer p policies (s\<lparr>srv_Name := f s\<rparr>) = planServer p policies s" if s: "s \<in> set servers" for s
  proof (cases "f s = srv_Name s")
    case False
    then obtain policy where "policies (srv_UUID s) = Some policy"
      "pol_Excluded policy \<or> pol_PrimaryHostname policy \<noteq> []" using assms s by blast
    then show ?thesis by (intro ext) (auto simp: planServer_def a)
  qed simp
  then have "foldE (planServer p policies) (map (\<lambda>s. s\<lparr>srv_Name := f s\<rparr>) servers) st =
      foldE (planServer p policies) servers st" for st
    by (induction servers arbitrary: st) (auto split: sum.splits)
  then show ?thesis by (simp add: Plan_def)
qed

lemma plan_rename_stable_example:
  "Plan example_planner (map (\<lambda>server. server\<lparr>srv_Name := ''Renamed''\<rparr>) [example_server])
     [''6f1c'' \<mapsto> example_policy] =
   Plan example_planner [example_server] [''6f1c'' \<mapsto> example_policy]"
  by (rule plan_rename_stable) (simp add: example_server_def example_policy_def)

section \<open>Labels as words\<close>

text \<open>
  The reference for generated labels: of the lower-cased name keep letters, digits and separators, split
  it into its words at the separators and join the words with one hyphen each.
\<close>

definition label_separator :: "char \<Rightarrow> bool" where
  "label_separator c \<longleftrightarrow> c = CHR ''-'' \<or> c = CHR ''_'' \<or> c = CHR '' ''"

definition hyphenated :: "string \<Rightarrow> string" where
  "hyphenated s =
     map (\<lambda>c. if label_separator c then CHR ''-'' else c)
       (filter (\<lambda>c. is_lower_alpha c \<or> is_digit c \<or> label_separator c) s)"

definition words :: "string \<Rightarrow> string list" where
  "words s = filter (\<lambda>w. w \<noteq> []) (Split (CHR ''-'') (hyphenated s))"

fun join_hyphen :: "string list \<Rightarrow> string" where
  "join_hyphen [] = []"
| "join_hyphen [w] = w"
| "join_hyphen (w # ws) = w @ ''-'' @ join_hyphen ws"

text \<open>What the rest of the input adds after a hyphen, and to a word that has begun.\<close>

definition more_words :: "string list \<Rightarrow> string" where
  "more_words ws = (if ws = [] then [] else CHR ''-'' # join_hyphen ws)"

definition rest_of_word :: "string \<Rightarrow> string" where
  "rest_of_word cs = (case Split (CHR ''-'') (hyphenated cs) of
     [] \<Rightarrow> [] | w # ws \<Rightarrow> w @ more_words (filter (\<lambda>w. w \<noteq> []) ws))"

lemma join_hyphen_Cons: "join_hyphen (w # ws) = w @ more_words ws"
  by (cases ws) (simp_all add: more_words_def)

lemma alnum_not_separator:
  "is_lower_alpha c \<or> is_digit c \<Longrightarrow> \<not> label_separator c" "is_lower_alpha c \<or> is_digit c \<Longrightarrow> c \<noteq> CHR ''-''"
  by (auto simp: label_separator_def is_lower_alpha_def is_digit_def code_point_def)

lemma words_simps:
  "words [] = []" "rest_of_word [] = []"
  "label_separator c \<Longrightarrow> words (c # cs) = words cs"
  "label_separator c \<Longrightarrow> rest_of_word (c # cs) = more_words (words cs)"
  "\<not> label_separator c \<Longrightarrow> \<not> (is_lower_alpha c \<or> is_digit c) \<Longrightarrow> words (c # cs) = words cs"
  "\<not> label_separator c \<Longrightarrow> \<not> (is_lower_alpha c \<or> is_digit c) \<Longrightarrow> rest_of_word (c # cs) = rest_of_word cs"
  "is_lower_alpha c \<or> is_digit c \<Longrightarrow> rest_of_word (c # cs) = c # rest_of_word cs"
  by (auto simp: words_def rest_of_word_def hyphenated_def more_words_def alnum_not_separator split: list.split)

lemma words_begin: "is_lower_alpha c \<or> is_digit c \<Longrightarrow> join_hyphen (words (c # cs)) = c # rest_of_word cs \<and> words (c # cs) \<noteq> []"
  by (cases "Split (CHR ''-'') (hyphenated cs)")
    (auto simp: words_def rest_of_word_def hyphenated_def alnum_not_separator join_hyphen_Cons more_words_def)

lemma Trim_ends:
  assumes "b \<noteq> []" "hd b \<noteq> CHR ''-''" "last b \<noteq> CHR ''-''"
  shows "Trim (CHR ''-'') b = b" "Trim (CHR ''-'') (b @ ''-'') = b"
proof -
  show "Trim (CHR ''-'') b = b" unfolding Trim_def using assms by (intro trim_id) simp
  have "dropWhile (\<lambda>x. x = CHR ''-'') (b @ ''-'') = b @ ''-''" using assms by (cases b) simp_all
  moreover have "dropWhile (\<lambda>x. x = CHR ''-'') (rev b) = rev b" using assms by (intro dropWhile_id) (simp add: hd_rev)
  ultimately show "Trim (CHR ''-'') (b @ ''-'') = b" by (simp add: Trim_def trim_def)
qed

lemma label_loop_words:
  assumes "b \<noteq> []" "hd b \<noteq> CHR ''-''" "last b \<noteq> CHR ''-''"
  shows "Trim (CHR ''-'') (label_loop cs b False) = b @ rest_of_word cs \<and>
    Trim (CHR ''-'') (label_loop cs (b @ ''-'') True) = b @ more_words (words cs)"
  using assms
proof (induction cs arbitrary: b)
  case Nil
  then show ?case by (simp add: words_simps Trim_ends more_words_def)
next
  case (Cons c cs)
  have IH: "Trim (CHR ''-'') (label_loop cs b False) = b @ rest_of_word cs"
    "Trim (CHR ''-'') (label_loop cs (b @ ''-'') True) = b @ more_words (words cs)"
    using Cons.IH [OF Cons.prems] by simp_all
  consider (alnum) "is_lower_alpha c \<or> is_digit c" | (sep) "\<not> (is_lower_alpha c \<or> is_digit c)" "label_separator c"
    | (other) "\<not> (is_lower_alpha c \<or> is_digit c)" "\<not> label_separator c" by blast
  then show ?case
  proof cases
    case alnum
    then have c: "c \<noteq> CHR ''-''" by (rule alnum_not_separator)
    have "Trim (CHR ''-'') (label_loop cs (b @ [c]) False) = (b @ [c]) @ rest_of_word cs"
      "Trim (CHR ''-'') (label_loop cs (b @ ''-'' @ [c]) False) = (b @ ''-'' @ [c]) @ rest_of_word cs"
      using Cons.IH [of "b @ [c]"] Cons.IH [of "b @ ''-'' @ [c]"] Cons.prems c by (simp_all add: hd_append)
    then show ?thesis using alnum words_begin [OF alnum, of cs]
      by (auto simp: words_simps more_words_def)
  next
    case sep
    then show ?thesis using IH Cons.prems by (auto simp: words_simps label_separator_def)
  next
    case other
    then show ?thesis using IH by (auto simp: words_simps label_separator_def)
  qed
qed

lemma label_loop_from_start: "Trim (CHR ''-'') (label_loop cs [] False) = join_hyphen (words cs)"
proof (induction cs)
  case Nil
  then show ?case by (simp add: words_simps Trim_def)
next
  case (Cons c cs)
  show ?case
  proof (cases "is_lower_alpha c \<or> is_digit c")
    case True
    then have "c \<noteq> CHR ''-''" by (rule alnum_not_separator)
    then show ?thesis using True label_loop_words [of "[c]" cs] words_begin [OF True, of cs] by auto
  next
    case False
    then show ?thesis using Cons by (cases "label_separator c") (auto simp: words_simps label_separator_def)
  qed
qed

lemma space_no_word:
  assumes "unicode_IsSpace c"
  shows "words (c # cs) = words cs" "words (cs @ [c]) = words cs"
proof -
  have d: "\<not> (is_lower_alpha c \<or> is_digit c)"
    using assms by (auto simp: unicode_IsSpace_def is_lower_alpha_def is_digit_def)
  then show "words (c # cs) = words cs" by (cases "label_separator c") (simp_all add: words_simps)
  show "words (cs @ [c]) = words cs"
    using d Split_append [of "CHR ''-''" "hyphenated cs" "[]"]
    by (cases "label_separator c") (simp_all add: words_def hyphenated_def)
qed

lemma words_TrimSpace: "words (TrimSpace s) = words s"
proof -
  have front: "words (dropWhile unicode_IsSpace cs) = words cs" for cs
    by (induction cs) (simp_all add: space_no_word)
  have rear: "words (rev (dropWhile unicode_IsSpace (rev cs))) = words cs" for cs
    by (induction cs rule: rev_induct) (simp_all add: space_no_word)
  show ?thesis by (simp add: TrimSpace_def trim_def front rear)
qed

lemma ToLower_TrimSpace: "ToLower (TrimSpace s) = TrimSpace (ToLower s)"
  by (simp add: ToLower_def TrimSpace_def trim_map)

lemma normalizeHostnameLabel_words: "normalizeHostnameLabel s = join_hyphen (words (ToLower s))"
  by (simp add: normalizeHostnameLabel_def label_loop_from_start ToLower_TrimSpace words_TrimSpace)

text \<open>
  C40. The label generated from a server's name is the list of its words joined by single hyphens: the
  runs of letters and digits of the lower-cased name, which hyphens, underscores and spaces separate
  and from which all other characters are dropped.  It is a DNS label exactly when there is a word and
  the result has at most 63 characters; and normalising it again changes nothing.
\<close>

theorem normalizeHostnameLabel_normal_form:
  "normalizeHostnameLabel s = join_hyphen (words (ToLower s)) \<and>
   (valid_label (normalizeHostnameLabel s) \<longleftrightarrow> words (ToLower s) \<noteq> [] \<and> length (normalizeHostnameLabel s) \<le> 63) \<and>
   normalizeHostnameLabel (normalizeHostnameLabel s) = normalizeHostnameLabel s"
proof -
  let ?l = "normalizeHostnameLabel s"
  have n: "normal_label ?l" by (rule normalizeHostnameLabel_normal)
  have "go_len ?l = length ?l"
    using n by (auto simp: normal_label_def list_all_iff go_len_def filter_empty_conv not_le intro: label_char_facts(7))
  moreover have "?l = [] \<longleftrightarrow> words (ToLower s) = []"
  proof (cases "words (ToLower s)")
    case (Cons w ws)
    then have "w \<in> set (words (ToLower s))" by simp
    then have "w \<noteq> []" by (simp add: words_def)
    with Cons show ?thesis by (simp add: normalizeHostnameLabel_words join_hyphen_Cons)
  qed (simp add: normalizeHostnameLabel_words)
  ultimately have "valid_label ?l \<longleftrightarrow> words (ToLower s) \<noteq> [] \<and> length ?l \<le> 63"
    using n by (auto simp: valid_label_def normal_label_def)
  then show ?thesis by (simp add: normal_label_fixed n normalizeHostnameLabel_words [symmetric])
qed

end
