(* ===== verification/Retry.thy ===== *)
theory Retry
  imports GoContext "HOL-Library.Word" "HOL-Library.Signed_Division"
begin

text \<open>
  Bounded retries of idempotent HTTP requests, \<open>internal/retry/http.go\<close>.

  A Go pair \<open>(*http.Response, error)\<close> is a pair of options.  The call that is retried acts on a
  world \<open>'w\<close> (the remote service).  \<open>time.Duration\<close> is a signed 64-bit integer, so the
  delays are \<open>64 word\<close> with Go's wrap-around; \<open>rand.Int64N\<close> is the parameter \<open>rand\<close>,
  which panics for a bound that is not positive.  A delay only passes time: what the program sees of
  \<open>wait\<close> is one more poll of the context.
\<close>

type_synonym Duration = "64 word"

record Config =
  Attempts :: int
  InitialBackoff :: Duration
  MaxBackoff :: Duration

definition DefaultConfig :: Config where
  "DefaultConfig = \<lparr>Attempts = 3, InitialBackoff = 200000000, MaxBackoff = 2000000000\<rparr>"

definition normalize :: "Config \<Rightarrow> Config" where
  "normalize cfg =
     (if Attempts cfg \<le> 0 \<or> InitialBackoff cfg \<le>s 0 \<or> MaxBackoff cfg <s InitialBackoff cfg
      then DefaultConfig else cfg)"

record 'b http_response =
  StatusCode :: int
  Body :: 'b

definition shouldRetry :: "'b http_response option \<Rightarrow> 'e option \<Rightarrow> bool" where
  "shouldRetry response err =
     (if err \<noteq> None then True
      else case response of
        None \<Rightarrow> False
      | Some r \<Rightarrow> StatusCode r \<in> {429, 502, 503, 504})"

fun double_loop :: "nat \<Rightarrow> Duration \<Rightarrow> Duration \<Rightarrow> Duration" where
  "double_loop 0 delay max_delay = delay"
| "double_loop (Suc k) delay max_delay =
     (if delay <s max_delay then double_loop k (delay * 2) max_delay else delay)"

definition half :: "Duration \<Rightarrow> Duration" where
  "half d = word_of_int (sint d sdiv 2)"

definition backoff :: "(Duration \<Rightarrow> Duration) \<Rightarrow> Config \<Rightarrow> int \<Rightarrow> Duration option" where
  "backoff rand cfg attempt =
     (let delay = double_loop (nat (attempt - 1)) (InitialBackoff cfg) (MaxBackoff cfg);
          delay = (if MaxBackoff cfg <s delay then MaxBackoff cfg else delay)
      in if half delay + 1 \<le>s 0 then None else Some (half delay + rand (half delay + 1)))"

datatype 'e do_error = DoCtx ctx_error | DoErr 'e

datatype ('b, 'e) do_result = DoPanic | DoReturn "'b http_response option" "'e do_error option"

definition wait :: "ctx \<Rightarrow> Duration \<Rightarrow> ctx_error option" where
  [simp]: "wait c delay = ctx_Err c"

function Do_loop ::
  "ctx \<Rightarrow> Config \<Rightarrow> (int \<Rightarrow> Duration \<Rightarrow> Duration) \<Rightarrow>
   ('w \<Rightarrow> ('b http_response option \<times> 'e option) \<times> 'w) \<Rightarrow> 'w \<Rightarrow> int \<Rightarrow>
   ('b, 'e) do_result \<times> ctx \<times> 'w" where
  "Do_loop c cfg rand call w attempt =
     (case ctx_Err c of
        Some e \<Rightarrow> (DoReturn None (Some (DoCtx e)), ctx_step c, w)
      | None \<Rightarrow>
          (case call w of
             ((response, err), w') \<Rightarrow>
               if \<not> shouldRetry response err \<or> attempt \<ge> Attempts cfg
               then (DoReturn response (map_option DoErr err), ctx_step c, w')
               else case backoff (rand attempt) cfg attempt of
                 None \<Rightarrow> (DoPanic, ctx_step c, w')
               | Some delay \<Rightarrow>
                   (case wait (ctx_step c) delay of
                      Some e \<Rightarrow> (DoReturn None (Some (DoCtx e)), ctx_step (ctx_step c), w')
                    | None \<Rightarrow> Do_loop (ctx_step (ctx_step c)) cfg rand call w' (attempt + 1))))"
  by pat_completeness auto
termination
  by (relation "measure (\<lambda>(c, cfg, rand, call, w, attempt). nat (Attempts cfg - attempt))") auto

declare Do_loop.simps [simp del]

definition Do ::
  "ctx \<Rightarrow> Config \<Rightarrow> (int \<Rightarrow> Duration \<Rightarrow> Duration) \<Rightarrow>
   ('w \<Rightarrow> ('b http_response option \<times> 'e option) \<times> 'w) \<Rightarrow> 'w \<Rightarrow> ('b, 'e) do_result \<times> ctx \<times> 'w" where
  "Do c cfg rand call w = Do_loop c (normalize cfg) rand call w 1"

section \<open>Delays\<close>

text \<open>The delay before jitter, on unbounded integers.\<close>

definition capped :: "Config \<Rightarrow> int \<Rightarrow> int" where
  "capped cfg attempt =
     min (sint (InitialBackoff cfg) * 2 ^ nat (attempt - 1)) (sint (MaxBackoff cfg))"

definition config_ok :: "Config \<Rightarrow> bool" where
  "config_ok cfg \<longleftrightarrow> 0 < Attempts cfg \<and> 0 < sint (InitialBackoff cfg) \<and>
     sint (InitialBackoff cfg) \<le> sint (MaxBackoff cfg) \<and> sint (MaxBackoff cfg) \<le> 2 ^ 62"

lemma normalize_ok: "config_ok cfg \<Longrightarrow> normalize cfg = cfg"
  by (auto simp: normalize_def config_ok_def word_sle_eq word_sless_alt)

lemma sint_range64: "- (2 ^ 63) \<le> sint (d :: Duration) \<and> sint d < 2 ^ 63"
  using sint_ge [of d] sint_lt [of d] by simp

lemma sint_of_int64: "- (2 ^ 63) \<le> i \<Longrightarrow> i < 2 ^ 63 \<Longrightarrow> sint (word_of_int i :: Duration) = i"
  by (simp add: sint_sbintrunc' signed_take_bit_int_eq_self)

lemma sint_add64:
  assumes "- (2 ^ 63) \<le> sint a + sint b" "sint a + sint b < 2 ^ 63"
  shows "sint (a + b :: Duration) = sint a + sint b"
proof -
  have "a + b = word_of_int (sint a + sint b)" by (simp add: wi_hom_add [symmetric])
  then show ?thesis by (simp only: sint_of_int64 [OF assms])
qed

lemma sint_double: "0 \<le> sint d \<Longrightarrow> sint d < 2 ^ 62 \<Longrightarrow> sint (d * 2 :: Duration) = 2 * sint d"
proof -
  assume d: "0 \<le> sint d" "sint d < 2 ^ 62"
  have "d * 2 = word_of_int (sint d * 2)" by (simp add: wi_hom_mult [symmetric])
  moreover have "sint (word_of_int (sint d * 2) :: Duration) = sint d * 2"
    by (rule sint_of_int64) (use d in simp_all)
  ultimately show ?thesis by (simp add: mult.commute)
qed

lemma double_loop_value:
  assumes "0 < sint d" "sint d \<le> 2 ^ 63 - 1" "sint m \<le> 2 ^ 62"
  shows "min (sint (double_loop k d m)) (sint m) = min (sint d * 2 ^ k) (sint m) \<and>
         0 < sint (double_loop k d m)"
  using assms(1,2)
proof (induction k arbitrary: d)
  case (Suc k)
  show ?case
  proof (cases "sint d < sint m")
    case True
    then have s: "sint (d * 2) = 2 * sint d" using Suc.prems(1) assms(3) by (simp add: sint_double)
    then have "0 < sint (d * 2)" "sint (d * 2) \<le> 2 ^ 63 - 1"
      using Suc.prems(1) True assms(3) by simp_all
    from Suc.IH [OF this] s True show ?thesis by (simp add: word_sless_alt ac_simps)
  next
    case False
    have "sint d * 1 \<le> sint d * 2 ^ Suc k" using Suc.prems(1) by (intro mult_left_mono one_le_power) simp_all
    with False have "sint m \<le> sint d * 2 ^ Suc k" by linarith
    with False Suc.prems show ?thesis by (simp add: word_sless_alt)
  qed
qed simp

lemma sint_half: "0 \<le> sint d \<Longrightarrow> sint (half d) = sint d div 2"
  using sint_range64 [of d] by (simp add: half_def signed_divide_int_def sint_of_int64 sgn_if)

lemma backoff_value:
  assumes "config_ok cfg" "0 \<le> sint (rand (half d + 1))" "sint (rand (half d + 1)) \<le> sint (half d)"
    and d: "d = word_of_int (capped cfg attempt)"
  shows "\<exists>delay. backoff rand cfg attempt = Some delay \<and>
     capped cfg attempt div 2 \<le> sint delay \<and> sint delay \<le> capped cfg attempt"
proof -
  let ?l = "double_loop (nat (attempt - 1)) (InitialBackoff cfg) (MaxBackoff cfg)"
  let ?d = "if MaxBackoff cfg <s ?l then MaxBackoff cfg else ?l"
  have l: "min (sint ?l) (sint (MaxBackoff cfg)) = capped cfg attempt" "0 < sint ?l"
    using double_loop_value [of "InitialBackoff cfg" "MaxBackoff cfg" "nat (attempt - 1)"]
      sint_range64 [of "InitialBackoff cfg"] assms(1)
    by (simp_all add: capped_def config_ok_def)
  then have sd: "sint ?d = capped cfg attempt" by (simp add: word_sless_alt min_def split: if_splits)
  then have "?d = d" unfolding d sd [symmetric] by simp
  have c: "0 < capped cfg attempt" "capped cfg attempt \<le> 2 ^ 62"
    using assms(1) l by (auto simp: config_ok_def)
  then have h: "sint (half d) = capped cfg attempt div 2"
    using sd \<open>?d = d\<close> sint_half [of d] by simp
  then have h1: "sint (half d + 1) = sint (half d) + 1" using c sint_add64 [of "half d" 1] by simp
  let ?r = "rand (half d + 1)"
  have "sint (half d + ?r) = sint (half d) + sint ?r"
    using assms(2,3) h c by (intro sint_add64) simp_all
  with assms(2,3) h h1 c \<open>?d = d\<close> show ?thesis
    by (auto simp: backoff_def Let_def word_sle_eq)
qed

definition rand_ok :: "(Duration \<Rightarrow> Duration) \<Rightarrow> bool" where
  "rand_ok rand \<longleftrightarrow> (\<forall>n. 0 < sint n \<longrightarrow> 0 \<le> sint (rand n) \<and> sint (rand n) < sint n)"

lemma backoff_in_range:
  assumes "config_ok cfg" "rand_ok rand"
  shows "\<exists>delay. backoff rand cfg attempt = Some delay \<and>
     capped cfg attempt div 2 \<le> sint delay \<and> sint delay \<le> capped cfg attempt"
proof (rule backoff_value [OF assms(1) _ _ refl])
  let ?d = "word_of_int (capped cfg attempt) :: Duration"
  have c: "0 < capped cfg attempt" "capped cfg attempt \<le> 2 ^ 62"
    using assms(1) by (auto simp: config_ok_def capped_def min_def)
  then have d: "sint ?d = capped cfg attempt" by (simp add: sint_of_int64)
  with c have h: "sint (half ?d) = capped cfg attempt div 2" using sint_half [of ?d] by simp
  then have "sint (half ?d + 1) = sint (half ?d) + 1" using c sint_add64 [of "half ?d" 1] by simp
  with h c have "0 < sint (half ?d + 1)" "sint (half ?d + 1) = sint (half ?d) + 1" by simp_all
  with assms(2) show "0 \<le> sint (rand (half ?d + 1))" "sint (rand (half ?d + 1)) \<le> sint (half ?d)"
    unfolding rand_ok_def by (smt (verit))+
qed

section \<open>Attempts\<close>

text \<open>The answer of the \<open>k\<close>-th call (from 0) and the world after \<open>k\<close> calls.\<close>

definition after_calls :: "('w \<Rightarrow> 'a \<times> 'w) \<Rightarrow> nat \<Rightarrow> 'w \<Rightarrow> 'w" where
  "after_calls call k w = ((\<lambda>w. snd (call w)) ^^ k) w"

definition answer :: "('w \<Rightarrow> 'a \<times> 'w) \<Rightarrow> nat \<Rightarrow> 'w \<Rightarrow> 'a" where
  "answer call k w = fst (call (after_calls call k w))"

lemma after_calls_0 [simp]: "after_calls call 0 w = w"
  by (simp add: after_calls_def)

lemma after_calls_shift [simp]: "after_calls call k (snd (call w)) = after_calls call (Suc k) w"
  by (simp only: after_calls_def funpow_Suc_right comp_apply)

lemma answer_0 [simp]: "answer call 0 w = fst (call w)"
  by (simp add: answer_def)

lemma answer_shift [simp]: "answer call k (snd (call w)) = answer call (Suc k) w"
  by (simp add: answer_def)

definition answered :: "'b http_response option \<times> 'e option \<Rightarrow> ('b, 'e) do_result" where
  "answered a = DoReturn (fst a) (map_option DoErr (snd a))"

definition retryable :: "'b http_response option \<times> 'e option \<Rightarrow> bool" where
  "retryable a \<longleftrightarrow> shouldRetry (fst a) (snd a)"

lemma Do_loop_bounded:
  assumes "never_done c" "config_ok cfg" "\<And>k. rand_ok (rand k)" "attempt \<le> Attempts cfg"
  shows "\<exists>n c'. int n \<le> Attempts cfg - attempt \<and> never_done c' \<and>
     Do_loop c cfg rand call w attempt = (answered (answer call n w), c', after_calls call (Suc n) w) \<and>
     list_all (\<lambda>k. retryable (answer call k w)) [0..<n] \<and>
     (int n = Attempts cfg - attempt \<or> \<not> retryable (answer call n w))"
  using assms(1,4)
proof (induction "nat (Attempts cfg - attempt)" arbitrary: c w attempt)
  case 0
  then have "Do_loop c cfg rand call w attempt = (answered (answer call 0 w), ctx_step c, after_calls call 1 w)"
    by (subst Do_loop.simps) (simp add: answered_def after_calls_def split: prod.splits)
  with 0 show ?case by (intro exI [of _ 0] exI [of _ "ctx_step c"]) auto
next
  case (Suc m)
  show ?case
  proof (cases "retryable (fst (call w))")
    case False
    then have "Do_loop c cfg rand call w attempt = (answered (answer call 0 w), ctx_step c, after_calls call 1 w)"
      using Suc.prems by (subst Do_loop.simps) (auto simp: answered_def retryable_def after_calls_def split: prod.splits)
    with False Suc.prems show ?thesis by (intro exI [of _ 0] exI [of _ "ctx_step c"]) auto
  next
    case True
    obtain delay where "backoff (rand attempt) cfg attempt = Some delay"
      using backoff_in_range [OF assms(2,3)] by blast
    with True Suc(2-) have step: "Do_loop c cfg rand call w attempt =
        Do_loop (ctx_step (ctx_step c)) cfg rand call (snd (call w)) (attempt + 1)"
      by (subst Do_loop.simps) (auto simp: retryable_def split: prod.splits)
    have "m = nat (Attempts cfg - (attempt + 1))" "attempt + 1 \<le> Attempts cfg" using Suc by auto
    with Suc.hyps(1) [of "attempt + 1" "ctx_step (ctx_step c)" "snd (call w)"] Suc.prems
    obtain n c' where n: "int n \<le> Attempts cfg - (attempt + 1)"
      "Do_loop (ctx_step (ctx_step c)) cfg rand call (snd (call w)) (attempt + 1) =
        (answered (answer call (Suc n) w), c', after_calls call (Suc (Suc n)) w)" "never_done c'"
      "list_all (\<lambda>k. retryable (answer call (Suc k) w)) [0..<n]"
      "int n = Attempts cfg - (attempt + 1) \<or> \<not> retryable (answer call (Suc n) w)"
      by auto
    have "retryable (answer call k w)" if "k < Suc n" for k
      using that n(4) True by (cases k) (auto simp: list_all_iff)
    then have "list_all (\<lambda>k. retryable (answer call k w)) [0..<Suc n]"
      unfolding list_all_iff set_upt by simp
    with n step show ?thesis by (intro exI [of _ "Suc n"] exI [of _ c']) auto
  qed
qed

text \<open>Whatever a call preserves holds of the world in which the returned answer was given.\<close>

lemma Do_loop_answer:
  assumes "\<And>w. P w \<Longrightarrow> P (snd (call w))" "P w" "Do_loop c cfg rand call w attempt = (r, c', w')"
  shows "P w' \<and> (\<forall>response. r = DoReturn (Some response) None \<longrightarrow>
     (\<exists>w0. P w0 \<and> fst (call w0) = (Some response, None)))"
  using assms(2,3)
proof (induction "nat (Attempts cfg - attempt)" arbitrary: c w attempt rule: less_induct)
  case less
  obtain resp err w1 where call: "call w = ((resp, err), w1)" by (metis prod.collapse)
  then have w1: "P w1" using assms(1) [OF less.prems(1)] by simp
  have "(r, w') = (DoReturn resp (map_option DoErr err), w1) \<or>
      (\<exists>e. r = DoReturn None (Some e)) \<and> (w' = w \<or> w' = w1) \<or> (r, w') = (DoPanic, w1) \<or>
      (attempt < Attempts cfg \<and> Do_loop (ctx_step (ctx_step c)) cfg rand call w1 (attempt + 1) = (r, c', w'))"
    using less.prems(2) by (subst (asm) Do_loop.simps) (auto simp: call split: option.splits if_splits)
  then consider "(r, w') = (DoReturn resp (map_option DoErr err), w1)"
    | "\<exists>e. r = DoReturn None (Some e)" "w' = w \<or> w' = w1" | "(r, w') = (DoPanic, w1)"
    | "attempt < Attempts cfg" "Do_loop (ctx_step (ctx_step c)) cfg rand call w1 (attempt + 1) = (r, c', w')"
    by blast
  then show ?case
  proof cases
    case 1
    then show ?thesis using less.prems(1) w1 call by (metis Pair_inject do_result.inject fst_conv map_option_is_None)
  next
    case 4
    then show ?thesis using less.hyps [of "attempt + 1" w1 "ctx_step (ctx_step c)"] w1 by auto
  qed (use less.prems(1) w1 in auto)
qed

lemmas Do_answer = Do_loop_answer [where attempt = 1 and cfg = "normalize cfg" for cfg, folded Do_def]

section \<open>Properties\<close>

definition example_rand :: "int \<Rightarrow> Duration \<Rightarrow> Duration" where
  "example_rand k n = n - 1"

lemma example_rand_ok: "rand_ok (example_rand k)"
proof -
  have "sint (n - 1) = sint n - 1" if "0 < sint n" for n :: Duration
  proof -
    have "n - 1 = word_of_int (sint n - 1)" by (simp add: wi_hom_sub [symmetric])
    moreover have "sint (word_of_int (sint n - 1) :: Duration) = sint n - 1"
      by (rule sint_of_int64) (use that sint_range64 [of n] in simp_all)
    ultimately show ?thesis by simp
  qed
  then show ?thesis by (simp add: rand_ok_def example_rand_def)
qed

lemma DefaultConfig_ok: "config_ok DefaultConfig"
  by (simp add: config_ok_def DefaultConfig_def)

text \<open>
  C20. With a live context \<open>retry.Do\<close> makes at most \<open>Attempts\<close> calls and at least one; every
  call but the last had a transport error or one of the statuses 429, 502, 503, 504; it returns the
  answer of the last call and stops there only because that answer is final or the attempts are
  used up.
\<close>

theorem do_bounded_attempts:
  assumes "never_done c" "config_ok cfg" "\<And>k. rand_ok (rand k)"
  shows "\<exists>n c'. 1 \<le> n \<and> int n \<le> Attempts cfg \<and>
     Do c cfg rand call w = (answered (answer call (n - 1) w), c', after_calls call n w) \<and>
     list_all (\<lambda>k. retryable (answer call k w)) [0..<n - 1] \<and>
     (int n = Attempts cfg \<or> \<not> retryable (answer call (n - 1) w))"
proof -
  have "1 \<le> Attempts cfg" using assms(2) by (simp add: config_ok_def)
  from Do_loop_bounded [where rand = rand and call = call and w = w, OF assms this] obtain n c' where
    "int n \<le> Attempts cfg - 1"
    "Do_loop c cfg rand call w 1 = (answered (answer call n w), c', after_calls call (Suc n) w)"
    "list_all (\<lambda>k. retryable (answer call k w)) [0..<n]"
    "int n = Attempts cfg - 1 \<or> \<not> retryable (answer call n w)" by blast
  with assms(2) show ?thesis by (intro exI [of _ "Suc n"] exI [of _ c']) (auto simp: Do_def normalize_ok)
qed

definition example_call :: "nat \<Rightarrow> (unit http_response option \<times> string option) \<times> nat" where
  "example_call n = ((Some \<lparr>StatusCode = (if n < 1 then 503 else 200), Body = ()\<rparr>, None), n + 1)"

theorem do_bounded_attempts_witness:
  "(\<exists>n c'. 1 \<le> n \<and> int n \<le> Attempts DefaultConfig \<and>
     Do Background DefaultConfig example_rand example_call 0 =
       (answered (answer example_call (n - 1) 0), c', after_calls example_call n 0) \<and>
     list_all (\<lambda>k. retryable (answer example_call k 0)) [0..<n - 1] \<and>
     (int n = Attempts DefaultConfig \<or> \<not> retryable (answer example_call (n - 1) 0))) \<and>
   Do Background DefaultConfig example_rand example_call 0 =
     (DoReturn (Some \<lparr>StatusCode = 200, Body = ()\<rparr>) None, Background, 2)"
  by (intro conjI do_bounded_attempts never_done_Background DefaultConfig_ok example_rand_ok) code_simp

text \<open>
  C26. The delay before attempt \<open>n + 1\<close> lies between half of and the whole of
  \<open>min (InitialBackoff * 2 ^ (n - 1)) MaxBackoff\<close>: for a maximal backoff up to \<open>2 ^ 62\<close>
  nanoseconds the 64-bit doubling never wraps around and \<open>rand.Int64N\<close> never panics.
\<close>

theorem backoff_bounds:
  assumes "config_ok cfg" "rand_ok rand"
  shows "\<exists>delay. backoff rand cfg attempt = Some delay \<and>
     capped cfg attempt div 2 \<le> sint delay \<and> sint delay \<le> capped cfg attempt"
  using assms by (rule backoff_in_range)

theorem backoff_bounds_witness:
  "(\<exists>delay. backoff (example_rand 1) DefaultConfig 2 = Some delay \<and>
     capped DefaultConfig 2 div 2 \<le> sint delay \<and> sint delay \<le> capped DefaultConfig 2) \<and>
   capped DefaultConfig 2 = 400000000"
  by (intro conjI backoff_bounds DefaultConfig_ok example_rand_ok) code_simp

text \<open>
  The bound of \<open>2 ^ 62\<close> nanoseconds is sharp: a configuration that every check accepts, with a
  larger maximal backoff, makes the doubling wrap around, and the second retry panics.
\<close>

lemma backoff_overflow_panics:
  "normalize \<lparr>Attempts = 3, InitialBackoff = 2 ^ 62, MaxBackoff = 2 ^ 62 + 1\<rparr> =
     \<lparr>Attempts = 3, InitialBackoff = 2 ^ 62, MaxBackoff = 2 ^ 62 + 1\<rparr> \<and>
   backoff rand \<lparr>Attempts = 3, InitialBackoff = 2 ^ 62, MaxBackoff = 2 ^ 62 + 1\<rparr> 2 = None"
  by (simp add: normalize_def backoff_def half_def word_sle_eq word_sless_alt numeral_2_eq_2 [symmetric])

end
