(* ===== verification/AppConfig.thy ===== *)
theory AppConfig
  imports Planner Retry
begin

text \<open>
  The configuration, \<open>pkg/config\<close>: its structure, the defaults of \<open>load.go\<close> and the checks
  of \<open>validate.go\<close>.

  Where the configuration comes from (files, environment, \<open>viper\<close>) is not modelled; a default is
  the value a setting has when no source gives one.  \<open>url.ParseRequestURI\<close> is the parameter
  \<open>parse\<close>, which answers scheme and host.  The list of errors that \<open>errors.Join\<close> combines is
  the result of a check; the empty list is \<open>nil\<close>.  Durations are nanoseconds; those of the retries
  keep their 64 bits because the retry loop computes with them.
\<close>

record ServerConfig =
  sc_Host :: string
  sc_Port :: int
  sc_ReadHeaderTimeout :: int
  sc_ReadTimeout :: int
  sc_WriteTimeout :: int
  sc_IdleTimeout :: int

record PelicanSettings =
  pe_URL :: string
  pe_APIKey :: string
  pe_Timeout :: int

record DiscoveryConfig =
  dc_Interval :: int
  dc_WildcardBackendHost :: string

record RouterConfig =
  ro_Backend :: string
  ro_Domain :: string

record InfraredConfig =
  ir_ProxiesPath :: string
  ir_ReloadMarkerPath :: string

record SecretsConfig =
  se_Directory :: string
  se_BootstrapTokenName :: string

record DashboardAuthConfig =
  da_Enabled :: bool
  da_IssuerURL :: string
  da_Audience :: string
  da_RoleClaim :: string
  da_RequiredRole :: string
  da_OperatorRole :: string
  da_DiscoveryTimeout :: int

record LoggingConfig =
  lo_Level :: string
  lo_Format :: string

record AppConfig =
  cfg_Server :: ServerConfig
  cfg_DatabasePath :: string
  cfg_Pelican :: PelicanSettings
  cfg_Discovery :: DiscoveryConfig
  cfg_Router :: RouterConfig
  cfg_MCRouterAPIURL :: string
  cfg_Infrared :: InfraredConfig
  cfg_RetryAttempts :: int
  cfg_RetryInitialBackoff :: Duration
  cfg_RetryMaxBackoff :: Duration
  cfg_Secrets :: SecretsConfig
  cfg_DashboardAuth :: DashboardAuthConfig
  cfg_Logging :: LoggingConfig

definition second :: int where
  "second = 1000000000"

definition setDefaults :: AppConfig where
  "setDefaults =
     \<lparr>cfg_Server = \<lparr>sc_Host = ''0.0.0.0'', sc_Port = 8080, sc_ReadHeaderTimeout = 5 * second, sc_ReadTimeout = 15 * second,
        sc_WriteTimeout = 30 * second, sc_IdleTimeout = 60 * second\<rparr>,
      cfg_DatabasePath = ''./data/pelican-mc-router.db'',
      cfg_Pelican = \<lparr>pe_URL = [], pe_APIKey = [], pe_Timeout = 15 * second\<rparr>,
      cfg_Discovery = \<lparr>dc_Interval = 30 * second, dc_WildcardBackendHost = []\<rparr>,
      cfg_Router = \<lparr>ro_Backend = ''mc-router'', ro_Domain = []\<rparr>,
      cfg_MCRouterAPIURL = ''http://mc-router:8080'',
      cfg_Infrared = \<lparr>ir_ProxiesPath = ''/etc/infrared/proxies'', ir_ReloadMarkerPath = ''/etc/infrared/control/infrared.reload''\<rparr>,
      cfg_RetryAttempts = 3, cfg_RetryInitialBackoff = 200000000, cfg_RetryMaxBackoff = 2000000000,
      cfg_Secrets = \<lparr>se_Directory = ''/run/secrets/pelican-mc-router'', se_BootstrapTokenName = ''bootstrap-token''\<rparr>,
      cfg_DashboardAuth = \<lparr>da_Enabled = False, da_IssuerURL = [], da_Audience = [], da_RoleClaim = ''roles'',
        da_RequiredRole = ''viewer'', da_OperatorRole = ''operator'', da_DiscoveryTimeout = 5 * second\<rparr>,
      cfg_Logging = \<lparr>lo_Level = ''info'', lo_Format = ''json''\<rparr>\<rparr>"

datatype config_error =
    ErrInvalidServerPort | ErrInvalidServerReadHeaderTimeout | ErrInvalidServerReadTimeout
  | ErrInvalidServerWriteTimeout | ErrInvalidServerIdleTimeout
  | ErrInvalidRetryAttempts | ErrInvalidRetryInitialBackoff | ErrInvalidRetryMaxBackoff
  | ErrMissingSecretsDirectory | ErrInvalidSecretsDirectory | ErrMissingBootstrapTokenName
  | ErrMissingDashboardAuthIssuerURL | ErrInvalidDashboardAuthIssuerURL | ErrMissingDashboardAuthAudience
  | ErrMissingDashboardAuthRoleClaim | ErrMissingDashboardAuthRequiredRole | ErrMissingDashboardAuthOperatorRole
  | ErrInvalidDashboardAuthDiscoveryTimeout
  | ErrMissingPelicanURL | ErrInvalidPelicanURL | ErrMissingPelicanAPIKey | ErrInvalidPelicanTimeout
  | ErrInvalidDiscoveryInterval | ErrMissingConfigRouterDomain
  | ErrMissingInfraredProxiesPath | ErrMissingInfraredReloadMarkerPath
  | ErrUnsupportedRouterBackend | ErrMissingMCRouterAPIURL | ErrInvalidMCRouterAPIURL | ErrMissingDatabasePath

type_synonym parse_uri = "string \<Rightarrow> (string \<times> string) option"

text \<open>One \<open>if\<close> of a check that appends its error.\<close>

definition reject :: "bool \<Rightarrow> config_error \<Rightarrow> config_error list" where
  "reject bad e = (if bad then [e] else [])"

definition http_url :: "parse_uri \<Rightarrow> string \<Rightarrow> bool" where
  "http_url parse rawURL \<longleftrightarrow>
     (case parse rawURL of None \<Rightarrow> False | Some (scheme, host) \<Rightarrow> (scheme = ''http'' \<or> scheme = ''https'') \<and> host \<noteq> [])"

definition validateSecrets :: "SecretsConfig \<Rightarrow> config_error list" where
  "validateSecrets cfg =
     (if TrimSpace (se_Directory cfg) = [] then [ErrMissingSecretsDirectory]
      else if \<not> HasPrefix (TrimSpace (se_Directory cfg)) ''/'' then [ErrInvalidSecretsDirectory]
      else reject (TrimSpace (se_BootstrapTokenName cfg) = []) ErrMissingBootstrapTokenName)"

definition validateDashboardAuth :: "parse_uri \<Rightarrow> DashboardAuthConfig \<Rightarrow> config_error list" where
  "validateDashboardAuth parse cfg =
     (if \<not> da_Enabled cfg then []
      else let issuerURL = TrimSpace (da_IssuerURL cfg)
           in (if issuerURL = [] then [ErrMissingDashboardAuthIssuerURL]
               else reject (case parse issuerURL of None \<Rightarrow> True | Some (scheme, host) \<Rightarrow> scheme \<noteq> ''https'' \<or> host = [])
                      ErrInvalidDashboardAuthIssuerURL) @
              reject (TrimSpace (da_Audience cfg) = []) ErrMissingDashboardAuthAudience @
              reject (TrimSpace (da_RoleClaim cfg) = []) ErrMissingDashboardAuthRoleClaim @
              reject (TrimSpace (da_RequiredRole cfg) = []) ErrMissingDashboardAuthRequiredRole @
              reject (TrimSpace (da_OperatorRole cfg) = []) ErrMissingDashboardAuthOperatorRole @
              reject (da_DiscoveryTimeout cfg \<le> 0) ErrInvalidDashboardAuthDiscoveryTimeout)"

definition validateMCRouterAPIURL :: "parse_uri \<Rightarrow> string \<Rightarrow> config_error list" where
  "validateMCRouterAPIURL parse value =
     (let rawURL = TrimSpace value
      in if rawURL = [] then [ErrMissingMCRouterAPIURL] else reject (\<not> http_url parse rawURL) ErrInvalidMCRouterAPIURL)"

definition validateRouterInfrastructure :: "parse_uri \<Rightarrow> AppConfig \<Rightarrow> config_error list" where
  "validateRouterInfrastructure parse cfg =
     (let backend = TrimSpace (ro_Backend (cfg_Router cfg))
      in if backend = ''mc-router'' then validateMCRouterAPIURL parse (cfg_MCRouterAPIURL cfg)
         else if backend = ''infrared'' then
           reject (TrimSpace (ir_ProxiesPath (cfg_Infrared cfg)) = []) ErrMissingInfraredProxiesPath @
           reject (TrimSpace (ir_ReloadMarkerPath (cfg_Infrared cfg)) = []) ErrMissingInfraredReloadMarkerPath
         else [ErrUnsupportedRouterBackend])"

definition ValidateInfrastructure :: "parse_uri \<Rightarrow> AppConfig \<Rightarrow> config_error list" where
  "ValidateInfrastructure parse c =
     reject (sc_Port (cfg_Server c) < 1 \<or> sc_Port (cfg_Server c) > 65535) ErrInvalidServerPort @
     reject (sc_ReadHeaderTimeout (cfg_Server c) \<le> 0) ErrInvalidServerReadHeaderTimeout @
     reject (sc_ReadTimeout (cfg_Server c) \<le> 0) ErrInvalidServerReadTimeout @
     reject (sc_WriteTimeout (cfg_Server c) \<le> 0) ErrInvalidServerWriteTimeout @
     reject (sc_IdleTimeout (cfg_Server c) \<le> 0) ErrInvalidServerIdleTimeout @
     reject (TrimSpace (cfg_DatabasePath c) = []) ErrMissingDatabasePath @
     validateRouterInfrastructure parse c @
     reject (dc_Interval (cfg_Discovery c) \<le> 0) ErrInvalidDiscoveryInterval @
     reject (cfg_RetryAttempts c \<le> 0) ErrInvalidRetryAttempts @
     reject (cfg_RetryInitialBackoff c \<le>s 0) ErrInvalidRetryInitialBackoff @
     reject (cfg_RetryMaxBackoff c <s cfg_RetryInitialBackoff c) ErrInvalidRetryMaxBackoff @
     validateDashboardAuth parse (cfg_DashboardAuth c) @
     validateSecrets (cfg_Secrets c)"

definition validatePelican :: "parse_uri \<Rightarrow> PelicanSettings \<Rightarrow> config_error list" where
  "validatePelican parse cfg =
     (let rawURL = TrimSpace (pe_URL cfg)
      in if rawURL = [] then [ErrMissingPelicanURL] else reject (\<not> http_url parse rawURL) ErrInvalidPelicanURL) @
     reject (TrimSpace (pe_APIKey cfg) = []) ErrMissingPelicanAPIKey @
     reject (pe_Timeout cfg \<le> 0) ErrInvalidPelicanTimeout"

definition configValidate :: "parse_uri \<Rightarrow> AppConfig \<Rightarrow> config_error list" where
  "configValidate parse c =
     ValidateInfrastructure parse c @ validatePelican parse (cfg_Pelican c) @
     reject (TrimSpace (ro_Domain (cfg_Router c)) = []) ErrMissingConfigRouterDomain"

section \<open>What a valid configuration guarantees\<close>

lemma reject_Nil [simp]: "reject bad e = [] \<longleftrightarrow> \<not> bad"
  by (simp add: reject_def)

lemma valid_infrastructure:
  assumes "ValidateInfrastructure parse c = []"
  shows "1 \<le> sc_Port (cfg_Server c) \<and> sc_Port (cfg_Server c) \<le> 65535" "0 < dc_Interval (cfg_Discovery c)"
    "TrimSpace (cfg_DatabasePath c) \<noteq> []" "TrimSpace (se_BootstrapTokenName (cfg_Secrets c)) \<noteq> []"
    "HasPrefix (TrimSpace (se_Directory (cfg_Secrets c))) ''/''"
    "0 < cfg_RetryAttempts c" "\<not> cfg_RetryInitialBackoff c \<le>s 0" "\<not> cfg_RetryMaxBackoff c <s cfg_RetryInitialBackoff c"
    "validateRouterInfrastructure parse c = []"
  using assms by (auto simp: ValidateInfrastructure_def validateSecrets_def split: if_splits)

lemma valid_backend:
  assumes "validateRouterInfrastructure parse c = []"
  shows "(ParseEngine (ro_Backend (cfg_Router c)) = Some EngineMCRouter \<and> TrimSpace (cfg_MCRouterAPIURL c) \<noteq> [] \<and>
      http_url parse (TrimSpace (cfg_MCRouterAPIURL c))) \<or>
    (ParseEngine (ro_Backend (cfg_Router c)) = Some EngineInfrared \<and>
      TrimSpace (ir_ProxiesPath (cfg_Infrared c)) \<noteq> [] \<and> TrimSpace (ir_ReloadMarkerPath (cfg_Infrared c)) \<noteq> [])"
  using assms
  by (auto simp: validateRouterInfrastructure_def validateMCRouterAPIURL_def Let_def ParseEngine_def split: if_splits)

end
