(* ===== verification/McRouter.thy ===== *)
theory McRouter
  imports Planner
begin

text \<open>
  The mc-router backend controller, \<open>internal/router/mcrouter/controller.go\<close>.

  The Go interface \<open>routeClient\<close> is a record of three calls on a world \<open>'w\<close>, the remote
  mc-router and everything between it and the controller; what a cancelled context does to a call in
  flight shows as the call's answer.  The locale \<open>route_api\<close> states what the controller relies
  on: \<open>view\<close> is the routing table of the remote side, a successful call has its documented
  effect, and a call that reports an error may or may not have had it.  The HTTP client of
  \<open>McClient\<close> is shown to provide this interface.

  The mutex makes one reconciliation a single step.  Maps that the code iterates are association
  lists with distinct keys; the code sorts the keys before it acts, so the order in which Go iterates
  the map does not matter.
\<close>

datatype 'e mc_error =
    ReconcileCtx ctx_error
  | ErrEmptyHostname string
  | ErrInvalidHostname string string
  | ErrEmptyBackendHost string
  | ErrInvalidBackendPort string int
  | ErrDuplicateHostname string
  | ListFailed 'e
  | CreateFailed string 'e
  | DeleteFailed string 'e

record ('w, 'e) routeClient =
  rc_list :: "'w \<Rightarrow> ('e + (string \<times> string) list) \<times> 'w"
  rc_create :: "string \<Rightarrow> string \<Rightarrow> 'w \<Rightarrow> 'e option \<times> 'w"
  rc_delete :: "string \<Rightarrow> 'w \<Rightarrow> 'e option \<times> 'w"

record ('w, 'e) Controller =
  ctl_client :: "('w, 'e) routeClient"
  managedDomain :: string

definition WithManagedDomain :: "string \<Rightarrow> ('w, 'e) Controller \<Rightarrow> ('w, 'e) Controller" where
  "WithManagedDomain domain controller =
     controller\<lparr>managedDomain := Trim (CHR ''.'') (ToLower (TrimSpace domain))\<rparr>"

text \<open>\<open>None\<close> stands for the error \<open>ErrRouteClientRequired\<close>; a \<open>nil\<close> option is skipped.\<close>

definition NewController ::
  "('w, 'e) routeClient option \<Rightarrow> (('w, 'e) Controller \<Rightarrow> ('w, 'e) Controller) option list \<Rightarrow>
   ('w, 'e) Controller option" where
  "NewController client options =
     (case client of
        None \<Rightarrow> None
      | Some cl \<Rightarrow>
          Some (foldl (\<lambda>controller opt. case opt of None \<Rightarrow> controller | Some f \<Rightarrow> f controller)
                  \<lparr>ctl_client = cl, managedDomain = []\<rparr> options))"

definition mcValidLabel :: "string \<Rightarrow> bool" where
  "mcValidLabel label \<longleftrightarrow>
     \<not> (length label = 0 \<or> go_len label > 63) \<and>
     \<not> (hd label = CHR ''-'' \<or> last label = CHR ''-'') \<and>
     list_all (\<lambda>c. is_lower_alpha c \<or> is_digit c \<or> c = CHR ''-'') label"

definition mcIsValidHostname :: "string \<Rightarrow> bool" where
  "mcIsValidHostname hostname \<longleftrightarrow>
     \<not> (go_len hostname > 253 \<or> HasSuffix hostname ''.'') \<and>
     list_all mcValidLabel (Split (CHR ''.'') hostname)"

definition owns :: "('w, 'e) Controller \<Rightarrow> string \<Rightarrow> bool" where
  "owns controller hostname =
     (if managedDomain controller = [] then True
      else let hostname = Trim (CHR ''.'') (ToLower (TrimSpace hostname))
           in hostname = managedDomain controller \<or> HasSuffix hostname (''.'' @ managedDomain controller))"

section \<open>Reconciliation\<close>

definition prepareRoute :: "(string \<times> string) list \<Rightarrow> Route \<Rightarrow> 'e mc_error + (string \<times> string) list" where
  "prepareRoute desired route =
     (let hostname = ToLower (TrimSpace (route_Hostname route));
          backendHost = TrimSpace (backend_Host (route_Backend route));
          port = backend_Port (route_Backend route)
      in if hostname = [] then Inl (ErrEmptyHostname (route_ServerID route))
         else if \<not> mcIsValidHostname hostname then Inl (ErrInvalidHostname (route_ServerID route) hostname)
         else if backendHost = [] then Inl (ErrEmptyBackendHost (route_ServerID route))
         else if port < 1 \<or> port > 65535 then Inl (ErrInvalidBackendPort (route_ServerID route) port)
         else if map_of desired hostname \<noteq> None then Inl (ErrDuplicateHostname hostname)
         else Inr (desired @ [(hostname, JoinHostPort backendHost (Itoa port))]))"

fun prepare :: "ctx \<Rightarrow> (string \<times> string) list \<Rightarrow> Route list \<Rightarrow>
    ('e mc_error + (string \<times> string) list) \<times> ctx" where
  "prepare c desired [] = (Inr desired, c)"
| "prepare c desired (route # routes) =
     (case ctx_Err c of
        Some e \<Rightarrow> (Inl (ReconcileCtx e), ctx_step c)
      | None \<Rightarrow>
          (case prepareRoute desired route of
             Inl e \<Rightarrow> (Inl e, ctx_step c)
           | Inr desired' \<Rightarrow> prepare (ctx_step c) desired' routes))"

type_synonym ('w, 'e) phase_result = "'e mc_error option \<times> ReconciliationResult \<times> ctx \<times> 'w"

fun applyDesired ::
  "('w, 'e) routeClient \<Rightarrow> (string \<rightharpoonup> string) \<Rightarrow> (string \<rightharpoonup> string) \<Rightarrow> string list \<Rightarrow>
   ReconciliationResult \<Rightarrow> ctx \<Rightarrow> 'w \<Rightarrow> ('w, 'e) phase_result" where
  "applyDesired client desired current [] result c w = (None, result, c, w)"
| "applyDesired client desired current (hostname # rest) result c w =
     (case ctx_Err c of
        Some e \<Rightarrow> (Some (ReconcileCtx e), result, ctx_step c, w)
      | None \<Rightarrow>
          let backend = the (desired hostname); c' = ctx_step c
          in if current hostname = Some backend
             then applyDesired client desired current rest result c' w
             else case rc_create client hostname backend w of
               (Some e, w') \<Rightarrow> (Some (CreateFailed hostname e), result, c', w')
             | (None, w') \<Rightarrow>
                 applyDesired client desired current rest
                   ((if current hostname \<noteq> None then result\<lparr>Updated := Updated result + 1\<rparr>
                     else result\<lparr>Created := Created result + 1\<rparr>)\<lparr>Changed := True\<rparr>) c' w')"

fun deleteStale ::
  "('w, 'e) routeClient \<Rightarrow> string list \<Rightarrow> ReconciliationResult \<Rightarrow> ctx \<Rightarrow> 'w \<Rightarrow> ('w, 'e) phase_result" where
  "deleteStale client [] result c w = (None, result, c, w)"
| "deleteStale client (hostname # rest) result c w =
     (case ctx_Err c of
        Some e \<Rightarrow> (Some (ReconcileCtx e), result, ctx_step c, w)
      | None \<Rightarrow>
          (case rc_delete client hostname w of
             (Some e, w') \<Rightarrow> (Some (DeleteFailed hostname e), result, ctx_step c, w')
           | (None, w') \<Rightarrow>
               deleteStale client rest (result\<lparr>Deleted := Deleted result + 1, Changed := True\<rparr>)
                 (ctx_step c) w'))"

definition staleHostnames ::
  "('w, 'e) Controller \<Rightarrow> (string \<rightharpoonup> string) \<Rightarrow> (string \<times> string) list \<Rightarrow> string list" where
  "staleHostnames controller desired current =
     sort (filter (\<lambda>h. owns controller h \<and> desired h = None) (map fst current))"

definition ReconcileWithResult ::
  "('w, 'e) Controller \<Rightarrow> ctx \<Rightarrow> Route list \<Rightarrow> 'w \<Rightarrow>
   ('e mc_error option \<times> ReconciliationResult) \<times> ctx \<times> 'w" where
  "ReconcileWithResult controller c routes w =
     (let result = desired_result (length routes)
      in case ctx_Err c of
        Some e \<Rightarrow> ((Some (ReconcileCtx e), result), ctx_step c, w)
      | None \<Rightarrow>
          (case prepare (ctx_step c) [] routes of
             (Inl e, c1) \<Rightarrow> ((Some e, result), c1, w)
           | (Inr desired, c1) \<Rightarrow>
               (case rc_list (ctl_client controller) w of
                  (Inl e, w1) \<Rightarrow> ((Some (ListFailed e), result), c1, w1)
                | (Inr current, w1) \<Rightarrow>
                    (case applyDesired (ctl_client controller) (map_of desired) (map_of current)
                            (sort (map fst desired)) result c1 w1 of
                       (Some e, result', c2, w2) \<Rightarrow> ((Some e, result'), c2, w2)
                     | (None, result', c2, w2) \<Rightarrow>
                         (case deleteStale (ctl_client controller)
                                 (staleHostnames controller (map_of desired) current) result' c2 w2 of
                            (e, result'', c3, w3) \<Rightarrow> ((e, result''), c3, w3))))))"

definition mcReconcile ::
  "('w, 'e) Controller \<Rightarrow> ctx \<Rightarrow> Route list \<Rightarrow> 'w \<Rightarrow> 'e mc_error option \<times> ctx \<times> 'w" where
  "mcReconcile controller c routes w =
     (case ReconcileWithResult controller c routes w of ((e, result), c', w') \<Rightarrow> (e, c', w'))"

section \<open>The desired state\<close>

definition routeKey :: "Route \<Rightarrow> string" where
  "routeKey route = ToLower (TrimSpace (route_Hostname route))"

definition routeTarget :: "Route \<Rightarrow> string" where
  "routeTarget route = JoinHostPort (TrimSpace (backend_Host (route_Backend route)))
     (Itoa (backend_Port (route_Backend route)))"

definition routeValid :: "Route \<Rightarrow> bool" where
  "routeValid route \<longleftrightarrow> routeKey route \<noteq> [] \<and> mcIsValidHostname (routeKey route) \<and>
     TrimSpace (backend_Host (route_Backend route)) \<noteq> [] \<and>
     1 \<le> backend_Port (route_Backend route) \<and> backend_Port (route_Backend route) \<le> 65535"

text \<open>The complete desired state of a request, when all of it is valid.\<close>

definition desired_of :: "Route list \<Rightarrow> (string \<times> string) list" where
  "desired_of routes = map (\<lambda>route. (routeKey route, routeTarget route)) routes"

definition routes_valid :: "Route list \<Rightarrow> bool" where
  "routes_valid routes \<longleftrightarrow> list_all routeValid routes \<and> distinct (map routeKey routes)"

lemma prepareRoute_Inr:
  "prepareRoute desired route = Inr desired' \<longleftrightarrow>
     routeValid route \<and> routeKey route \<notin> set (map fst desired) \<and>
     desired' = desired @ [(routeKey route, routeTarget route)]"
  by (auto simp: prepareRoute_def Let_def routeKey_def routeTarget_def routeValid_def map_of_eq_None_iff)

lemma prepare_Inr:
  "prepare c desired routes = (Inr desired' :: 'e mc_error + _, c') \<Longrightarrow>
     list_all routeValid routes \<and> distinct (map routeKey routes) \<and>
     set (map routeKey routes) \<inter> set (map fst desired) = {} \<and> desired' = desired @ desired_of routes"
proof (induction routes arbitrary: c desired)
  case (Cons route routes)
  then obtain d1 where d1: "prepareRoute desired route = (Inr d1 :: 'e mc_error + _)"
    "prepare (ctx_step c) d1 routes = (Inr desired' :: 'e mc_error + _, c')"
    by (auto split: option.splits sum.splits)
  from Cons.IH [OF d1(2)] d1(1) show ?case by (auto simp: prepareRoute_Inr desired_of_def)
qed (simp add: desired_of_def)

lemma prepare_valid:
  "never_done c \<Longrightarrow> list_all routeValid routes \<Longrightarrow> distinct (map routeKey routes) \<Longrightarrow>
     set (map routeKey routes) \<inter> set (map fst desired) = {} \<Longrightarrow>
   \<exists>c'. prepare c desired routes = (Inr (desired @ desired_of routes) :: 'e mc_error + _, c') \<and> never_done c'"
proof (induction routes arbitrary: c desired)
  case (Cons route routes)
  have "prepareRoute desired route = (Inr (desired @ [(routeKey route, routeTarget route)]) :: 'e mc_error + _)"
    unfolding prepareRoute_Inr using Cons.prems by auto
  with Cons.IH [of "ctx_step c" "desired @ [(routeKey route, routeTarget route)]"] Cons.prems
  show ?case by (auto simp: desired_of_def)
qed (simp add: desired_of_def)

lemma prepare_invalid:
  assumes "\<not> routes_valid routes"
  shows "\<exists>e c'. prepare c [] routes = (Inl e :: 'e mc_error + _, c')"
proof -
  obtain r c' where p: "prepare c [] routes = (r :: 'e mc_error + _, c')" by fastforce
  with assms prepare_Inr [of c "[]" routes] show ?thesis by (cases r) (auto simp: routes_valid_def)
qed

lemma desired_of_keys [simp]: "map fst (desired_of routes) = map routeKey routes"
  by (simp add: desired_of_def)

lemma desired_of_valid:
  "routes_valid routes \<Longrightarrow> h \<in> set (map fst (desired_of routes)) \<Longrightarrow> h \<noteq> [] \<and> mcIsValidHostname h"
  by (auto simp: routes_valid_def list_all_iff routeValid_def desired_of_def)

section \<open>What the controller relies on\<close>

text \<open>The routing table after a successful reconciliation from the table \<open>m\<close>.\<close>

definition converged :: "('w, 'e) Controller \<Rightarrow> Route list \<Rightarrow> (string \<rightharpoonup> string) \<Rightarrow> string \<rightharpoonup> string" where
  "converged controller routes m h =
     (case map_of (desired_of routes) h of
        Some backend \<Rightarrow> Some backend
      | None \<Rightarrow> if owns controller h then None else m h)"

text \<open>
  What the managed boundary asks of the routing table \<open>m'\<close> that follows \<open>m\<close>: inside the
  managed domain it has the desired routes and nothing else, and a hostname outside it that is not
  desired keeps what it had.  (For a desired hostname outside the managed domain see
  \<open>applyDesired\<close>, which does not ask \<open>owns\<close>.)
\<close>

definition managed_converged :: "('w, 'e) Controller \<Rightarrow> Route list \<Rightarrow> (string \<rightharpoonup> string) \<Rightarrow> (string \<rightharpoonup> string) \<Rightarrow> bool" where
  "managed_converged controller routes m m' \<longleftrightarrow>
     (\<forall>h. if owns controller h then m' h = map_of (desired_of routes) h
          else h \<in> routeKey ` set routes \<or> m' h = m h)"

lemma converged_managed: "m' = converged controller routes m \<Longrightarrow> managed_converged controller routes m m'"
  using set_keys_map_of [of _ "desired_of routes"] by (auto simp: managed_converged_def converged_def split: option.split)

text \<open>What the phases count.\<close>

lemma applyDesired_counts:
  assumes "applyDesired client desired current hs res c w = (None, res', c', w')" "\<And>h. h \<in> set hs \<Longrightarrow> desired h \<noteq> None"
  shows "res' = res\<lparr>Created := Created res + length (filter (\<lambda>h. current h = None) hs),
     Updated := Updated res + length (filter (\<lambda>h. current h \<noteq> None \<and> current h \<noteq> desired h) hs),
     Changed := Changed res \<or> list_ex (\<lambda>h. current h \<noteq> desired h) hs\<rparr>"
  using assms
proof (induction hs arbitrary: res c w)
  case (Cons h hs)
  from Cons.prems(2) obtain b where "desired h = Some b" by fastforce
  with Cons.prems show ?case
    by (fastforce simp: Let_def split: option.splits if_splits prod.splits dest!: Cons.IH)
qed simp

lemma deleteStale_counts:
  "deleteStale client hs res c w = (None, res', c', w') \<Longrightarrow>
   res' = res\<lparr>Deleted := Deleted res + length hs, Changed := Changed res \<or> hs \<noteq> []\<rparr>"
  by (induction hs arbitrary: res c w) (fastforce split: option.splits prod.splits)+

text \<open>Phases that find nothing to do.\<close>

lemma applyDesired_unchanged:
  "never_done c \<Longrightarrow> list_all (\<lambda>h. desired h \<noteq> None \<and> current h = desired h) hs \<Longrightarrow>
   \<exists>c'. applyDesired client desired current hs res c w = (None, res, c', w)"
  by (induction hs arbitrary: c) auto

definition diff_result :: "('w, 'e) Controller \<Rightarrow> Route list \<Rightarrow> (string \<rightharpoonup> string) \<Rightarrow> ReconciliationResult" where
  "diff_result controller routes m =
     \<lparr>Desired = length routes,
      Created = length (filter (\<lambda>route. m (routeKey route) = None) routes),
      Updated = length (filter (\<lambda>route. m (routeKey route) \<noteq> None \<and>
        m (routeKey route) \<noteq> Some (routeTarget route)) routes),
      Deleted = card {h. owns controller h \<and> h \<notin> routeKey ` set routes \<and> m h \<noteq> None},
      Changed = (m \<noteq> converged controller routes m)\<rparr>"

locale route_api =
  fixes client :: "('w, 'e) routeClient"
    and view :: "'w \<Rightarrow> string \<rightharpoonup> string"
    and addressable :: "string \<Rightarrow> bool"
  assumes list_view: "rc_list client w = (r, w') \<Longrightarrow> view w' = view w"
    and list_ok: "rc_list client w = (Inr rs, w') \<Longrightarrow> distinct (map fst rs) \<and> map_of rs = view w"
    and create_ok: "addressable h \<Longrightarrow> rc_create client h b w = (None, w') \<Longrightarrow> view w' = (view w)(h \<mapsto> b)"
    and create_error: "addressable h \<Longrightarrow> rc_create client h b w = (Some e, w') \<Longrightarrow>
      view w' = view w \<or> view w' = (view w)(h \<mapsto> b)"
    and delete_ok: "addressable h \<Longrightarrow> rc_delete client h w = (None, w') \<Longrightarrow> view w' = (view w)(h := None)"
    and delete_error: "addressable h \<Longrightarrow> rc_delete client h w = (Some e, w') \<Longrightarrow>
      view w' = view w \<or> view w' = (view w)(h := None)"
    and valid_addressable: "h \<noteq> [] \<Longrightarrow> mcIsValidHostname h \<Longrightarrow> addressable h"
begin

lemma create_effect:
  assumes "addressable h" "rc_create client h b w = (r, w')"
  shows "view w' = (view w)(h \<mapsto> b) \<or> (r \<noteq> None \<and> view w' = view w)"
  using assms create_ok create_error by (cases r) blast+

lemma delete_effect:
  assumes "addressable h" "rc_delete client h w = (r, w')"
  shows "view w' = (view w)(h := None) \<or> (r \<noteq> None \<and> view w' = view w)"
  using assms delete_ok delete_error by (cases r) blast+

text \<open>Whatever fails, a phase moves some of its hostnames to their target and touches no other.\<close>

lemma applyDesired_effect:
  assumes "list_all addressable hs" "distinct hs" "\<And>h. h \<in> set hs \<Longrightarrow> view w h = current h"
    and "\<And>h. h \<in> set hs \<Longrightarrow> desired h \<noteq> None"
    and "applyDesired client desired current hs res c w = (e, res', c', w')"
  shows "(\<forall>h. view w' h = view w h \<or> h \<in> set hs \<and> view w' h = desired h) \<and>
     (e = None \<longrightarrow> (\<forall>h\<in>set hs. view w' h = desired h))"
  using assms
proof (induction hs arbitrary: res c w)
  case (Cons h hs)
  from Cons.prems(4) obtain b where b: "desired h = Some b" by fastforce
  consider (ctx) "w' = w" "e \<noteq> None"
    | (same) "current h = Some b" "applyDesired client desired current hs res (ctx_step c) w = (e, res', c', w')"
    | (fails) e' where "rc_create client h b w = (Some e', w')" "e \<noteq> None"
    | (goes) res1 w1 where "rc_create client h b w = (None, w1)"
        "applyDesired client desired current hs res1 (ctx_step c) w1 = (e, res', c', w')"
    using Cons.prems(5) b by (auto simp: Let_def split: option.splits if_splits prod.splits)
  then show ?case
  proof cases
    case ctx
    then show ?thesis by auto
  next
    case same
    have "view w h = current h" using Cons.prems(3) by simp
    with same Cons.IH [OF _ _ _ _ same(2)] Cons.prems b show ?thesis by (simp; metis)
  next
    case fails
    then show ?thesis using create_effect [OF _ fails(1)] Cons.prems(1) b by (auto split: if_splits)
  next
    case goes
    have v: "view w1 = (view w)(h \<mapsto> b)" using create_ok [OF _ goes(1)] Cons.prems(1) by simp
    have "(\<forall>k. view w' k = view w1 k \<or> k \<in> set hs \<and> view w' k = desired k) \<and>
        (e = None \<longrightarrow> (\<forall>k\<in>set hs. view w' k = desired k))"
      using Cons.prems v by (intro Cons.IH [OF _ _ _ _ goes(2)]) auto
    with v b Cons.prems(2) show ?thesis by (simp; metis)
  qed
qed auto

lemma deleteStale_effect:
  assumes "list_all addressable hs" "deleteStale client hs res c w = (e, res', c', w')"
  shows "(\<forall>h. view w' h = view w h \<or> h \<in> set hs \<and> view w' h = None) \<and>
     (e = None \<longrightarrow> (\<forall>h\<in>set hs. view w' h = None))"
  using assms
proof (induction hs arbitrary: res c w)
  case (Cons h hs)
  consider (ctx) "w' = w" "e \<noteq> None"
    | (fails) e' where "rc_delete client h w = (Some e', w')" "e \<noteq> None"
    | (goes) res1 w1 where "rc_delete client h w = (None, w1)"
        "deleteStale client hs res1 (ctx_step c) w1 = (e, res', c', w')"
    using Cons.prems(2) by (auto split: option.splits prod.splits)
  then show ?case
  proof cases
    case fails
    then show ?thesis using delete_effect [OF _ fails(1)] Cons.prems(1) by (auto split: if_splits)
  next
    case goes
    have "view w1 = (view w)(h := None)" using delete_ok [OF _ goes(1)] Cons.prems(1) by simp
    with Cons.IH [OF _ goes(2)] Cons.prems(1) show ?thesis by (simp; metis)
  qed auto
qed simp

definition table_addressable :: "'w \<Rightarrow> bool" where
  "table_addressable w \<longleftrightarrow> dom (view w) \<subseteq> Collect addressable"

lemma addressable_keys: "routes_valid routes \<Longrightarrow> list_all addressable (sort (map routeKey routes))"
  using valid_addressable by (auto simp: routes_valid_def list_all_iff routeValid_def)

lemma reconcile_effect:
  assumes client: "ctl_client controller = client" and adr: "table_addressable w"
    and r: "ReconcileWithResult controller c routes w = ((e, res), c', w')"
  shows "(\<forall>h. view w' h = view w h \<or> view w' h = converged controller routes (view w) h) \<and>
     (e = None \<longrightarrow> routes_valid routes \<and> view w' = converged controller routes (view w))"
proof -
  let ?d = "map_of (desired_of routes)"
  consider (early) "w' = w" "e \<noteq> None"
    | (list) e1 where "rc_list client w = (Inl e1, w')" "e \<noteq> None"
    | (run) current w1 c1 e2 res2 c2 w2 where "routes_valid routes" "rc_list client w = (Inr current, w1)"
        "applyDesired client ?d (map_of current) (sort (map routeKey routes)) (desired_result (length routes)) c1 w1 =
           (e2, res2, c2, w2)"
        "(e2 \<noteq> None \<and> e \<noteq> None \<and> w' = w2) \<or> (\<exists>res3 c3. e2 = None \<and>
           deleteStale client (staleHostnames controller ?d current) res2 c2 w2 = (e, res3, c3, w'))"
    using r client
    by (auto simp: ReconcileWithResult_def Let_def routes_valid_def dest!: prepare_Inr split: option.splits sum.splits prod.splits)
  then show ?thesis
  proof cases
    case list
    then show ?thesis using list_view by auto
  next
    case run
    have cur: "map_of current = view w" "view w1 = view w"
      using list_ok [OF run(2)] list_view [OF run(2)] by auto
    have keys: "h \<in> set (sort (map routeKey routes)) \<longleftrightarrow> ?d h \<noteq> None" for h
      by (metis desired_of_keys set_keys_map_of set_sort)
    have "list_all addressable (sort (map routeKey routes))" using run(1) by (rule addressable_keys)
    moreover have "distinct (sort (map routeKey routes))" using run(1) by (simp add: routes_valid_def)
    ultimately have "(\<forall>h. view w2 h = view w1 h \<or> h \<in> set (sort (map routeKey routes)) \<and> view w2 h = ?d h) \<and>
        (e2 = None \<longrightarrow> (\<forall>h\<in>set (sort (map routeKey routes)). view w2 h = ?d h))"
      using keys cur by (intro applyDesired_effect [OF _ _ _ _ run(3)]) (auto simp del: set_sort)
    then have a: "\<And>h. view w2 h = view w h \<or> ?d h \<noteq> None \<and> view w2 h = ?d h"
      "\<And>h. e2 = None \<Longrightarrow> ?d h \<noteq> None \<Longrightarrow> view w2 h = ?d h"
      using keys cur(2) by metis+
    have stale: "h \<in> set (staleHostnames controller ?d current) \<longleftrightarrow>
        owns controller h \<and> ?d h = None \<and> view w h \<noteq> None" for h
      unfolding staleHostnames_def cur(1) [symmetric] set_keys_map_of [symmetric] set_sort set_filter by blast
    then have adr': "list_all addressable (staleHostnames controller ?d current)"
      using adr by (auto simp: list_all_iff table_addressable_def)
    show ?thesis
    proof (cases "e2 = None")
      case False
      have "view w2 h = view w h \<or> view w2 h = converged controller routes (view w) h" for h
        using a(1) [of h] by (auto simp: converged_def split: option.split)
      with run(4) False show ?thesis by auto
    next
      case True
      with run(4) obtain res3 c3 where
        d: "deleteStale client (staleHostnames controller ?d current) res2 c2 w2 = (e, res3, c3, w')" by auto
      have b: "\<And>h. view w' h = view w2 h \<or> (owns controller h \<and> ?d h = None) \<and> view w' h = None"
        "\<And>h. e = None \<Longrightarrow> owns controller h \<Longrightarrow> ?d h = None \<Longrightarrow> view w h \<noteq> None \<Longrightarrow> view w' h = None"
        using deleteStale_effect [OF adr' d] stale by auto
      have "view w' h = converged controller routes (view w) h" if "e = None" for h
        using a(1) [of h] a(2) [OF True, of h] b(1) [of h] b(2) [OF that, of h]
        by (cases "view w h") (auto simp: converged_def split: option.split)
      moreover have "view w' h = view w h \<or> view w' h = converged controller routes (view w) h" for h
        using a(1) [of h] a(2) [OF True, of h] b(1) [of h]
        by (auto simp: converged_def split: option.split)
      ultimately show ?thesis using run(1) by auto
    qed
  qed auto
qed

lemma reconcile_counts:
  assumes client: "ctl_client controller = client"
    and r: "ReconcileWithResult controller c routes w = ((None, res), c', w')"
  shows "res = diff_result controller routes (view w)"
proof -
  let ?d = "map_of (desired_of routes)" and ?ks = "sort (map routeKey routes)"
  obtain current w1 c1 res2 c2 w2 res3 c3 where v: "routes_valid routes"
    and l: "rc_list client w = (Inr current, w1)"
    and a: "applyDesired client ?d (map_of current) ?ks (desired_result (length routes)) c1 w1 = (None, res2, c2, w2)"
    and d: "deleteStale client (staleHostnames controller ?d current) res2 c2 w2 = (None, res, c3, w')"
    using r client
    by (auto simp: ReconcileWithResult_def Let_def routes_valid_def dest!: prepare_Inr split: option.splits sum.splits prod.splits)
  have cur: "map_of current = view w" "distinct (map fst current)" using list_ok [OF l] by auto
  have key: "?d (routeKey route) = Some (routeTarget route)" if "route \<in> set routes" for route
    using that v by (intro map_of_is_SomeI) (auto simp: desired_of_def comp_def routes_valid_def)
  have dom: "?d h = None \<longleftrightarrow> h \<notin> routeKey ` set routes" for h
    by (metis desired_of_keys set_keys_map_of set_map)
  have len: "length (filter P ?ks) = length (filter (\<lambda>route. P (routeKey route)) routes)" for P
    by (simp add: filter_sort filter_map comp_def)
  have upd: "filter (\<lambda>route. view w (routeKey route) \<noteq> None \<and> view w (routeKey route) \<noteq> ?d (routeKey route)) routes =
      filter (\<lambda>route. view w (routeKey route) \<noteq> None \<and> view w (routeKey route) \<noteq> Some (routeTarget route)) routes"
    by (rule filter_cong) (auto simp: key)
  have stale: "set (staleHostnames controller ?d current) =
      {h. owns controller h \<and> h \<notin> routeKey ` set routes \<and> view w h \<noteq> None}"
    unfolding staleHostnames_def cur(1) [symmetric] set_keys_map_of [symmetric] set_sort set_filter dom by blast
  have "distinct (staleHostnames controller ?d current)" using cur(2) by (simp add: staleHostnames_def)
  then have del: "length (staleHostnames controller ?d current) =
      card {h. owns controller h \<and> h \<notin> routeKey ` set routes \<and> view w h \<noteq> None}"
    using stale distinct_card by metis
  have "res2 = (desired_result (length routes))\<lparr>Created := length (filter (\<lambda>h. view w h = None) ?ks),
     Updated := length (filter (\<lambda>h. view w h \<noteq> None \<and> view w h \<noteq> ?d h) ?ks),
     Changed := list_ex (\<lambda>h. view w h \<noteq> ?d h) ?ks\<rparr>"
    using applyDesired_counts [OF a] dom cur(1) by (auto simp: desired_result_def zero_result_def)
  with deleteStale_counts [OF d] have "res = \<lparr>Desired = length routes,
      Created = length (filter (\<lambda>h. view w h = None) ?ks),
      Updated = length (filter (\<lambda>h. view w h \<noteq> None \<and> view w h \<noteq> ?d h) ?ks),
      Deleted = length (staleHostnames controller ?d current),
      Changed = (list_ex (\<lambda>h. view w h \<noteq> ?d h) ?ks \<or> staleHostnames controller ?d current \<noteq> [])\<rparr>"
    by (simp add: desired_result_def zero_result_def)
  moreover have pw: "view w h \<noteq> converged controller routes (view w) h \<longleftrightarrow>
      (h \<in> routeKey ` set routes \<and> view w h \<noteq> ?d h) \<or>
      (owns controller h \<and> h \<notin> routeKey ` set routes \<and> view w h \<noteq> None)" for h
    using dom [of h] by (auto simp: converged_def split: option.split)
  have "list_ex (\<lambda>h. view w h \<noteq> ?d h) ?ks \<or> staleHostnames controller ?d current \<noteq> [] \<longleftrightarrow>
      view w \<noteq> converged controller routes (view w)"
    unfolding set_empty [symmetric] stale list_ex_iff set_sort set_map fun_eq_iff not_all pw by blast
  ultimately show ?thesis unfolding diff_result_def len upd del by simp
qed

lemma reconcile_settled:
  assumes client: "ctl_client controller = client" and "never_done c" "routes_valid routes"
    and settled: "view w = converged controller routes m"
    and l: "rc_list client w = (Inr current, w1)"
  shows "\<exists>c'. ReconcileWithResult controller c routes w = ((None, desired_result (length routes)), c', w1)"
proof -
  let ?d = "map_of (desired_of routes)" and ?ks = "sort (map routeKey routes)"
  have cur: "map_of current = view w" using list_ok [OF l] by auto
  obtain c1 where p: "prepare (ctx_step c) [] routes = (Inr (desired_of routes) :: 'e mc_error + _, c1)" "never_done c1"
    using prepare_valid [of "ctx_step c" routes "[]"] assms by (auto simp: routes_valid_def)
  have keys: "h \<in> set ?ks \<longleftrightarrow> ?d h \<noteq> None" for h
    by (metis desired_of_keys set_keys_map_of set_sort)
  have "list_all (\<lambda>h. ?d h \<noteq> None \<and> map_of current h = ?d h) ?ks"
    unfolding list_all_iff keys Ball_def using settled cur by (auto simp: converged_def)
  from applyDesired_unchanged [OF p(2) this, of client "desired_result (length routes)" w1]
  obtain c2 where a: "applyDesired client ?d (map_of current) ?ks (desired_result (length routes)) c1 w1 =
      (None, desired_result (length routes), c2, w1)" by blast
  have "set (staleHostnames controller ?d current) = {}"
    unfolding staleHostnames_def set_sort set_filter set_keys_map_of cur settled by (auto simp: converged_def)
  with p a l assms(1,2) show ?thesis by (simp add: ReconcileWithResult_def Let_def)
qed

end

text \<open>A remote side that answers every call.\<close>

locale reliable_route_api = route_api client view addressable
  for client :: "('w, 'e) routeClient" and view and addressable +
  assumes list_reliable: "fst (rc_list client w) \<noteq> Inl e"
    and create_reliable: "addressable h \<Longrightarrow> fst (rc_create client h b w) = None"
    and delete_reliable: "addressable h \<Longrightarrow> fst (rc_delete client h w) = None"
begin

lemma applyDesired_succeeds:
  "never_done c \<Longrightarrow> list_all addressable hs \<Longrightarrow>
   \<exists>res' c' w'. applyDesired client desired current hs res c w = (None, res', c', w') \<and> never_done c'"
proof (induction hs arbitrary: res c w)
  case (Cons h hs)
  obtain w1 where "rc_create client h (the (desired h)) w = (None, w1)"
    using create_reliable [of h "the (desired h)" w] Cons.prems
    by (cases "rc_create client h (the (desired h)) w") simp
  with Cons show ?case by (simp add: Let_def)
qed simp

lemma deleteStale_succeeds:
  "never_done c \<Longrightarrow> list_all addressable hs \<Longrightarrow> \<exists>res' c' w'. deleteStale client hs res c w = (None, res', c', w')"
proof (induction hs arbitrary: res c w)
  case (Cons h hs)
  obtain w1 where "rc_delete client h w = (None, w1)"
    using delete_reliable [of h w] Cons.prems by (cases "rc_delete client h w") simp
  with Cons show ?case by simp
qed simp

lemma reconcile_succeeds:
  assumes client: "ctl_client controller = client" and "never_done c" "routes_valid routes" "table_addressable w"
  shows "\<exists>res c' w'. ReconcileWithResult controller c routes w = ((None, res), c', w')"
proof -
  obtain c1 where p: "prepare (ctx_step c) [] routes = (Inr (desired_of routes) :: 'e mc_error + _, c1)" "never_done c1"
    using prepare_valid [of "ctx_step c" routes "[]"] assms by (auto simp: routes_valid_def)
  obtain current w1 where l: "rc_list client w = (Inr current, w1)"
    using list_reliable [of w] by (metis prod.collapse sum.exhaust)
  obtain res2 c2 w2 where a: "applyDesired client (map_of (desired_of routes)) (map_of current)
      (sort (map routeKey routes)) (desired_result (length routes)) c1 w1 = (None, res2, c2, w2)" "never_done c2"
    using applyDesired_succeeds [OF p(2) addressable_keys [OF assms(3)]] by blast
  have "set (map fst current) = dom (view w)" using list_ok [OF l] by (metis dom_map_of_conv_image_fst set_map)
  then have "list_all addressable (staleHostnames controller (map_of (desired_of routes)) current)"
    using assms(4) by (auto simp: staleHostnames_def list_all_iff table_addressable_def)
  then obtain res3 c3 w3 where "deleteStale client (staleHostnames controller (map_of (desired_of routes)) current) res2 c2 w2 =
      (None, res3, c3, w3)" using deleteStale_succeeds [OF a(2)] by blast
  with p a l assms(1,2) show ?thesis by (simp add: ReconcileWithResult_def Let_def)
qed

end

end
