(* ===== verification/GoPath.thy ===== *)
theory GoPath
  imports GoStrings
begin

text \<open>
  Go's lexical path functions on slash-separated paths: \<open>path.Join\<close> and \<open>path.Clean\<close>, and
  \<open>filepath.Clean\<close> and \<open>filepath.Ext\<close>, which agree with them on Unix.
\<close>

fun join_slash :: "string list \<Rightarrow> string" where
  "join_slash [] = []"
| "join_slash [x] = x"
| "join_slash (x # y # zs) = x @ ''/'' @ join_slash (y # zs)"

definition clean_step :: "bool \<Rightarrow> string list \<Rightarrow> string \<Rightarrow> string list" where
  "clean_step rooted out segment =
     (if segment = [] \<or> segment = ''.'' then out
      else if segment = ''..'' then
        (if out \<noteq> [] \<and> last out \<noteq> ''..'' then butlast out
         else if rooted then out else out @ [segment])
      else out @ [segment])"

definition path_Clean :: "string \<Rightarrow> string" where
  "path_Clean p =
     (if p = [] then ''.''
      else let rooted = (hd p = CHR ''/'');
               segments = foldl (clean_step rooted) [] (Split (CHR ''/'') p)
           in if rooted then CHR ''/'' # join_slash segments
              else if segments = [] then ''.'' else join_slash segments)"

definition path_Join :: "string list \<Rightarrow> string" where
  "path_Join elements =
     (let elements = filter (\<lambda>e. e \<noteq> []) elements
      in if elements = [] then [] else path_Clean (join_slash elements))"

text \<open>\<open>filepath.Ext\<close> of a name without slashes.\<close>

definition filepath_Ext :: "string \<Rightarrow> string" where
  "filepath_Ext name = (if CHR ''.'' \<in> set name then CHR ''.'' # last (Split (CHR ''.'') name) else [])"

definition path_segment :: "string \<Rightarrow> bool" where
  "path_segment h \<longleftrightarrow> h \<noteq> [] \<and> CHR ''/'' \<notin> set h \<and> h \<noteq> ''.'' \<and> h \<noteq> ''..''"

lemma join_slash_snoc: "xs \<noteq> [] \<Longrightarrow> join_slash (xs @ [x]) = join_slash xs @ CHR ''/'' # x"
  by (induction xs rule: join_slash.induct) auto

lemma join_slash_eq_Nil: "join_slash xs = [] \<Longrightarrow> list_all (\<lambda>x. x \<noteq> []) xs \<Longrightarrow> xs = []"
  by (cases xs rule: join_slash.cases) auto

lemma path_Clean_snoc:
  assumes "p \<noteq> []" "path_segment h" "foldl (clean_step (hd p = CHR ''/'')) [] (Split (CHR ''/'') p) \<noteq> []"
  shows "path_Clean (p @ CHR ''/'' # h) = path_Clean p @ CHR ''/'' # h"
proof -
  have "Split (CHR ''/'') (p @ CHR ''/'' # h) = Split (CHR ''/'') p @ [h]"
    using assms(2) by (simp add: Split_append Split_single path_segment_def)
  moreover have "clean_step r out h = out @ [h]" for r out
    using assms(2) by (simp add: clean_step_def path_segment_def)
  ultimately show ?thesis using assms(1,3)
    by (cases "hd p = CHR ''/''") (auto simp: path_Clean_def Let_def join_slash_snoc)
qed

lemma foldl_clean_nonempty:
  "list_all (\<lambda>x. x \<noteq> []) out \<Longrightarrow> list_all (\<lambda>x. x \<noteq> []) (foldl (clean_step r) out ss)"
proof (induction ss arbitrary: out)
  case (Cons s ss)
  have "list_all (\<lambda>x. x \<noteq> []) (clean_step r out s)"
    using Cons.prems by (auto simp: clean_step_def list_all_iff dest: in_set_butlastD)
  with Cons.IH show ?case by simp
qed simp

lemma path_Clean_not_Nil: "path_Clean p \<noteq> []"
  using join_slash_eq_Nil [OF _ foldl_clean_nonempty [of "[]"]] by (auto simp: path_Clean_def Let_def)

lemma foldl_clean_snoc:
  "path_segment s \<Longrightarrow> foldl (clean_step r) out (ss @ [s]) \<noteq> []"
  by (simp add: clean_step_def path_segment_def)

lemma filepath_Ext_append: "CHR ''.'' \<notin> set e \<Longrightarrow> filepath_Ext (s @ CHR ''.'' # e) = CHR ''.'' # e"
  by (simp add: filepath_Ext_def Split_append Split_single)

end
