(* ===== verification/McClient.thy ===== *)
theory McClient
  imports McRouter Retry GoPath
begin

text \<open>
  The HTTP client of the mc-router API, \<open>internal/router/mcrouter/client.go\<close>.

  A request is its method, the decoded path of its URL and, for a POST, the value that is sent as
  JSON.  \<open>http.Client.Do\<close> is the parameter \<open>http\<close>, a function of the request and the
  world; the body of an answer is what decoding its first \<open>maxResponseSize\<close> bytes into a
  \<open>map[string]routeResponse\<close> yields, \<open>None\<close> where decoding fails.  \<open>url.Parse\<close> is a
  parameter too; \<open>path.Join\<close> and \<open>path.Clean\<close> are modelled.

  The locale \<open>mc_router_http\<close> is what the mc-router REST API documents; the client turns it
  into the interface \<open>route_api\<close> the controller relies on.  It is interpreted on the fake
  mc-router of \<open>control_plane_integration_test.go\<close>.
\<close>

section \<open>URLs\<close>

text \<open>\<open>URL.String\<close> puts a slash between the host and a relative path.\<close>

definition url_path :: "string \<Rightarrow> string" where
  "url_path p = (if p \<noteq> [] \<and> hd p \<noteq> CHR ''/'' then CHR ''/'' # p else p)"

section \<open>The client\<close>

record url =
  url_Scheme :: string
  url_Host :: string
  url_Path :: string

record ClientConfig =
  cfg_BaseURL :: string
  cfg_Retry :: Config

record Client =
  client_baseURL :: url
  client_retry :: Config

datatype new_client_error = BaseURLRequired | BaseURLParse | BaseURLScheme | BaseURLHost

definition NewClient :: "(string \<Rightarrow> url option) \<Rightarrow> ClientConfig \<Rightarrow> new_client_error + Client" where
  "NewClient url_Parse cfg =
     (let rawBaseURL = TrimSpace (cfg_BaseURL cfg)
      in if rawBaseURL = [] then Inl BaseURLRequired
         else case url_Parse rawBaseURL of
           None \<Rightarrow> Inl BaseURLParse
         | Some baseURL \<Rightarrow>
             if url_Scheme baseURL \<noteq> ''http'' \<and> url_Scheme baseURL \<noteq> ''https'' then Inl BaseURLScheme
             else if url_Host baseURL = [] then Inl BaseURLHost
             else Inr \<lparr>client_baseURL = baseURL, client_retry = cfg_Retry cfg\<rparr>)"

record routeResponse =
  resp_Backend :: string
  resp_ScalingTarget :: string

record createRouteRequest =
  create_ServerAddress :: string
  create_Backend :: string

record http_request =
  req_Method :: string
  req_Path :: string
  req_Body :: "createRouteRequest option"

type_synonym routes_body = "(string \<times> routeResponse) list option"

type_synonym ('w, 'e) transport =
  "http_request \<Rightarrow> 'w \<Rightarrow> (routes_body http_response option \<times> 'e option) \<times> 'w"

datatype 'e client_error =
    RequestFailed "'e do_error"
  | UnexpectedStatus int
  | DecodeFailed
  | Panicked

definition success_status :: "int \<Rightarrow> bool" where
  "success_status status \<longleftrightarrow> \<not> (status < 200 \<or> status \<ge> 300)"

definition ListRoutes ::
  "ctx \<Rightarrow> (int \<Rightarrow> Duration \<Rightarrow> Duration) \<Rightarrow> ('w, 'e) transport \<Rightarrow> Client \<Rightarrow> 'w \<Rightarrow>
   ('e client_error + (string \<times> string) list) \<times> 'w" where
  "ListRoutes c rand http client w =
     (let request = \<lparr>req_Method = ''GET'',
            req_Path = url_path (path_Join [url_Path (client_baseURL client), ''routes'']), req_Body = None\<rparr>
      in case Do c (client_retry client) rand (http request) w of
        (DoPanic, c', w') \<Rightarrow> (Inl Panicked, w')
      | (DoReturn _ (Some e), c', w') \<Rightarrow> (Inl (RequestFailed e), w')
      | (DoReturn None None, c', w') \<Rightarrow> (Inl Panicked, w')
      | (DoReturn (Some response) None, c', w') \<Rightarrow>
          if \<not> success_status (StatusCode response) then (Inl (UnexpectedStatus (StatusCode response)), w')
          else case Body response of
            None \<Rightarrow> (Inl DecodeFailed, w')
          | Some responseRoutes \<Rightarrow>
              (Inr (map (\<lambda>(hostname, route). (hostname, resp_Backend route)) responseRoutes), w'))"

text \<open>The common tail of \<open>CreateRoute\<close> and \<open>DeleteRoute\<close>: one call, no retry.\<close>

definition send ::
  "('w, 'e) transport \<Rightarrow> http_request \<Rightarrow> 'w \<Rightarrow> 'e client_error option \<times> 'w" where
  "send http request w =
     (case http request w of
        ((_, Some e), w') \<Rightarrow> (Some (RequestFailed (DoErr e)), w')
      | ((None, None), w') \<Rightarrow> (Some Panicked, w')
      | ((Some response, None), w') \<Rightarrow>
          if \<not> success_status (StatusCode response) then (Some (UnexpectedStatus (StatusCode response)), w')
          else (None, w'))"

definition CreateRoute ::
  "('w, 'e) transport \<Rightarrow> Client \<Rightarrow> string \<Rightarrow> string \<Rightarrow> 'w \<Rightarrow> 'e client_error option \<times> 'w" where
  "CreateRoute http client hostname backend w =
     send http \<lparr>req_Method = ''POST'',
       req_Path = url_path (path_Join [url_Path (client_baseURL client), ''routes'']),
       req_Body = Some \<lparr>create_ServerAddress = hostname, create_Backend = backend\<rparr>\<rparr> w"

definition DeleteRoute ::
  "('w, 'e) transport \<Rightarrow> Client \<Rightarrow> string \<Rightarrow> 'w \<Rightarrow> 'e client_error option \<times> 'w" where
  "DeleteRoute http client hostname w =
     send http \<lparr>req_Method = ''DELETE'',
       req_Path = url_path (path_Join [url_Path (client_baseURL client), ''routes'', hostname]),
       req_Body = None\<rparr> w"

definition as_routeClient ::
  "ctx \<Rightarrow> (int \<Rightarrow> Duration \<Rightarrow> Duration) \<Rightarrow> ('w, 'e) transport \<Rightarrow> Client \<Rightarrow> ('w, 'e client_error) routeClient" where
  "as_routeClient c rand http client =
     \<lparr>rc_list = ListRoutes c rand http client, rc_create = CreateRoute http client,
      rc_delete = DeleteRoute http client\<rparr>"

section \<open>Paths of routes\<close>

lemma path_segment_routes: "path_segment ''routes''"
  by (simp add: path_segment_def)

text \<open>The path of one route is the path of the collection and one segment.\<close>

lemma route_path:
  assumes "path_segment h"
  shows "url_path (path_Join [base, ''routes'', h]) = url_path (path_Join [base, ''routes'']) @ CHR ''/'' # h"
proof -
  have h: "h \<noteq> []" using assms by (simp add: path_segment_def)
  let ?p = "join_slash (filter (\<lambda>e. e \<noteq> []) [base, ''routes''])"
  have p: "?p = (if base = [] then ''routes'' else base @ ''/routes'')" by simp
  have j: "join_slash (filter (\<lambda>e. e \<noteq> []) [base, ''routes'', h]) = ?p @ CHR ''/'' # h"
    using h by simp
  have "Split (CHR ''/'') ?p = (if base = [] then [] else Split (CHR ''/'') base) @ [''routes'']"
    unfolding p using Split_append [of "CHR ''/''" base "''routes''"] by simp
  then have "foldl (clean_step (hd ?p = CHR ''/'')) [] (Split (CHR ''/'') ?p) \<noteq> []"
    by (simp only: foldl_clean_snoc [OF path_segment_routes] not_False_eq_True)
  then have c: "path_Clean (?p @ CHR ''/'' # h) = path_Clean ?p @ CHR ''/'' # h"
    using assms by (intro path_Clean_snoc) simp_all
  have ne: "path_Join [base, ''routes''] = path_Clean ?p" "path_Join [base, ''routes'', h] = path_Clean (?p @ CHR ''/'' # h)"
    unfolding path_Join_def j Let_def by simp_all
  show ?thesis unfolding ne c using path_Clean_not_Nil [of ?p] by (simp add: url_path_def)
qed

section \<open>The mc-router API\<close>

definition routesPath :: "Client \<Rightarrow> string" where
  "routesPath client = url_path (path_Join [url_Path (client_baseURL client), ''routes''])"

definition acknowledged :: "'b http_response option \<times> 'e option \<Rightarrow> bool" where
  "acknowledged a = (case a of (Some response, None) \<Rightarrow> success_status (StatusCode response) | _ \<Rightarrow> False)"

lemma send_None_iff: "send http request w = (None, w') \<longleftrightarrow> acknowledged (fst (http request w)) \<and> snd (http request w) = w'"
  by (auto simp: send_def acknowledged_def split: prod.splits option.splits if_splits)

lemma send_world: "send http request w = (r, w') \<Longrightarrow> snd (http request w) = w'"
  by (auto simp: send_def split: prod.splits option.splits if_splits)

lemma mcValidLabel_eq: "mcValidLabel = valid_label"
proof
  have "label_char = (\<lambda>c. is_lower_alpha c \<or> is_digit c \<or> c = CHR ''-'')"
    by (simp add: label_char_def fun_eq_iff)
  then show "mcValidLabel label = valid_label label" for label
    by (simp only: mcValidLabel_def valid_label_def length_0_conv not_less de_Morgan_disj) blast
qed

lemma mcIsValidHostname_eq:
  "mcIsValidHostname h \<longleftrightarrow> go_len h \<le> 253 \<and> \<not> HasSuffix h ''.'' \<and> list_all valid_label (Split (CHR ''.'') h)"
  unfolding mcIsValidHostname_def mcValidLabel_eq by auto

lemma valid_hostname_segment:
  assumes "h \<noteq> []" "mcIsValidHostname h"
  shows "path_segment h"
proof -
  have v: "list_all valid_label (Split (CHR ''.'') h)"
    using assms(2) by (simp add: mcIsValidHostname_eq)
  have "\<not> label_char (CHR ''/'')" by code_simp
  then have "CHR ''/'' \<notin> set h" using valid_hostname_chars [OF v, of "CHR ''/''"] by auto
  moreover have "hd h \<noteq> CHR ''.''" using valid_hostname_ends [OF v assms(1)] by simp
  ultimately show ?thesis using assms(1) by (auto simp: path_segment_def)
qed

locale mc_router_http =
  fixes http :: "('w, 'e) transport"
    and table :: "'w \<Rightarrow> string \<rightharpoonup> string"
    and client :: Client
  assumes get_keeps: "table (snd (http \<lparr>req_Method = ''GET'', req_Path = routesPath client, req_Body = None\<rparr> w)) = table w"
    and get_answer: "fst (http \<lparr>req_Method = ''GET'', req_Path = routesPath client, req_Body = None\<rparr> w) =
        (Some response, None) \<Longrightarrow> success_status (StatusCode response) \<Longrightarrow> Body response = Some rs \<Longrightarrow>
      distinct (map fst rs) \<and> table w = map_option resp_Backend \<circ> map_of rs"
    and post_effect: "path_segment h \<Longrightarrow>
      http \<lparr>req_Method = ''POST'', req_Path = routesPath client,
        req_Body = Some \<lparr>create_ServerAddress = h, create_Backend = b\<rparr>\<rparr> w = (a, w') \<Longrightarrow>
      table w' = (table w)(h \<mapsto> b) \<or> (table w' = table w \<and> \<not> acknowledged a)"
    and delete_effect: "path_segment h \<Longrightarrow>
      http \<lparr>req_Method = ''DELETE'', req_Path = routesPath client @ CHR ''/'' # h, req_Body = None\<rparr> w = (a, w') \<Longrightarrow>
      table w' = (table w)(h := None) \<or> (table w' = table w \<and> \<not> acknowledged a)"
begin

lemma create_result:
  assumes "path_segment h" "CreateRoute http client h b w = (r, w')"
  shows "table w' = (table w)(h \<mapsto> b) \<or> (table w' = table w \<and> r \<noteq> None)"
proof -
  obtain a w1 where a: "http \<lparr>req_Method = ''POST'', req_Path = routesPath client,
      req_Body = Some \<lparr>create_ServerAddress = h, create_Backend = b\<rparr>\<rparr> w = (a, w1)" by fastforce
  from assms(2) have s: "send http \<lparr>req_Method = ''POST'', req_Path = routesPath client,
      req_Body = Some \<lparr>create_ServerAddress = h, create_Backend = b\<rparr>\<rparr> w = (r, w')"
    by (simp add: CreateRoute_def routesPath_def)
  from post_effect [OF assms(1) a] send_world [OF s] s a show ?thesis by (auto simp: send_None_iff)
qed

lemma delete_result:
  assumes "path_segment h" "DeleteRoute http client h w = (r, w')"
  shows "table w' = (table w)(h := None) \<or> (table w' = table w \<and> r \<noteq> None)"
proof -
  obtain a w1 where a: "http \<lparr>req_Method = ''DELETE'', req_Path = routesPath client @ CHR ''/'' # h,
      req_Body = None\<rparr> w = (a, w1)" by fastforce
  from assms have s: "send http \<lparr>req_Method = ''DELETE'', req_Path = routesPath client @ CHR ''/'' # h,
      req_Body = None\<rparr> w = (r, w')"
    by (simp add: DeleteRoute_def routesPath_def route_path)
  from delete_effect [OF assms(1) a] send_world [OF s] s a show ?thesis by (auto simp: send_None_iff)
qed

lemma list_result:
  assumes "ListRoutes c rand http client w = (r, w')"
  shows "table w' = table w \<and> (\<forall>rs. r = Inr rs \<longrightarrow> distinct (map fst rs) \<and> map_of rs = table w)"
proof -
  let ?call = "http \<lparr>req_Method = ''GET'', req_Path = routesPath client, req_Body = None\<rparr>"
  obtain d c1 w1 where d: "Do c (client_retry client) rand ?call w = (d, c1, w1)" by (metis prod.collapse)
  have k: "table w1 = table w \<and> (\<forall>response. d = DoReturn (Some response) None \<longrightarrow>
      (\<exists>w0. table w0 = table w \<and> fst (?call w0) = (Some response, None)))"
    using Do_answer [where P = "\<lambda>v. table v = table w", OF _ _ d] get_keeps by auto
  have w1: "w' = w1" using assms d
    by (auto simp: ListRoutes_def routesPath_def Let_def split: do_result.splits option.splits if_splits)
  have "distinct (map fst rs) \<and> map_of rs = table w" if r: "r = Inr rs" for rs
  proof -
    from r assms d obtain response body where b: "d = DoReturn (Some response) None"
      "success_status (StatusCode response)" "Body response = Some body"
      "rs = map (\<lambda>(hostname, route). (hostname, resp_Backend route)) body"
      by (auto simp: ListRoutes_def routesPath_def Let_def split: do_result.splits option.splits if_splits)
    with k obtain w0 where w0: "table w0 = table w" "fst (?call w0) = (Some response, None)" by auto
    have "map fst rs = map fst body" "map_of rs = map_option resp_Backend \<circ> map_of body"
      unfolding b(4) by (simp add: case_prod_unfold comp_def, rule map_of_map)
    with get_answer [OF w0(2) b(2,3)] w0(1) show ?thesis by simp
  qed
  with k w1 show ?thesis by auto
qed

end

sublocale mc_router_http < api: route_api "as_routeClient c rand http client" table path_segment for c rand
proof unfold_locales
  show "table w' = table w" if "rc_list (as_routeClient c rand http client) w = (r, w')" for w r w'
    using that list_result by (simp add: as_routeClient_def)
  show "distinct (map fst rs) \<and> map_of rs = table w"
    if "rc_list (as_routeClient c rand http client) w = (Inr rs, w')" for w rs w'
    using that list_result by (simp add: as_routeClient_def)
qed (auto simp: as_routeClient_def valid_hostname_segment dest: create_result delete_result)

context mc_router_http
begin

lemma client_api: "route_api (as_routeClient c rand http client) table path_segment"
  by (rule api.route_api_axioms)

end

section \<open>The fake mc-router of the integration test\<close>

text \<open>
  The routes of the fake are a Go map, here an association list read through \<open>map_of\<close>; the
  answer to a GET lists each key once.  A POST without a JSON body stops the test.
\<close>

type_synonym fake_routes = "(string \<times> routeResponse) list"

definition fake_answer :: "int \<Rightarrow> routes_body \<Rightarrow> routes_body http_response option \<times> string option" where
  "fake_answer status body = (Some \<lparr>StatusCode = status, Body = body\<rparr>, None)"

definition fake_http :: "(fake_routes, string) transport" where
  "fake_http r routes =
     (if req_Method r = ''GET'' \<and> req_Path r = ''/routes''
      then (fake_answer 200 (Some (AList.clearjunk routes)), routes)
      else if req_Method r = ''POST'' \<and> req_Path r = ''/routes''
      then (case req_Body r of
              None \<Rightarrow> ((None, Some ''test failed''), routes)
            | Some request \<Rightarrow>
                (fake_answer 201 None,
                 AList.update (create_ServerAddress request)
                   \<lparr>resp_Backend = create_Backend request, resp_ScalingTarget = []\<rparr> routes))
      else if req_Method r = ''DELETE'' \<and> HasPrefix (req_Path r) ''/routes/''
      then (fake_answer 204 None, AList.delete (TrimPrefix (req_Path r) ''/routes/'') routes)
      else (fake_answer 404 None, routes))"

definition fake_table :: "fake_routes \<Rightarrow> string \<rightharpoonup> string" where
  "fake_table routes = map_option resp_Backend \<circ> map_of routes"

definition fake_client :: Client where
  "fake_client = \<lparr>client_baseURL = \<lparr>url_Scheme = ''http'', url_Host = ''127.0.0.1:8080'', url_Path = []\<rparr>,
     client_retry = DefaultConfig\<rparr>"

lemma fake_routesPath: "routesPath fake_client = ''/routes''"
  by code_simp

lemma TrimPrefix_append: "HasPrefix (p @ h) p" "TrimPrefix (p @ h) p = h"
  by (simp_all add: TrimPrefix_def HasPrefix_def)

interpretation fake: mc_router_http fake_http fake_table fake_client
proof
  fix h b a and w w' :: fake_routes
  show "fake_table (snd (fake_http \<lparr>req_Method = ''GET'', req_Path = routesPath fake_client, req_Body = None\<rparr> w)) = fake_table w"
    by (simp add: fake_http_def fake_routesPath)
  show "fake_table w' = (fake_table w)(h \<mapsto> b) \<or> fake_table w' = fake_table w \<and> \<not> acknowledged a"
    if "fake_http \<lparr>req_Method = ''POST'', req_Path = routesPath fake_client,
        req_Body = Some \<lparr>create_ServerAddress = h, create_Backend = b\<rparr>\<rparr> w = (a, w')"
    using that by (auto simp: fake_http_def fake_routesPath fake_table_def fun_eq_iff)
  show "fake_table w' = (fake_table w)(h := None) \<or> fake_table w' = fake_table w \<and> \<not> acknowledged a"
    if "fake_http \<lparr>req_Method = ''DELETE'', req_Path = routesPath fake_client @ CHR ''/'' # h, req_Body = None\<rparr> w = (a, w')"
    using that TrimPrefix_append [of "''/routes/''" h]
    by (auto simp: fake_http_def fake_routesPath fake_table_def fun_eq_iff)
qed (auto simp: fake_http_def fake_routesPath fake_table_def fake_answer_def map_of_clearjunk distinct_clearjunk)

lemma fake_Do:
  "Do Background cfg rand (fake_http request) w =
     (answered (fst (fake_http request w)), Background, snd (fake_http request w))"
  if "\<not> retryable (fst (fake_http request w))"
  using that unfolding Do_def
  by (subst Do_loop.simps) (auto simp: answered_def retryable_def split: prod.splits)

interpretation fake_reliable: reliable_route_api
  "as_routeClient Background rand fake_http fake_client" fake_table path_segment for rand
proof unfold_locales
  fix w :: fake_routes and e h b
  let ?get = "\<lparr>req_Method = ''GET'', req_Path = routesPath fake_client, req_Body = None\<rparr>"
  have "\<not> retryable (fst (fake_http ?get w))"
    by (simp add: fake_http_def fake_routesPath fake_answer_def retryable_def shouldRetry_def)
  from fake_Do [OF this, of "client_retry fake_client" rand]
  show "fst (rc_list (as_routeClient Background rand fake_http fake_client) w) \<noteq> Inl e"
    by (auto simp: as_routeClient_def ListRoutes_def Let_def routesPath_def [symmetric] answered_def
        fake_http_def fake_routesPath fake_answer_def success_status_def)
  show "fst (rc_create (as_routeClient Background rand fake_http fake_client) h b w) = None"
    by (simp add: as_routeClient_def CreateRoute_def send_def fake_http_def fake_answer_def success_status_def
        routesPath_def [symmetric] fake_routesPath)
  show "fst (rc_delete (as_routeClient Background rand fake_http fake_client) h w) = None" if "path_segment h"
    using TrimPrefix_append(1) [of "''/routes/''" h] that
    by (simp add: as_routeClient_def DeleteRoute_def send_def fake_http_def fake_answer_def success_status_def
        route_path routesPath_def [symmetric] fake_routesPath)
qed

section \<open>Properties\<close>

definition mc_controller :: "('w, 'e) transport \<Rightarrow> Client \<Rightarrow> ctx \<Rightarrow> (int \<Rightarrow> Duration \<Rightarrow> Duration) \<Rightarrow> string \<Rightarrow>
    ('w, 'e client_error) Controller" where
  "mc_controller http client c rand domain =
     the (NewController (Some (as_routeClient c rand http client)) [Some (WithManagedDomain domain)])"

lemma mc_controller_client [simp]: "ctl_client (mc_controller http client c rand domain) = as_routeClient c rand http client"
  by (simp add: mc_controller_def NewController_def WithManagedDomain_def)

definition example_routes :: "Route list" where
  "example_routes = [\<lparr>route_ServerID = ''server'', route_Hostname = ''server.mc.example.com'',
     route_Backend = \<lparr>backend_Host = ''10.0.0.2'', backend_Port = 25565\<rparr>\<rparr>]"

definition example_fake :: fake_routes where
  "example_fake = [(''stale.mc.example.com'', \<lparr>resp_Backend = ''10.0.0.1:25565'', resp_ScalingTarget = []\<rparr>),
     (''other.example.org'', \<lparr>resp_Backend = ''10.0.0.9:25565'', resp_ScalingTarget = []\<rparr>)]"

definition example_controller :: "(fake_routes, string client_error) Controller" where
  "example_controller = mc_controller fake_http fake_client Background example_rand ''mc.example.com''"

lemma dom_fake_table: "dom (fake_table rs) = set (map fst rs)"
proof -
  have "dom (fake_table rs) = dom (map_of rs)" by (auto simp: fake_table_def)
  then show ?thesis by (simp add: dom_map_of_conv_image_fst)
qed

lemma example_fake_segments: "dom (fake_table example_fake) \<subseteq> Collect path_segment"
proof -
  have "list_all path_segment (map fst example_fake)" by (simp add: example_fake_def path_segment_def)
  then show ?thesis unfolding dom_fake_table list_all_iff by blast
qed

definition example_settled :: fake_routes where
  "example_settled = [(''other.example.org'', \<lparr>resp_Backend = ''10.0.0.9:25565'', resp_ScalingTarget = []\<rparr>),
     (''server.mc.example.com'', \<lparr>resp_Backend = ''10.0.0.2:25565'', resp_ScalingTarget = []\<rparr>)]"

lemma example_reconcile:
  "ReconcileWithResult example_controller Background example_routes example_fake =
     ((None, \<lparr>Desired = 1, Created = 1, Updated = 0, Deleted = 1, Changed = True\<rparr>), Background, example_settled)"
  by code_simp

lemma example_routes_valid: "routes_valid example_routes"
  by code_simp

text \<open>
  C2. A reconciliation that succeeds leaves the managed domain of mc-router with exactly the desired
  routes and nothing else, whatever state it started from, and every hostname outside the managed
  domain that is not itself a desired route as it was.  When all desired hostnames lie inside the
  managed domain, no route outside it is touched at all.
\<close>

theorem mc_reconcile_converges:
  assumes "mc_router_http http table client" "dom (table w) \<subseteq> Collect path_segment"
    and "ReconcileWithResult (mc_controller http client c' rand domain) c routes w = ((None, result), c3, w')"
  shows "managed_converged (mc_controller http client c' rand domain) routes (table w) (table w')"
  using route_api.reconcile_effect [OF mc_router_http.client_api [OF assms(1)] _ _ assms(3)] assms(2)
  by (simp add: route_api.table_addressable_def [OF mc_router_http.client_api [OF assms(1)]] converged_managed)

theorem mc_reconcile_converges_witness:
  "managed_converged example_controller example_routes (fake_table example_fake) (fake_table example_settled)"
  unfolding example_controller_def
  by (rule mc_reconcile_converges [OF fake.mc_router_http_axioms example_fake_segments
        example_reconcile [unfolded example_controller_def]])

text \<open>
  The phase that creates routes does not ask whether it owns a hostname: a route of somebody else,
  outside the managed domain, is overwritten when the plan names its hostname.
\<close>

lemma mc_overwrites_foreign:
  "\<not> owns example_controller ''other.example.org'' \<and>
   (case ReconcileWithResult example_controller Background
       (map (\<lambda>route. route\<lparr>route_Hostname := ''other.example.org''\<rparr>) example_routes) example_fake of
      ((e, result), c', w') \<Rightarrow> e = None \<and> fake_table w' ''other.example.org'' \<noteq> fake_table example_fake ''other.example.org'')"
  by code_simp

text \<open>
  C9. However a reconciliation ends, with a cancelled context or with a call that fails half-way,
  every hostname has its old backend or the one it is to have; in particular a route outside the
  managed domain that is not desired is never touched.
\<close>

theorem mc_reconcile_safe:
  assumes "mc_router_http http table client" "dom (table w) \<subseteq> Collect path_segment"
    and "ReconcileWithResult (mc_controller http client c' rand domain) c routes w = ((e, result), c3, w')"
  shows "table w' h \<in> {table w h, converged (mc_controller http client c' rand domain) routes (table w) h} \<and>
     (if owns (mc_controller http client c' rand domain) h \<or> h \<in> routeKey ` set routes then True
      else table w' h = table w h)"
proof -
  have a: "table w' h = table w h \<or> table w' h = converged (mc_controller http client c' rand domain) routes (table w) h"
    using route_api.reconcile_effect [OF mc_router_http.client_api [OF assms(1)] _ _ assms(3)] assms(2)
    by (simp add: route_api.table_addressable_def [OF mc_router_http.client_api [OF assms(1)]])
  have "map_of (desired_of routes) h = None" if "h \<notin> routeKey ` set routes"
    using that set_keys_map_of [of h "desired_of routes"] by simp
  with a show ?thesis by (auto simp: converged_def)
qed

theorem mc_reconcile_safe_witness:
  "fake_table example_settled ''other.example.org'' \<in>
     {fake_table example_fake ''other.example.org'',
      converged example_controller example_routes (fake_table example_fake) ''other.example.org''} \<and>
   (if owns example_controller ''other.example.org'' \<or> ''other.example.org'' \<in> routeKey ` set example_routes then True
    else fake_table example_settled ''other.example.org'' = fake_table example_fake ''other.example.org'')"
  unfolding example_controller_def
  by (rule mc_reconcile_safe [OF fake.mc_router_http_axioms example_fake_segments
        example_reconcile [unfolded example_controller_def]])

text \<open>
  The reported counters are the differences between the routing table and the desired state:
  routes that did not exist, routes with another backend, managed routes that are not desired; and a
  change is reported exactly when the table had to change.
\<close>

lemma mc_reconcile_reports:
  assumes "mc_router_http http table client"
    and "ReconcileWithResult (mc_controller http client c' rand domain) c routes w = ((None, result), c3, w')"
  shows "result = diff_result (mc_controller http client c' rand domain) routes (table w)"
  using route_api.reconcile_counts [OF mc_router_http.client_api [OF assms(1)] _ assms(2)] by simp

lemma mc_reconcile_reports_example:
  "\<lparr>Desired = 1, Created = 1, Updated = 0, Deleted = 1, Changed = True\<rparr> =
     diff_result example_controller example_routes (fake_table example_fake)"
  unfolding example_controller_def
  by (rule mc_reconcile_reports [OF fake.mc_router_http_axioms example_reconcile [unfolded example_controller_def]])

text \<open>
  C24. Reconciliation is idempotent: after a success, a second one with the same routes issues no
  create and no delete (the world only sees the listing) and reports no change.
\<close>

theorem mc_reconcile_idempotent:
  assumes "mc_router_http http table client" "dom (table w) \<subseteq> Collect path_segment"
    and "ReconcileWithResult (mc_controller http client c' rand domain) c routes w = ((None, result), c3, w1)"
    and "never_done c2" "ListRoutes c' rand http client w1 = (Inr current, w2)"
  shows "\<exists>c4. ReconcileWithResult (mc_controller http client c' rand domain) c2 routes w1 =
     ((None, desired_result (length routes)), c4, w2)"
proof -
  let ?m = "mc_controller http client c' rand domain"
  have "routes_valid routes \<and> table w1 = converged ?m routes (table w)"
    using route_api.reconcile_effect [OF mc_router_http.client_api [OF assms(1)] _ _ assms(3)] assms(2)
    by (simp add: route_api.table_addressable_def [OF mc_router_http.client_api [OF assms(1)]])
  then show ?thesis
    using route_api.reconcile_settled [OF mc_router_http.client_api [OF assms(1), of c' rand], of ?m c2 routes w1 "table w"]
      assms(4,5) by (simp add: as_routeClient_def)
qed

theorem mc_reconcile_idempotent_witness:
  "\<exists>c4. ReconcileWithResult example_controller Background example_routes example_settled =
     ((None, desired_result (length example_routes)), c4, example_settled)"
proof -
  have "ListRoutes Background example_rand fake_http fake_client example_settled =
    (Inr (map (\<lambda>(h, r). (h, resp_Backend r)) example_settled), example_settled)" by code_simp
  from mc_reconcile_idempotent [OF fake.mc_router_http_axioms example_fake_segments
      example_reconcile [unfolded example_controller_def] never_done_Background this]
  show ?thesis unfolding example_controller_def .
qed

text \<open>
  The whole request is validated before the first call: if any route has an empty or invalid
  hostname, an empty backend host, a port outside 1 to 65535, or a hostname that occurs twice, the
  controller reports an error and mc-router is not contacted.
\<close>

lemma mc_reconcile_rejects:
  assumes "\<not> routes_valid routes"
  shows "\<exists>e c'. ReconcileWithResult (controller :: ('w, 'e) Controller) c routes w =
     ((Some e, desired_result (length routes)), c', w)"
proof -
  obtain e c' where "prepare (ctx_step c) [] routes = (Inl e :: 'e mc_error + _, c')" using prepare_invalid [OF assms] by blast
  then show ?thesis by (simp add: ReconcileWithResult_def Let_def split: option.split)
qed

lemma mc_reconcile_rejects_example:
  "\<exists>e c'. ReconcileWithResult example_controller Background (example_routes @ example_routes) example_fake =
     ((Some e, desired_result (length (example_routes @ example_routes))), c', example_fake)"
proof (rule mc_reconcile_rejects)
  show "\<not> routes_valid (example_routes @ example_routes)" by code_simp
qed



end
