(* ===== verification/Infrared.thy ===== *)
theory Infrared
  imports Planner GoPath
begin

text \<open>
  The Infrared backend, \<open>internal/router/infrared\<close>: rendering of one proxy configuration per
  route, the controller that keeps the proxy directory in the desired state, atomic replacement of
  files, the reload marker and the controller that reloads after a change.

  The file system is one directory: a record with its entries, a list of faults (which of the coming
  system calls fail), a source of suffixes for \<open>os.CreateTemp\<close> and the number of bytes that a
  failing write leaves behind.  \<open>os.CreateTemp\<close> opens
  with \<open>O_EXCL\<close>, so the name it returns did not exist (\<open>fresh\<close>).  A symbolic link or any
  other entry that is neither a regular file nor a directory is \<open>Special\<close>.
  \<open>yaml.Marshal\<close> is a parameter.  File modes are numbers: 420 is \<open>0o644\<close>, 384 is
  \<open>0o600\<close>.
\<close>

section \<open>Directories\<close>

datatype fs_entry = Regular string nat | Directory | Special

record fs =
  files :: "(string \<times> fs_entry) list"
  fs_faults :: faults
  fs_temp :: "string list \<Rightarrow> string \<Rightarrow> string"
  fs_partial :: nat

definition lookup :: "fs \<Rightarrow> string \<rightharpoonup> fs_entry" where
  "lookup s = map_of (files s)"

definition put :: "fs \<Rightarrow> string \<Rightarrow> fs_entry \<Rightarrow> fs" where
  "put s name entry = s\<lparr>files := AList.update name entry (files s)\<rparr>"

definition del :: "fs \<Rightarrow> string \<Rightarrow> fs" where
  "del s name = s\<lparr>files := AList.delete name (files s)\<rparr>"

text \<open>One system call: whether it fails, and the state with its fault used up.\<close>

definition syscall :: "fs \<Rightarrow> bool \<times> fs" where
  "syscall s = (fault (fs_faults s), s\<lparr>fs_faults := tl (fs_faults s)\<rparr>)"

definition fresh :: "fs \<Rightarrow> bool" where
  "fresh s \<longleftrightarrow> (\<forall>taken p. p @ fs_temp s taken p \<notin> set taken)"

section \<open>Atomic replacement\<close>

datatype write_error =
  CreateTempFailed | ChmodFailed | WriteFailed | SyncFailed | CloseFailed | RenameFailed

definition temp_prefix :: "string \<Rightarrow> string" where
  "temp_prefix name = ''.'' @ name @ ''.tmp-''"

definition temporaryPath :: "fs \<Rightarrow> string \<Rightarrow> string" where
  "temporaryPath s name = temp_prefix name @ fs_temp s (map fst (files s)) (temp_prefix name)"

definition fillTemp :: "fs \<Rightarrow> string \<Rightarrow> string \<Rightarrow> string \<Rightarrow> nat \<Rightarrow> write_error option \<times> fs" where
  "fillTemp s tmp name data permissions =
     (case syscall s of (failed, s1) \<Rightarrow>
        if failed then (Some ChmodFailed, s1) else
      case syscall (put s1 tmp (Regular [] permissions)) of (failed, s2) \<Rightarrow>
        if failed then (Some WriteFailed, put s2 tmp (Regular (take (fs_partial s2) data) permissions)) else
      case syscall (put s2 tmp (Regular data permissions)) of (failed, s3) \<Rightarrow>
        if failed then (Some SyncFailed, s3) else
      case syscall s3 of (failed, s4) \<Rightarrow>
        if failed then (Some CloseFailed, s4) else
      case syscall s4 of (failed, s5) \<Rightarrow>
        if failed \<or> lookup s5 name = Some Directory then (Some RenameFailed, s5)
        else (None, put (del s5 tmp) name (Regular data permissions)))"

definition writeFileAtomic :: "fs \<Rightarrow> string \<Rightarrow> string \<Rightarrow> nat \<Rightarrow> write_error option \<times> fs" where
  "writeFileAtomic s name data permissions =
     (case syscall s of (failed, s1) \<Rightarrow>
        if failed then (Some CreateTempFailed, s1)
        else let tmp = temporaryPath s1 name in
          case fillTemp (put s1 tmp (Regular [] 384)) tmp name data permissions of (e, s2) \<Rightarrow>
          case syscall s2 of (failed, s3) \<Rightarrow> (e, if failed then s3 else del s3 tmp))"

section \<open>Rendering\<close>

record proxyConfig =
  Domains :: "string list"
  Addresses :: "string list"

datatype render_error = errEmptyHostname | errEmptyBackendHost | errInvalidBackendPort | errMarshal

definition Render :: "(proxyConfig \<Rightarrow> string option) \<Rightarrow> Route \<Rightarrow> render_error + string" where
  "Render marshal route =
     (let hostname = TrimSpace (route_Hostname route);
          backendHost = TrimSpace (backend_Host (route_Backend route));
          port = backend_Port (route_Backend route)
      in if hostname = [] then Inl errEmptyHostname
         else if backendHost = [] then Inl errEmptyBackendHost
         else if port < 1 \<or> port > 65535 then Inl errInvalidBackendPort
         else case marshal \<lparr>Domains = [hostname], Addresses = [JoinHostPort backendHost (Itoa port)]\<rparr> of
           None \<Rightarrow> Inl errMarshal
         | Some data \<Rightarrow> Inr data)"

section \<open>The controller\<close>

datatype inspect_error = LstatFailed | ReadFailed

datatype infrared_error =
    IRCtx ctx_error
  | errEmptyServerID string
  | errInvalidServerID string
  | errDuplicateServerID string
  | RenderFailed string render_error
  | MkdirFailed
  | InspectFailed string inspect_error
  | ReplaceFailed string write_error
  | ReadDirFailed
  | RemoveFailed string

definition managedProxyPrefix :: string where
  "managedProxyPrefix = ''pelican-mc-router-''"

definition irNewController :: "string \<Rightarrow> string option" where
  "irNewController directory =
     (let directory = TrimSpace directory in if directory = [] then None else Some (path_Clean directory))"

definition proxyFilename :: "string \<Rightarrow> infrared_error + string" where
  "proxyFilename serverID =
     (let trimmed = TrimSpace serverID
      in if trimmed = [] then Inl (errEmptyServerID serverID)
         else if trimmed = ''.'' \<or> trimmed = ''..'' \<or> CHR ''/'' \<in> set trimmed \<or> CHR 0x5C \<in> set trimmed \<or>
           CHR 0x00 \<in> set trimmed
         then Inl (errInvalidServerID serverID)
         else Inr (managedProxyPrefix @ trimmed @ ''.yml''))"

definition renderRoute ::
  "(proxyConfig \<Rightarrow> string option) \<Rightarrow> (string \<times> string) list \<Rightarrow> Route \<Rightarrow>
   infrared_error + (string \<times> string) list" where
  "renderRoute marshal configurations route =
     (case proxyFilename (route_ServerID route) of
        Inl e \<Rightarrow> Inl e
      | Inr filename \<Rightarrow>
          if map_of configurations filename \<noteq> None
          then Inl (errDuplicateServerID (TrimSpace (route_ServerID route)))
          else case Render marshal route of
            Inl e \<Rightarrow> Inl (RenderFailed (route_ServerID route) e)
          | Inr data \<Rightarrow> Inr (configurations @ [(filename, data)]))"

fun renderRoutes ::
  "(proxyConfig \<Rightarrow> string option) \<Rightarrow> ctx \<Rightarrow> (string \<times> string) list \<Rightarrow> Route list \<Rightarrow>
   (infrared_error + (string \<times> string) list) \<times> ctx" where
  "renderRoutes marshal c configurations [] = (Inr configurations, c)"
| "renderRoutes marshal c configurations (route # routes) =
     (case ctx_Err c of
        Some e \<Rightarrow> (Inl (IRCtx e), ctx_step c)
      | None \<Rightarrow>
          (case renderRoute marshal configurations route of
             Inl e \<Rightarrow> (Inl e, ctx_step c)
           | Inr configurations' \<Rightarrow> renderRoutes marshal (ctx_step c) configurations' routes))"

definition proxyConfigurationNeedsUpdate ::
  "fs \<Rightarrow> string \<Rightarrow> string \<Rightarrow> nat \<Rightarrow> (inspect_error + bool) \<times> fs" where
  "proxyConfigurationNeedsUpdate s name data permissions =
     (case syscall s of (failed, s1) \<Rightarrow>
        if failed then (Inl LstatFailed, s1)
        else case lookup s1 name of
          None \<Rightarrow> (Inr True, s1)
        | Some Directory \<Rightarrow> (Inr True, s1)
        | Some Special \<Rightarrow> (Inr True, s1)
        | Some (Regular existing mode) \<Rightarrow>
            (case syscall s1 of (failed, s2) \<Rightarrow>
               if failed then (Inl ReadFailed, s2)
               else if existing \<noteq> data then (Inr True, s2)
               else (Inr (mode \<noteq> permissions), s2)))"

fun writeConfigurations ::
  "ctx \<Rightarrow> fs \<Rightarrow> (string \<times> string) list \<Rightarrow> bool \<Rightarrow> (infrared_error + bool) \<times> ctx \<times> fs" where
  "writeConfigurations c s [] changed = (Inr changed, c, s)"
| "writeConfigurations c s ((filename, data) # rest) changed =
     (case ctx_Err c of
        Some e \<Rightarrow> (Inl (IRCtx e), ctx_step c, s)
      | None \<Rightarrow>
          (case proxyConfigurationNeedsUpdate s filename data 420 of
             (Inl e, s1) \<Rightarrow> (Inl (InspectFailed filename e), ctx_step c, s1)
           | (Inr False, s1) \<Rightarrow> writeConfigurations (ctx_step c) s1 rest changed
           | (Inr True, s1) \<Rightarrow>
               (case writeFileAtomic s1 filename data 420 of
                  (Some e, s2) \<Rightarrow> (Inl (ReplaceFailed filename e), ctx_step c, s2)
                | (None, s2) \<Rightarrow> writeConfigurations (ctx_step c) s2 rest True)))"

definition managed_name :: "string \<Rightarrow> bool" where
  "managed_name name \<longleftrightarrow> HasPrefix name managedProxyPrefix \<and> filepath_Ext name = ''.yml''"

fun removeStaleEntries ::
  "ctx \<Rightarrow> fs \<Rightarrow> (string \<times> fs_entry) list \<Rightarrow> string set \<Rightarrow> bool \<Rightarrow> (infrared_error + bool) \<times> ctx \<times> fs" where
  "removeStaleEntries c s [] desired changed = (Inr changed, c, s)"
| "removeStaleEntries c s ((name, entry) # rest) desired changed =
     (case ctx_Err c of
        Some e \<Rightarrow> (Inl (IRCtx e), ctx_step c, s)
      | None \<Rightarrow>
          if entry = Directory then removeStaleEntries (ctx_step c) s rest desired changed
          else if \<not> managed_name name then removeStaleEntries (ctx_step c) s rest desired changed
          else if name \<in> desired then removeStaleEntries (ctx_step c) s rest desired changed
          else case syscall s of (failed, s1) \<Rightarrow>
            if failed then (Inl (RemoveFailed name), ctx_step c, s1)
            else removeStaleEntries (ctx_step c) (del s1 name) rest desired True)"

definition read_dir :: "fs \<Rightarrow> (string \<times> fs_entry) list" where
  "read_dir s = map (\<lambda>name. (name, the (lookup s name))) (sort (remdups (map fst (files s))))"

definition removeStaleProxyConfigurations ::
  "ctx \<Rightarrow> fs \<Rightarrow> string set \<Rightarrow> (infrared_error + bool) \<times> ctx \<times> fs" where
  "removeStaleProxyConfigurations c s desired =
     (case syscall s of (failed, s1) \<Rightarrow>
        if failed then (Inl ReadDirFailed, c, s1)
        else removeStaleEntries c s1 (read_dir s1) desired False)"

definition ReconcileChanges ::
  "(proxyConfig \<Rightarrow> string option) \<Rightarrow> ctx \<Rightarrow> Route list \<Rightarrow> fs \<Rightarrow> (infrared_error + bool) \<times> ctx \<times> fs" where
  "ReconcileChanges marshal c routes s =
     (case ctx_Err c of
        Some e \<Rightarrow> (Inl (IRCtx e), ctx_step c, s)
      | None \<Rightarrow>
          (case renderRoutes marshal (ctx_step c) [] routes of
             (Inl e, c1) \<Rightarrow> (Inl e, c1, s)
           | (Inr configurations, c1) \<Rightarrow>
               (case syscall s of (failed, s1) \<Rightarrow>
                  if failed then (Inl MkdirFailed, c1, s1)
                  else case writeConfigurations c1 s1 configurations False of
                    (Inl e, c2, s2) \<Rightarrow> (Inl e, c2, s2)
                  | (Inr changed, c2, s2) \<Rightarrow>
                      (case removeStaleProxyConfigurations c2 s2 (set (map fst configurations)) of
                         (Inl e, c3, s3) \<Rightarrow> (Inl e, c3, s3)
                       | (Inr staleRemoved, c3, s3) \<Rightarrow> (Inr (changed \<or> staleRemoved), c3, s3)))))"

definition irReconcile ::
  "(proxyConfig \<Rightarrow> string option) \<Rightarrow> ctx \<Rightarrow> Route list \<Rightarrow> fs \<Rightarrow> infrared_error option \<times> ctx \<times> fs" where
  "irReconcile marshal c routes s =
     (case ReconcileChanges marshal c routes s of
        (Inl e, c', s') \<Rightarrow> (Some e, c', s')
      | (Inr _, c', s') \<Rightarrow> (None, c', s'))"

section \<open>File system facts\<close>

lemma fresh_syscall [simp]: "fresh (snd (syscall s)) \<longleftrightarrow> fresh s"
  and lookup_syscall [simp]: "lookup (snd (syscall s)) = lookup s"
  and files_syscall [simp]: "files (snd (syscall s)) = files s"
  by (simp_all add: fresh_def syscall_def lookup_def)

lemma fresh_put [simp]: "fresh (put s n x) \<longleftrightarrow> fresh s" and fresh_del [simp]: "fresh (del s n) \<longleftrightarrow> fresh s"
  by (simp_all add: fresh_def put_def del_def)

lemma lookup_put [simp]: "lookup (put s n x) = (lookup s)(n \<mapsto> x)"
  and lookup_del [simp]: "lookup (del s n) = (lookup s)(n := None)"
  by (simp_all add: lookup_def put_def del_def)

lemma syscall_eq: "syscall s = (failed, s') \<Longrightarrow> fresh s' = fresh s \<and> lookup s' = lookup s \<and> files s' = files s"
  by (metis fresh_syscall lookup_syscall files_syscall snd_conv)

lemma temporary_fresh: "fresh s \<Longrightarrow> lookup s (temporaryPath s name) = None"
  unfolding lookup_def map_of_eq_None_iff temporaryPath_def fresh_def set_map [symmetric] by blast

lemma temporary_prefix: "HasPrefix (temporaryPath s name) (temp_prefix name)"
  by (simp add: temporaryPath_def HasPrefix_def)

lemma temporary_not_name: "temporaryPath s name \<noteq> name"
  by (auto simp: temporaryPath_def temp_prefix_def dest!: arg_cong [where f = length])

lemma fillTemp_effect:
  assumes "fillTemp s tmp name data p = (e, s')" "tmp \<noteq> name"
  shows "fresh s' = fresh s \<and>
     (if e = None then lookup s' = (lookup s)(tmp := None, name \<mapsto> Regular data p) \<and> lookup s name \<noteq> Some Directory
      else \<exists>x. lookup s' = (lookup s)(tmp := x))"
  using assms
  by (auto simp: fillTemp_def fun_upd_twist dest!: syscall_eq split: prod.splits if_splits) (metis fun_upd_triv)+

text \<open>
  The destination changes only by the final rename: it has its old content or all of the new one, and
  no other file changes but a temporary one.
\<close>

lemma writeFileAtomic_effect:
  assumes "fresh s" "writeFileAtomic s name data p = (e, s')"
  shows "fresh s' \<and>
     (if e = None then lookup s' = (lookup s)(name \<mapsto> Regular data p) \<and> lookup s name \<noteq> Some Directory
      else \<exists>tmp x. HasPrefix tmp (temp_prefix name) \<and> tmp \<noteq> name \<and> lookup s' = (lookup s)(tmp := x))"
proof -
  obtain f s1 where s1: "syscall s = (f, s1)" by fastforce
  note e1 = syscall_eq [OF s1]
  let ?tmp = "temporaryPath s1 name"
  obtain e2 s2 where s2: "fillTemp (put s1 ?tmp (Regular [] 384)) ?tmp name data p = (e2, s2)" by fastforce
  obtain f3 s3 where s3: "syscall s2 = (f3, s3)" by fastforce
  note e2 = fillTemp_effect [OF s2 temporary_not_name] and e3 = syscall_eq [OF s3]
  have t: "lookup s ?tmp = None" using temporary_fresh [of s1 name] assms(1) e1 by simp
  show ?thesis
  proof (cases f)
    case True
    with assms(2) s1 have "e \<noteq> None" "s' = s1" by (auto simp: writeFileAtomic_def)
    with e1 assms(1) temporary_prefix temporary_not_name show ?thesis
      by (metis fun_upd_triv)
  next
    case False
    with assms(2) s1 s2 s3 have r: "e = e2" "s' = (if f3 then s3 else del s3 ?tmp)"
      by (auto simp: writeFileAtomic_def Let_def)
    show ?thesis
    proof (cases "e = None")
      case True
      have "lookup s' = (lookup s)(name \<mapsto> Regular data p)"
        using True r e1 e2 e3 t temporary_not_name [of s1 name] by (auto simp: fun_eq_iff)
      moreover have "lookup s name \<noteq> Some Directory" using True r e1 e2 temporary_not_name [of s1 name] by auto
      ultimately show ?thesis using True r e1 e2 e3 assms(1) by auto
    next
      case False
      with r e1 e2 e3 obtain x where "lookup s' = (lookup s)(?tmp := x)" by (auto split: if_splits)
      then have "\<exists>tmp x. HasPrefix tmp (temp_prefix name) \<and> tmp \<noteq> name \<and> lookup s' = (lookup s)(tmp := x)"
        using temporary_prefix temporary_not_name by blast
      moreover have "fresh s'" using r e1 e2 e3 assms(1) by simp
      ultimately show ?thesis using False by auto
    qed
  qed
qed

section \<open>Effects of the phases\<close>

definition hidden :: "string \<Rightarrow> bool" where
  "hidden name \<longleftrightarrow> HasPrefix name ''.''"

lemma hidden_temp: "HasPrefix tmp (temp_prefix name) \<Longrightarrow> hidden tmp"
  by (auto simp: hidden_def HasPrefix_iff temp_prefix_def prefix_def)

lemma needsUpdate_effect:
  assumes "proxyConfigurationNeedsUpdate s name data p = (r, s')"
  shows "fresh s' = fresh s \<and> lookup s' = lookup s \<and>
     (\<forall>b. r = Inr b \<longrightarrow> b = (lookup s name \<noteq> Some (Regular data p)))"
  using assms
  by (auto simp: proxyConfigurationNeedsUpdate_def dest!: syscall_eq split: prod.splits if_splits option.splits fs_entry.splits)

text \<open>The desired content of a directory: the rendered configurations over what is there.\<close>

definition configured :: "(string \<times> string) list \<Rightarrow> string \<rightharpoonup> fs_entry" where
  "configured configurations name = map_option (\<lambda>data. Regular data 420) (map_of configurations name)"

lemma configured_Cons [simp]:
  "configured ((n, d) # cs) = (configured cs)(n \<mapsto> Regular d 420)"
  by (auto simp: configured_def)

lemma configured_Nil [simp]: "configured [] = Map.empty"
  by (simp add: configured_def fun_eq_iff)

lemma configured_None: "n \<notin> set (map fst cs) \<Longrightarrow> configured cs n = None"
  by (simp add: configured_def map_of_eq_None_iff)

lemma writeConfigurations_effect:
  assumes "fresh s" "distinct (map fst cs)" "writeConfigurations c s cs changed = (r, c', s')"
  shows "fresh s' \<and> (\<forall>n. hidden n \<or> lookup s' n = lookup s n \<or> lookup s' n = configured cs n \<and> n \<in> set (map fst cs)) \<and>
     (\<forall>b. r = Inr b \<longrightarrow> lookup s' = lookup s ++ configured cs \<and> b = (changed \<or> lookup s' \<noteq> lookup s))"
  using assms
proof (induction cs arbitrary: c s changed)
  case (Cons f cs)
  obtain n d where f: "f = (n, d)" by fastforce
  obtain r1 s1 where s1: "proxyConfigurationNeedsUpdate s n d 420 = (r1, s1)" by fastforce
  obtain e2 s2 where s2: "writeFileAtomic s1 n d 420 = (e2, s2)" by fastforce
  note e1 = needsUpdate_effect [OF s1]
  have fresh1: "fresh s1" using e1 Cons.prems(1) by simp
  note e2 = writeFileAtomic_effect [OF fresh1 s2]
  have n: "n \<notin> set (map fst cs)" "configured cs n = None"
    using Cons.prems(2) f by (auto intro: configured_None)
  consider (ctx) e where "r = Inl e" "s' = s" | (inspect) e where "r = Inl e" "s' = s1"
    | (broke) e where "r = Inl e" "r1 = Inr True" "e2 \<noteq> None" "s' = s2"
    | (skip) "r1 = Inr False" "writeConfigurations (ctx_step c) s1 cs changed = (r, c', s')"
    | (wrote) "r1 = Inr True" "e2 = None" "writeConfigurations (ctx_step c) s2 cs True = (r, c', s')"
    using Cons.prems(3) f s1 s2
    by (auto split: option.splits sum.splits bool.splits prod.splits)
  then show ?case
  proof cases
    case ctx
    then show ?thesis using Cons.prems(1) by simp
  next
    case inspect
    then show ?thesis using e1 fresh1 by simp
  next
    case broke
    with e1 e2 obtain tmp x where "HasPrefix tmp (temp_prefix n)" "lookup s' = (lookup s)(tmp := x)" by auto
    with hidden_temp broke e2 show ?thesis by auto
  next
    case skip
    have "lookup s n = Some (Regular d 420)" using skip e1 by blast
    then have "lookup s ++ configured (f # cs) = lookup s ++ configured cs"
      using n by (auto simp: f fun_eq_iff map_add_def)
    moreover have "fresh s' \<and> (\<forall>k. hidden k \<or> lookup s' k = lookup s1 k \<or> lookup s' k = configured cs k \<and> k \<in> set (map fst cs)) \<and>
        (\<forall>b. r = Inr b \<longrightarrow> lookup s' = lookup s1 ++ configured cs \<and> b = (changed \<or> lookup s' \<noteq> lookup s1))"
      using Cons.prems(2) by (intro Cons.IH [OF fresh1 _ skip(2)]) (simp add: f)
    moreover have "configured (f # cs) k = configured cs k" if "k \<in> set (map fst cs)" for k
      using that n(1) by (auto simp: f)
    ultimately show ?thesis using e1 by (auto simp del: set_map)
  next
    case wrote
    then have l: "lookup s2 = (lookup s)(n \<mapsto> Regular d 420)" "fresh s2" "lookup s n \<noteq> Some (Regular d 420)"
      using e1 e2 by auto
    have m: "lookup s2 ++ configured cs = lookup s ++ configured (f # cs)"
      unfolding f configured_Cons l(1) using n(2) by (auto simp: fun_eq_iff map_add_def split: option.split)
    have ih: "fresh s' \<and> (\<forall>k. hidden k \<or> lookup s' k = lookup s2 k \<or> lookup s' k = configured cs k \<and> k \<in> set (map fst cs)) \<and>
        (\<forall>b. r = Inr b \<longrightarrow> lookup s' = lookup s2 ++ configured cs \<and> b = (True \<or> lookup s' \<noteq> lookup s2))"
      using Cons.prems(2) by (intro Cons.IH [OF l(2) _ wrote(3)]) (simp add: f)
    have "hidden k \<or> lookup s' k = lookup s k \<or> lookup s' k = configured (f # cs) k \<and> k \<in> set (map fst (f # cs))" for k
      using ih n by (auto simp: f l(1))
    moreover have "lookup s' \<noteq> lookup s" if "r = Inr b" for b
      using ih that m l(3) by (auto simp: f map_add_def fun_eq_iff dest: spec [of _ n])
    ultimately show ?thesis using ih m by auto
  qed
qed auto

definition stale_entry :: "string set \<Rightarrow> string \<Rightarrow> fs_entry \<Rightarrow> bool" where
  "stale_entry desired name entry \<longleftrightarrow> entry \<noteq> Directory \<and> managed_name name \<and> name \<notin> desired"

lemma removeStaleEntries_effect:
  assumes "distinct (map fst es)" "\<And>n x. (n, x) \<in> set es \<Longrightarrow> lookup s n = Some x"
    and "removeStaleEntries c s es desired changed = (r, c', s')"
  shows "fresh s' = fresh s \<and>
     (\<forall>n. lookup s' n = lookup s n \<or> lookup s' n = None \<and> (\<exists>x. (n, x) \<in> set es \<and> stale_entry desired n x)) \<and>
     (\<forall>b. r = Inr b \<longrightarrow> (\<forall>n x. (n, x) \<in> set es \<longrightarrow> stale_entry desired n x \<longrightarrow> lookup s' n = None) \<and>
        b = (changed \<or> lookup s' \<noteq> lookup s))"
  using assms
proof (induction es arbitrary: c s changed)
  case (Cons y es)
  obtain n x where y: "y = (n, x)" by fastforce
  obtain f s1 where s1: "syscall s = (f, s1)" by fastforce
  note e1 = syscall_eq [OF s1]
  have n: "(n, x') \<notin> set es" for x' using Cons.prems(1) y by (auto simp: image_iff)
  consider (ctx) e where "r = Inl e" "s' = s" | (failed) e where "r = Inl e" "s' = s1"
    | (keep) "\<not> stale_entry desired n x" "removeStaleEntries (ctx_step c) s es desired changed = (r, c', s')"
    | (remove) "stale_entry desired n x" "removeStaleEntries (ctx_step c) (del s1 n) es desired True = (r, c', s')"
    using Cons.prems(3) s1 y by (auto simp: stale_entry_def split: option.splits if_splits)
  then show ?case
  proof cases
    case keep
    then show ?thesis using Cons.IH [OF _ _ keep(2)] Cons.prems(1,2) y by (simp; metis)
  next
    case remove
    have l: "lookup (del s1 n) = (lookup s)(n := None)" using e1 by simp
    have sn: "lookup s n = Some x" using Cons.prems(2) y by simp
    have ih: "fresh s' = fresh (del s1 n) \<and>
        (\<forall>k. lookup s' k = lookup (del s1 n) k \<or> lookup s' k = None \<and> (\<exists>x. (k, x) \<in> set es \<and> stale_entry desired k x)) \<and>
        (\<forall>b. r = Inr b \<longrightarrow> (\<forall>k x. (k, x) \<in> set es \<longrightarrow> stale_entry desired k x \<longrightarrow> lookup s' k = None) \<and>
          b = (True \<or> lookup s' \<noteq> lookup (del s1 n)))"
      using Cons.prems(1,2) y n e1 by (intro Cons.IH [OF _ _ remove(2)]) auto
    then have gone: "lookup s' n = None" using l by (metis fun_upd_same)
    have "lookup s' k = lookup s k \<or> lookup s' k = None \<and> (\<exists>x. (k, x) \<in> set (y # es) \<and> stale_entry desired k x)" for k
    proof (cases "k = n")
      case False
      from ih have "lookup s' k = lookup (del s1 n) k \<or> lookup s' k = None \<and> (\<exists>x. (k, x) \<in> set es \<and> stale_entry desired k x)"
        by blast
      with False show ?thesis unfolding l by auto
    qed (use gone remove(1) y in auto)
    moreover have "lookup s' \<noteq> lookup s" using gone sn by auto
    ultimately show ?thesis using ih e1 gone y by auto
  qed (use e1 in auto)
qed auto

lemma read_dir_keys: "map fst (read_dir s) = sort (remdups (map fst (files s)))"
  by (simp add: read_dir_def comp_def)

lemma read_dir_iff: "(n, x) \<in> set (read_dir s) \<longleftrightarrow> lookup s n = Some x"
proof -
  have "n \<in> set (map fst (files s)) \<longleftrightarrow> lookup s n \<noteq> None" unfolding lookup_def by (rule set_keys_map_of)
  then show ?thesis unfolding read_dir_def by (auto simp: image_iff)
qed

text \<open>The directory after a successful reconciliation from the content \<open>m\<close>.\<close>

definition ir_converged :: "(string \<times> string) list \<Rightarrow> (string \<rightharpoonup> fs_entry) \<Rightarrow> string \<rightharpoonup> fs_entry" where
  "ir_converged configurations m name =
     (case configured configurations name of
        Some entry \<Rightarrow> Some entry
      | None \<Rightarrow> if managed_name name \<and> m name \<noteq> Some Directory then None else m name)"

lemma removeStale_effect:
  assumes "removeStaleProxyConfigurations c s desired = (r, c', s')"
  shows "fresh s' = fresh s \<and>
     (\<forall>n. lookup s' n = lookup s n \<or> lookup s' n = None \<and> managed_name n \<and> n \<notin> desired \<and> lookup s n \<noteq> Some Directory) \<and>
     (\<forall>b. r = Inr b \<longrightarrow> (\<forall>n. managed_name n \<longrightarrow> n \<notin> desired \<longrightarrow> lookup s n \<noteq> Some Directory \<longrightarrow> lookup s' n = None) \<and>
        b = (lookup s' \<noteq> lookup s))"
proof -
  obtain f s1 where s1: "syscall s = (f, s1)" by fastforce
  note e1 = syscall_eq [OF s1]
  show ?thesis
  proof (cases f)
    case True
    with assms s1 e1 show ?thesis by (auto simp: removeStaleProxyConfigurations_def)
  next
    case False
    with assms s1 have "removeStaleEntries c s1 (read_dir s1) desired False = (r, c', s')"
      by (simp add: removeStaleProxyConfigurations_def)
    from removeStaleEntries_effect [OF _ _ this] have
      "fresh s' = fresh s \<and>
       (\<forall>n. lookup s' n = lookup s n \<or> lookup s' n = None \<and> (\<exists>x. lookup s n = Some x \<and> stale_entry desired n x)) \<and>
       (\<forall>b. r = Inr b \<longrightarrow> (\<forall>n x. lookup s n = Some x \<longrightarrow> stale_entry desired n x \<longrightarrow> lookup s' n = None) \<and>
         b = (lookup s' \<noteq> lookup s))"
      using e1 by (simp add: read_dir_keys read_dir_iff)
    then show ?thesis by (simp add: stale_entry_def) (metis option.exhaust_sel option.inject)
  qed
qed

section \<open>Reconciliation\<close>

definition route_file :: "Route \<Rightarrow> string" where
  "route_file route = managedProxyPrefix @ TrimSpace (route_ServerID route) @ ''.yml''"

lemma proxyFilename_Inr: "proxyFilename serverID = Inr filename \<Longrightarrow> filename = managedProxyPrefix @ TrimSpace serverID @ ''.yml''"
  by (auto simp: proxyFilename_def Let_def split: if_splits)

text \<open>The rendered configurations of a request, when all of it is valid.\<close>

definition render_all :: "(proxyConfig \<Rightarrow> string option) \<Rightarrow> Route list \<Rightarrow> (string \<times> string) list option" where
  "render_all marshal routes =
     (if list_all (\<lambda>route. is_ok (proxyFilename (route_ServerID route)) \<and> is_ok (Render marshal route)) routes \<and>
         distinct (map route_file routes)
      then Some (map (\<lambda>route. (route_file route, projr (Render marshal route))) routes) else None)"

lemma renderRoute_Inr:
  "renderRoute marshal cs route = Inr cs' \<longleftrightarrow>
     is_ok (proxyFilename (route_ServerID route)) \<and> is_ok (Render marshal route) \<and>
     route_file route \<notin> set (map fst cs) \<and> cs' = cs @ [(route_file route, projr (Render marshal route))]"
  by (cases "proxyFilename (route_ServerID route)"; cases "Render marshal route")
    (auto simp: renderRoute_def map_of_eq_None_iff route_file_def dest!: proxyFilename_Inr)

lemma renderRoutes_Inr:
  "renderRoutes marshal c cs routes = (Inr cs', c') \<Longrightarrow>
     list_all (\<lambda>route. is_ok (proxyFilename (route_ServerID route)) \<and> is_ok (Render marshal route)) routes \<and>
     distinct (map route_file routes) \<and> set (map route_file routes) \<inter> set (map fst cs) = {} \<and>
     cs' = cs @ map (\<lambda>route. (route_file route, projr (Render marshal route))) routes"
proof (induction routes arbitrary: c cs)
  case (Cons route routes)
  then obtain cs1 where cs1: "renderRoute marshal cs route = Inr cs1"
    "renderRoutes marshal (ctx_step c) cs1 routes = (Inr cs', c')"
    by (auto split: option.splits sum.splits)
  from Cons.IH [OF cs1(2)] cs1(1) show ?case by (auto simp: renderRoute_Inr)
qed simp

lemma renderRoutes_all: "renderRoutes marshal c [] routes = (Inr cs, c') \<Longrightarrow> render_all marshal routes = Some cs"
  using renderRoutes_Inr [of marshal c "[]" routes cs c'] by (simp add: render_all_def)

lemma render_all_keys: "render_all marshal routes = Some cs \<Longrightarrow> map fst cs = map route_file routes \<and> distinct (map fst cs)"
  by (auto simp: render_all_def comp_def split: if_splits)

lemma renderRoutes_valid:
  assumes "never_done c" "list_all (\<lambda>route. is_ok (proxyFilename (route_ServerID route)) \<and> is_ok (Render marshal route)) routes"
    "distinct (map route_file routes)" "set (map route_file routes) \<inter> set (map fst cs) = {}"
  shows "\<exists>c'. renderRoutes marshal c cs routes =
     (Inr (cs @ map (\<lambda>route. (route_file route, projr (Render marshal route))) routes), c') \<and> never_done c'"
  using assms
proof (induction routes arbitrary: c cs)
  case (Cons route routes)
  have "renderRoute marshal cs route = Inr (cs @ [(route_file route, projr (Render marshal route))])"
    unfolding renderRoute_Inr using Cons.prems by auto
  with Cons.IH [of "ctx_step c" "cs @ [(route_file route, projr (Render marshal route))]"] Cons.prems
  show ?case by auto
qed simp

lemma managed_not_hidden: "managed_name n \<Longrightarrow> \<not> hidden n"
  by (auto simp: managed_name_def hidden_def HasPrefix_iff managedProxyPrefix_def prefix_def)

lemma managed_route_file: "managed_name (route_file route)"
proof -
  have "HasPrefix (route_file route) managedProxyPrefix" by (simp add: route_file_def HasPrefix_def)
  moreover have "filepath_Ext ((managedProxyPrefix @ TrimSpace (route_ServerID route)) @ ''.yml'') = ''.yml''"
    using filepath_Ext_append [of "''yml''" "managedProxyPrefix @ TrimSpace (route_ServerID route)"] by simp
  ultimately show ?thesis by (simp add: managed_name_def route_file_def)
qed

lemma ReconcileChanges_effect:
  assumes "fresh s" "ReconcileChanges marshal c routes s = (r, c', s')"
  shows "fresh s' \<and>
     (case render_all marshal routes of
        None \<Rightarrow> s' = s \<and> \<not> is_ok r
      | Some cs \<Rightarrow>
          (\<forall>n. hidden n \<or> lookup s' n = lookup s n \<or> lookup s' n = ir_converged cs (lookup s) n) \<and>
          (\<forall>b. r = Inr b \<longrightarrow> lookup s' = ir_converged cs (lookup s) \<and> b = (lookup s' \<noteq> lookup s)))"
proof -
  consider (early) "s' = s" "\<not> is_ok r"
    | (mkdir) cs s1 where "render_all marshal routes = Some cs" "syscall s = (True, s1)" "s' = s1" "\<not> is_ok r"
    | (broke) cs s1 c1 e c2 where "render_all marshal routes = Some cs" "syscall s = (False, s1)"
        "writeConfigurations c1 s1 cs False = (Inl e, c2, s')" "\<not> is_ok r"
    | (run) cs s1 c1 b1 c2 s2 r2 where "render_all marshal routes = Some cs" "syscall s = (False, s1)"
        "writeConfigurations c1 s1 cs False = (Inr b1, c2, s2)"
        "removeStaleProxyConfigurations c2 s2 (set (map fst cs)) = (r2, c', s')"
        "\<And>b. r = Inr b \<Longrightarrow> \<exists>b2. r2 = Inr b2 \<and> b = (b1 \<or> b2)"
    using assms(2) unfolding ReconcileChanges_def
    by (auto dest!: renderRoutes_all split: option.splits sum.splits prod.splits if_splits)
  then show ?thesis
  proof cases
    case early
    then show ?thesis using assms(1) by (auto split: option.split)
  next
    case mkdir
    then show ?thesis using assms(1) syscall_eq [OF mkdir(2)] by auto
  next
    case broke
    have d: "distinct (map fst cs)" using render_all_keys [OF broke(1)] by blast
    have "hidden n \<or> lookup s' n = lookup s n \<or> lookup s' n = ir_converged cs (lookup s) n" for n
      using writeConfigurations_effect [OF _ d broke(3)] syscall_eq [OF broke(2)] assms(1)
      by (auto simp: ir_converged_def set_keys_map_of configured_def simp del: set_map split: option.split)
    then show ?thesis
      using broke(1,4) writeConfigurations_effect [OF _ d broke(3)] syscall_eq [OF broke(2)] assms(1) by auto
  next
    case run
    note s1 = syscall_eq [OF run(2)]
    have d: "distinct (map fst cs)" using render_all_keys [OF run(1)] by blast
    have w: "fresh s2" "lookup s2 = lookup s ++ configured cs" "b1 = (lookup s2 \<noteq> lookup s)"
      using writeConfigurations_effect [OF _ d run(3)] s1 assms(1) by auto
    note st = removeStale_effect [OF run(4)]
    have st1: "lookup s' n = lookup s2 n \<or>
        lookup s' n = None \<and> managed_name n \<and> n \<notin> set (map fst cs) \<and> lookup s2 n \<noteq> Some Directory" for n
      using st by blast
    have key: "n \<in> set (map fst cs) \<longleftrightarrow> configured cs n \<noteq> None" for n
      unfolding set_keys_map_of configured_def by simp
    have des: "lookup s' n = configured cs n" if "configured cs n \<noteq> None" for n
      using st1 [of n] that key [of n] w(2) by (auto simp: map_add_def simp del: set_map)
    have oth: "lookup s2 n = lookup s n" if "configured cs n = None" for n
      using that w(2) by (simp add: map_add_def)
    have a: "lookup s' n = lookup s n \<or> lookup s' n = ir_converged cs (lookup s) n" for n
      using st1 [of n] des [of n] oth [of n] by (auto simp: ir_converged_def split: option.split)
    have b: "lookup s' n = ir_converged cs (lookup s) n" if "r = Inr b" for b n
    proof (cases "configured cs n = None")
      case True
      from run(5) [OF that] obtain b2 where "r2 = Inr b2" by blast
      with st have "managed_name n \<longrightarrow> lookup s2 n \<noteq> Some Directory \<longrightarrow> lookup s' n = None"
        using key [of n] True by blast
      with st1 [of n] oth [OF True] True show ?thesis by (auto simp: ir_converged_def)
    qed (use des in \<open>auto simp: ir_converged_def\<close>)
    have ch: "b = (lookup s' \<noteq> lookup s)" if "r = Inr b" for b
    proof -
      from run(5) [OF that] obtain b2 where b2: "r2 = Inr b2" "b = (b1 \<or> b2)" by blast
      with st have "b2 = (lookup s' \<noteq> lookup s2)" by blast
      moreover have "lookup s' \<noteq> lookup s" if "lookup s2 \<noteq> lookup s"
      proof -
        from that obtain n where n: "lookup s2 n \<noteq> lookup s n" by blast
        with oth have "configured cs n \<noteq> None" by blast
        with des [OF this] n w(2) show ?thesis by (auto simp: map_add_def)
      qed
      ultimately show ?thesis using b2(2) w(3) by auto
    qed
    have "fresh s'" using st w(1) by blast
    with run(1) a b ch show ?thesis by (simp add: fun_eq_iff)
  qed
qed

section \<open>Success and repetition\<close>

text \<open>A file system on which no call fails.\<close>

definition faultless :: "fs \<Rightarrow> bool" where
  "faultless s \<longleftrightarrow> fs_faults s = []"

lemma faultless_syscall: "faultless s \<Longrightarrow> syscall s = (False, s)"
  by (simp add: faultless_def syscall_def)

lemma faultless_put [simp]: "faultless (put s n x) \<longleftrightarrow> faultless s"
  and faultless_del [simp]: "faultless (del s n) \<longleftrightarrow> faultless s"
  by (simp_all add: faultless_def put_def del_def)

lemma writeFileAtomic_succeeds:
  assumes "faultless s" "lookup s name \<noteq> Some Directory"
  shows "\<exists>s'. writeFileAtomic s name data p = (None, s') \<and> faultless s'"
  using assms temporary_not_name [of s name]
  by (simp add: writeFileAtomic_def fillTemp_def Let_def faultless_syscall)

lemma needsUpdate_succeeds:
  assumes "faultless s"
  shows "proxyConfigurationNeedsUpdate s name data p = (Inr (lookup s name \<noteq> Some (Regular data p)), s)"
  using assms
  by (auto simp: proxyConfigurationNeedsUpdate_def faultless_syscall split: option.split fs_entry.split)

lemma writeConfigurations_succeeds:
  assumes "fresh s" "faultless s" "never_done c" "distinct (map fst cs)"
    and "\<And>n. n \<in> set (map fst cs) \<Longrightarrow> lookup s n \<noteq> Some Directory"
  shows "\<exists>b c' s'. writeConfigurations c s cs changed = (Inr b, c', s') \<and> faultless s' \<and> never_done c'"
  using assms
proof (induction cs arbitrary: s c changed)
  case (Cons f cs)
  obtain n d where f: "f = (n, d)" by fastforce
  have ih: "\<exists>b c' s'. writeConfigurations (ctx_step c) s1 cs ch = (Inr b, c', s') \<and> faultless s' \<and> never_done c'"
    if "fresh s1" "faultless s1" "\<And>k. k \<noteq> n \<Longrightarrow> lookup s1 k = lookup s k" for s1 ch
  proof (intro Cons.IH)
    fix k assume k: "k \<in> set (map fst cs)"
    then have "k \<noteq> n" using Cons.prems(4) f by auto
    with that(3) Cons.prems(5) [of k] k show "lookup s1 k \<noteq> Some Directory" by simp
  qed (use that Cons.prems in auto)
  show ?case
  proof (cases "lookup s n = Some (Regular d 420)")
    case True
    with ih [of s changed] Cons.prems f show ?thesis by (simp add: needsUpdate_succeeds)
  next
    case False
    obtain s1 where s1: "writeFileAtomic s n d 420 = (None, s1)" "faultless s1"
      using writeFileAtomic_succeeds [of s n d 420] Cons.prems f by auto
    with writeFileAtomic_effect [OF Cons.prems(1) s1(1)] ih [of s1 True] False Cons.prems f
    show ?thesis by (simp add: needsUpdate_succeeds)
  qed
qed simp

lemma removeStaleEntries_succeeds:
  "faultless s \<Longrightarrow> never_done c \<Longrightarrow> \<exists>b c' s'. removeStaleEntries c s es desired changed = (Inr b, c', s')"
proof (induction es arbitrary: s c changed)
  case (Cons y es)
  then show ?case by (cases y) (simp add: faultless_syscall)
qed simp

lemma ReconcileChanges_succeeds:
  assumes "fresh s" "faultless s" "never_done c" "render_all marshal routes = Some cs"
    and "\<And>n. n \<in> set (map fst cs) \<Longrightarrow> lookup s n \<noteq> Some Directory"
  shows "\<exists>b c' s'. ReconcileChanges marshal c routes s = (Inr b, c', s')"
proof -
  have v: "list_all (\<lambda>route. is_ok (proxyFilename (route_ServerID route)) \<and> is_ok (Render marshal route)) routes"
    "distinct (map route_file routes)" "cs = map (\<lambda>route. (route_file route, projr (Render marshal route))) routes"
    using assms(4) by (auto simp: render_all_def split: if_splits)
  obtain c1 where "renderRoutes marshal (ctx_step c) [] routes = (Inr cs, c1)" "never_done c1"
    using renderRoutes_valid [of "ctx_step c" marshal routes "[]"] v assms(3) by auto
  moreover obtain b c2 s2 where "writeConfigurations c1 s cs False = (Inr b, c2, s2)" "faultless s2" "never_done c2"
    using writeConfigurations_succeeds [OF assms(1,2) \<open>never_done c1\<close> _ assms(5)] render_all_keys [OF assms(4)] by blast
  moreover obtain b2 c3 s3 where "removeStaleEntries c2 s2 (read_dir s2) (set (map fst cs)) False = (Inr b2, c3, s3)"
    using removeStaleEntries_succeeds [OF \<open>faultless s2\<close> \<open>never_done c2\<close>] by blast
  ultimately show ?thesis using assms(2,3)
    by (simp add: ReconcileChanges_def faultless_syscall removeStaleProxyConfigurations_def)
qed

lemma ir_converged_idem: "ir_converged cs (ir_converged cs m) = ir_converged cs m"
  by (auto simp: ir_converged_def fun_eq_iff split: option.split)

lemma ir_converged_desired:
  "n \<in> set (map fst cs) \<Longrightarrow> ir_converged cs m n \<noteq> Some Directory"
  unfolding set_keys_map_of by (auto simp: ir_converged_def configured_def)

lemma ReconcileChanges_settled:
  assumes "fresh s" "faultless s" "never_done c" "render_all marshal routes = Some cs"
    and "lookup s = ir_converged cs m"
  shows "\<exists>c' s'. ReconcileChanges marshal c routes s = (Inr False, c', s') \<and> lookup s' = lookup s"
proof -
  obtain b c' s' where r: "ReconcileChanges marshal c routes s = (Inr b, c', s')"
    using ReconcileChanges_succeeds [OF assms(1-4)] ir_converged_desired assms(5) by metis
  with ReconcileChanges_effect [OF assms(1) r] assms(4,5) show ?thesis by (auto simp: ir_converged_idem)
qed

section \<open>Properties\<close>

definition example_marshal :: "proxyConfig \<Rightarrow> string option" where
  "example_marshal config = Some (concat (Domains config) @ '' '' @ concat (Addresses config))"

definition example_suffix :: "string list \<Rightarrow> string \<Rightarrow> string" where
  "example_suffix taken p = concat taken @ ''1''"

definition example_fs :: "faults \<Rightarrow> fs" where
  "example_fs faults = \<lparr>files = [(''notes.txt'', Regular ''x'' 420), (''pelican-mc-router-old.yml'', Regular ''y'' 420)],
     fs_faults = faults, fs_temp = example_suffix, fs_partial = 3\<rparr>"

definition ir_routes :: "Route list" where
  "ir_routes = [\<lparr>route_ServerID = ''6f1c'', route_Hostname = ''a.mc.example.com'',
     route_Backend = \<lparr>backend_Host = ''10.0.0.2'', backend_Port = 25565\<rparr>\<rparr>,
     \<lparr>route_ServerID = ''77aa'', route_Hostname = ''b.mc.example.com'',
     route_Backend = \<lparr>backend_Host = ''10.0.0.3'', backend_Port = 25565\<rparr>\<rparr>]"

definition ir_configurations :: "(string \<times> string) list" where
  "ir_configurations = [(''pelican-mc-router-6f1c.yml'', ''a.mc.example.com 10.0.0.2:25565''),
     (''pelican-mc-router-77aa.yml'', ''b.mc.example.com 10.0.0.3:25565'')]"

definition settled_fs :: fs where
  "settled_fs = snd (snd (ReconcileChanges example_marshal Background ir_routes (example_fs [])))"

lemma settled_files:
  "files settled_fs = [(''notes.txt'', Regular ''x'' 420),
     (''pelican-mc-router-6f1c.yml'', Regular ''a.mc.example.com 10.0.0.2:25565'' 420),
     (''pelican-mc-router-77aa.yml'', Regular ''b.mc.example.com 10.0.0.3:25565'' 420)]"
  by code_simp

lemma settled_faultless: "faultless settled_fs"
  by code_simp

lemma example_render: "render_all example_marshal ir_routes = Some ir_configurations"
  by code_simp

lemma length_concat_mem: "x \<in> set xs \<Longrightarrow> length x \<le> length (concat xs)"
  by (induction xs) auto

lemma fresh_example: "fresh (example_fs fs)"
proof -
  have "p @ example_suffix taken p \<notin> set taken" for taken p
    using length_concat_mem [of "p @ example_suffix taken p" taken] by (auto simp: example_suffix_def)
  then show ?thesis by (simp add: fresh_def example_fs_def)
qed

lemma example_ir_reconcile:
  "ReconcileChanges example_marshal Background ir_routes (example_fs []) = (Inr True, Background, settled_fs)"
proof -
  have "fst (ReconcileChanges example_marshal Background ir_routes (example_fs [])) = Inr True"
    "fst (snd (ReconcileChanges example_marshal Background ir_routes (example_fs []))) = Background" by code_simp+
  then show ?thesis unfolding settled_fs_def by (metis prod.collapse)
qed

text \<open>
  C11. A reconciliation that succeeds leaves the proxy directory with exactly the rendered
  configuration of every route (content and mode), no other managed configuration file, and
  everything else as it was; and it reports a change exactly when the directory changed.
\<close>

theorem infrared_converges:
  assumes "fresh s" "ReconcileChanges marshal c routes s = (Inr changed, c', s')"
  shows "\<exists>configurations. render_all marshal routes = Some configurations \<and>
     lookup s' = ir_converged configurations (lookup s) \<and> changed = (lookup s' \<noteq> lookup s)"
  using ReconcileChanges_effect [OF assms] by (auto split: option.splits)

theorem infrared_converges_witness:
  "\<exists>configurations. render_all example_marshal ir_routes = Some configurations \<and>
     lookup settled_fs = ir_converged configurations (lookup (example_fs [])) \<and>
     True = (lookup settled_fs \<noteq> lookup (example_fs []))"
  by (rule infrared_converges [OF fresh_example example_ir_reconcile])

text \<open>
  C12. Replacement is atomic: whichever system call fails and whenever the context is cancelled, every
  configuration file has its complete old content or its complete new one, a managed file that is
  not desired is intact or gone, and no other file than a hidden temporary one is touched.
\<close>

theorem infrared_atomic:
  assumes "fresh s" "ReconcileChanges marshal c routes s = (r, c', s')"
    and "render_all marshal routes = Some configurations"
  shows "hidden n \<or> lookup s' n = lookup s n \<or> managed_name n \<and> lookup s' n = ir_converged configurations (lookup s) n"
proof -
  have "hidden n \<or> lookup s' n = lookup s n \<or> lookup s' n = ir_converged configurations (lookup s) n"
    using ReconcileChanges_effect [OF assms(1,2)] assms(3) by auto
  moreover have "managed_name n" if "configured configurations n \<noteq> None"
  proof -
    have "n \<in> set (map fst configurations)" using that by (auto simp: configured_def set_keys_map_of simp del: set_map)
    with render_all_keys [OF assms(3)] managed_route_file show ?thesis by auto
  qed
  ultimately show ?thesis by (auto simp: ir_converged_def split: option.splits if_splits)
qed

definition failing_fs :: fs where
  "failing_fs = example_fs (replicate 11 False @ [True])"

definition half_fs :: fs where
  "half_fs = snd (snd (ReconcileChanges example_marshal Background ir_routes failing_fs))"

lemma example_half:
  "ReconcileChanges example_marshal Background ir_routes failing_fs =
     (Inl (ReplaceFailed ''pelican-mc-router-77aa.yml'' ChmodFailed), Background, half_fs)"
proof -
  have "fst (ReconcileChanges example_marshal Background ir_routes failing_fs) =
      Inl (ReplaceFailed ''pelican-mc-router-77aa.yml'' ChmodFailed)"
    "fst (snd (ReconcileChanges example_marshal Background ir_routes failing_fs)) = Background" by code_simp+
  then show ?thesis unfolding half_fs_def by (metis prod.collapse)
qed

theorem infrared_atomic_witness:
  "(hidden ''notes.txt'' \<or> lookup half_fs ''notes.txt'' = lookup failing_fs ''notes.txt'' \<or>
     managed_name ''notes.txt'' \<and>
     lookup half_fs ''notes.txt'' = ir_converged ir_configurations (lookup failing_fs) ''notes.txt'') \<and>
   ReconcileChanges example_marshal Background ir_routes failing_fs =
     (Inl (ReplaceFailed ''pelican-mc-router-77aa.yml'' ChmodFailed), Background, half_fs)"
proof
  have "fresh failing_fs" unfolding failing_fs_def by (rule fresh_example)
  from infrared_atomic [OF this example_half example_render]
  show "hidden ''notes.txt'' \<or> lookup half_fs ''notes.txt'' = lookup failing_fs ''notes.txt'' \<or>
     managed_name ''notes.txt'' \<and>
     lookup half_fs ''notes.txt'' = ir_converged ir_configurations (lookup failing_fs) ''notes.txt''" .
qed (rule example_half)

text \<open>
  Reconciliation is idempotent: on a directory that a success left behind, the same routes are
  accepted again, nothing changes, and no change is reported, so Infrared is not reloaded.
\<close>

lemma infrared_idempotent:
  assumes "fresh s" "ReconcileChanges marshal c routes s = (Inr changed, c', s')"
    and "faultless s'" "never_done c2"
  shows "\<exists>c3 s''. ReconcileChanges marshal c2 routes s' = (Inr False, c3, s'') \<and> lookup s'' = lookup s'"
  using ReconcileChanges_effect [OF assms(1,2)] ReconcileChanges_settled [OF _ assms(3,4)]
  by (auto split: option.splits)

lemma infrared_idempotent_example:
  "\<exists>c3 s''. ReconcileChanges example_marshal Background ir_routes settled_fs = (Inr False, c3, s'') \<and>
     lookup s'' = lookup settled_fs"
  by (rule infrared_idempotent [OF fresh_example example_ir_reconcile settled_faultless never_done_Background])

text \<open>
  The whole request is validated and rendered before the directory is touched: a server
  identifier that is empty or not safe as a file name, one that occurs twice, or a route that cannot
  be rendered makes the reconciliation fail with the directory as it was.
\<close>

lemma infrared_rejects:
  assumes "fresh s" "render_all marshal routes = None"
  shows "\<exists>e c'. ReconcileChanges marshal c routes s = (Inl e, c', s)"
proof -
  obtain r c' s' where r: "ReconcileChanges marshal c routes s = (r, c', s')" by (metis prod.collapse)
  with ReconcileChanges_effect [OF assms(1) r] assms(2) show ?thesis by (cases r) auto
qed

lemma infrared_rejects_example:
  "\<exists>e c'. ReconcileChanges example_marshal Background (ir_routes @ ir_routes) (example_fs []) = (Inl e, c', example_fs [])"
proof (rule infrared_rejects [OF fresh_example])
  show "render_all example_marshal (ir_routes @ ir_routes) = None" by code_simp
qed

end
