(* ===== verification/InfraredReload.thy ===== *)
theory InfraredReload
  imports Infrared
begin

text \<open>
  The reload marker and the controller that asks Infrared to reload after a change,
  \<open>internal/router/infrared/marker_reloader.go\<close> and \<open>reloading_controller.go\<close>.

  \<open>ReloadingController\<close> works with any \<open>ChangeAwareRouteController\<close> and \<open>Reloader\<close>;
  both are fields of its record, functions on a world \<open>'w\<close>.  The locale \<open>reloadable\<close> is
  what it relies on: \<open>written\<close> is the configuration on disk and \<open>signalled\<close> the configuration
  that was on disk at the last successful reload.  It is interpreted on the Infrared controller and the
  marker reloader of this repository, in a world with the proxy directory and the directory of the
  marker.  The field \<open>signalled\<close> of that world is a record of the past: the proxy directory as it
  was when the marker was last replaced.  What the Infrared process does with a new marker is not part
  of the model.
\<close>

section \<open>The marker\<close>

datatype reload_error = ReloadCtx ctx_error | ReloadMkdir | ReloadWrite write_error

definition NewMarkerReloader :: "string \<Rightarrow> string option" where
  "NewMarkerReloader path = (let path = TrimSpace path in if path = [] then None else Some (path_Clean path))"

text \<open>\<open>name\<close> is the base name of the marker, \<open>now\<close> the formatted time; the directory is the state.\<close>

definition Reload :: "string \<Rightarrow> string \<Rightarrow> ctx \<Rightarrow> fs \<Rightarrow> reload_error option \<times> ctx \<times> fs" where
  "Reload name now c s =
     (case ctx_Err c of
        Some e \<Rightarrow> (Some (ReloadCtx e), ctx_step c, s)
      | None \<Rightarrow>
          (case syscall s of (failed, s1) \<Rightarrow>
             if failed then (Some ReloadMkdir, ctx_step c, s1)
             else case ctx_Err (ctx_step c) of
               Some e \<Rightarrow> (Some (ReloadCtx e), ctx_step (ctx_step c), s1)
             | None \<Rightarrow>
                 (case writeFileAtomic s1 name (now @ [CHR 0x0A]) 420 of
                    (Some e, s2) \<Rightarrow> (Some (ReloadWrite e), ctx_step (ctx_step c), s2)
                  | (None, s2) \<Rightarrow> (None, ctx_step (ctx_step c), s2))))"

section \<open>The reloading controller\<close>

record ('w, 'e, 'r) ReloadingController =
  rl_controller :: "ctx \<Rightarrow> Route list \<Rightarrow> 'w \<Rightarrow> ('e + bool) \<times> ctx \<times> 'w"
  rl_reloader :: "ctx \<Rightarrow> 'w \<Rightarrow> 'r option \<times> ctx \<times> 'w"
  reloadPending :: bool

datatype new_reloading_error = errRouteControllerRequired | errReloaderRequired

definition NewReloadingController ::
  "(ctx \<Rightarrow> Route list \<Rightarrow> 'w \<Rightarrow> ('e + bool) \<times> ctx \<times> 'w) option \<Rightarrow> (ctx \<Rightarrow> 'w \<Rightarrow> 'r option \<times> ctx \<times> 'w) option \<Rightarrow>
   new_reloading_error + ('w, 'e, 'r) ReloadingController" where
  "NewReloadingController controller reloader =
     (case controller of
        None \<Rightarrow> Inl errRouteControllerRequired
      | Some rc \<Rightarrow>
          (case reloader of
             None \<Rightarrow> Inl errReloaderRequired
           | Some rl \<Rightarrow> Inr \<lparr>rl_controller = rc, rl_reloader = rl, reloadPending = False\<rparr>))"

datatype ('e, 'r) reloading_error = RLReconcile 'e | RLCtx ctx_error | RLReload 'r

definition rlReconcile ::
  "('w, 'e, 'r) ReloadingController \<Rightarrow> ctx \<Rightarrow> Route list \<Rightarrow> 'w \<Rightarrow>
   ('e, 'r) reloading_error option \<times> ctx \<times> ('w, 'e, 'r) ReloadingController \<times> 'w" where
  "rlReconcile rl c routes w =
     (case rl_controller rl c routes w of
        (Inl e, c1, w1) \<Rightarrow> (Some (RLReconcile e), c1, rl, w1)
      | (Inr changed, c1, w1) \<Rightarrow>
          let rl1 = (if changed then rl\<lparr>reloadPending := True\<rparr> else rl)
          in if \<not> reloadPending rl1 then (None, c1, rl1, w1)
             else case ctx_Err c1 of
               Some e \<Rightarrow> (Some (RLCtx e), ctx_step c1, rl1, w1)
             | None \<Rightarrow>
                 (case rl_reloader rl1 (ctx_step c1) w1 of
                    (Some e, c2, w2) \<Rightarrow> (Some (RLReload e), c2, rl1, w2)
                  | (None, c2, w2) \<Rightarrow> (None, c2, rl1\<lparr>reloadPending := False\<rparr>, w2)))"

locale reloadable =
  fixes rc :: "ctx \<Rightarrow> Route list \<Rightarrow> 'w \<Rightarrow> ('e + bool) \<times> ctx \<times> 'w"
    and reload :: "ctx \<Rightarrow> 'w \<Rightarrow> 'r option \<times> ctx \<times> 'w"
    and invar :: "'w \<Rightarrow> bool"
    and written :: "'w \<Rightarrow> 'cfg"
    and signalled :: "'w \<Rightarrow> 'cfg"
  assumes rc_invar: "invar w \<Longrightarrow> rc c routes w = (r, c', w') \<Longrightarrow> invar w' \<and> signalled w' = signalled w"
    and rc_reports: "invar w \<Longrightarrow> rc c routes w = (Inr changed, c', w') \<Longrightarrow> changed = (written w' \<noteq> written w)"
    and reload_invar: "invar w \<Longrightarrow> reload c w = (e, c', w') \<Longrightarrow> invar w' \<and> written w' = written w"
    and reload_signals: "invar w \<Longrightarrow> reload c w = (None, c', w') \<Longrightarrow> signalled w' = written w"
begin

text \<open>Nothing is pending only when the configuration on disk has been signalled.\<close>

definition up_to_date :: "('w, 'e, 'r) ReloadingController \<Rightarrow> 'w \<Rightarrow> bool" where
  "up_to_date rl w \<longleftrightarrow> rl_controller rl = rc \<and> rl_reloader rl = reload \<and> invar w \<and>
     (reloadPending rl \<or> signalled w = written w)"

lemma success_signals:
  assumes "up_to_date rl w" "rlReconcile rl c routes w = (None, c', rl', w')"
  shows "signalled w' = written w' \<and> up_to_date rl' w'"
proof -
  from assms obtain changed c1 w1 where r: "rc c routes w = (Inr changed, c1, w1)"
    by (auto simp: rlReconcile_def up_to_date_def split: prod.splits sum.splits)
  have inv: "invar w" using assms(1) by (simp add: up_to_date_def)
  note i1 = rc_invar [OF inv r] and ch = rc_reports [OF inv r]
  show ?thesis
  proof (cases "changed \<or> reloadPending rl")
    case False
    with assms r i1 ch show ?thesis by (auto simp: rlReconcile_def up_to_date_def)
  next
    case True
    with assms r obtain c2 where l: "reload (ctx_step c1) w1 = (None, c2, w')"
      "rl_controller rl' = rc" "rl_reloader rl' = reload"
      by (auto simp: rlReconcile_def up_to_date_def Let_def split: option.splits prod.splits if_splits)
    with reload_invar [OF _ l(1)] reload_signals [OF _ l(1)] i1 show ?thesis by (auto simp: up_to_date_def)
  qed
qed

lemma failure_keeps:
  assumes "up_to_date rl w" "rlReconcile rl c routes w = (e, c', rl', w')"
    and "\<And>e c' w'. rc c routes w = (Inl e, c', w') \<Longrightarrow> written w' = written w"
  shows "up_to_date rl' w'"
proof (cases e)
  case None
  with success_signals assms(1,2) show ?thesis by blast
next
  case (Some e')
  obtain r c1 w1 where r: "rc c routes w = (r, c1, w1)" by (metis prod.collapse)
  have inv: "invar w" using assms(1) by (simp add: up_to_date_def)
  note i1 = rc_invar [OF inv r]
  show ?thesis
  proof (cases r)
    case (Inl e1)
    with assms r i1 show ?thesis by (auto simp: rlReconcile_def up_to_date_def)
  next
    case (Inr changed)
    note ch = rc_reports [OF inv r [unfolded Inr]]
    from Inr r assms(1,2) Some have "reloadPending rl'" "rl_controller rl' = rc" "rl_reloader rl' = reload"
      "w' = w1 \<or> (\<exists>e2 c2. reload (ctx_step c1) w1 = (e2, c2, w'))"
      by (auto simp: rlReconcile_def up_to_date_def Let_def split: option.splits prod.splits if_splits)
    with i1 reload_invar show ?thesis by (auto simp: up_to_date_def)
  qed
qed

end

section \<open>Infrared and its marker\<close>

record ir_world =
  proxies :: fs
  marker :: fs
  signalled :: "string \<rightharpoonup> fs_entry"

definition ir_controller ::
  "(proxyConfig \<Rightarrow> string option) \<Rightarrow> ctx \<Rightarrow> Route list \<Rightarrow> ir_world \<Rightarrow> (infrared_error + bool) \<times> ctx \<times> ir_world" where
  "ir_controller marshal c routes w =
     (case ReconcileChanges marshal c routes (proxies w) of (r, c', s) \<Rightarrow> (r, c', w\<lparr>proxies := s\<rparr>))"

text \<open>The marker reloader; when the marker is replaced, the world remembers what the proxy directory held.\<close>

definition ir_reloader :: "string \<Rightarrow> string \<Rightarrow> ctx \<Rightarrow> ir_world \<Rightarrow> reload_error option \<times> ctx \<times> ir_world" where
  "ir_reloader name now c w =
     (case Reload name now c (marker w) of
        (e, c', s) \<Rightarrow> (e, c', (if e = None then w\<lparr>signalled := lookup (proxies w)\<rparr> else w)\<lparr>marker := s\<rparr>))"

definition ir_invar :: "ir_world \<Rightarrow> bool" where
  "ir_invar w \<longleftrightarrow> fresh (proxies w)"

definition ir_written :: "ir_world \<Rightarrow> string \<rightharpoonup> fs_entry" where
  "ir_written w = lookup (proxies w)"

interpretation infrared: reloadable "ir_controller marshal" "ir_reloader name now" ir_invar ir_written signalled
  for marshal name now
proof
  fix w w' :: ir_world and c c' routes r changed
  show "ir_invar w' \<and> signalled w' = signalled w"
    if "ir_invar w" "ir_controller marshal c routes w = (r, c', w')"
    using that ReconcileChanges_effect [of "proxies w" marshal c routes]
    by (auto simp: ir_invar_def ir_controller_def split: prod.splits)
  show "changed = (ir_written w' \<noteq> ir_written w)"
    if "ir_invar w" "ir_controller marshal c routes w = (Inr changed, c', w')"
    using that ReconcileChanges_effect [of "proxies w" marshal c routes "Inr changed" c' "proxies w'"]
    by (auto simp: ir_invar_def ir_controller_def ir_written_def split: prod.splits option.splits)
qed (auto simp: ir_invar_def ir_reloader_def ir_written_def split: prod.splits if_splits)

text \<open>A reload that succeeds has replaced the marker by the current time and touched no other file.\<close>

lemma Reload_success:
  assumes "fresh s" "Reload name now c s = (None, c', s')"
  shows "lookup s' = (lookup s)(name \<mapsto> Regular (now @ [CHR 0x0A]) 420)"
proof -
  obtain s1 where s1: "syscall s = (False, s1)" "writeFileAtomic s1 name (now @ [CHR 0x0A]) 420 = (None, s')"
    using assms(2) by (auto simp: Reload_def split: option.splits prod.splits if_splits)
  with assms(1) syscall_eq [OF s1(1)] writeFileAtomic_effect [OF _ s1(2)] show ?thesis by simp
qed

section \<open>Properties\<close>

definition infrared_backend ::
  "(proxyConfig \<Rightarrow> string option) \<Rightarrow> string \<Rightarrow> string \<Rightarrow> bool \<Rightarrow> (ir_world, infrared_error, reload_error) ReloadingController" where
  "infrared_backend marshal name now pending =
     (projr (NewReloadingController (Some (ir_controller marshal)) (Some (ir_reloader name now))))\<lparr>reloadPending := pending\<rparr>"

lemma infrared_backend_fields:
  "rl_controller (infrared_backend marshal name now pending) = ir_controller marshal"
  "rl_reloader (infrared_backend marshal name now pending) = ir_reloader name now"
  "reloadPending (infrared_backend marshal name now pending) = pending"
  by (simp_all add: infrared_backend_def NewReloadingController_def)

lemma infrared_success_marks:
  assumes "fresh (proxies w)" "fresh (marker w)"
    and "rlReconcile (infrared_backend marshal name now pending) c routes w = (None, c', rl', w')"
  shows "lookup (marker w') =
    (if pending \<or> lookup (proxies w') \<noteq> lookup (proxies w)
     then (lookup (marker w))(name \<mapsto> Regular (now @ [CHR 0x0A]) 420) else lookup (marker w))"
proof -
  obtain changed c1 s where r: "ReconcileChanges marshal c routes (proxies w) = (Inr changed, c1, s)"
    using assms(3) by (auto simp: rlReconcile_def infrared_backend_fields ir_controller_def split: prod.splits sum.splits)
  have ch: "changed = (lookup s \<noteq> lookup (proxies w))"
    using ReconcileChanges_effect [OF assms(1) r] by (auto split: option.splits)
  show ?thesis
  proof (cases "changed \<or> pending")
    case False
    then show ?thesis using assms(3) r ch by (auto simp: rlReconcile_def infrared_backend_fields ir_controller_def)
  next
    case True
    then obtain c2 s' where "Reload name now (ctx_step c1) (marker w) = (None, c2, s')" "marker w' = s'" "proxies w' = s"
      using assms(3) r
      by (auto simp: rlReconcile_def infrared_backend_fields ir_controller_def ir_reloader_def Let_def
          split: option.splits prod.splits if_splits)
    then show ?thesis using True ch Reload_success [OF assms(2)] by auto
  qed
qed

definition example_world :: ir_world where
  "example_world = \<lparr>proxies = (example_fs [])\<lparr>files := [(''notes.txt'', Regular ''x'' 420)]\<rparr>, marker = example_fs [],
     signalled = [''notes.txt'' \<mapsto> Regular ''x'' 420]\<rparr>"

definition example_backend :: "(ir_world, infrared_error, reload_error) ReloadingController" where
  "example_backend = infrared_backend example_marshal ''reload'' ''2026-01-01T00:00:00Z'' False"

lemma example_world_fresh: "fresh (proxies example_world)" "fresh (marker example_world)"
  using fresh_example [of "[]"] by (simp_all add: example_world_def fresh_def example_fs_def)

lemma example_world_signalled: "signalled example_world = lookup (proxies example_world)"
  by (simp add: example_world_def lookup_def)

text \<open>
  C13. If the configuration on disk is the one at the last update of the reload marker, or a reload is
  pending, then after a reconciliation that succeeds the configuration on disk is again the one at the
  last update of the marker: a reconciliation that changed the directory, or follows a reload that
  failed, replaces the marker by the current time before it reports success, and any other leaves the
  marker alone.
\<close>

theorem infrared_success_signals:
  assumes "fresh (proxies w)" "fresh (marker w)" "pending \<or> signalled w = lookup (proxies w)"
    and "rlReconcile (infrared_backend marshal name now pending) c routes w = (None, c', rl', w')"
  shows "signalled w' = lookup (proxies w') \<and>
    lookup (marker w') =
      (if pending \<or> lookup (proxies w') \<noteq> lookup (proxies w)
       then (lookup (marker w))(name \<mapsto> Regular (now @ [CHR 0x0A]) 420) else lookup (marker w))"
proof -
  have "infrared.up_to_date marshal name now (infrared_backend marshal name now pending) w"
    unfolding infrared.up_to_date_def infrared_backend_fields
    using assms(1,3) by (auto simp: ir_invar_def ir_written_def)
  from infrared.success_signals [OF this assms(4)] infrared_success_marks [OF assms(1,2,4)] show ?thesis
    by (simp add: ir_written_def)
qed

theorem infrared_success_signals_witness:
  "case rlReconcile example_backend Background ir_routes example_world of (e, c', rl', w') \<Rightarrow>
     e = None \<and> signalled w' = lookup (proxies w')"
proof -
  have "fst (rlReconcile example_backend Background ir_routes example_world) = None" by code_simp
  then obtain c' rl' w' where run: "rlReconcile example_backend Background ir_routes example_world = (None, c', rl', w')"
    by (metis prod.collapse)
  from infrared_success_signals [OF example_world_fresh _ run [unfolded example_backend_def]] run
  show ?thesis by (simp add: example_world_signalled)
qed

text \<open>
  A reconciliation that fails after it has written files does not mark a reload as pending: when
  the context is cancelled between the last write and the clean-up, the next reconciliation finds
  nothing to change and succeeds, although the marker was never updated after the files were written.
\<close>

lemma infrared_missed_reload:
  "(case rlReconcile example_backend \<lparr>polls_left = Some 5, reason = Canceled\<rparr> ir_routes example_world of
      (e1, c1, rl1, w1) \<Rightarrow>
        (case rlReconcile rl1 Background ir_routes w1 of
           (e2, c2, rl2, w2) \<Rightarrow>
             e1 = Some (RLReconcile (IRCtx Canceled)) \<and> e2 = None \<and> \<not> reloadPending rl2 \<and>
             lookup (marker w2) ''reload'' = None \<and>
             lookup (proxies w2) ''pelican-mc-router-6f1c.yml'' \<noteq> None))"
  by code_simp

end
