(* ===== verification/Synchronizer.thy ===== *)
theory Synchronizer
  imports Models
begin

text \<open>
  The synchronizer, \<open>internal/router/synchronizer.go\<close>: it asks a route source for the desired
  routes and hands them to the backend controller.

  A route source and a controller are functions on a world \<open>'w\<close> that also pass on the context, so
  that a cancellation is seen at every point where the code polls it.  The type switch on
  \<open>DiagnosticsRouteController\<close> is the case distinction on \<open>route_controller\<close>.
\<close>

type_synonym ('w, 's) route_source = "ctx \<Rightarrow> 'w \<Rightarrow> ('s + Route list) \<times> ctx \<times> 'w"

datatype ('w, 'e) route_controller =
    Diagnostics "ctx \<Rightarrow> Route list \<Rightarrow> 'w \<Rightarrow> ('e option \<times> ReconciliationResult) \<times> ctx \<times> 'w"
  | Plain "ctx \<Rightarrow> Route list \<Rightarrow> 'w \<Rightarrow> 'e option \<times> ctx \<times> 'w"

datatype ('s, 'e) sync_error =
    ErrRouteSourceRequired | SyncCtx ctx_error | GenerateRoutes 's | ReconcileRoutes 'e

text \<open>\<open>None\<close> stands for the error \<open>ErrRouteControllerRequired\<close>.\<close>

definition NewSynchronizer :: "('w, 'e) route_controller option \<Rightarrow> ('w, 'e) route_controller option" where
  "NewSynchronizer controller = controller"

definition SyncWithResult ::
  "('w, 'e) route_controller \<Rightarrow> ctx \<Rightarrow> ('w, 's) route_source option \<Rightarrow> 'w \<Rightarrow>
   (('s, 'e) sync_error option \<times> ReconciliationResult) \<times> ctx \<times> 'w" where
  "SyncWithResult controller c source w =
     (case source of
        None \<Rightarrow> ((Some ErrRouteSourceRequired, zero_result), c, w)
      | Some routes_of \<Rightarrow>
          (case ctx_Err c of
             Some e \<Rightarrow> ((Some (SyncCtx e), zero_result), ctx_step c, w)
           | None \<Rightarrow>
               (case routes_of (ctx_step c) w of
                  (Inl e, c1, w1) \<Rightarrow> ((Some (GenerateRoutes e), zero_result), c1, w1)
                | (Inr routes, c1, w1) \<Rightarrow>
                    (case ctx_Err c1 of
                       Some e \<Rightarrow> ((Some (SyncCtx e), zero_result), ctx_step c1, w1)
                     | None \<Rightarrow>
                         (case controller of
                            Diagnostics reconcile \<Rightarrow>
                              (case reconcile (ctx_step c1) routes w1 of
                                 ((Some e, result), c2, w2) \<Rightarrow> ((Some (ReconcileRoutes e), result), c2, w2)
                               | ((None, result), c2, w2) \<Rightarrow> ((None, result), c2, w2))
                          | Plain reconcile \<Rightarrow>
                              (case reconcile (ctx_step c1) routes w1 of
                                 (Some e, c2, w2) \<Rightarrow> ((Some (ReconcileRoutes e), desired_result (length routes)), c2, w2)
                               | (None, c2, w2) \<Rightarrow> ((None, desired_result (length routes)), c2, w2)))))))"

definition Sync ::
  "('w, 'e) route_controller \<Rightarrow> ctx \<Rightarrow> ('w, 's) route_source option \<Rightarrow> 'w \<Rightarrow> ('s, 'e) sync_error option \<times> ctx \<times> 'w" where
  "Sync controller c source w =
     (case SyncWithResult controller c source w of ((e, result), c', w') \<Rightarrow> (e, c', w'))"

text \<open>A backend's reconciliation step, whichever kind of controller it is.\<close>

fun reconcile_step ::
  "('w, 'e) route_controller \<Rightarrow> ctx \<Rightarrow> Route list \<Rightarrow> 'w \<Rightarrow> 'e option \<times> ctx \<times> 'w" where
  "reconcile_step (Diagnostics reconcile) c routes w =
     (case reconcile c routes w of ((e, result), c', w') \<Rightarrow> (e, c', w'))"
| "reconcile_step (Plain reconcile) c routes w = reconcile c routes w"

text \<open>A synchronization succeeds only through a successful reconciliation of what the source returned.\<close>

lemma SyncWithResult_success:
  assumes "SyncWithResult controller c source w = ((None, result), c', w')"
  shows "\<exists>routes_of routes c1 w1. source = Some routes_of \<and> routes_of (ctx_step c) w = (Inr routes, c1, w1) \<and>
     ctx_Err c1 = None \<and> reconcile_step controller (ctx_step c1) routes w1 = (None, c', w')"
  using assms
  by (auto simp: SyncWithResult_def split: option.splits prod.splits sum.splits route_controller.splits)

text \<open>A source that fails keeps the backend from being called.\<close>

lemma SyncWithResult_source_error:
  assumes "\<And>c w. \<exists>e. routes_of c w = (Inl e, c, w)"
  shows "\<exists>e c'. SyncWithResult controller c (Some routes_of) w = ((Some e, zero_result), c', w)"
proof -
  obtain e where "routes_of (ctx_step c) w = (Inl e, ctx_step c, w)" using assms by blast
  then show ?thesis by (simp add: SyncWithResult_def split: option.split)
qed

end
