(* ===== verification/ReconStatus.thy ===== *)
theory ReconStatus
  imports Models
begin

text \<open>
  The reconciliation tracker, \<open>internal/runtime/reconciliation_status.go\<close>.

  A pointer field of the status is an option; \<open>Snapshot\<close> copies what the pointers point to, so a
  snapshot is the value itself.  Times are nanoseconds; every operation takes the reading of the
  tracker's clock.  The mutex makes each operation one step.
\<close>

datatype ReconciliationOutcome = OutcomeNotConfigured | OutcomeSuccess | OutcomeFailure

record ReconciliationStatus =
  InProgress :: bool
  LastOutcome :: "ReconciliationOutcome option"
  LastStartedAt :: "int option"
  LastCompletedAt :: "int option"
  LastSuccessAt :: "int option"
  LastDurationMS :: int
  ConsecutiveFailures :: int
  LastError :: "string option"
  RouteChanges :: ReconciliationResult

definition NewReconciliationTracker :: ReconciliationStatus where
  "NewReconciliationTracker =
     \<lparr>InProgress = False, LastOutcome = None, LastStartedAt = None, LastCompletedAt = None, LastSuccessAt = None,
      LastDurationMS = 0, ConsecutiveFailures = 0, LastError = None, RouteChanges = zero_result\<rparr>"

definition Start :: "int \<Rightarrow> ReconciliationStatus \<Rightarrow> ReconciliationStatus" where
  "Start now t = t\<lparr>InProgress := True, LastStartedAt := Some now\<rparr>"

definition elapsed_ms :: "int \<Rightarrow> int \<Rightarrow> int" where
  "elapsed_ms started completed = (let duration = (completed - started) div 1000000 in if duration > 0 then duration else 0)"

definition complete ::
  "int \<Rightarrow> ReconciliationOutcome \<Rightarrow> string \<Rightarrow> ReconciliationResult \<Rightarrow> ReconciliationStatus \<Rightarrow> ReconciliationStatus" where
  "complete now outcome errorSummary result t =
     (let t = t\<lparr>InProgress := False, LastOutcome := Some outcome, LastCompletedAt := Some now, RouteChanges := result\<rparr>;
          t = (case LastStartedAt t of None \<Rightarrow> t | Some started \<Rightarrow> t\<lparr>LastDurationMS := elapsed_ms started now\<rparr>)
      in case outcome of
        OutcomeNotConfigured \<Rightarrow> t\<lparr>ConsecutiveFailures := 0, LastError := None\<rparr>
      | OutcomeSuccess \<Rightarrow> t\<lparr>LastSuccessAt := Some now, ConsecutiveFailures := 0, LastError := None\<rparr>
      | OutcomeFailure \<Rightarrow> t\<lparr>ConsecutiveFailures := ConsecutiveFailures t + 1, LastError := Some errorSummary\<rparr>)"

definition reconciliationResult :: "ReconciliationResult list \<Rightarrow> ReconciliationResult" where
  "reconciliationResult results = (case results of [] \<Rightarrow> zero_result | r # _ \<Rightarrow> r)"

definition CompleteNotConfigured :: "int \<Rightarrow> ReconciliationStatus \<Rightarrow> ReconciliationStatus" where
  "CompleteNotConfigured now t = complete now OutcomeNotConfigured [] zero_result t"

definition CompleteSuccess :: "int \<Rightarrow> ReconciliationResult list \<Rightarrow> ReconciliationStatus \<Rightarrow> ReconciliationStatus" where
  "CompleteSuccess now results t = complete now OutcomeSuccess [] (reconciliationResult results) t"

definition completeFailure ::
  "int \<Rightarrow> string \<Rightarrow> ReconciliationResult \<Rightarrow> ReconciliationStatus \<Rightarrow> ReconciliationStatus" where
  "completeFailure now summary result t = complete now OutcomeFailure summary result t"

definition CompleteRuntimeBuildFailure :: "int \<Rightarrow> ReconciliationStatus \<Rightarrow> ReconciliationStatus" where
  "CompleteRuntimeBuildFailure now t = completeFailure now ''runtime build failed'' zero_result t"

definition CompleteRouteSynchronizationFailure ::
  "int \<Rightarrow> ReconciliationResult list \<Rightarrow> ReconciliationStatus \<Rightarrow> ReconciliationStatus" where
  "CompleteRouteSynchronizationFailure now results t =
     completeFailure now ''route synchronization failed'' (reconciliationResult results) t"

definition Snapshot :: "ReconciliationStatus \<Rightarrow> ReconciliationStatus" where
  "Snapshot t = t"

section \<open>Histories\<close>

text \<open>What the refresh task does with the tracker: a start, then one completion.\<close>

datatype tracker_event =
    EvStart int
  | EvNotConfigured int
  | EvSuccess int "ReconciliationResult list"
  | EvBuildFailure int
  | EvSyncFailure int "ReconciliationResult list"

fun apply_event :: "tracker_event \<Rightarrow> ReconciliationStatus \<Rightarrow> ReconciliationStatus" where
  "apply_event (EvStart now) t = Start now t"
| "apply_event (EvNotConfigured now) t = CompleteNotConfigured now t"
| "apply_event (EvSuccess now rs) t = CompleteSuccess now rs t"
| "apply_event (EvBuildFailure now) t = CompleteRuntimeBuildFailure now t"
| "apply_event (EvSyncFailure now rs) t = CompleteRouteSynchronizationFailure now rs t"

fun event_outcome :: "tracker_event \<Rightarrow> ReconciliationOutcome option" where
  "event_outcome (EvStart now) = None"
| "event_outcome (EvNotConfigured now) = Some OutcomeNotConfigured"
| "event_outcome (EvSuccess now rs) = Some OutcomeSuccess"
| "event_outcome (EvBuildFailure now) = Some OutcomeFailure"
| "event_outcome (EvSyncFailure now rs) = Some OutcomeFailure"

definition run_events :: "tracker_event list \<Rightarrow> ReconciliationStatus" where
  "run_events es = fold apply_event es NewReconciliationTracker"

text \<open>The outcomes of a history, oldest first, and what they say.\<close>

definition outcomes :: "tracker_event list \<Rightarrow> ReconciliationOutcome list" where
  "outcomes es = List.map_filter event_outcome es"

definition trailing_failures :: "ReconciliationOutcome list \<Rightarrow> nat" where
  "trailing_failures os = length (takeWhile (\<lambda>x. x = OutcomeFailure) (rev os))"

fun event_time :: "tracker_event \<Rightarrow> int" where
  "event_time (EvStart now) = now"
| "event_time (EvNotConfigured now) = now"
| "event_time (EvSuccess now rs) = now"
| "event_time (EvBuildFailure now) = now"
| "event_time (EvSyncFailure now rs) = now"

fun event_error :: "tracker_event \<Rightarrow> string option" where
  "event_error (EvBuildFailure now) = Some ''runtime build failed''"
| "event_error (EvSyncFailure now rs) = Some ''route synchronization failed''"
| "event_error e = None"

fun event_changes :: "tracker_event \<Rightarrow> ReconciliationResult" where
  "event_changes (EvSuccess now (r # rs)) = r"
| "event_changes (EvSyncFailure now (r # rs)) = r"
| "event_changes e = zero_result"

text \<open>The last event of a kind, and the completions of a history.\<close>

definition last_event :: "(tracker_event \<Rightarrow> bool) \<Rightarrow> tracker_event list \<Rightarrow> tracker_event option" where
  "last_event kind es = (case filter kind es of [] \<Rightarrow> None | xs \<Rightarrow> Some (last xs))"

definition is_completion :: "tracker_event \<Rightarrow> bool" where
  "is_completion e \<longleftrightarrow> event_outcome e \<noteq> None"

definition is_success :: "tracker_event \<Rightarrow> bool" where
  "is_success e \<longleftrightarrow> event_outcome e = Some OutcomeSuccess"

text \<open>How long each completed attempt took, from the start before it; a clock that went back counts as no time.\<close>

fun attempts :: "int option \<Rightarrow> tracker_event list \<Rightarrow> int list" where
  "attempts started [] = []"
| "attempts started (e # es) =
     (if is_completion e then (case started of None \<Rightarrow> [] | Some s \<Rightarrow> [max 0 (event_time e - s)]) @ attempts started es
      else attempts (Some (event_time e)) es)"

lemma last_event_snoc [simp]: "last_event kind (es @ [e]) = (if kind e then Some e else last_event kind es)"
  by (cases "filter kind es") (simp_all add: last_event_def)

lemma last_event_Nil [simp]: "last_event kind [] = None"
  by (simp add: last_event_def)

definition last_start :: "int option \<Rightarrow> tracker_event list \<Rightarrow> int option" where
  "last_start started es = (case last_event (\<lambda>e. \<not> is_completion e) es of None \<Rightarrow> started | Some e \<Rightarrow> Some (event_time e))"

lemma last_start_Nil [simp]: "last_start started [] = started"
  by (simp add: last_start_def)

lemma last_start_Cons [simp]:
  "last_start started (e # es) = last_start (if is_completion e then started else Some (event_time e)) es"
  by (cases "filter (\<lambda>e. \<not> is_completion e) es") (simp_all add: last_start_def last_event_def)

lemma attempts_snoc [simp]:
  "attempts started (es @ [e]) = attempts started es @
     (if is_completion e then (case last_start started es of None \<Rightarrow> [] | Some s \<Rightarrow> [max 0 (event_time e - s)]) else [])"
  by (induction es arbitrary: started) (simp_all split: option.split)

lemma outcomes_snoc [simp]:
  "outcomes (es @ [e]) = outcomes es @ (case event_outcome e of None \<Rightarrow> [] | Some x \<Rightarrow> [x])"
  by (simp add: outcomes_def map_filter_def split: option.split)

lemma trailing_failures_snoc [simp]:
  "trailing_failures (os @ [x]) = (if x = OutcomeFailure then Suc (trailing_failures os) else 0)"
  by (simp add: trailing_failures_def)

lemma elapsed_ms_nonneg: "0 \<le> elapsed_ms a b"
  by (simp add: elapsed_ms_def Let_def)

lemma run_events_Nil [simp]: "run_events [] = NewReconciliationTracker"
  by (simp add: run_events_def)

lemma run_events_snoc [simp]: "run_events (es @ [e]) = apply_event e (run_events es)"
  by (simp add: run_events_def)

lemma complete_fields [simp]:
  "LastOutcome (complete now outcome s r t) = Some outcome"
  "InProgress (complete now outcome s r t) = False"
  "ConsecutiveFailures (complete now outcome s r t) = (if outcome = OutcomeFailure then ConsecutiveFailures t + 1 else 0)"
  "LastError (complete now outcome s r t) = (if outcome = OutcomeFailure then Some s else None)"
  "LastCompletedAt (complete now outcome s r t) = Some now"
  "RouteChanges (complete now outcome s r t) = r"
  by (auto simp: complete_def Let_def split: option.split ReconciliationOutcome.split)

lemma complete_times:
  "LastStartedAt (complete now outcome s r t) = LastStartedAt t"
  "LastSuccessAt (complete now outcome s r t) = (if outcome = OutcomeSuccess then Some now else LastSuccessAt t)"
  "LastDurationMS (complete now outcome s r t) =
     (case LastStartedAt t of None \<Rightarrow> LastDurationMS t | Some started \<Rightarrow> max 0 (now - started) div 1000000)"
  by (auto simp: complete_def Let_def elapsed_ms_def max_def div_pos_pos_trivial
      split: option.split ReconciliationOutcome.split)

lemma Start_fields [simp]:
  "InProgress (Start now t) = True" "LastStartedAt (Start now t) = Some now"
  "LastOutcome (Start now t) = LastOutcome t" "LastCompletedAt (Start now t) = LastCompletedAt t"
  "LastSuccessAt (Start now t) = LastSuccessAt t" "LastDurationMS (Start now t) = LastDurationMS t"
  "ConsecutiveFailures (Start now t) = ConsecutiveFailures t" "LastError (Start now t) = LastError t"
  "RouteChanges (Start now t) = RouteChanges t"
  by (simp_all add: Start_def)

text \<open>Every event is a start or one completion.\<close>

lemma apply_start: "\<not> is_completion e \<Longrightarrow> apply_event e = Start (event_time e)"
  by (cases e) (simp_all add: is_completion_def fun_eq_iff)

lemma apply_completion:
  "is_completion e \<Longrightarrow> \<exists>s. apply_event e = complete (event_time e) (the (event_outcome e)) s (event_changes e) \<and>
     (the (event_outcome e) = OutcomeFailure \<longrightarrow> event_error e = Some s) \<and>
     (the (event_outcome e) \<noteq> OutcomeFailure \<longrightarrow> event_error e = None)"
  by (cases e) (auto simp: is_completion_def fun_eq_iff CompleteNotConfigured_def CompleteSuccess_def completeFailure_def
      CompleteRuntimeBuildFailure_def CompleteRouteSynchronizationFailure_def reconciliationResult_def split: list.split)

section \<open>The summary of a history\<close>

text \<open>The status that a history calls for.\<close>

definition status_of :: "tracker_event list \<Rightarrow> ReconciliationStatus" where
  "status_of es =
     \<lparr>InProgress = (es \<noteq> [] \<and> \<not> is_completion (last es)),
      LastOutcome = Option.bind (last_event is_completion es) event_outcome,
      LastStartedAt = map_option event_time (last_event (\<lambda>e. \<not> is_completion e) es),
      LastCompletedAt = map_option event_time (last_event is_completion es),
      LastSuccessAt = map_option event_time (last_event is_success es),
      LastDurationMS = (case attempts None es of [] \<Rightarrow> 0 | ds \<Rightarrow> last ds div 1000000),
      ConsecutiveFailures = int (trailing_failures (outcomes es)),
      LastError = Option.bind (last_event is_completion es) event_error,
      RouteChanges = (case last_event is_completion es of None \<Rightarrow> zero_result | Some e \<Rightarrow> event_changes e)\<rparr>"

lemma status_of_start:
  assumes "\<not> is_completion e" and "run_events es = status_of es"
  shows "Start (event_time e) (run_events es) = status_of (es @ [e])"
  using assms by (simp add: status_of_def Start_def is_success_def) (simp add: is_completion_def)

lemma status_of_completion:
  assumes e: "is_completion e" and IH: "run_events es = status_of es"
  shows "apply_event e (run_events es) = status_of (es @ [e])"
proof -
  obtain s where s: "apply_event e = complete (event_time e) (the (event_outcome e)) s (event_changes e)"
      "the (event_outcome e) = OutcomeFailure \<Longrightarrow> event_error e = Some s"
      "the (event_outcome e) \<noteq> OutcomeFailure \<Longrightarrow> event_error e = None"
    using apply_completion [OF e] by blast
  obtain x where x: "event_outcome e = Some x" using e by (auto simp: is_completion_def)
  have dur: "(case as @ [a] of [] \<Rightarrow> 0 | b # bs \<Rightarrow> last (b # bs) div 1000000) = a div (1000000 :: int)" for as a
    by (cases as) simp_all
  show ?thesis
    using s x e IH
    by (cases x; cases "last_event (\<lambda>e. \<not> is_completion e) es")
      (simp_all add: status_of_def complete_times is_success_def dur last_start_def)
qed

lemma run_status: "run_events es = status_of es"
proof (induction es rule: rev_induct)
  case Nil
  show ?case
    by (simp add: NewReconciliationTracker_def status_of_def outcomes_def trailing_failures_def map_filter_def)
next
  case (snoc e es)
  show ?case
  proof (cases "is_completion e")
    case True
    then show ?thesis using status_of_completion [OF True snoc] by simp
  next
    case False
    then show ?thesis using status_of_start [OF False snoc] by (simp add: apply_start)
  qed
qed

section \<open>Properties\<close>

text \<open>
  C29. After any history the status is the summary of it: the outcome, the time, the error text and the
  route changes of the last completion, the time of the last start and of the last success, the length
  of the failing tail, the duration of the last completed attempt in milliseconds, never negative, and
  whether an attempt is running.
\<close>

theorem tracker_reflects_history: "Snapshot (fold apply_event es NewReconciliationTracker) = status_of es"
  using run_status [of es] by (simp add: run_events_def Snapshot_def)

end
