(* ===== verification/Pelican.thy ===== *)
theory Pelican
  imports Models Retry
begin

text \<open>
  The Pelican Application API client, \<open>internal/pelican\<close>: construction, request execution with
  retries, mapping of statuses to errors, and listing of all pages of a collection.

  The code outside the repository's own is gathered in the record \<open>platform\<close>: \<open>url.Parse\<close>,
  \<open>url.ParseRequestURI\<close>, \<open>ResolveReference\<close>, \<open>http.Client.Do\<close> on a world \<open>'w\<close>, the
  random jitter and the JSON decoders of the response types (\<open>'j\<close> is the type of JSON texts).
  The paging loop runs as long as the server announces further pages, so it is a
  \<open>partial_function\<close> whose value \<open>None\<close> means that it never returns.
\<close>

section \<open>Resources\<close>

record 'a ListResponse =
  list_Data :: "'a list"
  list_TotalPages :: int

record ServerResource =
  sr_ID :: int
  sr_UUID :: string
  sr_Identifier :: string
  sr_Name :: string
  sr_Status :: "string option"
  sr_Suspended :: bool
  sr_Node :: int
  sr_Allocation :: int
  sr_Egg :: int

record EggResource =
  egg_ID :: int
  egg_Name :: string
  egg_Tags :: "string list"

record NodeResource =
  node_ID :: int
  node_Name :: string
  node_FQDN :: string

record AllocationResource =
  alloc_ID :: int
  alloc_IP :: string
  alloc_Port :: int

section \<open>The client\<close>

record purl =
  pu_Scheme :: string
  pu_Host :: string
  pu_Path :: string
  pu_RawQuery :: string

record pelican_request =
  pr_Method :: string
  pr_URL :: purl
  pr_Authorization :: string

record ('j, 'w, 'e) platform =
  pf_Parse :: "string \<Rightarrow> purl option"
  pf_ParseRequestURI :: "string \<Rightarrow> purl option"
  pf_ResolveReference :: "purl \<Rightarrow> purl \<Rightarrow> purl"
  pf_http :: "pelican_request \<Rightarrow> 'w \<Rightarrow> ('j http_response option \<times> 'e option) \<times> 'w"
  pf_rand :: "int \<Rightarrow> Duration \<Rightarrow> Duration"
  pf_servers :: "'j \<Rightarrow> ServerResource ListResponse option"
  pf_eggs :: "'j \<Rightarrow> EggResource ListResponse option"
  pf_nodes :: "'j \<Rightarrow> NodeResource ListResponse option"
  pf_allocations :: "'j \<Rightarrow> AllocationResource ListResponse option"

record PelicanConfig =
  pc_BaseURL :: string
  pc_APIKey :: string
  pc_Timeout :: int
  pc_Retry :: Config

record PelicanClient =
  pcl_cfg :: PelicanConfig
  pcl_timeout :: int

datatype new_pelican_error = ErrInvalidBaseURL | ErrMissingAPIKey

definition defaultTimeout :: int where
  "defaultTimeout = 30000000000"

definition pelicanNewClient :: "('j, 'w, 'e) platform \<Rightarrow> PelicanConfig \<Rightarrow> new_pelican_error + PelicanClient" where
  "pelicanNewClient pf cfg =
     (let cfg = cfg\<lparr>pc_BaseURL := TrimRight (CHR ''/'') (TrimSpace (pc_BaseURL cfg)),
                    pc_APIKey := TrimSpace (pc_APIKey cfg)\<rparr>
      in case pf_ParseRequestURI pf (pc_BaseURL cfg) of
        None \<Rightarrow> Inl ErrInvalidBaseURL
      | Some parsedURL \<Rightarrow>
          if pu_Scheme parsedURL = [] \<or> pu_Host parsedURL = [] then Inl ErrInvalidBaseURL
          else if pu_Scheme parsedURL \<noteq> ''http'' \<and> pu_Scheme parsedURL \<noteq> ''https'' then Inl ErrInvalidBaseURL
          else if pc_APIKey cfg = [] then Inl ErrMissingAPIKey
          else Inr \<lparr>pcl_cfg = cfg, pcl_timeout = (if pc_Timeout cfg \<le> 0 then defaultTimeout else pc_Timeout cfg)\<rparr>)"

datatype 'e pelican_error =
    ParseBaseURL | ParseRequestPath
  | ExecuteRequest "'e do_error"
  | ErrUnauthorized int | PelicanNotFound int | ErrUnexpected int
  | DecodeResponse
  | PelicanPanic
  | InvalidNodeID

definition buildURL :: "('j, 'w, 'e) platform \<Rightarrow> PelicanClient \<Rightarrow> string \<Rightarrow> 'e pelican_error + purl" where
  "buildURL pf client path =
     (case pf_Parse pf (pc_BaseURL (pcl_cfg client) @ ''/'') of
        None \<Rightarrow> Inl ParseBaseURL
      | Some baseURL \<Rightarrow>
          (case pf_Parse pf (TrimPrefix path ''/'') of
             None \<Rightarrow> Inl ParseRequestPath
           | Some relativeURL \<Rightarrow> Inr (pf_ResolveReference pf baseURL relativeURL)))"

definition responseError :: "int \<Rightarrow> 'e pelican_error" where
  "responseError statusCode =
     (if statusCode \<in> {401, 403} then ErrUnauthorized statusCode
      else if statusCode = 404 then PelicanNotFound statusCode
      else ErrUnexpected statusCode)"

definition doRequest ::
  "('j, 'w, 'e) platform \<Rightarrow> PelicanClient \<Rightarrow> ctx \<Rightarrow> string \<Rightarrow> pelican_request \<Rightarrow> 'w \<Rightarrow> ('j, 'e) do_result \<times> ctx \<times> 'w" where
  "doRequest pf client c httpMethod req w =
     (if httpMethod \<noteq> ''GET'' then
        (case pf_http pf req w of ((resp, err), w') \<Rightarrow> (DoReturn resp (map_option DoErr err), c, w'))
      else Do c (pc_Retry (pcl_cfg client)) (pf_rand pf) (pf_http pf req) w)"

text \<open>
  \<open>Client.do\<close> for a request without a body: \<open>out\<close> is the value the response is decoded into,
  its content before the call and the decoder for its type (\<open>None\<close> is a \<open>nil\<close> target).
\<close>

definition pelicanDo ::
  "('j, 'w, 'e) platform \<Rightarrow> PelicanClient \<Rightarrow> ctx \<Rightarrow> string \<Rightarrow> string \<Rightarrow> 'a \<Rightarrow> ('j \<Rightarrow> 'a option) option \<Rightarrow> 'w \<Rightarrow>
   ('e pelican_error + 'a) \<times> ctx \<times> 'w" where
  "pelicanDo pf client c httpMethod path out decode w =
     (case buildURL pf client path of
        Inl e \<Rightarrow> (Inl e, c, w)
      | Inr endpoint \<Rightarrow>
          (case doRequest pf client c httpMethod
                  \<lparr>pr_Method = httpMethod, pr_URL = endpoint,
                   pr_Authorization = ''Bearer '' @ pc_APIKey (pcl_cfg client)\<rparr> w of
             (DoPanic, c', w') \<Rightarrow> (Inl PelicanPanic, c', w')
           | (DoReturn _ (Some e), c', w') \<Rightarrow> (Inl (ExecuteRequest e), c', w')
           | (DoReturn None None, c', w') \<Rightarrow> (Inl PelicanPanic, c', w')
           | (DoReturn (Some resp) None, c', w') \<Rightarrow>
               if StatusCode resp < 200 \<or> StatusCode resp \<ge> 300 then (Inl (responseError (StatusCode resp)), c', w')
               else case decode of
                 None \<Rightarrow> (Inr out, c', w')
               | Some dec \<Rightarrow>
                   if StatusCode resp = 204 then (Inr out, c', w')
                   else case dec (Body resp) of
                     None \<Rightarrow> (Inl DecodeResponse, c', w')
                   | Some v \<Rightarrow> (Inr v, c', w')))"

definition empty_list :: "'a ListResponse" where
  "empty_list = \<lparr>list_Data = [], list_TotalPages = 0\<rparr>"

definition listPage ::
  "('j, 'w, 'e) platform \<Rightarrow> PelicanClient \<Rightarrow> ('j \<Rightarrow> 'a ListResponse option) \<Rightarrow> string \<Rightarrow> ctx \<Rightarrow> int \<Rightarrow> 'w \<Rightarrow>
   ('e pelican_error + 'a ListResponse) \<times> ctx \<times> 'w" where
  "listPage pf client decode path c page w =
     pelicanDo pf client c ''GET'' (path @ ''?page='' @ Itoa page) empty_list (Some decode) w"

partial_function (option) listAll_loop ::
  "(ctx \<Rightarrow> int \<Rightarrow> 'w \<Rightarrow> ('e pelican_error + 'a ListResponse) \<times> ctx \<times> 'w) \<Rightarrow> ctx \<Rightarrow> int \<Rightarrow> 'a list \<Rightarrow> 'w \<Rightarrow>
   (('e pelican_error + 'a list) \<times> ctx \<times> 'w) option" where
  [code]: "listAll_loop get c page items w =
     (case get c page w of
        (Inl e, c', w') \<Rightarrow> Some (Inl e, c', w')
      | (Inr response, c', w') \<Rightarrow>
          let items' = items @ list_Data response; totalPages = list_TotalPages response
          in if totalPages \<le> 1 \<or> page \<ge> totalPages then Some (Inr items', c', w')
             else listAll_loop get c' (page + 1) items' w')"

definition listAll ::
  "('j, 'w, 'e) platform \<Rightarrow> PelicanClient \<Rightarrow> ('j \<Rightarrow> 'a ListResponse option) \<Rightarrow> ctx \<Rightarrow> string \<Rightarrow> 'w \<Rightarrow>
   (('e pelican_error + 'a list) \<times> ctx \<times> 'w) option" where
  "listAll pf client decode c path w = listAll_loop (listPage pf client decode path) c 1 [] w"

definition ListServers where
  "ListServers pf client c w = listAll pf client (pf_servers pf) c ''/servers'' w"

definition ListEggs where
  "ListEggs pf client c w = listAll pf client (pf_eggs pf) c ''/eggs'' w"

definition ListNodes where
  "ListNodes pf client c w = listAll pf client (pf_nodes pf) c ''/nodes'' w"

definition ListNodeAllocations where
  "ListNodeAllocations pf client c nodeID w =
     (if nodeID \<le> 0 then Some (Inl InvalidNodeID, c, w)
      else listAll pf client (pf_allocations pf) c (''/nodes/'' @ Itoa nodeID @ ''/allocations'') w)"

section \<open>Paging\<close>

text \<open>Announced page counts that stay below a bound make the loop return.\<close>

lemma listAll_loop_returns:
  assumes "\<And>c page w response c' w'. get c page w = (Inr response, c', w') \<Longrightarrow> list_TotalPages response \<le> n"
  shows "\<exists>r. listAll_loop get c page items w = Some r"
proof (induction "nat (n - page)" arbitrary: c page items w rule: less_induct)
  case less
  obtain r c' w' where r: "get c page w = (r, c', w')" by (metis prod.collapse)
  show ?case
  proof (cases "\<exists>response. r = Inr response \<and> \<not> (list_TotalPages response \<le> 1 \<or> page \<ge> list_TotalPages response)")
    case True
    then obtain response where response: "r = Inr response" "page < list_TotalPages response" "1 < list_TotalPages response"
      by auto
    with assms [of c page w response c' w'] r have "nat (n - (page + 1)) < nat (n - page)" by auto
    from less [OF this] response r show ?thesis by (subst listAll_loop.simps) (auto simp: Let_def)
  next
    case False
    with r show ?thesis by (subst listAll_loop.simps) (auto simp: Let_def split: sum.split)
  qed
qed

lemma listAll_loop_pages:
  assumes "\<And>c page w. never_done c \<Longrightarrow> 1 \<le> page \<Longrightarrow> page \<le> max 1 n \<Longrightarrow>
      \<exists>c' w'. get c page w = (Inr \<lparr>list_Data = pages page, list_TotalPages = n\<rparr>, c', w') \<and> never_done c'"
    and "never_done c" "1 \<le> page" "page \<le> max 1 n"
  shows "\<exists>c' w'. listAll_loop get c page items w = Some (Inr (items @ concat (map pages [page..max 1 n])), c', w')"
  using assms(2-4)
proof (induction "nat (max 1 n - page)" arbitrary: c page items w rule: less_induct)
  case less
  obtain c' w' where g: "get c page w = (Inr \<lparr>list_Data = pages page, list_TotalPages = n\<rparr>, c', w')" "never_done c'"
    using assms(1) [OF less.prems] by blast
  show ?case
  proof (cases "n \<le> 1 \<or> page \<ge> n")
    case True
    then have "[page..max 1 n] = [page]" using less.prems by (auto simp: max_def)
    with True g show ?thesis by (subst listAll_loop.simps) (simp add: Let_def)
  next
    case False
    then have "\<exists>c2 w2. listAll_loop get c' (page + 1) (items @ pages page) w' =
        Some (Inr ((items @ pages page) @ concat (map pages [page + 1..max 1 n])), c2, w2)"
      using less.prems g(2) by (intro less.hyps) auto
    moreover have "[page..max 1 n] = page # [page + 1..max 1 n]" using less.prems by (intro upto_rec1) simp
    ultimately show ?thesis using False g by (subst listAll_loop.simps) (auto simp: Let_def)
  qed
qed

lemma Do_final:
  assumes "ctx_Err c = None" "call w = ((resp, err), w')" "\<not> shouldRetry resp err"
  shows "Do c cfg rand call w = (DoReturn resp (map_option DoErr err), ctx_step c, w')"
  using assms unfolding Do_def by (subst Do_loop.simps) simp

lemma listPage_answer:
  assumes "never_done c" "buildURL pf client (path @ ''?page='' @ Itoa page) = Inr u"
    and "pf_http pf \<lparr>pr_Method = ''GET'', pr_URL = u, pr_Authorization = ''Bearer '' @ pc_APIKey (pcl_cfg client)\<rparr> w =
      ((Some \<lparr>StatusCode = 200, Body = body\<rparr>, None), w')" "decode body = Some v"
  shows "listPage pf client decode path c page w = (Inr v, ctx_step c, w')"
  using assms
  by (simp add: listPage_def pelicanDo_def doRequest_def Do_final shouldRetry_def)

section \<open>What the client leaves alone\<close>

text \<open>An observation of the world that no HTTP call changes is not changed by the client.\<close>

lemma pelicanDo_keeps:
  assumes "\<And>req. keeps obs (pf_http pf req)"
  shows "pelicanDo pf client c m path out decode w = (r, c', w') \<Longrightarrow> obs w' = obs w"
proof -
  have d: "obs w' = obs w" if "doRequest pf client c m req w = (r, c', w')" for req r c' w'
  proof (cases "m = ''GET''")
    case True
    then have "Do c (pc_Retry (pcl_cfg client)) (pf_rand pf) (pf_http pf req) w = (r, c', w')"
      using that by (simp add: doRequest_def)
    from Do_answer [where P = "\<lambda>x. obs x = obs w", OF _ refl this] assms show ?thesis by (simp add: keeps_def)
  next
    case False
    then show ?thesis using that assms by (auto simp: doRequest_def keeps_def split: prod.splits) (metis snd_conv)
  qed
  show "pelicanDo pf client c m path out decode w = (r, c', w') \<Longrightarrow> obs w' = obs w"
    by (auto simp: pelicanDo_def dest: d split: sum.splits prod.splits do_result.splits option.splits if_splits)
qed

lemma listAll_loop_keeps:
  assumes "\<And>c page w r c' w'. get c page w = (r, c', w') \<Longrightarrow> obs w' = obs w"
    and "listAll_loop get c page items w = Some (r, c', w')"
  shows "obs w' = obs w"
proof -
  let ?P = "\<lambda>get' c page items w y. get' = get \<longrightarrow> obs (snd (snd y)) = obs w"
  have "?P get c page items w (r, c', w')"
  proof (rule listAll_loop.raw_induct [where P = ?P, OF _ assms(2)])
    fix loop :: "(ctx \<Rightarrow> int \<Rightarrow> 'a \<Rightarrow> ('b pelican_error + 'c ListResponse) \<times> ctx \<times> 'a) \<Rightarrow> ctx \<Rightarrow> int \<Rightarrow> 'c list \<Rightarrow> 'a \<Rightarrow>
        (('b pelican_error + 'c list) \<times> ctx \<times> 'a) option"
      and get' c page items w y
    assume ih: "\<And>get' c page items w y. loop get' c page items w = Some y \<Longrightarrow> ?P get' c page items w y"
      and step: "(case get' c page w of (Inl e, c', w') \<Rightarrow> Some (Inl e, c', w')
        | (Inr response, c', w') \<Rightarrow> let items' = items @ list_Data response; totalPages = list_TotalPages response
            in if totalPages \<le> 1 \<or> totalPages \<le> page then Some (Inr items', c', w') else loop get' c' (page + 1) items' w') = Some y"
    obtain r1 c1 w1 where g: "get' c page w = (r1, c1, w1)" by (metis prod.collapse)
    show "?P get' c page items w y"
    proof
      assume e: "get' = get"
      then have k: "obs w1 = obs w" using assms(1) g by simp
      show "obs (snd (snd y)) = obs w"
        using step g k ih e by (auto simp: Let_def split: sum.splits if_splits)
    qed
  qed
  then show ?thesis by simp
qed

lemma listAll_keeps:
  assumes "\<And>req. keeps obs (pf_http pf req)"
  shows "listAll pf client decode c path w = Some (r, c', w') \<Longrightarrow> obs w' = obs w"
  unfolding listAll_def
  by (erule listAll_loop_keeps [rotated]) (simp add: listPage_def pelicanDo_keeps [OF assms])

end
