(* ===== verification/Discovery.thy ===== *)
theory Discovery
  imports Pelican
begin

text \<open>
  Discovery of Minecraft servers, \<open>internal/discovery\<close>: classification of eggs, the join of
  servers with the allocations of their nodes, and the replacement of wildcard addresses.

  The Go interface \<open>PelicanClient\<close> is the record \<open>discovery_client\<close> of listing calls on a world
  \<open>'w\<close>; a call that never returns is \<open>None\<close>, and then discovery does not return either.
  The record is provided by the client of \<open>Pelican\<close>, here also together with the fake Pelican
  panel of the lifecycle test, \<open>tests/compose-lifecycle/fake-pelican.go\<close>.
\<close>

type_synonym ('w, 'e, 'a) listing = "ctx \<Rightarrow> 'w \<Rightarrow> (('e + 'a list) \<times> ctx \<times> 'w) option"

record ('w, 'e) discovery_client =
  dc_ListServers :: "('w, 'e, ServerResource) listing"
  dc_ListEggs :: "('w, 'e, EggResource) listing"
  dc_ListNodeAllocations :: "int \<Rightarrow> ('w, 'e, AllocationResource) listing"

record ('w, 'e) DiscoveryService =
  ds_client :: "('w, 'e) discovery_client"
  wildcardBackendHost :: string

definition WithWildcardBackendHost :: "string \<Rightarrow> ('w, 'e) DiscoveryService \<Rightarrow> ('w, 'e) DiscoveryService" where
  "WithWildcardBackendHost host service = service\<lparr>wildcardBackendHost := TrimSpace host\<rparr>"

definition discoveryNew ::
  "('w, 'e) discovery_client \<Rightarrow> (('w, 'e) DiscoveryService \<Rightarrow> ('w, 'e) DiscoveryService) option list \<Rightarrow>
   ('w, 'e) DiscoveryService" where
  "discoveryNew client options =
     foldl (\<lambda>service opt. case opt of None \<Rightarrow> service | Some f \<Rightarrow> f service)
       \<lparr>ds_client = client, wildcardBackendHost = []\<rparr> options"

datatype resolve_error = AllocationIPEmpty | NoWildcardHost string | WildcardUnspecified string

datatype 'e discover_error =
    ListServersFailed 'e
  | ListEggsFailed 'e
  | ListAllocationsFailed int 'e
  | AllocationNotFound int string
  | ResolveFailed string resolve_error

definition isMinecraftEgg :: "EggResource \<Rightarrow> bool" where
  "isMinecraftEgg egg \<longleftrightarrow> list_ex (\<lambda>tag. EqualFold (TrimSpace tag) ''minecraft'') (egg_Tags egg)"

definition mapMinecraftServer :: "ServerResource \<Rightarrow> MinecraftServer" where
  "mapMinecraftServer server =
     \<lparr>srv_ID = sr_ID server, srv_UUID = sr_UUID server, srv_Identifier = sr_Identifier server,
      srv_Name = sr_Name server, srv_NodeID = sr_Node server, srv_EggID = sr_Egg server,
      srv_AllocationID = sr_Allocation server, srv_BackendIP = [], srv_BackendPort = 0,
      srv_Suspended = sr_Suspended server, srv_Status = sr_Status server\<rparr>"

definition unspecified :: "string \<Rightarrow> bool" where
  "unspecified host \<longleftrightarrow> (case ParseAddr host of None \<Rightarrow> False | Some address \<Rightarrow> IsUnspecified address)"

definition resolveBackendHost :: "string \<Rightarrow> string \<Rightarrow> resolve_error + string" where
  "resolveBackendHost wildcard allocationIP =
     (let host = TrimSpace allocationIP
      in if host = [] then Inl AllocationIPEmpty
         else if \<not> unspecified host then Inr host
         else let fallback = TrimSpace wildcard
              in if fallback = [] then Inl (NoWildcardHost host)
                 else if unspecified fallback then Inl (WildcardUnspecified fallback)
                 else Inr fallback)"

fun loadAllocations ::
  "('w, 'e) discovery_client \<Rightarrow> ctx \<Rightarrow> ServerResource list \<Rightarrow> int set \<Rightarrow> (int \<rightharpoonup> AllocationResource) \<Rightarrow> 'w \<Rightarrow>
   (('e discover_error + (int \<rightharpoonup> AllocationResource)) \<times> ctx \<times> 'w) option" where
  "loadAllocations client c [] processed allocations w = Some (Inr allocations, c, w)"
| "loadAllocations client c (server # servers) processed allocations w =
     (if sr_Node server \<in> processed then loadAllocations client c servers processed allocations w
      else case dc_ListNodeAllocations client (sr_Node server) c w of
        None \<Rightarrow> None
      | Some (Inl e, c', w') \<Rightarrow> Some (Inl (ListAllocationsFailed (sr_Node server) e), c', w')
      | Some (Inr listed, c', w') \<Rightarrow>
          loadAllocations client c' servers (insert (sr_Node server) processed)
            (foldl (\<lambda>m a. m(alloc_ID a \<mapsto> a)) allocations listed) w')"

definition discoverServer ::
  "string \<Rightarrow> (int \<rightharpoonup> EggResource) \<Rightarrow> (int \<rightharpoonup> AllocationResource) \<Rightarrow> ServerResource \<Rightarrow> MinecraftServer list \<Rightarrow>
   'e discover_error + MinecraftServer list" where
  "discoverServer wildcard eggsByID allocations server discovered =
     (case eggsByID (sr_Egg server) of
        None \<Rightarrow> Inr discovered
      | Some egg \<Rightarrow>
          if \<not> isMinecraftEgg egg then Inr discovered
          else case allocations (sr_Allocation server) of
            None \<Rightarrow> Inl (AllocationNotFound (sr_Allocation server) (sr_Name server))
          | Some allocation \<Rightarrow>
              (case resolveBackendHost wildcard (alloc_IP allocation) of
                 Inl e \<Rightarrow> Inl (ResolveFailed (sr_Name server) e)
               | Inr backendHost \<Rightarrow>
                   Inr (discovered @ [(mapMinecraftServer server)\<lparr>srv_BackendIP := backendHost,
                     srv_BackendPort := alloc_Port allocation\<rparr>])))"

definition Discover ::
  "('w, 'e) DiscoveryService \<Rightarrow> ctx \<Rightarrow> 'w \<Rightarrow> (('e discover_error + MinecraftServer list) \<times> ctx \<times> 'w) option" where
  "Discover s c w =
     (case dc_ListServers (ds_client s) c w of
        None \<Rightarrow> None
      | Some (Inl e, c1, w1) \<Rightarrow> Some (Inl (ListServersFailed e), c1, w1)
      | Some (Inr servers, c1, w1) \<Rightarrow>
          (case dc_ListEggs (ds_client s) c1 w1 of
             None \<Rightarrow> None
           | Some (Inl e, c2, w2) \<Rightarrow> Some (Inl (ListEggsFailed e), c2, w2)
           | Some (Inr eggs, c2, w2) \<Rightarrow>
               (case loadAllocations (ds_client s) c2 servers {} Map.empty w2 of
                  None \<Rightarrow> None
                | Some (Inl e, c3, w3) \<Rightarrow> Some (Inl e, c3, w3)
                | Some (Inr allocations, c3, w3) \<Rightarrow>
                    Some (foldE (discoverServer (wildcardBackendHost s)
                        (foldl (\<lambda>m egg. m(egg_ID egg \<mapsto> egg)) Map.empty eggs) allocations) servers [], c3, w3))))"

section \<open>What discovery returns\<close>

lemma resolveBackendHost_Inr:
  "resolveBackendHost wildcard ip = Inr host \<Longrightarrow> host \<noteq> [] \<and> \<not> unspecified host"
  by (auto simp: resolveBackendHost_def Let_def split: if_splits)

text \<open>Whether discovery reports a server, and where it finds it.\<close>

definition is_minecraft :: "(int \<rightharpoonup> EggResource) \<Rightarrow> ServerResource \<Rightarrow> bool" where
  "is_minecraft eggsByID server \<longleftrightarrow>
     (case eggsByID (sr_Egg server) of None \<Rightarrow> False | Some egg \<Rightarrow> isMinecraftEgg egg)"

definition backend_of :: "string \<Rightarrow> (int \<rightharpoonup> AllocationResource) \<Rightarrow> ServerResource \<Rightarrow> (string \<times> int) option" where
  "backend_of wildcard allocations server =
     (case allocations (sr_Allocation server) of
        None \<Rightarrow> None
      | Some allocation \<Rightarrow>
          (case resolveBackendHost wildcard (alloc_IP allocation) of
             Inl e \<Rightarrow> None
           | Inr host \<Rightarrow> Some (host, alloc_Port allocation)))"

definition located :: "string \<Rightarrow> (int \<rightharpoonup> AllocationResource) \<Rightarrow> ServerResource \<Rightarrow> MinecraftServer" where
  "located wildcard allocations server =
     (case the (backend_of wildcard allocations server) of
        (host, port) \<Rightarrow> (mapMinecraftServer server)\<lparr>srv_BackendIP := host, srv_BackendPort := port\<rparr>)"

lemma discoverServer_Inr:
  "discoverServer wildcard eggs allocations server ds = Inr ds' \<longleftrightarrow>
     (if is_minecraft eggs server
      then backend_of wildcard allocations server \<noteq> None \<and> ds' = ds @ [located wildcard allocations server]
      else ds' = ds)"
  by (auto simp: discoverServer_def is_minecraft_def backend_of_def located_def split: option.splits sum.splits)

lemma discoverServers_Inr:
  "foldE (discoverServer wildcard eggs allocations) servers ds = Inr ds' \<longleftrightarrow>
     list_all (\<lambda>server. backend_of wildcard allocations server \<noteq> None) (filter (is_minecraft eggs) servers) \<and>
     ds' = ds @ map (located wildcard allocations) (filter (is_minecraft eggs) servers)"
proof (induction servers arbitrary: ds)
  case (Cons server servers)
  show ?case unfolding foldE_Cons_Inr discoverServer_Inr using Cons.IH
    by (cases "is_minecraft eggs server") auto
qed auto

lemma backend_of_safe:
  "backend_of wildcard allocations server = Some (host, port) \<Longrightarrow> host \<noteq> [] \<and> \<not> unspecified host"
  by (auto simp: backend_of_def dest: resolveBackendHost_Inr split: option.splits sum.splits)

section \<open>The Pelican client as a source\<close>

definition as_discovery_client :: "('j, 'w, 'e) platform \<Rightarrow> PelicanClient \<Rightarrow> ('w, 'e pelican_error) discovery_client" where
  "as_discovery_client pf client =
     \<lparr>dc_ListServers = ListServers pf client, dc_ListEggs = ListEggs pf client,
      dc_ListNodeAllocations = (\<lambda>nodeID c w. ListNodeAllocations pf client c nodeID w)\<rparr>"

text \<open>
  The fake panel answers a request by its token and path.  Its JSON documents are represented by the
  resources they list; every document announces one page.
\<close>

datatype fake_json =
    JServers "ServerResource list" | JEggs "EggResource list" | JNodes "NodeResource list"
  | JAllocations "AllocationResource list" | JNothing

definition fake_server :: ServerResource where
  "fake_server = \<lparr>sr_ID = 1, sr_UUID = ''server-uuid'', sr_Identifier = ''lifecycle'', sr_Name = ''lifecycle'',
     sr_Status = None, sr_Suspended = False, sr_Node = 1, sr_Allocation = 1, sr_Egg = 1\<rparr>"

definition fake_panel :: "pelican_request \<Rightarrow> unit \<Rightarrow> (fake_json http_response option \<times> string option) \<times> unit" where
  "fake_panel r w =
     (let reply = (\<lambda>status body. ((Some \<lparr>StatusCode = status, Body = body\<rparr>, None), w))
      in if pr_Authorization r \<noteq> ''Bearer lifecycle-pelican-key'' then reply 401 JNothing
         else if pu_Path (pr_URL r) = ''/api/application/nodes'' then
           reply 200 (JNodes [\<lparr>node_ID = 1, node_Name = ''node'', node_FQDN = ''127.0.0.1''\<rparr>])
         else if pu_Path (pr_URL r) = ''/api/application/servers'' then reply 200 (JServers [fake_server])
         else if pu_Path (pr_URL r) = ''/api/application/eggs'' then
           reply 200 (JEggs [\<lparr>egg_ID = 1, egg_Name = ''Minecraft'', egg_Tags = [''minecraft'']\<rparr>])
         else if pu_Path (pr_URL r) = ''/api/application/nodes/1/allocations'' then
           reply 200 (JAllocations [\<lparr>alloc_ID = 1, alloc_IP = ''127.0.0.1'', alloc_Port = 25565\<rparr>])
         else reply 404 JNothing)"

definition fake_Parse :: "string \<Rightarrow> purl option" where
  "fake_Parse s =
     (let rest = TrimPrefix s ''http://'';
          host = (if HasPrefix s ''http://'' then takeWhile (\<lambda>c. c \<noteq> CHR ''/'') rest else []);
          target = drop (length host) rest
      in Some \<lparr>pu_Scheme = (if HasPrefix s ''http://'' then ''http'' else []), pu_Host = host,
           pu_Path = takeWhile (\<lambda>c. c \<noteq> CHR ''?'') target,
           pu_RawQuery = drop 1 (dropWhile (\<lambda>c. c \<noteq> CHR ''?'') target)\<rparr>)"

definition fake_Resolve :: "purl \<Rightarrow> purl \<Rightarrow> purl" where
  "fake_Resolve base ref =
     base\<lparr>pu_Path := rev (dropWhile (\<lambda>c. c \<noteq> CHR ''/'') (rev (pu_Path base))) @ pu_Path ref, pu_RawQuery := pu_RawQuery ref\<rparr>"

definition fake_platform :: "(fake_json, unit, string) platform" where
  "fake_platform =
     \<lparr>pf_Parse = fake_Parse, pf_ParseRequestURI = fake_Parse, pf_ResolveReference = fake_Resolve, pf_http = fake_panel,
      pf_rand = example_rand,
      pf_servers = (\<lambda>j. case j of JServers xs \<Rightarrow> Some \<lparr>list_Data = xs, list_TotalPages = 1\<rparr> | _ \<Rightarrow> None),
      pf_eggs = (\<lambda>j. case j of JEggs xs \<Rightarrow> Some \<lparr>list_Data = xs, list_TotalPages = 1\<rparr> | _ \<Rightarrow> None),
      pf_nodes = (\<lambda>j. case j of JNodes xs \<Rightarrow> Some \<lparr>list_Data = xs, list_TotalPages = 1\<rparr> | _ \<Rightarrow> None),
      pf_allocations = (\<lambda>j. case j of JAllocations xs \<Rightarrow> Some \<lparr>list_Data = xs, list_TotalPages = 1\<rparr> | _ \<Rightarrow> None)\<rparr>"

definition fake_pelican_client :: PelicanClient where
  "fake_pelican_client = projr (pelicanNewClient fake_platform
     \<lparr>pc_BaseURL = ''http://127.0.0.1:8081/api/application/'', pc_APIKey = ''lifecycle-pelican-key'', pc_Timeout = 0,
      pc_Retry = DefaultConfig\<rparr>)"

definition fake_discovery :: "(unit, string pelican_error) DiscoveryService" where
  "fake_discovery = discoveryNew (as_discovery_client fake_platform fake_pelican_client) []"

lemma fake_discover:
  "Discover fake_discovery Background () =
     Some (Inr [(mapMinecraftServer fake_server)\<lparr>srv_BackendIP := ''127.0.0.1'', srv_BackendPort := 25565\<rparr>], Background, ())"
  by code_simp

text \<open>What no listing call changes, discovery does not change.\<close>

lemma loadAllocations_keeps:
  assumes "\<And>node c w r c' w'. dc_ListNodeAllocations client node c w = Some (r, c', w') \<Longrightarrow> obs w' = obs w"
    and "loadAllocations client c servers processed allocations w = Some (r, c', w')"
  shows "obs w' = obs w"
  using assms(2)
proof (induction servers arbitrary: c processed allocations w)
  case (Cons server servers)
  then show ?case
    by (auto dest: assms(1) split: if_splits option.splits sum.splits)
qed simp

lemma Discover_keeps:
  assumes "\<And>req. keeps obs (pf_http pf req)" "ds_client s = as_discovery_client pf client"
    and "Discover s c w = Some (r, c', w')"
  shows "obs w' = obs w"
proof -
  note l = listAll_keeps [OF assms(1)]
  have n: "dc_ListNodeAllocations (ds_client s) node c w = Some (r, c', w') \<Longrightarrow> obs w' = obs w" for node c w r c' w'
    by (auto simp: assms(2) as_discovery_client_def ListNodeAllocations_def dest: l split: if_splits)
  have sv: "dc_ListServers (ds_client s) c w = Some (r, c', w') \<Longrightarrow> obs w' = obs w" for c w r c' w'
    by (auto simp: assms(2) as_discovery_client_def ListServers_def dest: l)
  have eg: "dc_ListEggs (ds_client s) c w = Some (r, c', w') \<Longrightarrow> obs w' = obs w" for c w r c' w'
    by (auto simp: assms(2) as_discovery_client_def ListEggs_def dest: l)
  have la: "loadAllocations (ds_client s) c servers p a w = Some (r, c', w') \<Longrightarrow> obs w' = obs w" for c servers p a w r c' w'
    by (rule loadAllocations_keeps [OF n])
  show ?thesis
    using assms(3)
    by (auto simp: Discover_def dest!: sv eg la split: option.splits prod.splits sum.splits)
qed
section \<open>Properties\<close>

text \<open>
  C27. Listing a collection returns every item of every page, in order, however many pages the panel
  announces, when the panel answers each page request and announces the same number of pages each
  time; a panel that announces no pages is read as one page.
\<close>

theorem pelican_lists_every_page:
  assumes "never_done c"
    and "\<And>page w. 1 \<le> page \<Longrightarrow> page \<le> max 1 n \<Longrightarrow>
      \<exists>u body w'. buildURL pf client (path @ ''?page='' @ Itoa page) = Inr u \<and>
        pf_http pf \<lparr>pr_Method = ''GET'', pr_URL = u, pr_Authorization = ''Bearer '' @ pc_APIKey (pcl_cfg client)\<rparr> w =
          ((Some \<lparr>StatusCode = 200, Body = body\<rparr>, None), w') \<and>
        decode body = Some \<lparr>list_Data = pages page, list_TotalPages = n\<rparr>"
  shows "\<exists>c' w'. listAll pf client decode c path w = Some (Inr (concat (map pages [1..max 1 n])), c', w')"
proof -
  have "\<exists>c' w'. listPage pf client decode path c page w = (Inr \<lparr>list_Data = pages page, list_TotalPages = n\<rparr>, c', w') \<and> never_done c'"
    if c: "never_done c" and "1 \<le> page" "page \<le> max 1 n" for c page w
  proof -
    from assms(2) [OF that(2,3), of w] obtain u body w' where
      "buildURL pf client (path @ ''?page='' @ Itoa page) = Inr u"
      "pf_http pf \<lparr>pr_Method = ''GET'', pr_URL = u, pr_Authorization = ''Bearer '' @ pc_APIKey (pcl_cfg client)\<rparr> w =
          ((Some \<lparr>StatusCode = 200, Body = body\<rparr>, None), w')"
      "decode body = Some \<lparr>list_Data = pages page, list_TotalPages = n\<rparr>" by blast
    from listPage_answer [where decode = decode, OF c this] c show ?thesis by simp
  qed
  from listAll_loop_pages [OF this assms(1), where page = 1 and items = "[]"] show ?thesis by (simp add: listAll_def)
qed

theorem pelican_lists_every_page_witness:
  "\<exists>c' w'. listAll fake_platform fake_pelican_client (pf_servers fake_platform) Background ''/servers'' () =
     Some (Inr (concat (map (\<lambda>page. [fake_server]) [1..max 1 1])), c', w')"
proof (rule pelican_lists_every_page [OF never_done_Background])
  fix page :: int and w :: unit
  assume "1 \<le> page" "page \<le> max 1 1"
  then have p: "page = 1" by simp
  show "\<exists>u body w'. buildURL fake_platform fake_pelican_client (''/servers'' @ ''?page='' @ Itoa page) = Inr u \<and>
        pf_http fake_platform \<lparr>pr_Method = ''GET'', pr_URL = u,
          pr_Authorization = ''Bearer '' @ pc_APIKey (pcl_cfg fake_pelican_client)\<rparr> w =
          ((Some \<lparr>StatusCode = 200, Body = body\<rparr>, None), w') \<and>
        pf_servers fake_platform body = Some \<lparr>list_Data = [fake_server], list_TotalPages = 1\<rparr>"
    unfolding p
    by (intro exI [of _ "\<lparr>pu_Scheme = ''http'', pu_Host = ''127.0.0.1:8081'', pu_Path = ''/api/application/servers'',
        pu_RawQuery = ''page=1''\<rparr>"] exI [of _ "JServers [fake_server]"] exI [of _ w] conjI; cases w; code_simp)
qed

text \<open>
  C28. Listing returns for every panel that never announces more than some fixed number of pages,
  whatever else it answers, errors and changing page counts included.
\<close>

theorem pelican_list_returns:
  assumes "\<And>page c w response c' w'. listPage pf client decode path c page w = (Inr response, c', w') \<Longrightarrow>
      list_TotalPages response \<le> n"
  shows "\<exists>r. listAll pf client decode c path w = Some r"
  unfolding listAll_def using assms by (rule listAll_loop_returns)

theorem pelican_list_returns_witness:
  "\<exists>r. listAll fake_platform fake_pelican_client (pf_servers fake_platform) Background ''/servers'' () = Some r"
proof (rule pelican_list_returns [where n = 1])
  show "list_TotalPages response \<le> 1"
    if "listPage fake_platform fake_pelican_client (pf_servers fake_platform) ''/servers'' c page w = (Inr response, c', w')"
    for page c w response c' w'
    using that
    by (auto simp: listPage_def pelicanDo_def fake_platform_def empty_list_def split: sum.splits prod.splits do_result.splits
        option.splits if_splits fake_json.splits)
qed

section \<open>Discovery against a panel\<close>

text \<open>
  A panel, seen through the client: what its three collections hold.  While the context is alive every
  listing answers its collection, and identifiers identify eggs and allocations.
\<close>

definition panel_answers ::
  "('w, 'e) discovery_client \<Rightarrow> ServerResource list \<Rightarrow> EggResource list \<Rightarrow> (int \<Rightarrow> AllocationResource list) \<Rightarrow> bool" where
  "panel_answers client servers eggs allocs \<longleftrightarrow>
     (\<forall>c w. never_done c \<longrightarrow>
        (\<exists>c' w'. dc_ListServers client c w = Some (Inr servers, c', w') \<and> never_done c') \<and>
        (\<exists>c' w'. dc_ListEggs client c w = Some (Inr eggs, c', w') \<and> never_done c') \<and>
        (\<forall>node. \<exists>c' w'. dc_ListNodeAllocations client node c w = Some (Inr (allocs node), c', w') \<and> never_done c')) \<and>
     inj_on egg_ID (set eggs) \<and> inj_on alloc_ID (\<Union>node. set (allocs node))"

text \<open>
  The specification of discovery, written out over the panel: an egg is a Minecraft egg when one of its
  tags says so, a server is described by its own fields, and its address is that of the allocation it
  names, listed for the node of a listed server, with the configured host in place of an unspecified one.
\<close>

definition minecraft_server :: "EggResource list \<Rightarrow> ServerResource \<Rightarrow> bool" where
  "minecraft_server eggs server \<longleftrightarrow>
     (\<exists>egg\<in>set eggs. egg_ID egg = sr_Egg server \<and> (\<exists>tag\<in>set (egg_Tags egg). ToLower (TrimSpace tag) = ''minecraft''))"

definition host_for :: "string \<Rightarrow> string \<Rightarrow> string \<Rightarrow> bool" where
  "host_for wildcard ip host \<longleftrightarrow>
     TrimSpace ip \<noteq> [] \<and> host \<noteq> [] \<and> \<not> unspecified host \<and>
     host = (if unspecified (TrimSpace ip) then TrimSpace wildcard else TrimSpace ip)"

definition describes ::
  "string \<Rightarrow> ServerResource list \<Rightarrow> (int \<Rightarrow> AllocationResource list) \<Rightarrow> ServerResource \<Rightarrow> MinecraftServer \<Rightarrow> bool" where
  "describes wildcard servers allocs server d \<longleftrightarrow>
     (\<exists>other\<in>set servers. \<exists>a\<in>set (allocs (sr_Node other)).
        alloc_ID a = sr_Allocation server \<and> host_for wildcard (alloc_IP a) (srv_BackendIP d) \<and>
        d = \<lparr>srv_ID = sr_ID server, srv_UUID = sr_UUID server, srv_Identifier = sr_Identifier server,
             srv_Name = sr_Name server, srv_NodeID = sr_Node server, srv_EggID = sr_Egg server,
             srv_AllocationID = sr_Allocation server, srv_BackendIP = srv_BackendIP d, srv_BackendPort = alloc_Port a,
             srv_Suspended = sr_Suspended server, srv_Status = sr_Status server\<rparr>)"

lemma foldl_by_key:
  assumes "inj_on f (set xs)"
  shows "foldl (\<lambda>m x. m(f x \<mapsto> x)) m xs i = Some x \<longleftrightarrow> x \<in> set xs \<and> f x = i \<or> i \<notin> f ` set xs \<and> m i = Some x"
  using assms
proof (induction xs arbitrary: m)
  case (Cons y xs)
  have IH: "foldl (\<lambda>m x. m(f x \<mapsto> x)) (m(f y \<mapsto> y)) xs i = Some x \<longleftrightarrow>
      x \<in> set xs \<and> f x = i \<or> i \<notin> f ` set xs \<and> (m(f y \<mapsto> y)) i = Some x"
    by (rule Cons.IH) (use Cons.prems in simp)
  have key: "f z = f y \<Longrightarrow> z \<in> set xs \<Longrightarrow> z = y" for z using Cons.prems by (simp add: inj_on_def)
  have "i \<in> f ` set xs \<and> f y = i \<Longrightarrow> y \<in> set xs" using key by auto
  then show ?case unfolding foldl.simps IH using key by (cases "f y = i") auto
qed simp

lemma loadAllocations_panel:
  assumes panel: "panel_answers client servers0 eggs allocs"
    and "never_done c" and "\<And>i a. m i = Some a \<longleftrightarrow> (\<exists>n\<in>P. a \<in> set (allocs n) \<and> alloc_ID a = i)"
  shows "\<exists>m' c' w'. loadAllocations client c servers P m w = Some (Inr m', c', w') \<and>
     (\<forall>i a. m' i = Some a \<longleftrightarrow> (\<exists>n\<in>P \<union> sr_Node ` set servers. a \<in> set (allocs n) \<and> alloc_ID a = i))"
  using assms(2,3)
proof (induction servers arbitrary: c P m w)
  case (Cons server servers)
  have inj: "inj_on alloc_ID (\<Union>node. set (allocs node))" using panel by (simp add: panel_answers_def)
  show ?case
  proof (cases "sr_Node server \<in> P")
    case True
    then show ?thesis using Cons.IH [OF Cons.prems, of w] by (simp add: insert_absorb)
  next
    case False
    obtain c1 w1 where l: "dc_ListNodeAllocations client (sr_Node server) c w = Some (Inr (allocs (sr_Node server)), c1, w1)"
      "never_done c1" using panel Cons.prems(1) unfolding panel_answers_def by blast
    let ?m = "foldl (\<lambda>m a. m(alloc_ID a \<mapsto> a)) m (allocs (sr_Node server))"
    have i: "inj_on alloc_ID (set (allocs (sr_Node server)))" by (rule inj_on_subset [OF inj]) auto
    have "?m i = Some a \<longleftrightarrow> (\<exists>n\<in>insert (sr_Node server) P. a \<in> set (allocs n) \<and> alloc_ID a = i)" for i a
      unfolding foldl_by_key [OF i] Cons.prems(2) using inj by (auto simp: inj_on_def)
    from Cons.IH [OF l(2) this, of w1] False l(1) show ?thesis by simp
  qed
qed auto

lemma resolveBackendHost_iff: "resolveBackendHost wildcard ip = Inr host \<longleftrightarrow> host_for wildcard ip host"
  by (auto simp: resolveBackendHost_def host_for_def Let_def)

lemma isMinecraftEgg_iff: "isMinecraftEgg egg \<longleftrightarrow> (\<exists>tag\<in>set (egg_Tags egg). ToLower (TrimSpace tag) = ''minecraft'')"
proof -
  have "ToLower ''minecraft'' = ''minecraft''" by code_simp
  then show ?thesis by (simp add: isMinecraftEgg_def list_ex_iff EqualFold_def)
qed

lemma backend_of_Some:
  "backend_of wildcard m server = Some (host, port) \<longleftrightarrow>
     (\<exists>a. m (sr_Allocation server) = Some a \<and> host_for wildcard (alloc_IP a) host \<and> port = alloc_Port a)"
  by (auto simp: backend_of_def resolveBackendHost_iff [symmetric] split: option.splits sum.splits)

lemma located_describes:
  assumes "\<And>i a. m i = Some a \<longleftrightarrow> (\<exists>n\<in>sr_Node ` set servers. a \<in> set (allocs n) \<and> alloc_ID a = i)"
  shows "describes wildcard servers allocs server d \<longleftrightarrow>
     backend_of wildcard m server \<noteq> None \<and> d = located wildcard m server"
proof
  assume "describes wildcard servers allocs server d"
  then obtain a where a: "m (sr_Allocation server) = Some a" "host_for wildcard (alloc_IP a) (srv_BackendIP d)"
      "d = (mapMinecraftServer server)\<lparr>srv_BackendIP := srv_BackendIP d, srv_BackendPort := alloc_Port a\<rparr>"
    by (auto simp: describes_def assms mapMinecraftServer_def)
  then have "backend_of wildcard m server = Some (srv_BackendIP d, alloc_Port a)" by (simp add: backend_of_Some)
  then show "backend_of wildcard m server \<noteq> None \<and> d = located wildcard m server" using a(3) by (simp add: located_def)
next
  assume d: "backend_of wildcard m server \<noteq> None \<and> d = located wildcard m server"
  then obtain host port where b: "backend_of wildcard m server = Some (host, port)" by (metis option.exhaust prod.exhaust)
  then obtain a where a: "m (sr_Allocation server) = Some a" "host_for wildcard (alloc_IP a) host" "port = alloc_Port a"
    by (auto simp: backend_of_Some)
  then obtain other where "other \<in> set servers" "a \<in> set (allocs (sr_Node other))" "alloc_ID a = sr_Allocation server"
    by (auto simp: assms)
  then show "describes wildcard servers allocs server d"
    using d a b by (auto simp: describes_def located_def mapMinecraftServer_def)
qed


text \<open>Two servers on different nodes, the second one suspended, and one that is not a Minecraft server.\<close>

definition example_panel :: "(unit, string) discovery_client" where
  "example_panel =
     \<lparr>dc_ListServers = (\<lambda>c w. Some (Inr [fake_server, fake_server\<lparr>sr_ID := 2, sr_Egg := 9\<rparr>,
        fake_server\<lparr>sr_ID := 3, sr_Node := 2, sr_Allocation := 2, sr_Suspended := True\<rparr>], c, w)),
      dc_ListEggs = (\<lambda>c w. Some (Inr [\<lparr>egg_ID = 1, egg_Name = ''Paper'', egg_Tags = ['' Minecraft '']\<rparr>], c, w)),
      dc_ListNodeAllocations = (\<lambda>node c w. Some (Inr [\<lparr>alloc_ID = node, alloc_IP = ''0.0.0.0'', alloc_Port = 25565\<rparr>], c, w))\<rparr>"

definition example_discovery :: "(unit, string) DiscoveryService" where
  "example_discovery = discoveryNew example_panel [Some (WithWildcardBackendHost ''10.0.0.5'')]"


text \<open>
  No discovered server has an empty backend host or the unspecified address: a wildcard
  allocation is replaced by the configured host, and without a usable one discovery fails.
\<close>

lemma discover_backend_hosts:
  assumes "Discover s c w = Some (Inr discovered, c', w')"
  shows "list_all (\<lambda>server. srv_BackendIP server \<noteq> [] \<and> \<not> unspecified (srv_BackendIP server)) discovered"
  using assms
  by (fastforce simp: Discover_def discoverServers_Inr list_all_iff located_def dest: backend_of_safe
      split: option.splits prod.splits sum.splits)

lemma discover_backend_hosts_example:
  "list_all (\<lambda>server. srv_BackendIP server \<noteq> [] \<and> \<not> unspecified (srv_BackendIP server))
     [(mapMinecraftServer fake_server)\<lparr>srv_BackendIP := ''127.0.0.1'', srv_BackendPort := 25565\<rparr>]"
  by (rule discover_backend_hosts [OF fake_discover])

end
