(* ===== verification/SettingsStore.thy ===== *)
theory SettingsStore
  imports Models
begin

text \<open>
  The settings store, \<open>internal/settings/store.go\<close>, over the tables \<open>settings\<close> and
  \<open>pending_setup\<close>: reading and writing single settings, saving all of them in one transaction,
  and the two-phase setup in which a candidate is staged under a random generation and later promoted.

  Database calls fail as the \<open>faults\<close> list says, one entry per call; a transaction works on a copy
  that \<open>Commit\<close> installs.  The random generation is an argument of \<open>StageSetup\<close>.
\<close>

record Settings =
  set_PelicanURL :: string
  set_PelicanAPIKey :: string
  set_PelicanSecretName :: string
  set_RouterDomain :: string

record pending_setup =
  pending_pelican_url :: string
  pending_secret_name :: string
  pending_router_domain :: string
  pending_generation :: string

record settings_db =
  settings_tbl :: "(string \<times> string) list"
  pending_tbl :: "pending_setup option"

datatype settings_error =
    SettingNotFound | SecretReferenceRequired | InvalidBool string | SettingsDB string

abbreviation KeySetupCompleted :: string where "KeySetupCompleted \<equiv> ''setup.completed''"
abbreviation KeyPelicanURL :: string where "KeyPelicanURL \<equiv> ''pelican.url''"
abbreviation KeyPelicanAPIKey :: string where "KeyPelicanAPIKey \<equiv> ''pelican.api_key''"
abbreviation KeyPelicanSecretName :: string where "KeyPelicanSecretName \<equiv> ''pelican.secret_name''"
abbreviation KeyRouterDomain :: string where "KeyRouterDomain \<equiv> ''router.domain''"

text \<open>\<open>strconv.ParseBool\<close> and \<open>strconv.FormatBool\<close>.\<close>

definition ParseBool :: "string \<Rightarrow> bool option" where
  "ParseBool s =
     (if s \<in> set [''1'', ''t'', ''T'', ''true'', ''TRUE'', ''True''] then Some True
      else if s \<in> set [''0'', ''f'', ''F'', ''false'', ''FALSE'', ''False''] then Some False
      else None)"

definition FormatBool :: "bool \<Rightarrow> string" where
  "FormatBool b = (if b then ''true'' else ''false'')"

section \<open>Operations\<close>

definition setValue :: "settings_db \<Rightarrow> faults \<Rightarrow> string \<Rightarrow> string \<Rightarrow> settings_error option \<times> settings_db" where
  "setValue db fs key value =
     (if fault fs then (Some (SettingsDB ''set''), db)
      else (None, db\<lparr>settings_tbl := AList.update key value (settings_tbl db)\<rparr>))"

definition settingsSet :: "settings_db \<Rightarrow> faults \<Rightarrow> string \<Rightarrow> string \<Rightarrow> settings_error option \<times> settings_db" where
  "settingsSet db fs key value = setValue db fs key value"

definition settingsGet :: "settings_db \<Rightarrow> faults \<Rightarrow> string \<Rightarrow> settings_error + string" where
  "settingsGet db fs key =
     (if fault fs then Inl (SettingsDB ''get'')
      else case map_of (settings_tbl db) key of None \<Rightarrow> Inl SettingNotFound | Some value \<Rightarrow> Inr value)"

definition IsSetupComplete :: "settings_db \<Rightarrow> faults \<Rightarrow> settings_error + bool" where
  "IsSetupComplete db fs =
     (case settingsGet db fs KeySetupCompleted of
        Inl e \<Rightarrow> if e = SettingNotFound then Inr False else Inl e
      | Inr value \<Rightarrow> (case ParseBool value of None \<Rightarrow> Inl (InvalidBool value) | Some complete \<Rightarrow> Inr complete))"

definition SetSetupComplete :: "settings_db \<Rightarrow> faults \<Rightarrow> bool \<Rightarrow> settings_error option \<times> settings_db" where
  "SetSetupComplete db fs complete = settingsSet db fs KeySetupCompleted (FormatBool complete)"

fun setValues :: "settings_db \<Rightarrow> faults \<Rightarrow> (string \<times> string) list \<Rightarrow> (settings_error + settings_db) \<times> faults" where
  "setValues db fs [] = (Inr db, fs)"
| "setValues db fs ((key, value) # rest) =
     (case setValue db fs key value of
        (Some e, _) \<Rightarrow> (Inl (SettingsDB (''save '' @ key)), tl fs)
      | (None, db') \<Rightarrow> setValues db' (tl fs) rest)"

definition setting_values :: "Settings \<Rightarrow> bool \<Rightarrow> (string \<times> string) list" where
  "setting_values value complete =
     [(KeyPelicanURL, set_PelicanURL value), (KeyRouterDomain, set_RouterDomain value)] @
     (if complete then [(KeySetupCompleted, FormatBool True)] else []) @
     (if set_PelicanSecretName value \<noteq> [] then [(KeyPelicanSecretName, set_PelicanSecretName value)]
      else [(KeyPelicanAPIKey, set_PelicanAPIKey value)])"

definition saveValues :: "settings_db \<Rightarrow> faults \<Rightarrow> Settings \<Rightarrow> bool \<Rightarrow> (settings_error + settings_db) \<times> faults" where
  "saveValues db fs value complete =
     (case setValues db fs (setting_values value complete) of
        (Inl e, fs') \<Rightarrow> (Inl e, fs')
      | (Inr db', fs') \<Rightarrow>
          if set_PelicanSecretName value \<noteq> [] then
            (if fault fs' then (Inl (SettingsDB ''remove legacy Pelican credential''), tl fs')
             else (Inr (db'\<lparr>settings_tbl := AList.delete KeyPelicanAPIKey (settings_tbl db')\<rparr>), tl fs'))
          else (Inr db', fs'))"

definition save :: "settings_db \<Rightarrow> faults \<Rightarrow> Settings \<Rightarrow> bool \<Rightarrow> settings_error option \<times> settings_db" where
  "save db fs value complete =
     (if fault fs then (Some (SettingsDB ''begin settings transaction''), db)
      else case saveValues db (tl fs) value complete of
        (Inl e, fs') \<Rightarrow> (Some e, db)
      | (Inr db', fs') \<Rightarrow>
          if fault fs' then (Some (SettingsDB ''commit settings transaction''), db) else (None, db'))"

definition Save :: "settings_db \<Rightarrow> faults \<Rightarrow> Settings \<Rightarrow> settings_error option \<times> settings_db" where
  "Save db fs value = save db fs value False"

definition SaveSetup :: "settings_db \<Rightarrow> faults \<Rightarrow> Settings \<Rightarrow> settings_error option \<times> settings_db" where
  "SaveSetup db fs value = save db fs value True"

definition StageSetup ::
  "settings_db \<Rightarrow> faults \<Rightarrow> string \<Rightarrow> Settings \<Rightarrow> (settings_error + string) \<times> settings_db" where
  "StageSetup db fs generation value =
     (if set_PelicanSecretName value = [] then (Inl SecretReferenceRequired, db)
      else if fault fs then (Inl (SettingsDB ''begin pending setup transaction''), db)
      else if fault (drop 1 fs) \<or> sqlite_length (set_PelicanURL value) = 0 \<or>
        sqlite_length (set_PelicanSecretName value) = 0 \<or> sqlite_length (set_RouterDomain value) = 0
      then (Inl (SettingsDB ''stage pending setup''), db)
      else if fault (drop 2 fs) then (Inl (SettingsDB ''commit pending setup transaction''), db)
      else (Inr generation, db\<lparr>pending_tbl := Some
        \<lparr>pending_pelican_url = set_PelicanURL value, pending_secret_name = set_PelicanSecretName value,
         pending_router_domain = set_RouterDomain value, pending_generation = generation\<rparr>\<rparr>))"

definition pending_settings :: "pending_setup \<Rightarrow> Settings" where
  "pending_settings p =
     \<lparr>set_PelicanURL = pending_pelican_url p, set_PelicanAPIKey = [],
      set_PelicanSecretName = pending_secret_name p, set_RouterDomain = pending_router_domain p\<rparr>"

definition PromotePendingSetup ::
  "settings_db \<Rightarrow> faults \<Rightarrow> string \<Rightarrow> settings_error option \<times> settings_db" where
  "PromotePendingSetup db fs generation =
     (if fault fs then (Some (SettingsDB ''begin pending setup promotion''), db)
      else if fault (drop 1 fs) then (Some (SettingsDB ''load pending setup''), db)
      else case pending_tbl db of
        None \<Rightarrow> (Some SettingNotFound, db)
      | Some p \<Rightarrow>
          if pending_generation p \<noteq> generation then (Some SettingNotFound, db)
          else case saveValues db (drop 2 fs) (pending_settings p) True of
            (Inl e, fs') \<Rightarrow> (Some e, db)
          | (Inr tx, fs') \<Rightarrow>
              if fault fs' then (Some (SettingsDB ''clear pending setup''), db)
              else if fault (tl fs') then (Some (SettingsDB ''commit pending setup promotion''), db)
              else (None, tx\<lparr>pending_tbl := None\<rparr>))"

definition optional :: "settings_error + string \<Rightarrow> settings_error + string" where
  "optional r = (case r of Inl e \<Rightarrow> if e = SettingNotFound then Inr [] else Inl e | Inr v \<Rightarrow> Inr v)"

definition Load :: "settings_db \<Rightarrow> faults \<Rightarrow> settings_error + Settings" where
  "Load db fs =
     bindE (settingsGet db fs KeyPelicanURL) (\<lambda>pelicanURL.
     bindE (optional (settingsGet db (drop 1 fs) KeyPelicanAPIKey)) (\<lambda>pelicanAPIKey.
     bindE (optional (settingsGet db (drop 2 fs) KeyPelicanSecretName)) (\<lambda>pelicanSecretName.
     bindE (settingsGet db (drop 3 fs) KeyRouterDomain) (\<lambda>routerDomain.
       Inr \<lparr>set_PelicanURL = pelicanURL, set_PelicanAPIKey = pelicanAPIKey,
            set_PelicanSecretName = pelicanSecretName, set_RouterDomain = routerDomain\<rparr>))))"

section \<open>What a save stores\<close>

lemma setValues_Inr:
  "setValues db fs kvs = (Inr db', fs') \<Longrightarrow>
     map_of (settings_tbl db') = map_of (settings_tbl db) ++ map_of (rev kvs) \<and> pending_tbl db' = pending_tbl db"
proof (induction kvs arbitrary: db fs)
  case (Cons kv kvs)
  obtain k v where kv: "kv = (k, v)" by fastforce
  have "\<not> fault fs" "setValues (db\<lparr>settings_tbl := AList.update k v (settings_tbl db)\<rparr>) (tl fs) kvs = (Inr db', fs')"
    using Cons.prems by (auto simp: kv setValue_def split: if_splits)
  from Cons.IH [OF this(2)] show ?case by (auto simp: kv map_add_def fun_eq_iff split: option.splits)
qed (simp add: map_add_def)

text \<open>The table after a committed save.\<close>

definition saved :: "(string \<rightharpoonup> string) \<Rightarrow> Settings \<Rightarrow> bool \<Rightarrow> string \<rightharpoonup> string" where
  "saved m value complete =
     (let m' = m(KeyPelicanURL \<mapsto> set_PelicanURL value, KeyRouterDomain \<mapsto> set_RouterDomain value);
          m'' = (if complete then m'(KeySetupCompleted \<mapsto> ''true'') else m')
      in if set_PelicanSecretName value \<noteq> []
         then m''(KeyPelicanSecretName \<mapsto> set_PelicanSecretName value, KeyPelicanAPIKey := None)
         else m''(KeyPelicanAPIKey \<mapsto> set_PelicanAPIKey value))"

lemma saveValues_Inr:
  assumes "saveValues db fs value complete = (Inr db', fs')"
  shows "map_of (settings_tbl db') = saved (map_of (settings_tbl db)) value complete \<and> pending_tbl db' = pending_tbl db"
proof -
  obtain db1 fs1 where v: "setValues db fs (setting_values value complete) = (Inr db1, fs1)"
    "db' = (if set_PelicanSecretName value \<noteq> [] then db1\<lparr>settings_tbl := AList.delete KeyPelicanAPIKey (settings_tbl db1)\<rparr> else db1)"
    using assms by (auto simp: saveValues_def split: prod.splits sum.splits if_splits)
  have "m ++ map_of (rev (setting_values value complete)) =
      (if set_PelicanSecretName value \<noteq> []
       then (saved m value complete)(KeyPelicanAPIKey := m KeyPelicanAPIKey) else saved m value complete)" for m
    by (cases complete) (auto simp: setting_values_def saved_def Let_def FormatBool_def fun_eq_iff)
  with setValues_Inr [OF v(1)] v(2) show ?thesis by (auto simp: saved_def Let_def)
qed

lemma save_cases:
  assumes "save db fs value complete = (e, db')"
  shows "(e \<noteq> None \<and> db' = db) \<or>
     (e = None \<and> map_of (settings_tbl db') = saved (map_of (settings_tbl db)) value complete \<and> pending_tbl db' = pending_tbl db)"
  using assms by (auto simp: save_def dest: saveValues_Inr split: if_splits prod.splits sum.splits)

lemma Promote_cases:
  assumes "PromotePendingSetup db fs generation = (e, db')"
  shows "(e \<noteq> None \<and> db' = db) \<or>
     (e = None \<and> (\<exists>p. pending_tbl db = Some p \<and> pending_generation p = generation \<and>
        map_of (settings_tbl db') = saved (map_of (settings_tbl db)) (pending_settings p) True \<and> pending_tbl db' = None))"
  using assms
  by (auto simp: PromotePendingSetup_def dest: saveValues_Inr split: if_splits prod.splits sum.splits option.splits)

lemma Load_faultless:
  "Load db [] =
     (case (map_of (settings_tbl db) KeyPelicanURL, map_of (settings_tbl db) KeyRouterDomain) of
        (Some url, Some domain) \<Rightarrow>
          Inr \<lparr>set_PelicanURL = url, set_PelicanAPIKey = (case map_of (settings_tbl db) KeyPelicanAPIKey of None \<Rightarrow> [] | Some k \<Rightarrow> k),
               set_PelicanSecretName = (case map_of (settings_tbl db) KeyPelicanSecretName of None \<Rightarrow> [] | Some n \<Rightarrow> n),
               set_RouterDomain = domain\<rparr>
      | _ \<Rightarrow> Inl SettingNotFound)"
  by (simp add: Load_def settingsGet_def optional_def split: option.split)

text \<open>What a read answers when no call fails on its way is what it answers without faults.\<close>

lemma settingsGet_Inr: "settingsGet db fs key = Inr v \<Longrightarrow> settingsGet db [] key = Inr v"
  by (simp add: settingsGet_def split: if_splits)

lemma optional_settingsGet_Inr: "optional (settingsGet db fs key) = Inr v \<Longrightarrow> optional (settingsGet db [] key) = Inr v"
  by (auto simp: settingsGet_def optional_def split: if_splits option.splits)

lemma Load_Inr: "Load db fs = Inr value \<Longrightarrow> Load db [] = Inr value"
  by (auto simp: Load_def dest: settingsGet_Inr optional_settingsGet_Inr)

lemma stage_promote:
  assumes "StageSetup db fs generation value = (Inr g, staged)"
    and "PromotePendingSetup staged fs' g' = (e, db')"
  shows "Load staged [] = Load db [] \<and> IsSetupComplete staged [] = IsSetupComplete db [] \<and> g = generation \<and>
     (if e = None then g' = generation \<and> Load db' [] = Inr (value\<lparr>set_PelicanAPIKey := []\<rparr>) \<and>
        IsSetupComplete db' [] = Inr True \<and> pending_tbl db' = None
      else db' = staged)"
proof -
  have st: "settings_tbl staged = settings_tbl db" "g = generation" "set_PelicanSecretName value \<noteq> []"
    "pending_tbl staged = Some \<lparr>pending_pelican_url = set_PelicanURL value, pending_secret_name = set_PelicanSecretName value,
       pending_router_domain = set_RouterDomain value, pending_generation = generation\<rparr>"
    using assms(1) by (auto simp: StageSetup_def split: if_splits)
  have same: "Load staged [] = Load db []" "IsSetupComplete staged [] = IsSetupComplete db []"
    unfolding Load_faultless IsSetupComplete_def settingsGet_def st(1) by (rule refl)+
  show ?thesis
  proof (cases e)
    case None
    with Promote_cases [OF assms(2)] st(4) have p: "g' = generation" "pending_tbl db' = None"
      "map_of (settings_tbl db') = saved (map_of (settings_tbl staged)) (value\<lparr>set_PelicanAPIKey := []\<rparr>) True"
      by (cases "value"; auto simp: pending_settings_def)+
    have "IsSetupComplete db' [] = Inr True"
      using st(3) by (simp add: IsSetupComplete_def settingsGet_def p(3) saved_def Let_def ParseBool_def)
    moreover have "Load db' [] = Inr (value\<lparr>set_PelicanAPIKey := []\<rparr>)"
      using st(3) by (simp add: Load_faultless p(3) saved_def Let_def)
    ultimately show ?thesis using None p same st(2) by simp
  qed (use Promote_cases [OF assms(2)] same st(2) in auto)
qed

lemma save_load:
  assumes "Save db fs value = (e, db')"
  shows "(if e = None
          then Load db' [] =
            Inr (if set_PelicanSecretName value \<noteq> [] then value\<lparr>set_PelicanAPIKey := []\<rparr>
                 else value\<lparr>set_PelicanSecretName := (case map_of (settings_tbl db) KeyPelicanSecretName of None \<Rightarrow> [] | Some n \<Rightarrow> n)\<rparr>) \<and>
            IsSetupComplete db' [] = IsSetupComplete db []
          else db' = db)"
proof (cases e)
  case None
  with save_cases [OF assms [unfolded Save_def]]
  have m: "map_of (settings_tbl db') = saved (map_of (settings_tbl db)) value False" by simp
  have "IsSetupComplete db' [] = IsSetupComplete db []"
    by (simp add: IsSetupComplete_def settingsGet_def m saved_def Let_def)
  with None show ?thesis by (simp add: Load_faultless m saved_def Let_def)
qed (use save_cases [OF assms [unfolded Save_def]] in auto)

section \<open>Properties\<close>

definition example_settings :: Settings where
  "example_settings = \<lparr>set_PelicanURL = ''https://panel.example.com'', set_PelicanAPIKey = [],
     set_PelicanSecretName = ''pelican_api_key'', set_RouterDomain = ''mc.example.com''\<rparr>"

definition empty_settings_db :: settings_db where
  "empty_settings_db = \<lparr>settings_tbl = [], pending_tbl = None\<rparr>"

text \<open>
  Setup is two-phase.  Staging a candidate changes neither the active settings nor whether setup
  is complete; promoting it under its generation makes exactly the candidate active, removes any
  stored API key, marks setup complete and clears the candidate; a promotion under another generation
  (a candidate that was replaced meanwhile) is refused and changes nothing.
\<close>

lemma stage_then_promote:
  assumes "StageSetup db fs generation value = (Inr g, staged)"
    and "PromotePendingSetup staged fs' g' = (e, db')"
  shows "Load staged [] = Load db [] \<and> IsSetupComplete staged [] = IsSetupComplete db [] \<and> g = generation \<and>
     (if e = None then g' = generation \<and> Load db' [] = Inr (value\<lparr>set_PelicanAPIKey := []\<rparr>) \<and>
        IsSetupComplete db' [] = Inr True \<and> pending_tbl db' = None
      else db' = staged)"
  by (rule stage_promote [OF assms])

lemma stage_then_promote_example:
  "(case StageSetup empty_settings_db [] ''0a0b'' example_settings of (r, staged) \<Rightarrow>
     r = Inr ''0a0b'' \<and> fst (PromotePendingSetup staged [] ''0a0b'') = None \<and>
     Load (snd (PromotePendingSetup staged [] ''0a0b'')) [] = Inr example_settings \<and>
     fst (PromotePendingSetup staged [] ''ffff'') = Some SettingNotFound)"
proof -
  let ?staged = "snd (StageSetup empty_settings_db [] ''0a0b'' example_settings)"
  have r: "fst (StageSetup empty_settings_db [] ''0a0b'' example_settings) = Inr ''0a0b''"
    "fst (PromotePendingSetup ?staged [] ''0a0b'') = None"
    "fst (PromotePendingSetup ?staged [] ''ffff'') = Some SettingNotFound" by code_simp+
  have k: "example_settings\<lparr>set_PelicanAPIKey := []\<rparr> = example_settings" by (simp add: example_settings_def)
  have "StageSetup empty_settings_db [] ''0a0b'' example_settings = (Inr ''0a0b'', ?staged)"
    "PromotePendingSetup ?staged [] ''0a0b'' = (None, snd (PromotePendingSetup ?staged [] ''0a0b''))"
    using r by (metis prod.collapse)+
  from stage_then_promote [OF this] r k show ?thesis by (simp add: case_prod_unfold)
qed

lemma save_faultless: "\<exists>db'. Save db [] value = (None, db')"
  by (simp add: Save_def save_def saveValues_def setting_values_def setValue_def)

text \<open>
  Settings that name the credential in one way: by a secret, without a key of their own, or by a key
  where no secret name is stored.  The API only stores the first kind.
\<close>

definition one_credential :: "settings_db \<Rightarrow> Settings \<Rightarrow> bool" where
  "one_credential db value \<longleftrightarrow>
     (if set_PelicanSecretName value \<noteq> [] then set_PelicanAPIKey value = []
      else map_of (settings_tbl db) KeyPelicanSecretName = None \<or> map_of (settings_tbl db) KeyPelicanSecretName = Some [])"

text \<open>
  C39. Saving is atomic and reads back: a save that fails leaves the database as it was, whichever
  statement failed, and a save without failing statements succeeds; when a save succeeds and the
  settings name their credential in one way (by a secret, or by a key where no secret name is stored
  from before), \<open>Load\<close> returns exactly the settings that were saved, and the setup flag is the one
  from before.
\<close>

theorem save_load_roundtrip:
  assumes "Save db fs value = (e, db')" and "one_credential db value"
  shows "(if e = None then Load db' [] = Inr value \<and> IsSetupComplete db' [] = IsSetupComplete db [] else fs \<noteq> [] \<and> db' = db)"
  using save_load [OF assms(1)] assms save_faultless [of db "value"] by (auto simp: one_credential_def split: if_splits)

theorem save_load_roundtrip_witness:
  "Load (snd (Save empty_settings_db [] example_settings)) [] = Inr example_settings"
proof -
  have "fst (Save empty_settings_db [] example_settings) = None" by code_simp
  then have "Save empty_settings_db [] example_settings = (None, snd (Save empty_settings_db [] example_settings))"
    by (metis prod.collapse)
  from save_load_roundtrip [OF this] show ?thesis by (simp add: one_credential_def example_settings_def)
qed

end
