(* ===== verification/Runtime.thy ===== *)
theory Runtime
  imports Synchronizer ReconStatus Discovery SettingsStore Planner
begin

text \<open>
  The runtime, \<open>internal/runtime\<close>: the inventory that caches one discovery result
  (\<open>inventory.go\<close>), the manager that publishes the active services (\<open>manager.go\<close>,
  \<open>service.go\<close>) and the refresh task that rebuilds them (\<open>refresh_task.go\<close>).

  All collaborators act on a world \<open>'w\<close>: the settings store, the secret resolver, the panel
  behind the HTTP platform, the policy source, the route synchronizer, the observer and the event
  recorder.  Their errors are values of an opaque type \<open>'x\<close>, those of the route controller of a
  type \<open>'b\<close>.  A result \<open>None\<close> means that listing the panel's pages does not end.

  The routing service reads its servers from the inventory it was built with.  The only inventory
  that is ever refreshed is one just built and not yet published, so services that carry their
  inventory by value behave as the shared pointer of the code does.
\<close>

section \<open>Inventory\<close>

type_synonym ('w, 'x) discover = "ctx \<Rightarrow> 'w \<Rightarrow> (('x + MinecraftServer list) \<times> ctx \<times> 'w) option"

record ('w, 'x) Inventory =
  inv_source :: "('w, 'x) discover"
  inv_servers :: "MinecraftServer list"
  inv_ready :: bool

datatype 'x source_error = ErrInventoryUnavailable | PolicySource 'x

definition NewInventory :: "('w, 'x) discover \<Rightarrow> ('w, 'x) Inventory" where
  "NewInventory source = \<lparr>inv_source = source, inv_servers = [], inv_ready = False\<rparr>"

definition invRefresh :: "('w, 'x) Inventory \<Rightarrow> ctx \<Rightarrow> 'w \<Rightarrow> (('x + ('w, 'x) Inventory) \<times> ctx \<times> 'w) option" where
  "invRefresh i c w =
     (case inv_source i c w of
        None \<Rightarrow> None
      | Some (Inl e, c1, w1) \<Rightarrow> Some (Inl e, c1, w1)
      | Some (Inr servers, c1, w1) \<Rightarrow> Some (Inr (i\<lparr>inv_servers := servers, inv_ready := True\<rparr>), c1, w1))"

definition invDiscover :: "('w, 'x) Inventory \<Rightarrow> 'p source_error + MinecraftServer list" where
  "invDiscover i = (if \<not> inv_ready i then Inl ErrInventoryUnavailable else Inr (inv_servers i))"

section \<open>Services and the manager\<close>

type_synonym ('w, 'x) policy_source = "ctx \<Rightarrow> 'w \<Rightarrow> ('x + Policy list) \<times> ctx \<times> 'w"

record ('w, 'x, 'd) RoutingService =
  rs_inventory :: "('w, 'd) Inventory"
  rs_planner :: Planner
  rs_policies :: "('w, 'x) policy_source option"

type_synonym 'x route_error = "'x source_error routes_error"

text \<open>\<open>Service.Routes\<close> of the planner, over the inventory and a policy source that reads the world.\<close>

definition rsRoutes :: "('w, 'x, 'd) RoutingService \<Rightarrow> ('w, 'x route_error) route_source" where
  "rsRoutes s c w =
     (case invDiscover (rs_inventory s) of
        Inl e \<Rightarrow> (Inl (RoutesDiscover e), c, w)
      | Inr servers \<Rightarrow>
          (case rs_policies s of
             None \<Rightarrow> (Routes \<lparr>svc_discovery = Inr servers, svc_planner = rs_planner s, svc_policies = None\<rparr>, c, w)
           | Some list_policies \<Rightarrow>
               (case list_policies c w of (stored, c1, w1) \<Rightarrow>
                  (Routes \<lparr>svc_discovery = Inr servers, svc_planner = rs_planner s,
                           svc_policies = Some (map_err PolicySource stored)\<rparr>, c1, w1))))"

definition emptyRouteSource :: "('w, 'x route_error) route_source" where
  "emptyRouteSource c w = (Inr [], c, w)"

record ('w, 'x, 'd) Manager =
  mgr_discovery :: "('w, 'd) Inventory option"
  mgr_routing :: "('w, 'x, 'd) RoutingService option"

definition runtimeNew :: "('w, 'x, 'd) Manager" where
  "runtimeNew = \<lparr>mgr_discovery = None, mgr_routing = None\<rparr>"

definition managerSet ::
  "('w, 'd) Inventory option \<Rightarrow> ('w, 'x, 'd) RoutingService option \<Rightarrow> ('w, 'x, 'd) Manager \<Rightarrow> ('w, 'x, 'd) Manager" where
  "managerSet discovery routing m = m\<lparr>mgr_discovery := discovery, mgr_routing := routing\<rparr>"

section \<open>The refresh task\<close>

text \<open>
  A synchronizer is the program's own \<open>router.Synchronizer\<close> (\<open>Production\<close>) or another
  implementation of the two interfaces, with or without diagnostics.
\<close>

datatype ('w, 'x, 'b) RouteSynchronizer =
    Production "('w, 'b) route_controller"
  | WithDiagnostics "ctx \<Rightarrow> ('w, 'x route_error) route_source option \<Rightarrow> 'w \<Rightarrow>
      (('x route_error, 'b) sync_error option \<times> ReconciliationResult) \<times> ctx \<times> 'w"
  | SyncOnly "ctx \<Rightarrow> ('w, 'x route_error) route_source option \<Rightarrow> 'w \<Rightarrow> ('x route_error, 'b) sync_error option \<times> ctx \<times> 'w"

type_synonym 'x panel_error = "'x pelican_error discover_error"

record ('j, 'w, 'x, 'b) RefreshTask =
  rt_IsSetupComplete :: "'w \<Rightarrow> ('x + bool) \<times> 'w"
  rt_Load :: "'w \<Rightarrow> ('x + Settings) \<times> 'w"
  rt_timeout :: int
  rt_retry :: Config
  rt_wildcardBackendHost :: string
  rt_synchronizer :: "('w, 'x, 'b) RouteSynchronizer option"
  rt_observer :: "(ReconciliationStatus \<Rightarrow> 'w \<Rightarrow> 'w) option"
  rt_recorder :: "(ctx \<Rightarrow> ReconciliationOutcome \<Rightarrow> ReconciliationResult \<Rightarrow> 'w \<Rightarrow> 'x option \<times> ctx \<times> 'w) option"
  rt_secretResolver :: "(string \<Rightarrow> 'w \<Rightarrow> 'x + string) option"
  rt_policySource :: "('w, 'x) policy_source option"
  rt_platform :: "('j, 'w, 'x) platform"
  rt_cleanup :: ctx
  rt_now :: "nat \<Rightarrow> int"

text \<open>
  The constructor and the setters.  The store is its two methods; the platform, the context of the
  cleanup and the clock are what the task takes from the Go library.
\<close>

definition NewRefreshTask ::
  "('w \<Rightarrow> ('x + bool) \<times> 'w) \<Rightarrow> ('w \<Rightarrow> ('x + Settings) \<times> 'w) \<Rightarrow> int \<Rightarrow> string \<Rightarrow> ('w, 'x, 'b) RouteSynchronizer option \<Rightarrow>
   (ReconciliationStatus \<Rightarrow> 'w \<Rightarrow> 'w) option \<Rightarrow> Config list \<Rightarrow> ('j, 'w, 'x) platform \<Rightarrow> ctx \<Rightarrow> (nat \<Rightarrow> int) \<Rightarrow>
   ('j, 'w, 'x, 'b) RefreshTask" where
  "NewRefreshTask isSetupComplete load timeout wildcardHost synchronizer observer retryConfigs platform cleanup now =
     \<lparr>rt_IsSetupComplete = isSetupComplete, rt_Load = load, rt_timeout = timeout,
      rt_retry = (case retryConfigs of retryConfig # _ \<Rightarrow> retryConfig | [] \<Rightarrow> \<lparr>Attempts = 0, InitialBackoff = 0, MaxBackoff = 0\<rparr>),
      rt_wildcardBackendHost = wildcardHost, rt_synchronizer = synchronizer, rt_observer = observer,
      rt_recorder = None, rt_secretResolver = None, rt_policySource = None,
      rt_platform = platform, rt_cleanup = cleanup, rt_now = now\<rparr>"

definition WithPolicySource :: "('w, 'x) policy_source \<Rightarrow> ('j, 'w, 'x, 'b) RefreshTask \<Rightarrow> ('j, 'w, 'x, 'b) RefreshTask" where
  "WithPolicySource source r = r\<lparr>rt_policySource := Some source\<rparr>"

definition WithSecretResolver :: "(string \<Rightarrow> 'w \<Rightarrow> 'x + string) \<Rightarrow> ('j, 'w, 'x, 'b) RefreshTask \<Rightarrow> ('j, 'w, 'x, 'b) RefreshTask" where
  "WithSecretResolver resolver r = r\<lparr>rt_secretResolver := Some resolver\<rparr>"

definition WithReconciliationEventRecorder ::
  "(ctx \<Rightarrow> ReconciliationOutcome \<Rightarrow> ReconciliationResult \<Rightarrow> 'w \<Rightarrow> 'x option \<times> ctx \<times> 'w) \<Rightarrow>
   ('j, 'w, 'x, 'b) RefreshTask \<Rightarrow> ('j, 'w, 'x, 'b) RefreshTask" where
  "WithReconciliationEventRecorder recorder r = r\<lparr>rt_recorder := Some recorder\<rparr>"

text \<open>
  What the task shares with the rest of the program: the manager, the tracker and the number of
  clock readings made so far.
\<close>

record ('w, 'x) RuntimeState =
  st_manager :: "('w, 'x, 'x panel_error) Manager"
  st_tracker :: ReconciliationStatus
  st_ticks :: nat

datatype ('x, 'b) refresh_error =
    AcquireFailed ctx_error
  | SetupStatusFailed 'x
  | LoadSettingsFailed 'x
  | SecretResolverUnavailable
  | SecretResolveFailed 'x
  | PelicanClientFailed new_pelican_error
  | RoutingServiceFailed new_error
  | RefreshInventoryFailed "'x panel_error"
  | SynchronizeFailed "('x route_error, 'b) sync_error"
  | StageFailed 'x
  | ActivationCanceled ctx_error
  | PersistFailed 'x
  | JoinedErrors "('x, 'b) refresh_error" "('x, 'b) refresh_error"

type_synonym ('w, 'x) services = "('w, 'x panel_error) Inventory \<times> ('w, 'x, 'x panel_error) RoutingService"

text \<open>
  Taking the lock when it is free.  A \<open>select\<close> that finds the context done as well may answer
  with its error; that answer is the one of a context that is done at the first poll.  The lock itself,
  with several callers, is the subject of the theory \<open>RefreshLock\<close>.
\<close>

definition acquire :: "ctx \<Rightarrow> ('x, 'b) refresh_error option \<times> ctx" where
  "acquire c = (case ctx_Err c of Some e \<Rightarrow> (Some (AcquireFailed e), ctx_step c) | None \<Rightarrow> (None, ctx_step c))"

definition buildRuntimeServicesFor ::
  "('j, 'w, 'x, 'b) RefreshTask \<Rightarrow> Settings \<Rightarrow> 'w \<Rightarrow> ('x, 'b) refresh_error + ('w, 'x) services" where
  "buildRuntimeServicesFor r value w =
     bindE (if set_PelicanSecretName value \<noteq> [] then
              (case rt_secretResolver r of
                 None \<Rightarrow> Inl SecretResolverUnavailable
               | Some resolve \<Rightarrow> map_err SecretResolveFailed (resolve (set_PelicanSecretName value) w))
            else Inr (set_PelicanAPIKey value)) (\<lambda>apiKey.
     bindE (map_err PelicanClientFailed (pelicanNewClient (rt_platform r)
              \<lparr>pc_BaseURL = set_PelicanURL value, pc_APIKey = apiKey, pc_Timeout = rt_timeout r, pc_Retry = rt_retry r\<rparr>)) (\<lambda>client.
     let discovery = discoveryNew (as_discovery_client (rt_platform r) client)
           [Some (WithWildcardBackendHost (rt_wildcardBackendHost r))];
         inventory = NewInventory (Discover discovery)
     in bindE (map_err RoutingServiceFailed
                 (New (Some (invDiscover inventory :: 'x source_error + _)) (set_RouterDomain value) None)) (\<lambda>service.
          Inr (inventory, \<lparr>rs_inventory = inventory, rs_planner = svc_planner service, rs_policies = rt_policySource r\<rparr>))))"

definition buildRuntimeServices ::
  "('j, 'w, 'x, 'b) RefreshTask \<Rightarrow> 'w \<Rightarrow> (('x, 'b) refresh_error + ('w, 'x) services option) \<times> 'w" where
  "buildRuntimeServices r w =
     (case rt_IsSetupComplete r w of
        (Inl e, w1) \<Rightarrow> (Inl (SetupStatusFailed e), w1)
      | (Inr False, w1) \<Rightarrow> (Inr None, w1)
      | (Inr True, w1) \<Rightarrow>
          (case rt_Load r w1 of
             (Inl e, w2) \<Rightarrow> (Inl (LoadSettingsFailed e), w2)
           | (Inr value, w2) \<Rightarrow>
               (case buildRuntimeServicesFor r value w2 of Inl e \<Rightarrow> (Inl e, w2) | Inr s \<Rightarrow> (Inr (Some s), w2))))"

definition synchronizeRoutes ::
  "ctx \<Rightarrow> ('w, 'x, 'b) RouteSynchronizer \<Rightarrow> ('w, 'x route_error) route_source \<Rightarrow> 'w \<Rightarrow>
   (('x route_error, 'b) sync_error option \<times> ReconciliationResult) \<times> ctx \<times> 'w" where
  "synchronizeRoutes c synchronizer source w =
     (case synchronizer of
        Production controller \<Rightarrow> SyncWithResult controller c (Some source) w
      | WithDiagnostics sync \<Rightarrow> sync c (Some source) w
      | SyncOnly sync \<Rightarrow> (case sync c (Some source) w of (e, c1, w1) \<Rightarrow> ((e, zero_result), c1, w1)))"

definition observe :: "('j, 'w, 'x, 'b) RefreshTask \<Rightarrow> ('w, 'x) RuntimeState \<Rightarrow> 'w \<Rightarrow> 'w" where
  "observe r st w = (case rt_observer r of None \<Rightarrow> w | Some observer \<Rightarrow> observer (Snapshot (st_tracker st)) w)"

definition record_outcome :: "('j, 'w, 'x, 'b) RefreshTask \<Rightarrow> ctx \<Rightarrow> ('w, 'x) RuntimeState \<Rightarrow> 'w \<Rightarrow> ctx \<times> 'w" where
  "record_outcome r c st w =
     (case rt_recorder r of
        None \<Rightarrow> (c, w)
      | Some recorder \<Rightarrow>
          let status = Snapshot (st_tracker st)
          in case LastOutcome status of
               None \<Rightarrow> (c, w)
             | Some outcome \<Rightarrow>
                 if InProgress status then (c, w)
                 else (case recorder c outcome (RouteChanges status) w of (_, c1, w1) \<Rightarrow> (c1, w1)))"

text \<open>A tracker operation reads the clock once.\<close>

definition track ::
  "('j, 'w, 'x, 'b) RefreshTask \<Rightarrow> (int \<Rightarrow> ReconciliationStatus \<Rightarrow> ReconciliationStatus) \<Rightarrow>
   ('w, 'x) RuntimeState \<Rightarrow> ('w, 'x) RuntimeState" where
  "track r f st = st\<lparr>st_tracker := f (rt_now r (st_ticks st)) (st_tracker st), st_ticks := st_ticks st + 1\<rparr>"

text \<open>The completion of an attempt: the tracker operation, then the observer, then the recorder.\<close>

definition finish ::
  "('j, 'w, 'x, 'b) RefreshTask \<Rightarrow> ctx \<Rightarrow> (int \<Rightarrow> ReconciliationStatus \<Rightarrow> ReconciliationStatus) \<Rightarrow>
   ('w, 'x) RuntimeState \<Rightarrow> 'w \<Rightarrow> ctx \<times> ('w, 'x) RuntimeState \<times> 'w" where
  "finish r c f st w =
     (let st1 = track r f st
      in case record_outcome r c st1 (observe r st1 w) of (c1, w1) \<Rightarrow> (c1, st1, w1))"

definition is_production :: "('w, 'x, 'b) RouteSynchronizer option \<Rightarrow> bool" where
  "is_production s = (case s of Some (Production controller) \<Rightarrow> True | _ \<Rightarrow> False)"

text \<open>The inventory is refreshed only for the production synchronizer; the routing service sees it.\<close>

definition refreshServices ::
  "('j, 'w, 'x, 'b) RefreshTask \<Rightarrow> ctx \<Rightarrow> ('w, 'x) services \<Rightarrow> 'w \<Rightarrow>
   (('x panel_error + ('w, 'x) services) \<times> ctx \<times> 'w) option" where
  "refreshServices r c s w =
     (if \<not> is_production (rt_synchronizer r) then Some (Inr s, c, w)
      else case invRefresh (fst s) c w of
        None \<Rightarrow> None
      | Some (Inl e, c1, w1) \<Rightarrow> Some (Inl e, c1, w1)
      | Some (Inr inventory, c1, w1) \<Rightarrow> Some (Inr (inventory, (snd s)\<lparr>rs_inventory := inventory\<rparr>), c1, w1))"

type_synonym ('w, 'x, 'b) task_result = "(('x, 'b) refresh_error option \<times> ctx \<times> ('w, 'x) RuntimeState \<times> 'w) option"

definition fails :: "('x, 'b) refresh_error \<Rightarrow> ctx \<times> ('w, 'x) RuntimeState \<times> 'w \<Rightarrow> ('w, 'x, 'b) task_result" where
  "fails e res = Some (Some e, res)"

definition publish :: "('w, 'x) services option \<Rightarrow> ('w, 'x) RuntimeState \<Rightarrow> ('w, 'x) RuntimeState" where
  "publish s st = st\<lparr>st_manager := managerSet (map_option fst s) (map_option snd s) (st_manager st)\<rparr>"

definition Refresh ::
  "('j, 'w, 'x, 'b) RefreshTask \<Rightarrow> ctx \<Rightarrow> ('w, 'x) RuntimeState \<Rightarrow> 'w \<Rightarrow> ('w, 'x, 'b) task_result" where
  "Refresh r c st w =
     (case acquire c of
        (Some e, c0) \<Rightarrow> fails e (c0, st, w)
      | (None, c0) \<Rightarrow>
          let st1 = track r Start st; w1 = observe r st1 w
          in case buildRuntimeServices r w1 of
               (Inl e, w2) \<Rightarrow> fails e (finish r c0 CompleteRuntimeBuildFailure st1 w2)
             | (Inr None, w2) \<Rightarrow> Some (None, finish r c0 CompleteNotConfigured (publish None st1) w2)
             | (Inr (Some s), w2) \<Rightarrow>
                 (case refreshServices r c0 s w2 of
                    None \<Rightarrow> None
                  | Some (Inl e, c1, w3) \<Rightarrow>
                      fails (RefreshInventoryFailed e) (finish r c1 CompleteRuntimeBuildFailure st1 w3)
                  | Some (Inr s', c1, w3) \<Rightarrow>
                      (case rt_synchronizer r of
                         None \<Rightarrow> Some (None, finish r c1 (\<lambda>now. CompleteSuccess now [zero_result]) (publish (Some s') st1) w3)
                       | Some synchronizer \<Rightarrow>
                           (case synchronizeRoutes c1 synchronizer (rsRoutes (snd s')) w3 of
                              ((Some e, result), c2, w4) \<Rightarrow>
                                fails (SynchronizeFailed e)
                                  (finish r c2 (\<lambda>now. CompleteRouteSynchronizationFailure now [result]) st1 w4)
                            | ((None, result), c2, w4) \<Rightarrow>
                                Some (None, finish r c2 (\<lambda>now. CompleteSuccess now [result]) (publish (Some s') st1) w4)))))"

definition Run where
  "Run = Refresh"

section \<open>Activation of candidate settings\<close>

definition previousRoutingService ::
  "('j, 'w, 'x, 'b) RefreshTask \<Rightarrow> 'w \<Rightarrow> (('x, 'b) refresh_error + ('w, 'x, 'x panel_error) RoutingService option) \<times> 'w" where
  "previousRoutingService r w =
     (case buildRuntimeServices r w of
        (Inl e, w1) \<Rightarrow> (Inl e, w1)
      | (Inr s, w1) \<Rightarrow> (Inr (map_option snd s), w1))"

definition compensate ::
  "('j, 'w, 'x, 'b) RefreshTask \<Rightarrow> ('w, 'x, 'x panel_error) RoutingService option \<Rightarrow> ('x, 'b) refresh_error \<Rightarrow> 'w \<Rightarrow>
   ('x, 'b) refresh_error \<times> 'w" where
  "compensate r previous primary w =
     (case rt_synchronizer r of
        None \<Rightarrow> (primary, w)
      | Some synchronizer \<Rightarrow>
          (case (case previous of Some s \<Rightarrow> (Inr (Some s), w) | None \<Rightarrow> previousRoutingService r w) of
             (Inl e, w1) \<Rightarrow> (JoinedErrors primary e, w1)
           | (Inr restore, w1) \<Rightarrow>
               (case synchronizeRoutes (rt_cleanup r) synchronizer
                       (case restore of None \<Rightarrow> emptyRouteSource | Some s \<Rightarrow> rsRoutes s) w1 of
                  ((Some e, result), c2, w2) \<Rightarrow> (JoinedErrors primary (SynchronizeFailed e), w2)
                | ((None, result), c2, w2) \<Rightarrow> (primary, w2))))"

text \<open>
  \<open>activateLocked\<close> answers the error or the result and the published services.  Without a
  synchronizer nothing is compensated.
\<close>

definition activateLocked ::
  "('j, 'w, 'x, 'b) RefreshTask \<Rightarrow> ctx \<Rightarrow> Settings \<Rightarrow> ('w \<Rightarrow> 'x option \<times> 'w) \<Rightarrow> ('w, 'x) RuntimeState \<Rightarrow> 'w \<Rightarrow>
   ((('x, 'b) refresh_error + ReconciliationResult) \<times> ctx \<times> ('w, 'x) RuntimeState \<times> 'w) option" where
  "activateLocked r c value persist st w =
     (let previous = mgr_routing (st_manager st);
          undo = (\<lambda>primary c w. case compensate r previous primary w of (e, w') \<Rightarrow> Some (Inl e, c, st, w'));
          commit = (\<lambda>s result c w.
            case ctx_Err c of
              Some e \<Rightarrow> undo (ActivationCanceled e) (ctx_step c) w
            | None \<Rightarrow>
                (case persist w of
                   (Some e, w1) \<Rightarrow> undo (PersistFailed e) (ctx_step c) w1
                 | (None, w1) \<Rightarrow> Some (Inr result, ctx_step c, publish (Some s) st, w1)))
      in case buildRuntimeServicesFor r value w of
           Inl e \<Rightarrow> Some (Inl e, c, st, w)
         | Inr s \<Rightarrow>
             (case refreshServices r c s w of
                None \<Rightarrow> None
              | Some (Inl e, c1, w1) \<Rightarrow> Some (Inl (RefreshInventoryFailed e), c1, st, w1)
              | Some (Inr s', c1, w1) \<Rightarrow>
                  (case rt_synchronizer r of
                     None \<Rightarrow> commit s' zero_result c1 w1
                   | Some synchronizer \<Rightarrow>
                       (case synchronizeRoutes c1 synchronizer (rsRoutes (snd s')) w1 of
                          ((Some e, result), c2, w2) \<Rightarrow> undo (SynchronizeFailed e) c2 w2
                        | ((None, result), c2, w2) \<Rightarrow> commit s' result c2 w2))))"

definition activateAndTrackLocked ::
  "('j, 'w, 'x, 'b) RefreshTask \<Rightarrow> ctx \<Rightarrow> Settings \<Rightarrow> ('w \<Rightarrow> 'x option \<times> 'w) \<Rightarrow> ('w, 'x) RuntimeState \<Rightarrow> 'w \<Rightarrow>
   ('w, 'x, 'b) task_result" where
  "activateAndTrackLocked r c value persist st w =
     (let st1 = track r Start st; w1 = observe r st1 w
      in case activateLocked r c value persist st1 w1 of
           None \<Rightarrow> None
         | Some (Inl e, c1, st2, w2) \<Rightarrow> fails e (finish r c1 CompleteRuntimeBuildFailure st2 w2)
         | Some (Inr result, c1, st2, w2) \<Rightarrow> Some (None, finish r c1 (\<lambda>now. CompleteSuccess now [result]) st2 w2))"

definition Activate ::
  "('j, 'w, 'x, 'b) RefreshTask \<Rightarrow> ctx \<Rightarrow> Settings \<Rightarrow> ('w \<Rightarrow> 'x option \<times> 'w) \<Rightarrow> ('w, 'x) RuntimeState \<Rightarrow> 'w \<Rightarrow>
   ('w, 'x, 'b) task_result" where
  "Activate r c value persist st w =
     (case acquire c of
        (Some e, c0) \<Rightarrow> fails e (c0, st, w)
      | (None, c0) \<Rightarrow> activateAndTrackLocked r c0 value persist st w)"

definition ActivateSetup ::
  "('j, 'w, 'x, 'b) RefreshTask \<Rightarrow> ctx \<Rightarrow> Settings \<Rightarrow> ('w \<Rightarrow> ('x + string) \<times> 'w) \<Rightarrow> (string \<Rightarrow> 'w \<Rightarrow> 'x option \<times> 'w) \<Rightarrow>
   ('w, 'x) RuntimeState \<Rightarrow> 'w \<Rightarrow> ('w, 'x, 'b) task_result" where
  "ActivateSetup r c value stage promote st w =
     (case acquire c of
        (Some e, c0) \<Rightarrow> fails e (c0, st, w)
      | (None, c0) \<Rightarrow>
          (case stage w of
             (Inl e, w1) \<Rightarrow> fails (StageFailed e) (c0, st, w1)
           | (Inr generation, w1) \<Rightarrow> activateAndTrackLocked r c0 value (promote generation) st w1))"

section \<open>Building and refreshing services\<close>

lemma buildRuntimeServicesFor_Inr:
  assumes "buildRuntimeServicesFor r value w = Inr (inventory, routing)"
  shows "rs_inventory routing = inventory" "\<not> inv_ready inventory"
    "planner_domain (rs_planner routing) = normalizeDomain (set_RouterDomain value)"
    "rs_policies routing = rt_policySource r"
  using assms
  by (auto simp: buildRuntimeServicesFor_def Let_def New_def NewPlanner_def NewInventory_def split: if_splits option.splits)

text \<open>The inventory reads the panel of the settings, with the key they name.\<close>

definition settings_panel ::
  "('j, 'w, 'x, 'b) RefreshTask \<Rightarrow> Settings \<Rightarrow> 'w \<Rightarrow> ('w, 'x pelican_error) DiscoveryService \<Rightarrow> bool" where
  "settings_panel r value w discovery \<longleftrightarrow>
     (\<exists>key client.
        (if set_PelicanSecretName value = [] then key = set_PelicanAPIKey value
         else \<exists>resolve. rt_secretResolver r = Some resolve \<and> resolve (set_PelicanSecretName value) w = Inr key) \<and>
        pelicanNewClient (rt_platform r)
          \<lparr>pc_BaseURL = set_PelicanURL value, pc_APIKey = key, pc_Timeout = rt_timeout r, pc_Retry = rt_retry r\<rparr> = Inr client \<and>
        ds_client discovery = as_discovery_client (rt_platform r) client \<and>
        wildcardBackendHost discovery = TrimSpace (rt_wildcardBackendHost r))"

lemma buildRuntimeServicesFor_panel:
  assumes "buildRuntimeServicesFor r value w = Inr (inventory, routing)"
  shows "\<exists>discovery. settings_panel r value w discovery \<and> inv_source inventory = Discover discovery"
proof -
  define d where "d = (\<lambda>client. discoveryNew (as_discovery_client (rt_platform r) client)
      [Some (WithWildcardBackendHost (rt_wildcardBackendHost r))])"
  obtain key client where k: "if set_PelicanSecretName value = [] then key = set_PelicanAPIKey value
       else \<exists>resolve. rt_secretResolver r = Some resolve \<and> resolve (set_PelicanSecretName value) w = Inr key"
      "pelicanNewClient (rt_platform r)
         \<lparr>pc_BaseURL = set_PelicanURL value, pc_APIKey = key, pc_Timeout = rt_timeout r, pc_Retry = rt_retry r\<rparr> = Inr client"
      "inv_source inventory = Discover (d client)"
    using assms
    by (fastforce simp: buildRuntimeServicesFor_def Let_def NewInventory_def d_def split: if_splits option.splits)
  have "ds_client (d client) = as_discovery_client (rt_platform r) client"
    "wildcardBackendHost (d client) = TrimSpace (rt_wildcardBackendHost r)"
    by (simp_all add: d_def discoveryNew_def WithWildcardBackendHost_def)
  with k(1,2) have "settings_panel r value w (d client)" unfolding settings_panel_def by blast
  with k(3) show ?thesis by blast
qed

text \<open>The services a refresh publishes or synchronizes: those built, with the inventory filled when it is needed.\<close>

lemma refreshServices_Inr:
  assumes "refreshServices r c (inventory, routing) w = Some (Inr (inventory', routing'), c', w')"
    and "rs_inventory routing = inventory"
  shows "rs_inventory routing' = inventory'" "rs_planner routing' = rs_planner routing"
    "rs_policies routing' = rs_policies routing"
    "is_production (rt_synchronizer r) \<Longrightarrow>
       inv_ready inventory' \<and> inv_source inventory c w = Some (Inr (inv_servers inventory'), c', w')"
  using assms by (auto simp: refreshServices_def invRefresh_def split: if_splits option.splits sum.splits)

lemma rsRoutes_unready: "\<not> inv_ready (rs_inventory s) \<Longrightarrow> rsRoutes s c w = (Inl (RoutesDiscover ErrInventoryUnavailable), c, w)"
  by (simp add: rsRoutes_def invDiscover_def)

text \<open>Routes that a service answers are a plan of its inventory.\<close>

lemma rsRoutes_Inr:
  assumes "rsRoutes s c w = (Inr routes, c', w')"
  shows "inv_ready (rs_inventory s) \<and> (\<exists>policies. Plan (rs_planner s) (inv_servers (rs_inventory s)) policies = Inr routes)"
  using assms
  by (auto simp: rsRoutes_def invDiscover_def Routes_def split: if_splits option.splits sum.splits prod.splits)

text \<open>With a policy source the plan follows the policies it lists.\<close>

lemma rsRoutes_policies:
  assumes "rsRoutes s c w = (Inr routes, c', w')" "rs_policies s = Some list_policies"
  shows "\<exists>stored. list_policies c w = (Inr stored, c', w') \<and>
     Plan (rs_planner s) (inv_servers (rs_inventory s)) (policy_map stored) = Inr routes"
  using assms
  by (auto simp: rsRoutes_def invDiscover_def Routes_def split: if_splits sum.splits prod.splits)

lemma finish_state [simp]: "fst (snd (finish r c f st w)) = track r f st"
  by (simp add: finish_def Let_def split: prod.split)

lemma track_fields [simp]:
  "st_manager (track r f st) = st_manager st"
  "st_tracker (track r f st) = f (rt_now r (st_ticks st)) (st_tracker st)"
  by (simp_all add: track_def)

lemma publish_fields [simp]:
  "mgr_discovery (st_manager (publish s st)) = map_option fst s"
  "mgr_routing (st_manager (publish s st)) = map_option snd s"
  "st_tracker (publish s st) = st_tracker st"
  by (simp_all add: publish_def managerSet_def)

lemma finish_eq: "finish r c f st w = (c', st', w') \<Longrightarrow> st' = track r f st"
  by (metis finish_state fst_conv snd_conv)

lemma acquire_simps:
  "acquire c = (map_option AcquireFailed (ctx_Err c), ctx_step c)"
  by (simp add: acquire_def split: option.split)

text \<open>What a failed attempt leaves in the tracker.\<close>

definition failed_attempt :: "ReconciliationStatus \<Rightarrow> ReconciliationStatus \<Rightarrow> bool" where
  "failed_attempt t t' \<longleftrightarrow>
     LastOutcome t' = Some OutcomeFailure \<and> ConsecutiveFailures t' = ConsecutiveFailures t + 1 \<and> \<not> InProgress t'"

definition succeeded_attempt :: "ReconciliationOutcome \<Rightarrow> ReconciliationStatus \<Rightarrow> bool" where
  "succeeded_attempt outcome t' \<longleftrightarrow>
     LastOutcome t' = Some outcome \<and> ConsecutiveFailures t' = 0 \<and> LastError t' = None \<and> \<not> InProgress t'"

lemma tracked_attempts [simp]:
  "failed_attempt t (CompleteRuntimeBuildFailure now (Start now' t))"
  "failed_attempt t (CompleteRouteSynchronizationFailure now rs (Start now' t))"
  "succeeded_attempt OutcomeSuccess (CompleteSuccess now rs t)"
  "succeeded_attempt OutcomeNotConfigured (CompleteNotConfigured now t)"
  by (simp_all add: failed_attempt_def succeeded_attempt_def CompleteRuntimeBuildFailure_def completeFailure_def
      CompleteRouteSynchronizationFailure_def CompleteSuccess_def CompleteNotConfigured_def Start_def)

lemma Refresh_failure:
  assumes "Refresh r c st w = Some (Some e, c', st', w')"
  shows "st_manager st' = st_manager st \<and>
     (if ctx_Err c \<noteq> None then st' = st \<and> w' = w else failed_attempt (st_tracker st) (st_tracker st'))"
proof (cases "ctx_Err c")
  case None
  let ?st1 = "track r Start st"
  have "\<exists>c1 w1 f. finish r c1 f ?st1 w1 = (c', st', w') \<and>
      (f = CompleteRuntimeBuildFailure \<or> (\<exists>result. f = (\<lambda>now. CompleteRouteSynchronizationFailure now [result])))"
    using assms None
    by (auto simp: Refresh_def acquire_simps fails_def Let_def split: prod.splits sum.splits option.splits)
  then obtain f where f: "st' = track r f ?st1"
    "f = CompleteRuntimeBuildFailure \<or> (\<exists>result. f = (\<lambda>now. CompleteRouteSynchronizationFailure now [result]))"
    using finish_eq by fast
  have "failed_attempt (st_tracker st) (st_tracker st')"
    using f by auto
  then show ?thesis using f(1) None by simp
next
  case (Some x)
  then show ?thesis using assms by (simp add: Refresh_def acquire_simps fails_def)
qed

lemma finish_iff:
  "finish r c f st w = (c', st', w') \<longleftrightarrow>
     st' = track r f st \<and> record_outcome r c (track r f st) (observe r (track r f st) w) = (c', w')"
  by (auto simp: finish_def Let_def split: prod.splits)

text \<open>
  The backend was last asked to reconcile the routes of the services, and it did; what happened to
  the world since is what the observer and the recorder did.
\<close>

definition synchronized ::
  "('j, 'w, 'x, 'b) RefreshTask \<Rightarrow> ('w, 'x, 'x panel_error) RoutingService \<Rightarrow> ('w, 'b) route_controller \<Rightarrow>
   (ctx \<Rightarrow> 'w \<Rightarrow> bool) \<Rightarrow> bool" where
  "synchronized r s controller after \<longleftrightarrow>
     inv_ready (rs_inventory s) \<and>
     (\<exists>routes c1 w1 c2 w2 c3 w3. rsRoutes s c1 w1 = (Inr routes, c2, w2) \<and>
        reconcile_step controller (ctx_step c2) routes w2 = (None, c3, w3) \<and> after c3 w3)"

lemma synchronizeRoutes_production:
  assumes "synchronizeRoutes c (Production controller) (rsRoutes s) w = ((None, result), c', w')" and "after c' w'"
  shows "synchronized r s controller after"
proof -
  from assms(1) have "SyncWithResult controller c (Some (rsRoutes s)) w = ((None, result), c', w')"
    by (simp add: synchronizeRoutes_def)
  from SyncWithResult_success [OF this] obtain routes c1 w1 where
    r: "rsRoutes s (ctx_step c) w = (Inr routes, c1, w1)" "reconcile_step controller (ctx_step c1) routes w1 = (None, c', w')"
    by auto
  with rsRoutes_Inr [OF r(1)] assms(2) show ?thesis unfolding synchronized_def by blast
qed

text \<open>The services of a successful attempt, for settings that were loaded or handed over.\<close>

definition services_for :: "('j, 'w, 'x, 'b) RefreshTask \<Rightarrow> Settings \<Rightarrow> ('w, 'x) services \<Rightarrow> bool" where
  "services_for r value s \<longleftrightarrow>
     rs_inventory (snd s) = fst s \<and> rs_policies (snd s) = rt_policySource r \<and>
     planner_domain (rs_planner (snd s)) = normalizeDomain (set_RouterDomain value) \<and>
     (is_production (rt_synchronizer r) \<longrightarrow> inv_ready (fst s))"

lemma built_services_for:
  assumes "buildRuntimeServicesFor r value w = Inr s" and "refreshServices r c s w' = Some (Inr s', c', w'')"
  shows "services_for r value s'"
proof -
  obtain inventory routing where s: "s = (inventory, routing)" by fastforce
  obtain inventory' routing' where s': "s' = (inventory', routing')" by fastforce
  note b = buildRuntimeServicesFor_Inr [OF assms(1) [unfolded s]]
  note f = refreshServices_Inr [OF assms(2) [unfolded s s'] b(1)]
  show ?thesis using b f by (simp add: services_for_def s')
qed

lemma Refresh_success:
  assumes "Refresh r c st w = Some (None, c', st', w')"
  shows "(\<exists>w1 w2. rt_IsSetupComplete r w1 = (Inr False, w2)) \<and> mgr_routing (st_manager st') = None \<and>
       mgr_discovery (st_manager st') = None \<and> succeeded_attempt OutcomeNotConfigured (st_tracker st') \<or>
     (\<exists>s value w1 w2. rt_Load r w1 = (Inr value, w2) \<and> services_for r value s \<and>
       mgr_routing (st_manager st') = Some (snd s) \<and> mgr_discovery (st_manager st') = Some (fst s) \<and>
       succeeded_attempt OutcomeSuccess (st_tracker st') \<and>
       (\<forall>controller. rt_synchronizer r = Some (Production controller) \<longrightarrow>
          synchronized r (snd s) controller (\<lambda>c3 w3. record_outcome r c3 st' (observe r st' w3) = (c', w'))))"
proof -
  let ?st1 = "track r Start st" let ?w1 = "observe r (track r Start st) w"
  have c: "ctx_Err c = None"
    using assms by (auto simp: Refresh_def acquire_simps fails_def split: option.splits)
  consider (unset) w2 where "buildRuntimeServices r ?w1 = (Inr None, w2)"
      "finish r (ctx_step c) CompleteNotConfigured (publish None ?st1) w2 = (c', st', w')"
    | (set) s w2 s' c1 w3 where "buildRuntimeServices r ?w1 = (Inr (Some s), w2)"
      "refreshServices r (ctx_step c) s w2 = Some (Inr s', c1, w3)"
      "rt_synchronizer r = None \<and> finish r c1 (\<lambda>now. CompleteSuccess now [zero_result]) (publish (Some s') ?st1) w3 = (c', st', w') \<or>
       (\<exists>sy result c2 w4. rt_synchronizer r = Some sy \<and>
          synchronizeRoutes c1 sy (rsRoutes (snd s')) w3 = ((None, result), c2, w4) \<and>
          finish r c2 (\<lambda>now. CompleteSuccess now [result]) (publish (Some s') ?st1) w4 = (c', st', w'))"
    using assms c
    by (auto simp: Refresh_def acquire_simps fails_def Let_def split: option.splits prod.splits sum.splits)
  then show ?thesis
  proof cases
    case unset
    then show ?thesis
      by (auto simp: buildRuntimeServices_def finish_iff split: prod.splits sum.splits bool.splits)
  next
    case set
    from set(1) obtain val w1 where l: "rt_Load r w1 = (Inr val, w2)" "buildRuntimeServicesFor r val w2 = Inr s"
      by (auto simp: buildRuntimeServices_def split: prod.splits sum.splits bool.splits)
    have sf: "services_for r val s'" by (rule built_services_for [OF l(2) set(2)])
    obtain f c2 w4 where f: "st' = track r (\<lambda>now. CompleteSuccess now [f]) (publish (Some s') ?st1)"
      using set(3) by (auto simp: finish_iff)
    have p: "synchronized r (snd s') controller (\<lambda>c3 w3. record_outcome r c3 st' (observe r st' w3) = (c', w'))"
      if "rt_synchronizer r = Some (Production controller)" for controller
      using set(3) that
      by (auto simp: finish_iff intro: synchronizeRoutes_production)
    show ?thesis using l(1) sf f p by (auto simp: case_prod_unfold)
  qed
qed

section \<open>Activation\<close>

lemma activateLocked_failure:
  assumes "activateLocked r c value persist st w = Some (Inl e, c', st', w')"
  shows "st' = st"
  using assms
  by (auto simp: activateLocked_def Let_def split: sum.splits prod.splits option.splits)

lemma activateLocked_success:
  assumes "activateLocked r c value persist st w = Some (Inr result, c', st', w')"
  shows "\<exists>s w0. services_for r value s \<and> st' = publish (Some s) st \<and> persist w0 = (None, w') \<and>
     (\<forall>controller. rt_synchronizer r = Some (Production controller) \<longrightarrow> synchronized r (snd s) controller (\<lambda>c3 w3. w3 = w0))"
proof -
  obtain s s' c1 w1 where s: "buildRuntimeServicesFor r value w = Inr s" "refreshServices r c s w = Some (Inr s', c1, w1)"
    using assms by (auto simp: activateLocked_def Let_def split: sum.splits prod.splits option.splits)
  have sf: "services_for r value s'" by (rule built_services_for [OF s])
  show ?thesis
  proof (cases "rt_synchronizer r")
    case None
    then have "persist w1 = (None, w')" "st' = publish (Some s') st"
      using assms s by (auto simp: activateLocked_def Let_def split: prod.splits option.splits)
    then show ?thesis using sf None by (intro exI [of _ s'] exI [of _ w1]) simp
  next
    case (Some sy)
    then obtain c2 w2 where w2: "synchronizeRoutes c1 sy (rsRoutes (snd s')) w1 = ((None, result), c2, w2)"
      "persist w2 = (None, w')" "st' = publish (Some s') st"
      using assms s by (auto simp: activateLocked_def Let_def split: prod.splits option.splits)
    have "synchronized r (snd s') controller (\<lambda>c3 w3. w3 = w2)" if "sy = Production controller" for controller
      using w2(1) that by (auto intro: synchronizeRoutes_production)
    then show ?thesis using sf w2(2,3) Some by (intro exI [of _ s'] exI [of _ w2]) simp
  qed
qed

text \<open>
  A failed activation that is not a joined error either stopped before the backend was asked to change
  anything, or has brought the backend back to the previously published routes, to those of the stored
  settings, or to none when nothing was configured.
\<close>

definition restored ::
  "('j, 'w, 'x, 'b) RefreshTask \<Rightarrow> ('w, 'x, 'x panel_error) RoutingService option \<Rightarrow> 'w \<Rightarrow> bool" where
  "restored r previous w' \<longleftrightarrow>
     (\<exists>sy source w1 result c2. rt_synchronizer r = Some sy \<and>
        synchronizeRoutes (rt_cleanup r) sy source w1 = ((None, result), c2, w') \<and>
        (case previous of
           Some s \<Rightarrow> source = rsRoutes s
         | None \<Rightarrow> (\<exists>w0 s. previousRoutingService r w0 = (Inr s, w1) \<and>
             source = (case s of None \<Rightarrow> emptyRouteSource | Some s \<Rightarrow> rsRoutes s))))"

lemma compensate_cases:
  assumes "compensate r previous primary w = (e, w')" and "rt_synchronizer r \<noteq> None"
  shows "(e = primary \<and> restored r previous w') \<or> (\<exists>e'. e = JoinedErrors primary e')"
proof (cases previous)
  case None
  then show ?thesis using assms
    by (auto simp: compensate_def restored_def split: prod.splits sum.splits option.splits)
next
  case (Some s)
  then show ?thesis using assms
    by (auto simp: compensate_def restored_def split: prod.splits sum.splits option.splits)
qed

text \<open>
  When nothing is published although setup is complete, the services are rebuilt without filling their
  inventory, so the production synchronizer cannot restore the previous routes.
\<close>

lemma compensation_needs_published_routes:
  assumes "rt_synchronizer r = Some (Production controller)" "buildRuntimeServices r w = (Inr (Some s), w1)"
  shows "\<exists>e. compensate r None primary w = (JoinedErrors primary (SynchronizeFailed e), w1)"
proof -
  obtain val w0 where "buildRuntimeServicesFor r val w0 = Inr (fst s, snd s)" using assms(2)
    by (auto simp: buildRuntimeServices_def split: prod.splits sum.splits bool.splits)
  note b = buildRuntimeServicesFor_Inr [OF this]
  have "\<exists>e. rsRoutes (snd s) c w = (Inl e, c, w)" for c w using b(1,2) rsRoutes_unready by metis
  from SyncWithResult_source_error [OF this, of controller "rt_cleanup r" w1] obtain e c' where
    "synchronizeRoutes (rt_cleanup r) (Production controller) (rsRoutes (snd s)) w1 = ((Some e, zero_result), c', w1)"
    by (auto simp: synchronizeRoutes_def)
  then show ?thesis using assms by (simp add: compensate_def previousRoutingService_def)
qed

section \<open>What activation promises\<close>

text \<open>
  The collaborators of a refresh task that only prepare or report a reconciliation leave an observation
  of the world alone: typically what the settings store holds, or the routing table of the backend.
\<close>

locale runtime_reads =
  fixes r :: "('j, 'w, 'x, 'b) RefreshTask"
    and durable :: "'w \<Rightarrow> 'o"
  assumes IsSetupComplete_durable: "keeps durable (rt_IsSetupComplete r)"
    and Load_durable: "keeps durable (rt_Load r)"
    and observer_durable: "rt_observer r = Some observer \<Longrightarrow> durable (observer status w) = durable w"
    and recorder_durable: "rt_recorder r = Some recorder \<Longrightarrow> recorder c outcome result w = (e, c', w') \<Longrightarrow> durable w' = durable w"
    and policies_durable: "rt_policySource r = Some list_policies \<Longrightarrow> list_policies c w = (listed, c', w') \<Longrightarrow> durable w' = durable w"
    and http_durable: "keeps durable (pf_http (rt_platform r) request)"
begin

lemma observe_durable: "durable (observe r st w) = durable w"
  using observer_durable by (simp add: observe_def split: option.split)

lemma record_durable: "record_outcome r c st w = (c', w') \<Longrightarrow> durable w' = durable w"
  by (auto simp: record_outcome_def Let_def dest: recorder_durable split: option.splits if_splits prod.splits)

lemma finish_durable: "finish r c f st w = (c', st', w') \<Longrightarrow> durable w' = durable w"
  by (auto simp: finish_iff observe_durable dest: record_durable)

lemma rsRoutes_durable:
  assumes "rs_policies s = rt_policySource r" "rsRoutes s c w = (x, c', w')"
  shows "durable w' = durable w"
  using assms by (auto simp: rsRoutes_def dest: policies_durable split: sum.splits option.splits prod.splits)

lemma build_durable: "buildRuntimeServices r w = (x, w') \<Longrightarrow> durable w' = durable w"
  using IsSetupComplete_durable Load_durable
  by (auto simp: buildRuntimeServices_def keeps_def split: prod.splits sum.splits bool.splits) (metis snd_conv)+

lemma refreshServices_durable:
  assumes "buildRuntimeServicesFor r value w0 = Inr s" "refreshServices r c s w = Some (x, c', w')"
  shows "durable w' = durable w"
proof -
  obtain client where "inv_source (fst s) = Discover (discoveryNew (as_discovery_client (rt_platform r) client)
      [Some (WithWildcardBackendHost (rt_wildcardBackendHost r))])"
    using assms(1) by (auto simp: buildRuntimeServicesFor_def Let_def NewInventory_def)
  moreover have "ds_client (discoveryNew (as_discovery_client (rt_platform r) client) [Some (WithWildcardBackendHost h)]) =
      as_discovery_client (rt_platform r) client" for h
    by (simp add: discoveryNew_def WithWildcardBackendHost_def)
  ultimately show ?thesis
    using assms(2) Discover_keeps [OF http_durable]
    by (auto simp: refreshServices_def invRefresh_def split: if_splits option.splits sum.splits) metis+
qed

text \<open>
  A successful refresh has built and filled the services it publishes, and reconciled their routes with
  the backend from a world with the same observation; only reports follow.
\<close>

lemma Refresh_reconciles:
  assumes "Refresh r c st w = Some (None, c', st', w')" "rt_synchronizer r = Some (Production controller)"
    and "mgr_routing (st_manager st') = Some s"
  shows "\<exists>routes c1 w1 c2 w2 c3 w3. rsRoutes s c1 w1 = (Inr routes, c2, w2) \<and> durable w1 = durable w \<and> durable w2 = durable w \<and>
     reconcile_step controller (ctx_step c2) routes w2 = (None, c3, w3) \<and>
     record_outcome r c3 st' (observe r st' w3) = (c', w') \<and> rs_policies s = rt_policySource r \<and>
     (\<exists>value w4 w5 discovery c6 w6. rt_IsSetupComplete r (observe r (track r Start st) w) = (Inr True, w4) \<and>
        rt_Load r w4 = (Inr value, w5) \<and> settings_panel r value w5 discovery \<and>
        planner_domain (rs_planner s) = normalizeDomain (set_RouterDomain value) \<and>
        Discover discovery (ctx_step c) w5 = Some (Inr (inv_servers (rs_inventory s)), c6, w6))"
proof -
  let ?st1 = "track r Start st" let ?w1 = "observe r (track r Start st) w"
  obtain w2 s' c1 w3 s'' result c2 w4 where b: "buildRuntimeServices r ?w1 = (Inr (Some s'), w2)"
      "refreshServices r (ctx_step c) s' w2 = Some (Inr s'', c1, w3)"
      "synchronizeRoutes c1 (Production controller) (rsRoutes (snd s'')) w3 = ((None, result), c2, w4)"
      "finish r c2 (\<lambda>now. CompleteSuccess now [result]) (publish (Some s'') ?st1) w4 = (c', st', w')"
    using assms
    by (auto simp: Refresh_def acquire_simps fails_def Let_def finish_iff split: option.splits prod.splits sum.splits)
  have st': "st' = track r (\<lambda>now. CompleteSuccess now [result]) (publish (Some s'') ?st1)"
    "record_outcome r c2 st' (observe r st' w4) = (c', w')"
    using b(4) by (auto simp: finish_iff)
  have s: "s = snd s''" using assms(3) st'(1) by simp
  obtain val w0 where l0: "rt_IsSetupComplete r ?w1 = (Inr True, w0)" "rt_Load r w0 = (Inr val, w2)"
      and l: "buildRuntimeServicesFor r val w2 = Inr s'" using b(1)
    by (auto simp: buildRuntimeServices_def split: prod.splits sum.splits bool.splits)
  obtain inventory routing where s': "s' = (inventory, routing)" by fastforce
  obtain discovery where disc: "settings_panel r val w2 discovery" "inv_source inventory = Discover discovery"
    using buildRuntimeServicesFor_panel [OF l [unfolded s']] by blast
  have sf: "services_for r val s''" by (rule built_services_for [OF l b(2)])
  obtain inventory' routing' where s'': "s'' = (inventory', routing')" by fastforce
  have inv: "rs_inventory routing' = inventory'" "inv_source inventory (ctx_step c) w2 = Some (Inr (inv_servers inventory'), c1, w3)"
    using refreshServices_Inr [OF b(2) [unfolded s' s''] buildRuntimeServicesFor_Inr(1) [OF l [unfolded s']]] assms(2)
    by (simp_all add: is_production_def)
  have panel: "\<exists>value w4 w5 discovery c6 w6. rt_IsSetupComplete r ?w1 = (Inr True, w4) \<and>
        rt_Load r w4 = (Inr value, w5) \<and> settings_panel r value w5 discovery \<and>
        planner_domain (rs_planner s) = normalizeDomain (set_RouterDomain value) \<and>
        Discover discovery (ctx_step c) w5 = Some (Inr (inv_servers (rs_inventory s)), c6, w6)"
    using l0 disc inv sf s by (intro exI conjI) (assumption | simp add: s'' services_for_def)+
  have pol: "rs_policies s = rt_policySource r"
    using built_services_for [OF l b(2)] s by (simp add: services_for_def)
  have w3: "durable w3 = durable w"
    using refreshServices_durable [OF l b(2)] build_durable [OF b(1)] observe_durable by simp
  from b(3) have "SyncWithResult controller c1 (Some (rsRoutes (snd s''))) w3 = ((None, result), c2, w4)"
    by (simp add: synchronizeRoutes_def)
  from SyncWithResult_success [OF this] obtain routes c5 w5 where
    r5: "rsRoutes s (ctx_step c1) w3 = (Inr routes, c5, w5)" "reconcile_step controller (ctx_step c5) routes w5 = (None, c2, w4)"
    using s by auto
  have "durable w5 = durable w" using rsRoutes_durable [OF pol r5(1)] w3 by simp
  with r5 w3 st'(2) pol panel show ?thesis by blast
qed

text \<open>The services a successful refresh publishes are those of the settings that were active.\<close>

lemma Refresh_loads:
  assumes "Refresh r c st w = Some (None, c', st', w')" "mgr_routing (st_manager st') = Some s"
  shows "\<exists>inventory value w0 w1 w2. durable w0 = durable w \<and> rt_IsSetupComplete r w0 = (Inr True, w1) \<and>
     durable w1 = durable w \<and> rt_Load r w1 = (Inr value, w2) \<and> services_for r value (inventory, s)"
proof -
  let ?w1 = "observe r (track r Start st) w"
  obtain w2 s' c1 w3 s'' where b: "buildRuntimeServices r ?w1 = (Inr (Some s'), w2)"
      "refreshServices r (ctx_step c) s' w2 = Some (Inr s'', c1, w3)" "s = snd s''"
    using assms
    by (auto simp: Refresh_def acquire_simps fails_def Let_def finish_iff split: option.splits prod.splits sum.splits)
  obtain w0 val where l: "rt_IsSetupComplete r ?w1 = (Inr True, w0)" "rt_Load r w0 = (Inr val, w2)" "buildRuntimeServicesFor r val w2 = Inr s'"
    using b(1) by (auto simp: buildRuntimeServices_def split: prod.splits sum.splits bool.splits)
  have "durable w0 = durable w"
    using IsSetupComplete_durable l(1) observe_durable by (metis keeps_def snd_conv)
  moreover have "services_for r val (fst s'', s)" using built_services_for [OF l(3) b(2)] b(3) by simp
  ultimately show ?thesis using l observe_durable by blast
qed

lemma reports_durable:
  assumes "record_outcome r c st (observe r st w) = (c', w')"
  shows "durable w' = durable w"
  using record_durable [OF assms] observe_durable by simp

end

text \<open>A backend that leaves the observation alone as well: then only the persistence callback of an activation may change it.\<close>

locale runtime_env = runtime_reads +
  assumes backend_durable: "rt_synchronizer r = Some synchronizer \<Longrightarrow>
      (\<And>c w x c' w'. source c w = (x, c', w') \<Longrightarrow> durable w' = durable w) \<Longrightarrow>
      synchronizeRoutes c synchronizer source w = (synced, c', w') \<Longrightarrow> durable w' = durable w"
begin

lemma synchronize_durable:
  assumes "rt_synchronizer r = Some sy" "rs_policies s = rt_policySource r"
    and "synchronizeRoutes c sy (rsRoutes s) w = (y, c', w')"
  shows "durable w' = durable w"
  by (rule backend_durable [OF assms(1) _ assms(3)]) (rule rsRoutes_durable [OF assms(2)])

lemma compensate_durable:
  assumes "compensate r previous primary w = (e, w')"
    and "\<And>s. previous = Some s \<Longrightarrow> rs_policies s = rt_policySource r"
  shows "durable w' = durable w"
proof -
  have empty: "durable w' = durable w"
    if "rt_synchronizer r = Some sy" "synchronizeRoutes c sy emptyRouteSource w = (y, c', w')" for sy c w y c' w'
    by (rule backend_durable [OF that(1) _ that(2)]) (simp add: emptyRouteSource_def)
  have built: "rs_policies s = rt_policySource r" if "previousRoutingService r w = (Inr (Some s), w')" for s w w'
    using that
    by (auto simp: previousRoutingService_def buildRuntimeServices_def dest!: buildRuntimeServicesFor_Inr(4)
        split: prod.splits sum.splits bool.splits)
  have prev: "durable w' = durable w" if "previousRoutingService r w = (x, w')" for x w w'
    using that by (auto simp: previousRoutingService_def dest: build_durable split: prod.splits sum.splits)
  have sync: "durable w' = durable w"
    if "rt_synchronizer r = Some sy" "\<And>s. restore = Some s \<Longrightarrow> rs_policies s = rt_policySource r"
      "synchronizeRoutes c sy (case restore of None \<Rightarrow> emptyRouteSource | Some s \<Rightarrow> rsRoutes s) w = (y, c', w')"
    for sy restore c w y c' w'
  proof (cases restore)
    case None
    show ?thesis by (rule empty [OF that(1)]) (use that(3) None in simp)
  next
    case (Some s)
    show ?thesis by (rule synchronize_durable [OF that(1) that(2) [OF Some]]) (use that(3) Some in simp)
  qed
  show ?thesis
  proof (cases "rt_synchronizer r")
    case (Some sy)
    let ?start = "case previous of Some s \<Rightarrow> (Inr (Some s), w) | None \<Rightarrow> previousRoutingService r w"
    obtain x w1 where x: "?start = (x, w1)" by fastforce
    have w1: "durable w1 = durable w" using x prev by (cases previous) auto
    have pol: "rs_policies s = rt_policySource r" if "x = Inr (Some s)" for s
      using x that built assms(2) by (cases previous) auto
    show ?thesis
    proof (cases x)
      case (Inr restore)
      let ?source = "case restore of None \<Rightarrow> emptyRouteSource | Some s \<Rightarrow> rsRoutes s"
      obtain e' result c2 w2 where y: "synchronizeRoutes (rt_cleanup r) sy ?source w1 = ((e', result), c2, w2)"
        by (metis prod.collapse)
      have "durable w2 = durable w1" by (rule sync [OF Some _ y]) (use pol Inr in simp)
      moreover have "w' = w2"
        using assms(1) unfolding compensate_def Some option.case x Inr prod.case sum.case y
        by (simp split: option.splits)
      ultimately show ?thesis using w1 by simp
    qed (use assms(1) Some x w1 in \<open>simp add: compensate_def\<close>)
  qed (use assms(1) in \<open>simp add: compensate_def\<close>)
qed

lemma Refresh_durable:
  assumes "Refresh r c st w = Some (e, c', st', w')"
  shows "durable w' = durable w"
proof (cases "ctx_Err c")
  case (Some x)
  then show ?thesis using assms by (simp add: Refresh_def acquire_simps fails_def)
next
  case None
  let ?st1 = "track r Start st" let ?w1 = "observe r (track r Start st) w"
  obtain x w2 where b: "buildRuntimeServices r ?w1 = (x, w2)" by fastforce
  have w2: "durable w2 = durable w" using build_durable [OF b] observe_durable by simp
  have "\<exists>c1 f st1 w3. finish r c1 f st1 w3 = (c', st', w') \<and> durable w3 = durable w2"
  proof (cases "\<exists>s. x = Inr (Some s)")
    case False
    then show ?thesis using assms None b
      by (auto simp: Refresh_def acquire_simps fails_def Let_def split: sum.splits option.splits)
  next
    case True
    then obtain s where x: "x = Inr (Some s)" by blast
    obtain val w0 where l: "buildRuntimeServicesFor r val w0 = Inr s" using b x
      by (auto simp: buildRuntimeServices_def split: prod.splits sum.splits bool.splits)
    obtain y c1 w3 where y: "refreshServices r (ctx_step c) s w2 = Some (y, c1, w3)"
      using assms None b x by (auto simp: Refresh_def acquire_simps Let_def split: option.splits)
    have w3: "durable w3 = durable w2" by (rule refreshServices_durable [OF l y])
    show ?thesis
    proof (cases "\<exists>s' sy. y = Inr s' \<and> rt_synchronizer r = Some sy")
      case False
      then show ?thesis using assms None b x y w3
        by (auto simp: Refresh_def acquire_simps fails_def Let_def split: sum.splits option.splits)
    next
      case True
      then obtain s' sy where s': "y = Inr s'" "rt_synchronizer r = Some sy" by blast
      have pol: "rs_policies (snd s') = rt_policySource r"
        using built_services_for [OF l] y s' by (simp add: services_for_def)
      obtain z c2 w4 where z: "synchronizeRoutes c1 sy (rsRoutes (snd s')) w3 = (z, c2, w4)" by (metis prod.collapse)
      have "durable w4 = durable w3" by (rule synchronize_durable [OF s'(2) pol z])
      then show ?thesis using assms None b x y s' z w3
        by (auto simp: Refresh_def acquire_simps fails_def Let_def split: option.splits prod.splits)
    qed
  qed
  then obtain c1 f st1 w3 where "finish r c1 f st1 w3 = (c', st', w')" "durable w3 = durable w2" by blast
  then show ?thesis using finish_durable w2 by metis
qed

text \<open>An activation changes the observation only by its persistence callback, and not at all when it fails.\<close>

lemma activateLocked_durable:
  assumes act: "activateLocked r c value persist st w = Some (x, c', st', w')"
    and previous: "\<And>s. mgr_routing (st_manager st) = Some s \<Longrightarrow> rs_policies s = rt_policySource r"
    and atomic: "\<And>w e w'. persist w = (Some e, w') \<Longrightarrow> durable w' = durable w"
  shows "(case x of Inl e \<Rightarrow> durable w' = durable w
     | Inr result \<Rightarrow> \<exists>w0. durable w0 = durable w \<and> persist w0 = (None, w'))"
proof (cases "buildRuntimeServicesFor r value w")
  case (Inl e)
  then show ?thesis using act by (auto simp: activateLocked_def Let_def)
next
  case (Inr s)
  obtain y c1 w1 where y: "refreshServices r c s w = Some (y, c1, w1)"
    using act Inr by (auto simp: activateLocked_def Let_def split: option.splits)
  have w1: "durable w1 = durable w" by (rule refreshServices_durable [OF Inr y])
  note undo = compensate_durable [OF _ previous]
  show ?thesis
  proof (cases y)
    case (Inl e)
    then show ?thesis using act Inr y w1 \<open>buildRuntimeServicesFor r value w = Inr s\<close>
      by (auto simp: activateLocked_def Let_def)
  next
    case s': (Inr s')
    have pol: "rs_policies (snd s') = rt_policySource r"
      using built_services_for [OF Inr] y s' by (auto simp: services_for_def)
    show ?thesis
    proof (cases "rt_synchronizer r")
      case None
      then show ?thesis using act Inr y s' w1
        by (auto simp: activateLocked_def Let_def dest: undo atomic split: option.splits prod.splits) (metis atomic undo)
    next
      case (Some sy)
      obtain e result c2 w2 where sy: "synchronizeRoutes c1 sy (rsRoutes (snd s')) w1 = ((e, result), c2, w2)"
        by (metis prod.collapse)
      have w2: "durable w2 = durable w" using synchronize_durable [OF Some pol sy] w1 by simp
      then show ?thesis using act Inr y s' Some sy
        by (auto simp: activateLocked_def Let_def dest: undo atomic split: option.splits prod.splits) (metis atomic undo)
    qed
  qed
qed

lemma activateAndTrack_durable:
  assumes act: "activateAndTrackLocked r c value persist st w = Some (e, c', st', w')"
    and previous: "\<And>s. mgr_routing (st_manager st) = Some s \<Longrightarrow> rs_policies s = rt_policySource r"
    and atomic: "\<And>w e w'. persist w = (Some e, w') \<Longrightarrow> durable w' = durable w"
  shows "if e \<noteq> None
     then durable w' = durable w \<and> st_manager st' = st_manager st \<and> failed_attempt (st_tracker st) (st_tracker st')
     else (\<exists>w0 w1 s. durable w0 = durable w \<and> persist w0 = (None, w1) \<and> durable w' = durable w1 \<and>
       services_for r value s \<and> mgr_routing (st_manager st') = Some (snd s) \<and> mgr_discovery (st_manager st') = Some (fst s) \<and>
       succeeded_attempt OutcomeSuccess (st_tracker st'))"
proof -
  let ?st1 = "track r Start st" let ?w1 = "observe r ?st1 w"
  have prev1: "\<And>s. mgr_routing (st_manager ?st1) = Some s \<Longrightarrow> rs_policies s = rt_policySource r" using previous by simp
  obtain x c1 st2 w2 where a: "activateLocked r c value persist ?st1 ?w1 = Some (x, c1, st2, w2)"
    using act by (auto simp: activateAndTrackLocked_def Let_def split: option.splits)
  have d: "case x of Inl e \<Rightarrow> durable w2 = durable ?w1
      | Inr result \<Rightarrow> \<exists>w0. durable w0 = durable ?w1 \<and> persist w0 = (None, w2)"
    by (rule activateLocked_durable [OF a]) (erule prev1, erule atomic)
  show ?thesis
  proof (cases x)
    case (Inl err)
    then have f: "e = Some err" "finish r c1 CompleteRuntimeBuildFailure st2 w2 = (c', st', w')"
      using act a by (auto simp: activateAndTrackLocked_def Let_def fails_def)
    have "st2 = ?st1" by (rule activateLocked_failure) (use a Inl in simp)
    then show ?thesis
      using f finish_eq [OF f(2)] finish_durable [OF f(2)] d Inl observe_durable by simp
  next
    case (Inr result)
    then have f: "e = None" "finish r c1 (\<lambda>now. CompleteSuccess now [result]) st2 w2 = (c', st', w')"
      using act a by (auto simp: activateAndTrackLocked_def Let_def)
    obtain w0 where w0: "durable w0 = durable w" "persist w0 = (None, w2)" using d Inr observe_durable by auto
    obtain s where s: "services_for r value s" "st2 = publish (Some s) ?st1"
      using activateLocked_success [OF a [unfolded Inr]] by (elim exE conjE)
    have st': "st' = track r (\<lambda>now. CompleteSuccess now [result]) (publish (Some s) ?st1)"
      using finish_eq [OF f(2)] s(2) by simp
    show ?thesis using f(1) w0 s(1) st' finish_durable [OF f(2)] by auto
  qed
qed

end

end
