(* ===== verification/SetupService.thy ===== *)
theory SetupService
  imports Runtime
begin

text \<open>
  Setup and settings changes, \<open>internal/setup\<close>: the validator that tries the panel credentials
  (\<open>pelican_validator.go\<close>, \<open>pelican_factory.go\<close>) and the service that validates a
  candidate and has the refresh task activate it (\<open>service.go\<close>).

  The settings store is given by its operations on the world.  The service holds its refresher as an
  interface value and asks by type assertion what it can do; the program's own refresher is the
  refresh task.
\<close>

section \<open>Validation of panel credentials\<close>

definition defaultPelicanValidationTimeout :: int where
  "defaultPelicanValidationTimeout = 15000000000"

record PelicanValidatorAdapter =
  va_timeout :: int
  va_retry :: Config

definition NewPelicanValidator :: "int \<Rightarrow> Config \<Rightarrow> PelicanValidatorAdapter" where
  "NewPelicanValidator timeout retryConfig =
     \<lparr>va_timeout = (if timeout \<le> 0 then defaultPelicanValidationTimeout else timeout), va_retry = retryConfig\<rparr>"

datatype 'x validate_error = CreatePelicanClient new_pelican_error | PelicanConnection "'x pelican_error"

definition validatorValidate ::
  "('j, 'w, 'x) platform \<Rightarrow> PelicanValidatorAdapter \<Rightarrow> ctx \<Rightarrow> string \<Rightarrow> string \<Rightarrow> 'w \<Rightarrow>
   ('x validate_error option \<times> ctx \<times> 'w) option" where
  "validatorValidate pf v c baseURL apiKey w =
     (case pelicanNewClient pf \<lparr>pc_BaseURL = baseURL, pc_APIKey = apiKey, pc_Timeout = va_timeout v, pc_Retry = va_retry v\<rparr> of
        Inl e \<Rightarrow> Some (Some (CreatePelicanClient e), c, w)
      | Inr client \<Rightarrow>
          (case ListNodes pf client c w of
             None \<Rightarrow> None
           | Some (Inl e, c1, w1) \<Rightarrow> Some (Some (PelicanConnection e), c1, w1)
           | Some (Inr nodes, c1, w1) \<Rightarrow> Some (None, c1, w1)))"

section \<open>The service\<close>

datatype ('j, 'w, 'x, 'b) Refresher = NoRefresher | RefreshOnly | Activator "('j, 'w, 'x, 'b) RefreshTask"

record ('j, 'w, 'x, 'b) SetupService =
  ss_IsSetupComplete :: "'w \<Rightarrow> ('x + bool) \<times> 'w"
  ss_Save :: "Settings \<Rightarrow> 'w \<Rightarrow> 'x option \<times> 'w"
  ss_StageSetup :: "Settings \<Rightarrow> 'w \<Rightarrow> ('x + string) \<times> 'w"
  ss_PromotePendingSetup :: "string \<Rightarrow> 'w \<Rightarrow> 'x option \<times> 'w"
  ss_validator :: "ctx \<Rightarrow> string \<Rightarrow> string \<Rightarrow> 'w \<Rightarrow> ('x validate_error option \<times> ctx \<times> 'w) option"
  ss_refresher :: "('j, 'w, 'x, 'b) Refresher"
  ss_resolver :: "(string \<Rightarrow> 'w \<Rightarrow> 'x + string) option"
  ss_alreadyConfigured :: 'x

text \<open>
  \<open>NewService\<close>.  The store is its four methods and the sentinel error of \<open>StageSetup\<close>; of the
  optional resolvers the first one counts.
\<close>

definition setupNewService ::
  "('w \<Rightarrow> ('x + bool) \<times> 'w) \<Rightarrow> (Settings \<Rightarrow> 'w \<Rightarrow> 'x option \<times> 'w) \<Rightarrow> (Settings \<Rightarrow> 'w \<Rightarrow> ('x + string) \<times> 'w) \<Rightarrow>
   (string \<Rightarrow> 'w \<Rightarrow> 'x option \<times> 'w) \<Rightarrow> 'x \<Rightarrow>
   (ctx \<Rightarrow> string \<Rightarrow> string \<Rightarrow> 'w \<Rightarrow> ('x validate_error option \<times> ctx \<times> 'w) option) \<Rightarrow>
   ('j, 'w, 'x, 'b) Refresher \<Rightarrow> (string \<Rightarrow> 'w \<Rightarrow> 'x + string) list \<Rightarrow> ('j, 'w, 'x, 'b) SetupService" where
  "setupNewService isSetupComplete saveSettings stage promote alreadyConfigured validator refresher resolvers =
     \<lparr>ss_IsSetupComplete = isSetupComplete, ss_Save = saveSettings, ss_StageSetup = stage, ss_PromotePendingSetup = promote,
      ss_validator = validator, ss_refresher = refresher,
      ss_resolver = (case resolvers of resolver # _ \<Rightarrow> Some resolver | [] \<Rightarrow> None),
      ss_alreadyConfigured = alreadyConfigured\<rparr>"

datatype ('x, 'b) setup_error =
    SetupStatus 'x | ErrAlreadyConfigured | ErrSetupNotActive | ErrMissingRouterDomain
  | ResolverUnavailable | CredentialUnavailable | ValidateCredentials "'x validate_error"
  | SaveSettings 'x | StageSetupError 'x | PromoteSetup 'x
  | ActivationUnavailable | ActivateCandidate "('x, 'b) refresh_error"

type_synonym ('w, 'x, 'b) setup_result = "(('x, 'b) setup_error option \<times> ctx \<times> ('w, 'x) RuntimeState \<times> 'w) option"

definition trimmed :: "Settings \<Rightarrow> Settings" where
  "trimmed input =
     \<lparr>set_PelicanURL = TrimSpace (set_PelicanURL input), set_PelicanAPIKey = TrimSpace (set_PelicanAPIKey input),
      set_PelicanSecretName = TrimSpace (set_PelicanSecretName input), set_RouterDomain = TrimSpace (set_RouterDomain input)\<rparr>"

definition setupIsSetupComplete ::
  "('j, 'w, 'x, 'b) SetupService \<Rightarrow> 'w \<Rightarrow> (('x, 'b) setup_error + bool) \<times> 'w" where
  "setupIsSetupComplete s w =
     (case ss_IsSetupComplete s w of (Inl e, w1) \<Rightarrow> (Inl (SetupStatus e), w1) | (Inr b, w1) \<Rightarrow> (Inr b, w1))"

text \<open>\<open>validate\<close> trims its argument in place; it answers the trimmed settings.\<close>

definition setupValidate ::
  "('j, 'w, 'x, 'b) SetupService \<Rightarrow> ctx \<Rightarrow> Settings \<Rightarrow> 'w \<Rightarrow> ((('x, 'b) setup_error + Settings) \<times> ctx \<times> 'w) option" where
  "setupValidate s c input w =
     (let input = trimmed input
      in if set_RouterDomain input = [] then Some (Inl ErrMissingRouterDomain, c, w)
         else case (if set_PelicanSecretName input \<noteq> [] then
                      (case ss_resolver s of
                         None \<Rightarrow> Inl ResolverUnavailable
                       | Some resolve \<Rightarrow> map_err (\<lambda>e. CredentialUnavailable) (resolve (set_PelicanSecretName input) w))
                    else Inr (set_PelicanAPIKey input)) of
           Inl e \<Rightarrow> Some (Inl e, c, w)
         | Inr key \<Rightarrow>
             (case ss_validator s c (set_PelicanURL input) key w of
                None \<Rightarrow> None
              | Some (Some e, c1, w1) \<Rightarrow> Some (Inl (ValidateCredentials e), c1, w1)
              | Some (None, c1, w1) \<Rightarrow> Some (Inr input, c1, w1)))"

definition activated :: "('w, 'x, 'b) task_result \<Rightarrow> ('w, 'x, 'b) setup_result" where
  "activated res = map_option (\<lambda>(e, rest). (map_option ActivateCandidate e, rest)) res"

definition prepareAndPublish ::
  "('j, 'w, 'x, 'b) SetupService \<Rightarrow> ctx \<Rightarrow> Settings \<Rightarrow> (Settings \<Rightarrow> 'w \<Rightarrow> 'x option \<times> 'w) \<Rightarrow>
   ('w, 'x) RuntimeState \<Rightarrow> 'w \<Rightarrow> ('w, 'x, 'b) setup_result" where
  "prepareAndPublish s c input persist st w =
     (case setupValidate s c input w of
        None \<Rightarrow> None
      | Some (Inl e, c1, w1) \<Rightarrow> Some (Some e, c1, st, w1)
      | Some (Inr input, c1, w1) \<Rightarrow>
          (case ss_refresher s of
             NoRefresher \<Rightarrow>
               (case persist input w1 of
                  (Some e, w2) \<Rightarrow> Some (Some (SaveSettings e), c1, st, w2)
                | (None, w2) \<Rightarrow> Some (None, c1, st, w2))
           | RefreshOnly \<Rightarrow> Some (Some ActivationUnavailable, c1, st, w1)
           | Activator task \<Rightarrow> activated (Activate task c1 input (persist input) st w1)))"

definition stageGuarded :: "('j, 'w, 'x, 'b) SetupService \<Rightarrow> Settings \<Rightarrow> 'w \<Rightarrow> ('x + string) \<times> 'w" where
  "stageGuarded s input w =
     (case ss_IsSetupComplete s w of
        (Inl e, w1) \<Rightarrow> (Inl e, w1)
      | (Inr True, w1) \<Rightarrow> (Inl (ss_alreadyConfigured s), w1)
      | (Inr False, w1) \<Rightarrow> ss_StageSetup s input w1)"

definition Setup ::
  "('j, 'w, 'x, 'b) SetupService \<Rightarrow> ctx \<Rightarrow> Settings \<Rightarrow> ('w, 'x) RuntimeState \<Rightarrow> 'w \<Rightarrow> ('w, 'x, 'b) setup_result" where
  "Setup s c input st w =
     (case ss_IsSetupComplete s w of
        (Inl e, w1) \<Rightarrow> Some (Some (SetupStatus e), c, st, w1)
      | (Inr True, w1) \<Rightarrow> Some (Some ErrAlreadyConfigured, c, st, w1)
      | (Inr False, w1) \<Rightarrow>
          (case setupValidate s c input w1 of
             None \<Rightarrow> None
           | Some (Inl e, c1, w2) \<Rightarrow> Some (Some e, c1, st, w2)
           | Some (Inr input, c1, w2) \<Rightarrow>
               (case ss_refresher s of
                  NoRefresher \<Rightarrow>
                    (case ss_StageSetup s input w2 of
                       (Inl e, w3) \<Rightarrow> Some (Some (StageSetupError e), c1, st, w3)
                     | (Inr generation, w3) \<Rightarrow>
                         (case ss_PromotePendingSetup s generation w3 of
                            (Some e, w4) \<Rightarrow> Some (Some (PromoteSetup e), c1, st, w4)
                          | (None, w4) \<Rightarrow> Some (None, c1, st, w4)))
                | RefreshOnly \<Rightarrow> Some (Some ActivationUnavailable, c1, st, w2)
                | Activator task \<Rightarrow>
                    activated (ActivateSetup task c1 input (stageGuarded s input) (ss_PromotePendingSetup s) st w2))))"

definition setupUpdate ::
  "('j, 'w, 'x, 'b) SetupService \<Rightarrow> ctx \<Rightarrow> Settings \<Rightarrow> ('w, 'x) RuntimeState \<Rightarrow> 'w \<Rightarrow> ('w, 'x, 'b) setup_result" where
  "setupUpdate s c input st w =
     (case ss_IsSetupComplete s w of
        (Inl e, w1) \<Rightarrow> Some (Some (SetupStatus e), c, st, w1)
      | (Inr False, w1) \<Rightarrow> Some (Some ErrSetupNotActive, c, st, w1)
      | (Inr True, w1) \<Rightarrow> prepareAndPublish s c input (ss_Save s) st w1)"

end
