(* ===== verification/RoutePolicy.thy ===== *)
theory RoutePolicy
  imports Models
begin

text \<open>
  The durable route-policy store, \<open>internal/routepolicy/store.go\<close>, over the two SQLite tables
  of its migration.  A row of \<open>route_policies\<close> is a \<open>policy_row\<close>, the table is keyed by the
  server UUID; \<open>route_policy_aliases\<close> is a list of (UUID, hostname) pairs.  A transaction works
  on a copy of the database that \<open>Commit\<close> installs and any earlier return discards.

  Every database call may fail, for instance because the context of the request is done: a
  \<open>faults\<close> list says for each call in turn whether it fails, and no call fails once the list is
  used up.  The SQL statements are the list operations they denote, with the tables' primary keys
  and checks (\<open>sqlite_length\<close> is SQLite's \<open>length\<close>, which stops at a NUL); revisions are
  unbounded integers, so the model does not reach the end of SQLite's 64-bit range.

  The store implements a map from UUIDs to policies; the locale \<open>revision_store\<close> is the
  contract its clients rely on for optimistic concurrency.
\<close>

record policy_row =
  row_primary :: "string option"
  row_excluded :: bool
  row_revision :: int

record policy_db =
  policies_tbl :: "(string \<times> policy_row) list"
  aliases_tbl :: "(string \<times> string) list"

datatype policy_error = ErrNotFound | ErrConflict | ErrInvalid | ErrDB string

definition nullableString :: "string \<Rightarrow> string option" where
  "nullableString value = (if value = [] then None else Some value)"

fun validate_aliases :: "string set \<Rightarrow> string list \<Rightarrow> bool" where
  "validate_aliases seen [] = True"
| "validate_aliases seen (alias # rest) =
     (if TrimSpace alias = [] then False
      else if alias \<in> seen then False
      else validate_aliases (insert alias seen) rest)"

definition validate :: "Policy \<Rightarrow> policy_error option" where
  "validate policy =
     (if TrimSpace (pol_ServerUUID policy) = [] then Some ErrInvalid
      else if \<not> validate_aliases {} (pol_Aliases policy) then Some ErrInvalid
      else None)"

section \<open>Statements\<close>

definition insert_policy :: "policy_db \<Rightarrow> Policy \<Rightarrow> policy_db option" where
  "insert_policy db policy =
     (if map_of (policies_tbl db) (pol_ServerUUID policy) \<noteq> None \<or> sqlite_length (pol_ServerUUID policy) = 0
      then None
      else Some (db\<lparr>policies_tbl :=
        AList.update (pol_ServerUUID policy)
          \<lparr>row_primary = nullableString (pol_PrimaryHostname policy),
           row_excluded = pol_Excluded policy, row_revision = 1\<rparr> (policies_tbl db)\<rparr>))"

definition insert_alias :: "policy_db \<Rightarrow> string \<Rightarrow> string \<Rightarrow> policy_db option" where
  "insert_alias db serverUUID alias =
     (if (serverUUID, alias) \<in> set (aliases_tbl db) \<or> sqlite_length alias = 0 then None
      else Some (db\<lparr>aliases_tbl := aliases_tbl db @ [(serverUUID, alias)]\<rparr>))"

definition delete_aliases :: "policy_db \<Rightarrow> string \<Rightarrow> policy_db" where
  "delete_aliases db serverUUID =
     db\<lparr>aliases_tbl := filter (\<lambda>(u, h). u \<noteq> serverUUID) (aliases_tbl db)\<rparr>"

fun insert_aliases ::
  "policy_db \<Rightarrow> faults \<Rightarrow> string \<Rightarrow> string list \<Rightarrow> (policy_error + policy_db) \<times> faults" where
  "insert_aliases db fs serverUUID [] = (Inr db, fs)"
| "insert_aliases db fs serverUUID (alias # rest) =
     (if fault fs then (Inl (ErrDB ''insert route policy alias''), tl fs)
      else case insert_alias db serverUUID alias of
        None \<Rightarrow> (Inl (ErrDB ''insert route policy alias''), tl fs)
      | Some db' \<Rightarrow> insert_aliases db' (tl fs) serverUUID rest)"

definition replaceAliases ::
  "policy_db \<Rightarrow> faults \<Rightarrow> string \<Rightarrow> string list \<Rightarrow> (policy_error + policy_db) \<times> faults" where
  "replaceAliases db fs serverUUID aliases =
     (if fault fs then (Inl (ErrDB ''remove route policy aliases''), tl fs)
      else insert_aliases (delete_aliases db serverUUID) (tl fs) serverUUID aliases)"

section \<open>Operations\<close>

definition row_aliases :: "policy_db \<Rightarrow> string \<Rightarrow> string list" where
  "row_aliases db serverUUID = sort (map snd (filter (\<lambda>(u, h). u = serverUUID) (aliases_tbl db)))"

definition row_policy :: "policy_db \<Rightarrow> string \<Rightarrow> policy_row \<Rightarrow> Policy" where
  "row_policy db serverUUID row =
     \<lparr>pol_ServerUUID = serverUUID,
      pol_PrimaryHostname = (case row_primary row of None \<Rightarrow> [] | Some h \<Rightarrow> h),
      pol_Aliases = row_aliases db serverUUID, pol_Excluded = row_excluded row,
      pol_Revision = row_revision row\<rparr>"

definition Get :: "policy_db \<Rightarrow> faults \<Rightarrow> string \<Rightarrow> policy_error + Policy" where
  "Get db fs serverUUID =
     (if TrimSpace serverUUID = [] then Inl ErrInvalid
      else if fault fs then Inl (ErrDB ''get route policy'')
      else case map_of (policies_tbl db) serverUUID of
        None \<Rightarrow> Inl ErrNotFound
      | Some row \<Rightarrow>
          if fault (tl fs) then Inl (ErrDB ''list route policy aliases'')
          else Inr (row_policy db serverUUID row))"

fun list_rows :: "policy_db \<Rightarrow> faults \<Rightarrow> string list \<Rightarrow> policy_error + Policy list" where
  "list_rows db fs [] = (if fault fs then Inl (ErrDB ''iterate route policies'') else Inr [])"
| "list_rows db fs (u # us) =
     (if fault fs then Inl (ErrDB ''scan route policy'')
      else if fault (tl fs) then Inl (ErrDB ''list route policy aliases'')
      else bindE (list_rows db (tl (tl fs)) us)
             (\<lambda>ps. Inr (row_policy db u (the (map_of (policies_tbl db) u)) # ps)))"

definition List :: "policy_db \<Rightarrow> faults \<Rightarrow> policy_error + Policy list" where
  "List db fs =
     (if fault fs then Inl (ErrDB ''list route policies'')
      else list_rows db (tl fs) (sort (map fst (policies_tbl db))))"

definition Create :: "policy_db \<Rightarrow> faults \<Rightarrow> Policy \<Rightarrow> (policy_error + Policy) \<times> policy_db" where
  "Create db fs policy =
     (case validate policy of
        Some e \<Rightarrow> (Inl e, db)
      | None \<Rightarrow>
          if fault fs then (Inl (ErrDB ''begin route policy create''), db)
          else if fault (drop 1 fs) then (Inl (ErrDB ''insert route policy''), db)
          else case insert_policy db policy of
            None \<Rightarrow> (Inl (ErrDB ''insert route policy''), db)
          | Some tx \<Rightarrow>
              (case replaceAliases tx (drop 2 fs) (pol_ServerUUID policy) (pol_Aliases policy) of
                 (Inl e, fs') \<Rightarrow> (Inl e, db)
               | (Inr tx', fs') \<Rightarrow>
                   if fault fs' then (Inl (ErrDB ''commit route policy create''), db)
                   else (Get tx' (tl fs') (pol_ServerUUID policy), tx')))"

definition update_row :: "policy_db \<Rightarrow> Policy \<Rightarrow> int \<Rightarrow> policy_db option" where
  "update_row db policy expectedRevision =
     (case map_of (policies_tbl db) (pol_ServerUUID policy) of
        None \<Rightarrow> None
      | Some row \<Rightarrow>
          if row_revision row \<noteq> expectedRevision then None
          else Some (db\<lparr>policies_tbl :=
            AList.update (pol_ServerUUID policy)
              \<lparr>row_primary = nullableString (pol_PrimaryHostname policy),
               row_excluded = pol_Excluded policy, row_revision = row_revision row + 1\<rparr>
              (policies_tbl db)\<rparr>))"

definition policyExists :: "policy_db \<Rightarrow> string \<Rightarrow> bool" where
  "policyExists db serverUUID \<longleftrightarrow> map_of (policies_tbl db) serverUUID \<noteq> None"

definition Update ::
  "policy_db \<Rightarrow> faults \<Rightarrow> Policy \<Rightarrow> int \<Rightarrow> (policy_error + Policy) \<times> policy_db" where
  "Update db fs policy expectedRevision =
     (case validate policy of
        Some e \<Rightarrow> (Inl e, db)
      | None \<Rightarrow>
          if expectedRevision \<le> 0 then (Inl ErrInvalid, db)
          else if fault fs then (Inl (ErrDB ''begin route policy update''), db)
          else if fault (drop 1 fs) then (Inl (ErrDB ''update route policy''), db)
          else if fault (drop 2 fs) then (Inl (ErrDB ''check route policy update''), db)
          else case update_row db policy expectedRevision of
            None \<Rightarrow>
              if fault (drop 3 fs) then (Inl (ErrDB ''check route policy existence''), db)
              else if \<not> policyExists db (pol_ServerUUID policy) then (Inl ErrNotFound, db)
              else (Inl ErrConflict, db)
          | Some tx \<Rightarrow>
              (case replaceAliases tx (drop 3 fs) (pol_ServerUUID policy) (pol_Aliases policy) of
                 (Inl e, fs') \<Rightarrow> (Inl e, db)
               | (Inr tx', fs') \<Rightarrow>
                   if fault fs' then (Inl (ErrDB ''commit route policy update''), db)
                   else (Get tx' (tl fs') (pol_ServerUUID policy), tx')))"

definition Delete :: "policy_db \<Rightarrow> faults \<Rightarrow> string \<Rightarrow> int \<Rightarrow> policy_error option \<times> policy_db" where
  "Delete db fs serverUUID expectedRevision =
     (if TrimSpace serverUUID = [] \<or> expectedRevision \<le> 0 then (Some ErrInvalid, db)
      else if fault fs then (Some (ErrDB ''begin route policy delete''), db)
      else if fault (drop 1 fs) then (Some (ErrDB ''get route policy for delete''), db)
      else case map_of (policies_tbl db) serverUUID of
        None \<Rightarrow> (Some ErrNotFound, db)
      | Some row \<Rightarrow>
          if row_revision row \<noteq> expectedRevision then (Some ErrConflict, db)
          else if fault (drop 2 fs) then (Some (ErrDB ''remove route policy aliases''), db)
          else if fault (drop 3 fs) then (Some (ErrDB ''delete route policy''), db)
          else if fault (drop 4 fs) then (Some (ErrDB ''commit route policy delete''), db)
          else (None,
            (delete_aliases db serverUUID)\<lparr>policies_tbl := AList.delete serverUUID (policies_tbl db)\<rparr>))"

section \<open>Invariant and abstraction\<close>

definition db_inv :: "policy_db \<Rightarrow> bool" where
  "db_inv db \<longleftrightarrow>
     distinct (map fst (policies_tbl db)) \<and> distinct (aliases_tbl db) \<and>
     list_all (\<lambda>(u, row). TrimSpace u \<noteq> [] \<and> 0 < row_revision row) (policies_tbl db) \<and>
     list_all (\<lambda>(u, h). u \<in> set (map fst (policies_tbl db)) \<and> TrimSpace h \<noteq> []) (aliases_tbl db)"

definition db_abs :: "policy_db \<Rightarrow> string \<rightharpoonup> Policy" where
  "db_abs db u = map_option (row_policy db u) (map_of (policies_tbl db) u)"

definition stored :: "Policy \<Rightarrow> int \<Rightarrow> Policy" where
  "stored policy revision = policy\<lparr>pol_Aliases := sort (pol_Aliases policy), pol_Revision := revision\<rparr>"

lemma validate_aliases_iff:
  "validate_aliases seen as \<longleftrightarrow> list_all (\<lambda>a. TrimSpace a \<noteq> []) as \<and> distinct as \<and> set as \<inter> seen = {}"
  by (induction seen as rule: validate_aliases.induct) auto

lemma validate_None_iff:
  "validate policy = None \<longleftrightarrow> TrimSpace (pol_ServerUUID policy) \<noteq> [] \<and>
     list_all (\<lambda>a. TrimSpace a \<noteq> []) (pol_Aliases policy) \<and> distinct (pol_Aliases policy)"
  by (auto simp: validate_def validate_aliases_iff)

lemma validate_Some: "validate policy = Some e \<Longrightarrow> e = ErrInvalid"
  by (auto simp: validate_def split: if_splits)

lemma nullableString_inverse [simp]: "(case nullableString h of None \<Rightarrow> [] | Some x \<Rightarrow> x) = h"
  by (simp add: nullableString_def)

lemma insert_aliases_Inr:
  "insert_aliases db fs u as = (Inr db', fs') \<Longrightarrow>
     db' = db\<lparr>aliases_tbl := aliases_tbl db @ map (Pair u) as\<rparr> \<and>
     set (map (Pair u) as) \<inter> set (aliases_tbl db) = {} \<and> distinct as"
proof (induction db fs u as rule: insert_aliases.induct)
  case (2 db fs u a as)
  then obtain db1 where "insert_alias db u a = Some db1" "\<not> fault fs"
    "insert_aliases db1 (tl fs) u as = (Inr db', fs')"
    by (auto split: if_splits option.splits)
  with 2(1) [of db1] show ?case by (auto simp: insert_alias_def split: if_splits)
qed simp

lemma replaceAliases_Inr:
  assumes "replaceAliases db fs u as = (Inr db', fs')"
  shows "policies_tbl db' = policies_tbl db \<and>
     aliases_tbl db' = filter (\<lambda>(v, h). v \<noteq> u) (aliases_tbl db) @ map (Pair u) as"
  using assms insert_aliases_Inr [of "delete_aliases db u" "tl fs" u as db' fs']
  by (auto simp: replaceAliases_def delete_aliases_def split: if_splits)

lemma row_aliases_replaced:
  assumes "aliases_tbl db' = filter (\<lambda>(v, h). v \<noteq> u) (aliases_tbl db) @ map (Pair u) as"
  shows "row_aliases db' v = (if v = u then sort as else row_aliases db v)"
proof -
  have e: "filter (\<lambda>(w, h). w = u) (filter (\<lambda>(v, h). v \<noteq> u) xs) = []"
    "v \<noteq> u \<Longrightarrow> filter (\<lambda>(w, h). w = v) (filter (\<lambda>(v, h). v \<noteq> u) xs) = filter (\<lambda>(w, h). w = v) xs"
    for xs :: "(string \<times> string) list"
    by (induction xs) auto
  have f: "filter (\<lambda>(w, h). w = v) (map (Pair u) as) = (if v = u then map (Pair u) as else [])"
    by (induction as) auto
  show ?thesis by (auto simp: row_aliases_def assms e f comp_def simp del: filter_filter)
qed

text \<open>What a committed write makes of the map the tables stand for.\<close>

lemma db_abs_written:
  assumes "policies_tbl db' = AList.update u \<lparr>row_primary = nullableString h, row_excluded = x,
      row_revision = r\<rparr> (policies_tbl db)"
    and "aliases_tbl db' = filter (\<lambda>(v, h). v \<noteq> u) (aliases_tbl db) @ map (Pair u) as"
  shows "db_abs db' = (db_abs db)(u \<mapsto> \<lparr>pol_ServerUUID = u, pol_PrimaryHostname = h,
      pol_Aliases = sort as, pol_Excluded = x, pol_Revision = r\<rparr>)"
proof
  fix v
  show "db_abs db' v = ((db_abs db)(u \<mapsto> \<lparr>pol_ServerUUID = u, pol_PrimaryHostname = h,
      pol_Aliases = sort as, pol_Excluded = x, pol_Revision = r\<rparr>)) v"
    using row_aliases_replaced [OF assms(2), of v]
    by (cases "map_of (policies_tbl db) v") (auto simp: db_abs_def assms(1) row_policy_def)
qed

lemma stored_eq:
  "stored policy r = \<lparr>pol_ServerUUID = pol_ServerUUID policy, pol_PrimaryHostname = pol_PrimaryHostname policy,
     pol_Aliases = sort (pol_Aliases policy), pol_Excluded = pol_Excluded policy, pol_Revision = r\<rparr>"
  by (simp add: stored_def)

lemma Get_Inr_iff:
  "Get db fs u = Inr q \<longleftrightarrow> TrimSpace u \<noteq> [] \<and> \<not> fault fs \<and> \<not> fault (tl fs) \<and> db_abs db u = Some q"
  by (auto simp: Get_def db_abs_def split: option.splits)

lemma db_abs_revision:
  "map_of (policies_tbl db) u = Some row \<Longrightarrow> \<exists>old. db_abs db u = Some old \<and> pol_Revision old = row_revision row"
  by (simp add: db_abs_def row_policy_def)

lemma db_abs_None_iff: "db_abs db u = None \<longleftrightarrow> map_of (policies_tbl db) u = None"
  by (simp add: db_abs_def)

lemma Create_cases:
  assumes "Create db fs policy = (r, db')"
  shows "(db' = db \<and> \<not> is_ok r) \<or>
     (validate policy = None \<and> db_abs db (pol_ServerUUID policy) = None \<and>
      policies_tbl db' = AList.update (pol_ServerUUID policy)
        \<lparr>row_primary = nullableString (pol_PrimaryHostname policy), row_excluded = pol_Excluded policy,
         row_revision = 1\<rparr> (policies_tbl db) \<and>
      aliases_tbl db' = filter (\<lambda>(v, h). v \<noteq> pol_ServerUUID policy) (aliases_tbl db) @
        map (Pair (pol_ServerUUID policy)) (pol_Aliases policy) \<and>
      (\<exists>fs'. r = Get db' fs' (pol_ServerUUID policy)))"
proof -
  have "db_abs db (pol_ServerUUID policy) = None" if "insert_policy db policy = Some tx" for tx
    using that by (auto simp: insert_policy_def db_abs_def split: if_splits)
  then show ?thesis
    using assms by (auto simp: Create_def insert_policy_def dest!: replaceAliases_Inr split: res_splits)
qed

lemma Update_cases:
  assumes "Update db fs policy n = (r, db')"
  shows "(db' = db \<and> \<not> is_ok r) \<or>
     (validate policy = None \<and> 0 < n \<and>
      (\<exists>old. db_abs db (pol_ServerUUID policy) = Some old \<and> pol_Revision old = n) \<and>
      policies_tbl db' = AList.update (pol_ServerUUID policy)
        \<lparr>row_primary = nullableString (pol_PrimaryHostname policy), row_excluded = pol_Excluded policy,
         row_revision = n + 1\<rparr> (policies_tbl db) \<and>
      aliases_tbl db' = filter (\<lambda>(v, h). v \<noteq> pol_ServerUUID policy) (aliases_tbl db) @
        map (Pair (pol_ServerUUID policy)) (pol_Aliases policy) \<and>
      (\<exists>fs'. r = Get db' fs' (pol_ServerUUID policy)))"
  using assms
  by (auto simp: Update_def update_row_def dest!: replaceAliases_Inr intro: db_abs_revision split: res_splits)

section \<open>The specification the store implements\<close>

definition spec_create :: "(string \<rightharpoonup> Policy) \<Rightarrow> Policy \<Rightarrow> (string \<rightharpoonup> Policy) option" where
  "spec_create m policy =
     (if m (pol_ServerUUID policy) = None then Some (m(pol_ServerUUID policy \<mapsto> stored policy 1)) else None)"

definition spec_update :: "(string \<rightharpoonup> Policy) \<Rightarrow> Policy \<Rightarrow> int \<Rightarrow> (string \<rightharpoonup> Policy) option" where
  "spec_update m policy n =
     (case m (pol_ServerUUID policy) of
        None \<Rightarrow> None
      | Some old \<Rightarrow>
          if pol_Revision old = n then Some (m(pol_ServerUUID policy \<mapsto> stored policy (n + 1))) else None)"

definition spec_delete :: "(string \<rightharpoonup> Policy) \<Rightarrow> string \<Rightarrow> int \<Rightarrow> (string \<rightharpoonup> Policy) option" where
  "spec_delete m u n =
     (case m u of None \<Rightarrow> None | Some old \<Rightarrow> if pol_Revision old = n then Some (m(u := None)) else None)"

lemma spec_create_lookup:
  "spec_create m policy = Some m' \<Longrightarrow> m' (pol_ServerUUID policy) = Some (stored policy 1)"
  by (auto simp: spec_create_def split: if_splits)

lemma spec_update_lookup:
  "spec_update m policy n = Some m' \<Longrightarrow> m' (pol_ServerUUID policy) = Some (stored policy (n + 1))"
  by (auto simp: spec_update_def split: option.splits if_splits)

lemma Create_spec:
  assumes "Create db fs policy = (r, db')"
  shows "(db' = db \<and> \<not> is_ok r) \<or>
     (spec_create (db_abs db) policy = Some (db_abs db') \<and> (\<forall>q. r = Inr q \<longrightarrow> q = stored policy 1))"
  using Create_cases [OF assms]
  by (auto simp: spec_create_def db_abs_written stored_eq Get_Inr_iff)

lemma Update_spec:
  assumes "Update db fs policy n = (r, db')"
  shows "(db' = db \<and> \<not> is_ok r) \<or>
     (spec_update (db_abs db) policy n = Some (db_abs db') \<and> (\<forall>q. r = Inr q \<longrightarrow> q = stored policy (n + 1)))"
  using Update_cases [OF assms]
  by (auto simp: spec_update_def db_abs_written stored_eq Get_Inr_iff)

lemma delete_row_aliases:
  "v \<noteq> u \<Longrightarrow> row_aliases ((delete_aliases db u)\<lparr>policies_tbl := t\<rparr>) v = row_aliases db v"
proof -
  assume "v \<noteq> u"
  then have "filter (\<lambda>(w, h). w = v) (filter (\<lambda>(v, h). v \<noteq> u) xs) = filter (\<lambda>(w, h). w = v) xs"
    for xs :: "(string \<times> string) list"
    by (induction xs) auto
  then show ?thesis by (simp add: row_aliases_def delete_aliases_def del: filter_filter)
qed

lemma db_abs_deleted:
  "db_abs ((delete_aliases db u)\<lparr>policies_tbl := AList.delete u (policies_tbl db)\<rparr>) = (db_abs db)(u := None)"
proof
  fix v
  show "db_abs ((delete_aliases db u)\<lparr>policies_tbl := AList.delete u (policies_tbl db)\<rparr>) v =
      ((db_abs db)(u := None)) v"
    by (cases "map_of (policies_tbl db) v") (auto simp: db_abs_def row_policy_def delete_row_aliases)
qed

lemma Delete_cases:
  assumes "Delete db fs u n = (e, db')"
  shows "(db' = db \<and> e \<noteq> None) \<or>
     (db' = (delete_aliases db u)\<lparr>policies_tbl := AList.delete u (policies_tbl db)\<rparr> \<and> e = None \<and>
      (\<exists>old. db_abs db u = Some old \<and> pol_Revision old = n))"
  using assms by (auto simp: Delete_def intro: db_abs_revision split: res_splits)

lemma Delete_spec:
  assumes "Delete db fs u n = (e, db')"
  shows "(db' = db \<and> e \<noteq> None) \<or> (spec_delete (db_abs db) u n = Some (db_abs db') \<and> e = None)"
  using Delete_cases [OF assms] by (auto simp: spec_delete_def db_abs_deleted)

lemma db_inv_written:
  assumes inv: "db_inv db" and u: "TrimSpace u \<noteq> []" and as: "list_all (\<lambda>a. TrimSpace a \<noteq> []) as" "distinct as"
    and r: "0 < row_revision row"
    and p: "policies_tbl db' = AList.update u row (policies_tbl db)"
    and a: "aliases_tbl db' = filter (\<lambda>(v, h). v \<noteq> u) (aliases_tbl db) @ map (Pair u) as"
  shows "db_inv db'"
proof -
  have k: "set (map fst (policies_tbl db')) = insert u (set (map fst (policies_tbl db)))"
    using p by (simp add: dom_update)
  have "distinct (map fst (policies_tbl db'))" using inv p by (simp add: db_inv_def)
  moreover have "distinct (aliases_tbl db')"
    using inv as(2) by (auto simp: a db_inv_def distinct_map inj_on_def)
  moreover have "list_all (\<lambda>(u, row). TrimSpace u \<noteq> [] \<and> 0 < row_revision row) (policies_tbl db')"
    using inv u r by (auto simp: p db_inv_def list_all_iff dest!: set_AList_update)
  moreover have "list_all (\<lambda>(u, h). u \<in> set (map fst (policies_tbl db')) \<and> TrimSpace h \<noteq> []) (aliases_tbl db')"
    using inv as(1) unfolding k a by (fastforce simp: db_inv_def list_all_iff)
  ultimately show ?thesis by (simp add: db_inv_def)
qed

lemma db_inv_deleted:
  assumes "db_inv db"
  shows "db_inv ((delete_aliases db u)\<lparr>policies_tbl := AList.delete u (policies_tbl db)\<rparr>)"
  using assms by (fastforce simp: db_inv_def delete_aliases_def list_all_iff set_AList_delete)

lemma db_inv_Create: "db_inv db \<Longrightarrow> db_inv (snd (Create db fs policy))"
proof -
  assume inv: "db_inv db"
  obtain r db' where c: "Create db fs policy = (r, db')" by fastforce
  let ?row = "\<lparr>row_primary = nullableString (pol_PrimaryHostname policy), row_excluded = pol_Excluded policy,
    row_revision = 1\<rparr>"
  from Create_cases [OF c] show ?thesis
    using db_inv_written [OF inv, of "pol_ServerUUID policy" "pol_Aliases policy" ?row db'] inv
    by (auto simp: c validate_None_iff)
qed

lemma db_inv_Update: "db_inv db \<Longrightarrow> db_inv (snd (Update db fs policy n))"
proof -
  assume inv: "db_inv db"
  obtain r db' where c: "Update db fs policy n = (r, db')" by fastforce
  let ?row = "\<lparr>row_primary = nullableString (pol_PrimaryHostname policy), row_excluded = pol_Excluded policy,
    row_revision = n + 1\<rparr>"
  from Update_cases [OF c] show ?thesis
    using db_inv_written [OF inv, of "pol_ServerUUID policy" "pol_Aliases policy" ?row db'] inv
    by (auto simp: c validate_None_iff)
qed

lemma db_inv_Delete: "db_inv db \<Longrightarrow> db_inv (snd (Delete db fs u n))"
  using Delete_cases [of db fs u n "fst (Delete db fs u n)" "snd (Delete db fs u n)"]
  by (auto intro: db_inv_deleted)

lemma db_inv_revision: "db_inv db \<Longrightarrow> db_abs db u = Some q \<Longrightarrow> 0 < pol_Revision q"
  by (auto simp: db_inv_def db_abs_def row_policy_def list_all_iff dest!: map_of_SomeD)

lemma fault_free [simp]: "fault (drop n []) = False"
  by simp

lemma Update_absent:
  "validate policy = None \<Longrightarrow> 0 < n \<Longrightarrow> db_abs db (pol_ServerUUID policy) = None \<Longrightarrow>
   Update db [] policy n = (Inl ErrNotFound, db)"
  by (simp add: Update_def update_row_def policyExists_def db_abs_None_iff)

lemma Update_stale:
  assumes "validate policy = None" "0 < n" "db_abs db (pol_ServerUUID policy) = Some old" "pol_Revision old \<noteq> n"
  shows "Update db [] policy n = (Inl ErrConflict, db)"
  using assms
  by (auto simp: Update_def update_row_def policyExists_def db_abs_def row_policy_def split: option.splits)

lemma list_rows_faultless:
  "list_rows db [] us = Inr (map (\<lambda>u. row_policy db u (the (map_of (policies_tbl db) u))) us)"
  by (induction us) auto

lemma List_faultless:
  "List db [] = Inr (map (\<lambda>u. the (db_abs db u)) (sort (map fst (policies_tbl db))))"
proof -
  have "the (db_abs db u) = row_policy db u (the (map_of (policies_tbl db) u))"
    if "u \<in> set (map fst (policies_tbl db))" for u
    using that by (cases "map_of (policies_tbl db) u") (auto simp: db_abs_def map_of_eq_None_iff)
  then show ?thesis by (auto simp: List_def list_rows_faultless)
qed

section \<open>Optimistic concurrency\<close>

text \<open>
  Several clients that read the same revision and then write: the writes are applied one after the
  other, each against the state the previous one left.
\<close>

fun run_writes :: "('s \<Rightarrow> Policy \<Rightarrow> int \<Rightarrow> (policy_error + Policy) \<times> 's) \<Rightarrow> 's \<Rightarrow> int \<Rightarrow> Policy list \<Rightarrow> bool list" where
  "run_writes put s n [] = []"
| "run_writes put s n (p # ps) =
     (case put s p n of (r, s') \<Rightarrow> is_ok r # run_writes put s' n ps)"

locale revision_store =
  fixes invar :: "'s \<Rightarrow> bool"
    and get :: "'s \<Rightarrow> string \<Rightarrow> Policy option"
    and acceptable :: "Policy \<Rightarrow> bool"
    and put :: "'s \<Rightarrow> Policy \<Rightarrow> int \<Rightarrow> (policy_error + Policy) \<times> 's"
  assumes put_ok: "invar s \<Longrightarrow> put s p n = (Inr q, s') \<Longrightarrow>
      invar s' \<and> get s' (pol_ServerUUID p) = Some q \<and> pol_Revision q = n + 1"
    and put_error: "invar s \<Longrightarrow> put s p n = (Inl e, s') \<Longrightarrow> s' = s"
    and put_stale: "invar s \<Longrightarrow> acceptable p \<Longrightarrow> 0 < n \<Longrightarrow>
      get s (pol_ServerUUID p) = Some old \<Longrightarrow> pol_Revision old \<noteq> n \<Longrightarrow> put s p n = (Inl ErrConflict, s)"
begin

lemma all_stale:
  assumes "invar s" "0 < n" "get s u = Some old" "pol_Revision old \<noteq> n"
    and "list_all (\<lambda>p. acceptable p \<and> pol_ServerUUID p = u) ps"
  shows "run_writes put s n ps = replicate (length ps) False"
  using assms(5) by (induction ps) (use assms(1-4) put_stale in auto)

lemma one_winner:
  assumes "invar s" "0 < n" "list_all (\<lambda>p. acceptable p \<and> pol_ServerUUID p = u) ps"
  shows "length (filter id (run_writes put s n ps)) \<le> 1"
  using assms
proof (induction ps arbitrary: s)
  case (Cons p ps)
  obtain r s' where w: "put s p n = (r, s')" by fastforce
  show ?case
  proof (cases r)
    case (Inl e)
    with w Cons.prems(1) have "s' = s" by (simp add: put_error)
    with w Inl Cons show ?thesis by simp
  next
    case (Inr q)
    with w Cons.prems have "invar s'" "get s' u = Some q" "pol_Revision q \<noteq> n"
      using put_ok [of s p n q s'] by auto
    with Cons.prems have "run_writes put s' n ps = replicate (length ps) False"
      by (intro all_stale) auto
    with w Inr show ?thesis by simp
  qed
qed simp

end

lemma insert_aliases_faultless: "insert_aliases db [] u as = (r, fs') \<Longrightarrow> fs' = []"
  by (induction as arbitrary: db) (auto split: option.splits if_splits)

lemma Update_faultless_error:
  assumes "Update db [] policy n = (Inl e, db')"
  shows "db' = db"
proof (rule ccontr)
  assume ne: "db' \<noteq> db"
  from ne assms obtain fs' where f: "replaceAliases (the (update_row db policy n)) [] (pol_ServerUUID policy)
      (pol_Aliases policy) = (Inr db', fs')" "Get db' (tl fs') (pol_ServerUUID policy) = Inl e"
    by (auto simp: Update_def split: res_splits)
  then have "fs' = []" by (auto simp: replaceAliases_def dest: insert_aliases_faultless split: if_splits)
  moreover have "TrimSpace (pol_ServerUUID policy) \<noteq> []" "db_abs db' (pol_ServerUUID policy) \<noteq> None"
    using Update_spec [OF assms] Update_cases [OF assms] ne
    by (auto simp: validate_None_iff dest: spec_update_lookup)
  ultimately show False using f(2) Get_Inr_iff [of db' "[]" "pol_ServerUUID policy"] by auto
qed

lemma Update_rejects:
  "validate policy \<noteq> None \<or> n \<le> 0 \<Longrightarrow> Update db fs policy n = (Inl ErrInvalid, db)"
  by (auto simp: Update_def dest: validate_Some split: option.splits)

lemma Get_faultless:
  "Get db [] u = (if TrimSpace u = [] then Inl ErrInvalid
     else case db_abs db u of None \<Rightarrow> Inl ErrNotFound | Some q \<Rightarrow> Inr q)"
  by (simp add: Get_def db_abs_def split: option.splits)

lemma insert_aliases_succeeds:
  assumes "distinct as" "list_all (\<lambda>a. sqlite_length a \<noteq> 0) as"
    and "set (map (Pair u) as) \<inter> set (aliases_tbl db) = {}"
  shows "\<exists>db'. insert_aliases db [] u as = (Inr db', [])"
  using assms by (induction as arbitrary: db) (auto simp: insert_alias_def image_iff)

lemma replaceAliases_succeeds:
  assumes "distinct as" "list_all (\<lambda>a. sqlite_length a \<noteq> 0) as"
  shows "\<exists>db'. replaceAliases db [] u as = (Inr db', [])"
  using insert_aliases_succeeds [OF assms, of u "delete_aliases db u"]
  by (auto simp: replaceAliases_def delete_aliases_def)

lemma Update_succeeds:
  assumes "list_all (\<lambda>a. sqlite_length a \<noteq> 0) (pol_Aliases policy)"
    and "validate policy = None" "0 < n" "db_abs db (pol_ServerUUID policy) = Some old" "pol_Revision old = n"
  shows "\<exists>db'. Update db [] policy n = (Inr (stored policy (n + 1)), db')"
proof -
  obtain tx where "update_row db policy n = Some tx"
    using assms(4,5) by (auto simp: update_row_def db_abs_def row_policy_def)
  moreover obtain tx' where "replaceAliases tx [] (pol_ServerUUID policy) (pol_Aliases policy) = (Inr tx', [])"
    using replaceAliases_succeeds [OF _ assms(1)] assms(2) by (auto simp: validate_None_iff)
  ultimately have u: "Update db [] policy n = (Get tx' [] (pol_ServerUUID policy), tx')"
    using assms(2,3) by (simp add: Update_def)
  show ?thesis
  proof (cases "Get tx' [] (pol_ServerUUID policy)")
    case (Inl e)
    with Update_faultless_error [of db policy n e tx'] u assms have False
      by (auto simp: Get_faultless validate_None_iff split: if_splits)
    then show ?thesis ..
  next
    case (Inr q)
    with u Update_spec [OF u] show ?thesis by auto
  qed
qed

lemma Update_read_back:
  assumes "Update db [] policy n = (Inr q, db')"
  shows "Get db' [] (pol_ServerUUID policy) = Inr (stored policy (n + 1))"
  using Update_spec [OF assms] Update_cases [OF assms]
  by (auto simp: Get_faultless validate_None_iff dest: spec_update_lookup)

interpretation policies: revision_store db_inv db_abs "\<lambda>policy. validate policy = None" "\<lambda>db. Update db []"
proof
  fix db db' :: policy_db and policy q n
  assume "db_inv db" and u: "Update db [] policy n = (Inr q, db')"
  then have "db_inv db'" using db_inv_Update [of db "[]" policy n] by simp
  moreover have "db_abs db' (pol_ServerUUID policy) = Some q" "q = stored policy (n + 1)"
    using Update_spec [OF u] by (auto dest: spec_update_lookup)
  ultimately show "db_inv db' \<and> db_abs db' (pol_ServerUUID policy) = Some q \<and> pol_Revision q = n + 1"
    by (simp add: stored_def)
qed (auto simp: Update_faultless_error Update_stale)

section \<open>Properties\<close>

definition example_db :: policy_db where
  "example_db = \<lparr>policies_tbl = [(''6f1c'', \<lparr>row_primary = None, row_excluded = False, row_revision = 4\<rparr>)],
     aliases_tbl = [(''6f1c'', ''b.mc.example.com'')]\<rparr>"

definition example_write :: Policy where
  "example_write = \<lparr>pol_ServerUUID = ''6f1c'', pol_PrimaryHostname = ''play.mc.example.com'',
     pol_Aliases = [''z.mc.example.com'', ''a.mc.example.com''], pol_Excluded = False, pol_Revision = 0\<rparr>"

lemma example_db_inv: "db_inv example_db"
  by code_simp

lemma example_update:
  "Update example_db [] example_write 4 =
     (Inr (stored example_write 5), snd (Update example_db [] example_write 4))"
  by code_simp

text \<open>
  C4. Whatever calls of the database fail, \<open>Create\<close>, \<open>Update\<close> and \<open>Delete\<close> either leave
  the database untouched and report an error, or perform exactly the step of the specification on
  the map from UUIDs to policies: insert at revision 1, replace at the next revision provided the
  caller names the current one, remove provided the caller names the current one.  A policy returned
  by a write is the one stored.
\<close>

theorem policy_store_refines_map:
  "(case Create db fs policy of (r, db') \<Rightarrow>
      (db' = db \<and> r \<in> range Inl) \<or>
      (spec_create (db_abs db) policy = Some (db_abs db') \<and> r \<in> insert (Inr (stored policy 1)) (range Inl))) \<and>
   (case Update db fs policy n of (r, db') \<Rightarrow>
      (db' = db \<and> r \<in> range Inl) \<or>
      (spec_update (db_abs db) policy n = Some (db_abs db') \<and>
       r \<in> insert (Inr (stored policy (n + 1))) (range Inl))) \<and>
   (case Delete db fs u n of (e, db') \<Rightarrow>
      (db' = db \<and> e \<in> range Some) \<or>
      (spec_delete (db_abs db) u n = Some (db_abs db') \<and> e = None))"
proof (intro conjI)
  have *: "\<not> is_ok r \<longleftrightarrow> r \<in> range Inl" "(\<forall>q. r = Inr q \<longrightarrow> q = p) \<longleftrightarrow> r \<in> insert (Inr p) (range Inl)"
    for r :: "policy_error + Policy" and p
    by (cases r; auto)+
  show "case Create db fs policy of (r, db') \<Rightarrow>
      (db' = db \<and> r \<in> range Inl) \<or>
      (spec_create (db_abs db) policy = Some (db_abs db') \<and> r \<in> insert (Inr (stored policy 1)) (range Inl))"
    using Create_spec [of db fs policy] unfolding * by (auto split: prod.split)
  show "case Update db fs policy n of (r, db') \<Rightarrow>
      (db' = db \<and> r \<in> range Inl) \<or>
      (spec_update (db_abs db) policy n = Some (db_abs db') \<and>
       r \<in> insert (Inr (stored policy (n + 1))) (range Inl))"
    using Update_spec [of db fs policy n] unfolding * by (auto split: prod.split)
  show "case Delete db fs u n of (e, db') \<Rightarrow>
      (db' = db \<and> e \<in> range Some) \<or>
      (spec_delete (db_abs db) u n = Some (db_abs db') \<and> e = None)"
    using Delete_spec [of db fs u n] by (force split: prod.split)
qed

text \<open>
  C15. Every operation keeps the tables consistent, whichever calls fail: UUIDs are unique and not
  blank, revisions are positive, aliases are unique, not blank and belong to a stored policy.
\<close>

theorem policy_store_invariant:
  assumes "db_inv db"
  shows "db_inv (snd (Create db fs policy)) \<and> db_inv (snd (Update db fs policy n)) \<and>
         db_inv (snd (Delete db fs u n))"
  using assms by (simp add: db_inv_Create db_inv_Update db_inv_Delete)

theorem policy_store_invariant_witness:
  "db_inv (snd (Create example_db [False, True] example_write)) \<and>
   db_inv (snd (Update example_db [False, True] example_write 4)) \<and>
   db_inv (snd (Delete example_db [False, True] ''6f1c'' 4))"
  by (rule policy_store_invariant [OF example_db_inv])

text \<open>
  C16. Optimistic concurrency: of any sequence of valid updates of one policy that all name the same
  revision, at most one succeeds.
\<close>

theorem update_at_most_one_winner:
  assumes "db_inv db" "0 < n"
    and "list_all (\<lambda>policy. validate policy = None \<and> pol_ServerUUID policy = u) writes"
  shows "length (filter id (run_writes (\<lambda>db. Update db []) db n writes)) \<le> 1"
  using assms by (rule policies.one_winner)

theorem update_at_most_one_winner_witness:
  "length (filter id (run_writes (\<lambda>db. Update db []) example_db 4 [example_write, example_write])) \<le> 1 \<and>
   run_writes (\<lambda>db. Update db []) example_db 4 [example_write, example_write] = [True, False]"
proof
  have "list_all (\<lambda>policy. validate policy = None \<and> pol_ServerUUID policy = ''6f1c'') [example_write, example_write]"
    by code_simp
  then show "length (filter id (run_writes (\<lambda>db. Update db []) example_db 4 [example_write, example_write])) \<le> 1"
    by (intro update_at_most_one_winner [OF example_db_inv]) auto
qed code_simp

text \<open>
  Outside database failures \<open>Update\<close> decides exactly as documented: an invalid policy or
  a revision that is not positive is rejected, an unknown server is reported as not found, a revision
  that is not the stored one as a conflict, and otherwise the new policy is stored and returned at
  the next revision, with its aliases sorted; \<open>Get\<close> then reads it back.
\<close>

lemma update_decides:
  assumes "list_all (\<lambda>alias. sqlite_length alias \<noteq> 0) (pol_Aliases policy)"
  shows "Update db [] policy n =
    (if validate policy \<noteq> None \<or> n \<le> 0 then (Inl ErrInvalid, db)
     else case Get db [] (pol_ServerUUID policy) of
       Inl _ \<Rightarrow> (Inl ErrNotFound, db)
     | Inr old \<Rightarrow>
         if pol_Revision old \<noteq> n then (Inl ErrConflict, db)
         else (Inr (stored policy (n + 1)), snd (Update db [] policy n))) \<and>
    (if is_ok (fst (Update db [] policy n))
     then Get (snd (Update db [] policy n)) [] (pol_ServerUUID policy) = Inr (stored policy (n + 1))
     else snd (Update db [] policy n) = db)"
proof (cases "validate policy \<noteq> None \<or> n \<le> 0")
  case True
  then show ?thesis by (simp add: Update_rejects)
next
  case False
  then have v: "validate policy = None" "0 < n" "TrimSpace (pol_ServerUUID policy) \<noteq> []"
    by (auto simp: validate_None_iff)
  show ?thesis
  proof (cases "db_abs db (pol_ServerUUID policy)")
    case None
    with v show ?thesis by (simp add: Update_absent Get_faultless)
  next
    case (Some old)
    show ?thesis
    proof (cases "pol_Revision old = n")
      case True
      with Some v Update_succeeds [OF assms, of n db old]
      obtain db' where "Update db [] policy n = (Inr (stored policy (n + 1)), db')" by auto
      with v Some True Update_read_back [OF this] show ?thesis by (simp add: Get_faultless)
    qed (use Some v in \<open>simp add: Update_stale Get_faultless\<close>)
  qed
qed

lemma update_decides_example:
  "Update example_db [] example_write 4 =
     (Inr (stored example_write 5), snd (Update example_db [] example_write 4)) \<and>
   Get (snd (Update example_db [] example_write 4)) [] ''6f1c'' = Inr (stored example_write 5)"
proof -
  have a: "list_all (\<lambda>alias. sqlite_length alias \<noteq> 0) (pol_Aliases example_write)" by code_simp
  have u: "pol_ServerUUID example_write = ''6f1c''" by (simp add: example_write_def)
  have "is_ok (fst (Update example_db [] example_write 4))" by (subst example_update) simp
  with update_decides [OF a, of example_db 4] example_update show ?thesis unfolding u by simp
qed

end
