(* ===== verification/History.thy ===== *)
theory History
  imports ReconStatus "HOL-Library.Product_Lexorder"
begin

text \<open>
  The two bounded histories: operational events (\<open>internal/operationalhistory/history.go\<close>) and
  sensitive actions (\<open>internal/actionhistory/store.go\<close>).

  A table is the list of its rows with the last identifier \<open>AUTOINCREMENT\<close> handed out.  Times are
  nanoseconds; \<open>0\<close> is Go's zero time, for which the clock reading \<open>now\<close> is stored.  Database
  calls, including those a done context makes fail, fail as the \<open>faults\<close> list says; a transaction
  that does not commit leaves the table as it was.
\<close>

section \<open>Bounded tables\<close>

record 'e row =
  row_id :: int
  row_at :: int
  row_event :: 'e

record 'e log =
  log_rows :: "'e row list"
  log_last_id :: int

definition row_key :: "'e row \<Rightarrow> int \<times> int" where
  "row_key r = (row_at r, row_id r)"

text \<open>\<open>ORDER BY occurred_at DESC, id DESC\<close>.\<close>

definition newest_first :: "'e row list \<Rightarrow> 'e row list" where
  "newest_first rs = rev (sort_key row_key rs)"

definition log_insert :: "int \<Rightarrow> 'e \<Rightarrow> 'e log \<Rightarrow> 'e log" where
  "log_insert at event l =
     \<lparr>log_rows = log_rows l @ [\<lparr>row_id = log_last_id l + 1, row_at = at, row_event = event\<rparr>], log_last_id = log_last_id l + 1\<rparr>"

text \<open>\<open>DELETE ... WHERE id NOT IN (SELECT id ... LIMIT retention)\<close>.\<close>

definition log_prune :: "nat \<Rightarrow> 'e log \<Rightarrow> 'e log" where
  "log_prune retention l =
     (let kept = map row_id (take retention (newest_first (log_rows l)))
      in l\<lparr>log_rows := filter (\<lambda>r. row_id r \<in> set kept) (log_rows l)\<rparr>)"

definition DefaultRetention :: nat where
  "DefaultRetention = 1000"

definition historyNewStore :: "int list \<Rightarrow> nat" where
  "historyNewStore retention =
     (case retention of [] \<Rightarrow> DefaultRetention | n # _ \<Rightarrow> if n > 0 then nat n else DefaultRetention)"

text \<open>The action history has a retention of its own, with the same default.\<close>

definition actionDefaultRetention :: nat where
  "actionDefaultRetention = 1000"

definition actionNewStore :: "int list \<Rightarrow> nat" where
  "actionNewStore retention =
     (case retention of [] \<Rightarrow> actionDefaultRetention | n # _ \<Rightarrow> if n > 0 then nat n else actionDefaultRetention)"

section \<open>Operational history\<close>

datatype history_error = ErrInvalidEvent | HistoryDB string

record Event =
  ev_Kind :: string
  ev_Outcome :: string
  ev_Desired :: int
  ev_Created :: int
  ev_Updated :: int
  ev_Deleted :: int
  ev_Changed :: bool

definition validateEvent :: "Event \<Rightarrow> history_error option" where
  "validateEvent event =
     (if ev_Kind event \<notin> set [''reconciliation'', ''setup'', ''settings'', ''manual_reconcile''] then Some ErrInvalidEvent
      else if ev_Outcome event \<notin> set [''not_configured'', ''success'', ''failure''] then Some ErrInvalidEvent
      else if ev_Desired event < 0 \<or> ev_Created event < 0 \<or> ev_Updated event < 0 \<or> ev_Deleted event < 0
      then Some ErrInvalidEvent else None)"

definition stamp :: "int \<Rightarrow> int \<Rightarrow> int" where
  "stamp occurredAt now = (if occurredAt = 0 then now else occurredAt)"

definition historyAppend ::
  "nat \<Rightarrow> faults \<Rightarrow> int \<Rightarrow> int \<Rightarrow> Event \<Rightarrow> Event log \<Rightarrow> (history_error + int \<times> int) \<times> Event log" where
  "historyAppend retention fs now occurredAt event l =
     (case validateEvent event of
        Some e \<Rightarrow> (Inl e, l)
      | None \<Rightarrow>
          let at = stamp occurredAt now; tx = log_insert at event l
          in if fault fs then (Inl (HistoryDB ''begin operational history write''), l)
             else if fault (drop 1 fs) then (Inl (HistoryDB ''insert operational history''), l)
             else if fault (drop 2 fs) then (Inl (HistoryDB ''read operational history identifier''), l)
             else if fault (drop 3 fs) then (Inl (HistoryDB ''prune operational history''), l)
             else if fault (drop 4 fs) then (Inl (HistoryDB ''commit operational history write''), l)
             else (Inr (log_last_id tx, at), log_prune retention tx))"

definition MaxPageSize :: int where
  "MaxPageSize = 100"

definition page_limit :: "int \<Rightarrow> nat" where
  "page_limit limit = nat (if limit \<le> 0 \<or> limit > MaxPageSize then MaxPageSize else limit)"

definition historyList :: "faults \<Rightarrow> int \<Rightarrow> 'e log \<Rightarrow> history_error + 'e row list" where
  "historyList fs limit l =
     (if fault fs then Inl (HistoryDB ''list operational history'')
      else if fault (drop 1 fs) then Inl (HistoryDB ''iterate operational history'')
      else Inr (take (page_limit limit) (newest_first (log_rows l))))"

section \<open>Sensitive actions\<close>

record ActionEvent =
  ae_Action :: string
  ae_Outcome :: string

definition validAction :: "string \<Rightarrow> bool" where
  "validAction v \<longleftrightarrow> v \<in> set [''bootstrap_authorization'', ''setup'', ''settings_update'', ''manual_reconciliation'',
     ''route_policy_mutation'', ''rate_limit_rejection'']"

definition validOutcome :: "string \<Rightarrow> bool" where
  "validOutcome v \<longleftrightarrow> v \<in> set [''success'', ''failure'', ''denied'', ''canceled'']"

definition actionAppend ::
  "nat \<Rightarrow> faults \<Rightarrow> int \<Rightarrow> int \<Rightarrow> ActionEvent \<Rightarrow> ActionEvent log \<Rightarrow> history_error option \<times> ActionEvent log" where
  "actionAppend retention fs now occurredAt event l =
     (if \<not> validAction (ae_Action event) \<or> \<not> validOutcome (ae_Outcome event) then (Some ErrInvalidEvent, l)
      else if fault fs then (Some (HistoryDB ''begin sensitive action history''), l)
      else if fault (drop 1 fs) then (Some (HistoryDB ''insert sensitive action history''), l)
      else if fault (drop 2 fs) then (Some (HistoryDB ''prune sensitive action history''), l)
      else if fault (drop 3 fs) then (Some (HistoryDB ''commit sensitive action history''), l)
      else (None, log_prune retention (log_insert (stamp occurredAt now) event l)))"

definition actionList :: "faults \<Rightarrow> int \<Rightarrow> ActionEvent log \<Rightarrow> history_error + ActionEvent row list" where
  "actionList fs limit l =
     (if fault fs then Inl (HistoryDB ''list sensitive action history'')
      else if fault (drop 1 fs) then Inl (HistoryDB ''scan sensitive action history'')
      else Inr (take (nat (if limit \<le> 0 \<or> limit > 100 then 100 else limit)) (newest_first (log_rows l))))"

section \<open>The recorder of reconciliations\<close>

definition outcome_name :: "ReconciliationOutcome \<Rightarrow> string" where
  "outcome_name outcome =
     (case outcome of OutcomeNotConfigured \<Rightarrow> ''not_configured'' | OutcomeSuccess \<Rightarrow> ''success'' | OutcomeFailure \<Rightarrow> ''failure'')"

definition NewReconciliationRecorder :: "nat \<Rightarrow> nat option" where
  "NewReconciliationRecorder store = Some store"

definition RecordReconciliation ::
  "nat option \<Rightarrow> faults \<Rightarrow> int \<Rightarrow> ReconciliationOutcome \<Rightarrow> ReconciliationResult \<Rightarrow> Event log \<Rightarrow> history_error option \<times> Event log" where
  "RecordReconciliation store fs now outcome result l =
     (case store of
        None \<Rightarrow> (None, l)
      | Some retention \<Rightarrow>
          (case historyAppend retention fs now 0
              \<lparr>ev_Kind = ''reconciliation'', ev_Outcome = outcome_name outcome, ev_Desired = int (Desired result),
               ev_Created = int (Created result), ev_Updated = int (Updated result), ev_Deleted = int (Deleted result),
               ev_Changed = Changed result\<rparr> l of
             (Inl e, l') \<Rightarrow> (Some e, l')
           | (Inr r, l') \<Rightarrow> (None, l')))"

section \<open>What a bounded table keeps\<close>

definition ids_ok :: "'e log \<Rightarrow> bool" where
  "ids_ok l \<longleftrightarrow> distinct (map row_id (log_rows l)) \<and> (\<forall>r\<in>set (log_rows l). row_id r \<le> log_last_id l)"

definition log_inv :: "nat \<Rightarrow> 'e log \<Rightarrow> bool" where
  "log_inv retention l \<longleftrightarrow> ids_ok l \<and> length (log_rows l) \<le> retention"

definition empty_log :: "'e log" where
  "empty_log = \<lparr>log_rows = [], log_last_id = 0\<rparr>"

lemma log_inv_empty: "log_inv n empty_log"
  by (simp add: log_inv_def ids_ok_def empty_log_def)

lemma set_newest_first [simp]: "set (newest_first rs) = set rs"
  by (simp add: newest_first_def)

lemma length_newest_first [simp]: "length (newest_first rs) = length rs"
  by (simp add: newest_first_def)

lemma ids_ok_insert: "ids_ok l \<Longrightarrow> ids_ok (log_insert at e l)"
  by (auto simp: ids_ok_def log_insert_def)

lemma distinct_newest_first: "distinct (map row_id rs) \<Longrightarrow> distinct (newest_first rs)"
proof -
  assume "distinct (map row_id rs)"
  then have "distinct rs" by (simp add: distinct_map)
  then show ?thesis by (simp add: newest_first_def)
qed

lemma set_log_prune:
  assumes "ids_ok l"
  shows "set (log_rows (log_prune n l)) = set (take n (newest_first (log_rows l)))"
proof -
  have inj: "inj_on row_id (set (log_rows l))" using assms by (simp add: ids_ok_def distinct_map)
  have sub: "set (take n (newest_first (log_rows l))) \<subseteq> set (log_rows l)"
    using set_take_subset [of n "newest_first (log_rows l)"] by simp
  have "row_id r \<in> row_id ` set (take n (newest_first (log_rows l))) \<longleftrightarrow> r \<in> set (take n (newest_first (log_rows l)))"
    if "r \<in> set (log_rows l)" for r
    using inj_on_image_mem_iff [OF inj that sub] .
  then show ?thesis using sub by (auto simp: log_prune_def Let_def)
qed

lemma ids_ok_prune: "ids_ok l \<Longrightarrow> ids_ok (log_prune n l)"
  by (auto simp: ids_ok_def log_prune_def Let_def distinct_map_filter)

lemma length_log_prune:
  assumes "ids_ok l"
  shows "length (log_rows (log_prune n l)) = min n (length (log_rows l))"
proof -
  have "distinct (log_rows (log_prune n l))"
    using ids_ok_prune [OF assms] by (simp add: ids_ok_def distinct_map)
  moreover have "distinct (take n (newest_first (log_rows l)))"
    using assms by (simp add: ids_ok_def distinct_newest_first)
  ultimately show ?thesis
    using set_log_prune [OF assms, of n] by (metis distinct_card length_newest_first length_take min.commute)
qed

lemma newest_first_sorted: "sorted_wrt (\<lambda>r s. row_key s \<le> row_key r) (newest_first rs)"
proof -
  have "sorted_wrt (\<le>) (map row_key (sort_key row_key rs))" by simp
  then show ?thesis by (simp add: newest_first_def sorted_wrt_rev sorted_wrt_map)
qed

lemma pruned_older:
  assumes "ids_ok l" "r \<in> set (log_rows (log_prune n l))" "s \<in> set (log_rows l) - set (log_rows (log_prune n l))"
  shows "row_key s < row_key r"
proof -
  let ?ns = "newest_first (log_rows l)"
  have r: "r \<in> set (take n ?ns)" using assms(1,2) by (simp add: set_log_prune)
  have s: "s \<in> set (drop n ?ns)"
    using assms(1,3) set_log_prune [OF assms(1), of n] by (metis DiffE Un_iff append_take_drop_id set_append set_newest_first)
  have "sorted_wrt (\<lambda>r s. row_key s \<le> row_key r) (take n ?ns @ drop n ?ns)" using newest_first_sorted by simp
  then have le: "row_key s \<le> row_key r" using r s by (auto simp only: sorted_wrt_append)
  have inj: "inj_on row_id (set (log_rows l))" using assms(1) by (simp add: ids_ok_def distinct_map)
  have "r \<in> set (log_rows l)" "s \<in> set (log_rows l)" "r \<noteq> s"
    using assms(2,3) by (auto simp: log_prune_def Let_def)
  then have "row_key s \<noteq> row_key r" using inj by (auto simp: row_key_def dest: inj_onD)
  with le show ?thesis by (rule order_le_neq_trans)
qed

text \<open>The contract of an append to a bounded table.\<close>

definition keeps_newest :: "nat \<Rightarrow> 'e row \<Rightarrow> 'e log \<Rightarrow> 'e log \<Rightarrow> bool" where
  "keeps_newest n new l l' \<longleftrightarrow>
     (let all_rows = log_rows l @ [new]
      in set (log_rows l') \<subseteq> set all_rows \<and> length (log_rows l') = min n (length all_rows) \<and>
         (\<forall>r\<in>set (log_rows l'). \<forall>s\<in>set all_rows - set (log_rows l'). row_key s < row_key r))"

lemma keeps_newest_prune:
  assumes "ids_ok l"
  shows "keeps_newest n \<lparr>row_id = log_last_id l + 1, row_at = at, row_event = e\<rparr> l (log_prune n (log_insert at e l))"
proof -
  have rows: "log_rows (log_insert at e l) = log_rows l @ [\<lparr>row_id = log_last_id l + 1, row_at = at, row_event = e\<rparr>]"
    by (simp add: log_insert_def)
  have i: "ids_ok (log_insert at e l)" by (rule ids_ok_insert [OF assms])
  have "set (log_rows (log_prune n (log_insert at e l))) \<subseteq> set (log_rows (log_insert at e l))"
    by (auto simp: log_prune_def Let_def)
  with length_log_prune [OF i] pruned_older [OF i] show ?thesis
    unfolding keeps_newest_def Let_def rows by blast
qed

locale bounded_log =
  fixes retention :: nat
    and append :: "'c \<Rightarrow> 'e log \<Rightarrow> 'r \<times> 'e log"
    and accepted :: "'r \<Rightarrow> bool"
    and at :: "'c \<Rightarrow> int"
    and event :: "'c \<Rightarrow> 'e"
  assumes append_accepted: "append c l = (r, l') \<Longrightarrow> accepted r \<Longrightarrow> l' = log_prune retention (log_insert (at c) (event c) l)"
    and append_rejected: "append c l = (r, l') \<Longrightarrow> \<not> accepted r \<Longrightarrow> l' = l"
begin

lemma append_inv:
  assumes "log_inv retention l" "append c l = (r, l')"
  shows "log_inv retention l'"
proof (cases "accepted r")
  case True
  have i: "ids_ok (log_insert (at c) (event c) l)" using assms(1) by (simp add: log_inv_def ids_ok_insert)
  show ?thesis
    using append_accepted [OF assms(2) True] length_log_prune [OF i, of retention] ids_ok_prune [OF i]
    by (simp add: log_inv_def)
qed (use append_rejected [OF assms(2)] assms(1) in simp)

lemma appends_inv: "log_inv retention (fold (\<lambda>c l. snd (append c l)) cs empty_log)"
proof -
  have "log_inv retention l \<Longrightarrow> log_inv retention (fold (\<lambda>c l. snd (append c l)) cs l)" for l :: "'e log"
    by (induction cs arbitrary: l) (use append_inv in \<open>auto simp: prod_eq_iff\<close>)
  then show ?thesis using log_inv_empty by blast
qed

lemma append_newest:
  assumes "log_inv retention l" "append c l = (r, l')"
  shows "if accepted r then keeps_newest retention \<lparr>row_id = log_last_id l + 1, row_at = at c, row_event = event c\<rparr> l l' else l' = l"
proof -
  have "ids_ok l" using assms(1) by (simp add: log_inv_def)
  from keeps_newest_prune [OF this] append_accepted [OF assms(2)] append_rejected [OF assms(2)] show ?thesis by auto
qed

end

text \<open>A call: which database calls fail, the clock reading, the event's own time and the event.\<close>

type_synonym 'e append_call = "faults \<times> int \<times> int \<times> 'e"

definition call_time :: "'e append_call \<Rightarrow> int" where
  "call_time c = (case c of (fs, now, occurredAt, event) \<Rightarrow> stamp occurredAt now)"

definition call_event :: "'e append_call \<Rightarrow> 'e" where
  "call_event c = (case c of (fs, now, occurredAt, event) \<Rightarrow> event)"

interpretation operational: bounded_log n "\<lambda>(fs, now, occurredAt, event). historyAppend n fs now occurredAt event"
    is_ok call_time call_event for n
  by unfold_locales
    (auto simp: historyAppend_def call_time_def call_event_def Let_def split: option.splits if_splits)

interpretation actions: bounded_log n "\<lambda>(fs, now, occurredAt, event). actionAppend n fs now occurredAt event"
    "\<lambda>e. e = None" call_time call_event for n
  by unfold_locales
    (auto simp: actionAppend_def call_time_def call_event_def split: if_splits)

section \<open>Properties\<close>

definition example_event :: Event where
  "example_event = \<lparr>ev_Kind = ''setup'', ev_Outcome = ''success'', ev_Desired = 0, ev_Created = 0, ev_Updated = 0,
     ev_Deleted = 0, ev_Changed = False\<rparr>"

definition example_log :: "Event log" where
  "example_log = \<lparr>log_rows = [\<lparr>row_id = 1, row_at = 20, row_event = example_event\<rparr>,
      \<lparr>row_id = 2, row_at = 10, row_event = example_event\<rparr>], log_last_id = 2\<rparr>"

text \<open>
  C32. Recording an operational event is atomic and bounded: a rejected or failed append changes
  nothing; an accepted one stores the event under a fresh identifier and drops exactly the oldest
  events (by time, then by identifier) that exceed the retention, whatever the clock did.
\<close>

theorem history_append_newest:
  assumes "log_inv n l" and "historyAppend n fs now occurredAt event l = (r, l')"
  shows "log_inv n l' \<and>
     (case r of
        Inl e \<Rightarrow> l' = l
      | Inr (i, at) \<Rightarrow> i = log_last_id l + 1 \<and> at = stamp occurredAt now \<and>
          keeps_newest n \<lparr>row_id = i, row_at = at, row_event = event\<rparr> l l')"
proof -
  have a: "(\<lambda>(fs, now, occurredAt, event). historyAppend n fs now occurredAt event) (fs, now, occurredAt, event) l = (r, l')"
    using assms(2) by simp
  have "i = log_last_id l + 1 \<and> at = stamp occurredAt now" if "r = Inr (i, at)" for i at
    using assms(2) that by (auto simp: historyAppend_def Let_def log_insert_def split: option.splits if_splits)
  with operational.append_inv [OF assms(1) a] operational.append_newest [OF assms(1) a] show ?thesis
    by (auto simp: call_time_def call_event_def split: sum.split)
qed

theorem history_append_newest_witness:
  "keeps_newest 2 \<lparr>row_id = 3, row_at = 15, row_event = example_event\<rparr> example_log (snd (historyAppend 2 [] 15 0 example_event example_log))"
proof -
  have i: "log_inv 2 example_log" by (simp add: log_inv_def ids_ok_def example_log_def)
  have "fst (historyAppend 2 [] 15 0 example_event example_log) = Inr (3, 15)" by code_simp
  then have "historyAppend 2 [] 15 0 example_event example_log =
      (Inr (3, 15), snd (historyAppend 2 [] 15 0 example_event example_log))" by (metis prod.collapse)
  from history_append_newest [OF i this] show ?thesis by simp
qed

end
