(* ===== verification/Limiter.thy ===== *)
theory Limiter
  imports Prelude
begin

text \<open>
  The throttle for sensitive actions, \<open>internal/actioncontrol/limiter.go\<close>.

  Times are nanoseconds since Go's zero time, so that \<open>0\<close> is the zero value of the array
  \<open>next\<close>; an action is its number.  A nil limiter is \<open>None\<close>.
\<close>

abbreviation ActionSetup :: nat where "ActionSetup \<equiv> 0"
abbreviation ActionSettings :: nat where "ActionSettings \<equiv> 1"
abbreviation ActionReconcile :: nat where "ActionReconcile \<equiv> 2"

record Limiter =
  lim_interval :: int
  lim_next :: "int list"

definition limiterNew :: "int \<Rightarrow> Limiter" where
  "limiterNew interval = \<lparr>lim_interval = interval, lim_next = [0, 0, 0]\<rparr>"

definition Allow :: "nat \<Rightarrow> int \<Rightarrow> Limiter option \<Rightarrow> bool \<times> Limiter option" where
  "Allow action now l =
     (case l of
        None \<Rightarrow> (True, None)
      | Some lim \<Rightarrow>
          if lim_interval lim \<le> 0 \<or> action > ActionReconcile then (True, l)
          else if now < lim_next lim ! action then (False, l)
          else (True, Some (lim\<lparr>lim_next := (lim_next lim)[action := now + lim_interval lim]\<rparr>)))"

text \<open>The answers to a sequence of requests, each an action and the clock reading.\<close>

fun answers :: "(nat \<times> int) list \<Rightarrow> Limiter option \<Rightarrow> bool list" where
  "answers [] l = []"
| "answers ((action, now) # rest) l = (case Allow action now l of (ok, l') \<Rightarrow> ok # answers rest l')"

section \<open>Reference\<close>

text \<open>One class of actions alone: a request passes when the interval since the last one that passed is over.\<close>

fun spaced :: "int \<Rightarrow> int \<Rightarrow> int list \<Rightarrow> bool list" where
  "spaced interval free [] = []"
| "spaced interval free (t # ts) =
     (if t < free then False # spaced interval free ts else True # spaced interval (t + interval) ts)"

definition answers_of :: "nat \<Rightarrow> (nat \<times> int) list \<Rightarrow> bool list \<Rightarrow> bool list" where
  "answers_of action requests as = map snd (filter (\<lambda>(r, a). fst r = action) (zip requests as))"

definition times_of :: "nat \<Rightarrow> (nat \<times> int) list \<Rightarrow> int list" where
  "times_of action requests = map snd (filter (\<lambda>r. fst r = action) requests)"

lemma length_answers [simp]: "length (answers requests l) = length requests"
  by (induction requests l rule: answers.induct) (auto split: prod.split)

lemma answers_independent:
  assumes "lim_interval lim > 0" "length (lim_next lim) = 3" "action \<le> ActionReconcile"
  shows "answers_of action requests (answers requests (Some lim)) =
    spaced (lim_interval lim) (lim_next lim ! action) (times_of action requests)"
  using assms
proof (induction requests arbitrary: lim)
  case Nil
  then show ?case by (simp add: answers_of_def times_of_def)
next
  case (Cons request requests)
  obtain a now where r: "request = (a, now)" by fastforce
  have "\<exists>ok lim'. Allow a now (Some lim) = (ok, Some lim')" by (auto simp: Allow_def)
  then obtain ok lim' where al: "Allow a now (Some lim) = (ok, Some lim')" by blast
  have l': "lim_interval lim' = lim_interval lim" "length (lim_next lim') = 3"
    using al Cons.prems(2) by (auto simp: Allow_def split: if_splits)
  have ih: "answers_of action requests (answers requests (Some lim')) =
      spaced (lim_interval lim) (lim_next lim' ! action) (times_of action requests)"
    using Cons.IH [of lim'] Cons.prems(1,3) l' by simp
  show ?case
  proof (cases "a = action")
    case True
    then have "ok = (\<not> now < lim_next lim ! action)"
      "lim_next lim' ! action = (if ok then now + lim_interval lim else lim_next lim ! action)"
      using al Cons.prems by (auto simp: Allow_def split: if_splits)
    then show ?thesis using ih al [unfolded True] True by (simp add: r answers_of_def times_of_def)
  next
    case False
    then have "lim_next lim' ! action = lim_next lim ! action"
      using al by (auto simp: Allow_def split: if_splits)
    then show ?thesis using ih False by (simp add: r al answers_of_def times_of_def)
  qed
qed

text \<open>The times at which the reference lets requests pass are an interval apart.\<close>

lemma spaced_apart:
  assumes "0 < interval"
  shows "sorted_wrt (\<lambda>t u. t + interval \<le> u) (map fst (filter snd (zip ts (spaced interval free ts)))) \<and>
    (\<forall>t\<in>set (map fst (filter snd (zip ts (spaced interval free ts)))). free \<le> t)"
proof (induction ts arbitrary: free)
  case (Cons t ts)
  show ?case
  proof (cases "t < free")
    case False
    let ?rest = "map fst (filter snd (zip ts (spaced interval (t + interval) ts)))"
    have "sorted_wrt (\<lambda>t u. t + interval \<le> u) ?rest" and later: "t + interval \<le> u" if "u \<in> set ?rest" for u
      using Cons.IH [of "t + interval"] that by blast+
    then have "sorted_wrt (\<lambda>t u. t + interval \<le> u) (t # ?rest)" using Cons.IH [of "t + interval"] by simp
    moreover have "free \<le> u" if "u \<in> set (t # ?rest)" for u
    proof (cases "u = t")
      case True
      with False show ?thesis by simp
    next
      case ne: False
      then have "u \<in> set ?rest" using that by simp
      from later [OF this] False assms show ?thesis by simp
    qed
    ultimately show ?thesis using False by simp
  qed (use Cons.IH [of free] in simp)
qed simp

section \<open>Properties\<close>

text \<open>
  C33. The throttle decides every class of actions on its own: the answers to the requests of one class
  are those of a reference that looks at this class only and lets a request pass exactly when the
  interval since the last one that passed is over; so two requests of a class that pass are at least
  the interval apart, even when the clock goes back.
\<close>

theorem limiter_spaces_each_action:
  assumes "0 < interval" and "action \<le> ActionReconcile"
  shows "answers_of action requests (answers requests (Some (limiterNew interval))) =
       spaced interval 0 (times_of action requests) \<and>
     sorted_wrt (\<lambda>t u. t + interval \<le> u)
       (map fst (filter snd (zip (times_of action requests) (spaced interval 0 (times_of action requests)))))"
proof -
  have "lim_next (limiterNew interval) ! action = 0"
    using assms(2) by (cases action; cases "action - 1") (auto simp: limiterNew_def nth_Cons split: nat.split)
  with answers_independent [of "limiterNew interval" action requests] assms spaced_apart
  show ?thesis by (simp add: limiterNew_def)
qed

definition example_requests :: "(nat \<times> int) list" where
  "example_requests = [(0, 5), (2, 6), (0, 7), (0, 15), (2, 12)]"

theorem limiter_spaces_each_action_witness:
  "answers_of 0 example_requests (answers example_requests (Some (limiterNew 10))) = spaced 10 0 (times_of 0 example_requests) \<and>
   answers example_requests (Some (limiterNew 10)) = [True, True, False, True, False]"
proof -
  have "answers example_requests (Some (limiterNew 10)) = [True, True, False, True, False]" by code_simp
  with limiter_spaces_each_action [of 10 0 example_requests] show ?thesis by simp
qed

end
