(* ===== verification/Auth.thy ===== *)
theory Auth
  imports GoStrings
begin

text \<open>
  Authorization of requests: the one-time setup token (\<open>internal/bootstrap/authorizer.go\<close>) and the
  OIDC identities of viewers and operators (\<open>internal/dashboardauth/auth.go\<close>).

  A request is what the authorizers read of it, its \<open>Authorization\<close> header.  The verification of
  an ID token by the OIDC library and the decoding of JSON are parameters.
\<close>

text \<open>\<open>strings.Fields\<close>.\<close>

fun split_spaces :: "string \<Rightarrow> string \<Rightarrow> string list" where
  "split_spaces [] word = [word]"
| "split_spaces (c # cs) word = (if unicode_IsSpace c then word # split_spaces cs [] else split_spaces cs (word @ [c]))"

definition Fields :: "string \<Rightarrow> string list" where
  "Fields s = filter (\<lambda>w. w \<noteq> []) (split_spaces s [])"

section \<open>Bootstrap token\<close>

record 'e BootstrapAuthorizer =
  ba_reader :: "string \<Rightarrow> 'e + string"
  ba_tokenName :: string

datatype bootstrap_error = BootstrapUnauthorized

definition bootstrapNew :: "(string \<Rightarrow> 'e + string) option \<Rightarrow> string \<Rightarrow> bootstrap_error + 'e BootstrapAuthorizer" where
  "bootstrapNew reader tokenName =
     (case reader of
        None \<Rightarrow> Inl BootstrapUnauthorized
      | Some r \<Rightarrow> if TrimSpace tokenName = [] then Inl BootstrapUnauthorized else Inr \<lparr>ba_reader = r, ba_tokenName = tokenName\<rparr>)"

definition bootstrapBearerToken :: "string \<Rightarrow> string option" where
  "bootstrapBearerToken value =
     (case Fields value of
        [scheme, token] \<Rightarrow> if \<not> EqualFold scheme ''Bearer'' \<or> token = [] then None else Some token
      | _ \<Rightarrow> None)"

definition bootstrapAuthorize :: "'e BootstrapAuthorizer option \<Rightarrow> string option \<Rightarrow> bootstrap_error option" where
  "bootstrapAuthorize authorizer request =
     (case (authorizer, request) of
        (Some a, Some header) \<Rightarrow>
          (case bootstrapBearerToken header of
             None \<Rightarrow> Some BootstrapUnauthorized
           | Some provided \<Rightarrow>
               (case ba_reader a (ba_tokenName a) of
                  Inl e \<Rightarrow> Some BootstrapUnauthorized
                | Inr secret \<Rightarrow>
                    let expected = TrimSpace secret
                    in if expected = [] \<or> expected \<noteq> provided then Some BootstrapUnauthorized else None))
      | _ \<Rightarrow> Some BootstrapUnauthorized)"

section \<open>OIDC identities\<close>

datatype auth_error = ErrUnauthenticated | ErrForbidden

record identity =
  id_subject :: string
  id_roles :: "string list"

record 'j id_token =
  tok_Subject :: string
  tok_claims :: "(string \<times> 'j) list option"

record ('j, 'e) oidcVerifier =
  ov_verify :: "string \<Rightarrow> 'e + 'j id_token"
  ov_roles :: "'j \<Rightarrow> string list option"
  ov_roleClaim :: string

definition stringSliceClaim :: "('j \<Rightarrow> string list option) \<Rightarrow> 'j option \<Rightarrow> string list option" where
  "stringSliceClaim unmarshal value = (case value of None \<Rightarrow> None | Some v \<Rightarrow> unmarshal v)"

text \<open>\<open>Inl True\<close> is an error that is \<open>ErrForbidden\<close>, \<open>Inl False\<close> any other.\<close>

definition oidcVerify :: "('j, 'e) oidcVerifier \<Rightarrow> string \<Rightarrow> bool + identity" where
  "oidcVerify v rawToken =
     (case ov_verify v rawToken of
        Inl e \<Rightarrow> Inl False
      | Inr token \<Rightarrow>
          (case tok_claims token of
             None \<Rightarrow> Inl False
           | Some claims \<Rightarrow>
               (case stringSliceClaim (ov_roles v) (map_of claims (ov_roleClaim v)) of
                  None \<Rightarrow> Inl True
                | Some roles \<Rightarrow> Inr \<lparr>id_subject = tok_Subject token, id_roles = roles\<rparr>)))"

definition oidcBearerToken :: "string \<Rightarrow> auth_error + string" where
  "oidcBearerToken value =
     (if \<not> HasPrefix value ''Bearer '' then Inl ErrUnauthenticated
      else let token = TrimSpace (TrimPrefix value ''Bearer '')
           in if token = [] then Inl ErrUnauthenticated else Inr token)"

definition containsAny :: "string list \<Rightarrow> string list \<Rightarrow> bool" where
  "containsAny values targets \<longleftrightarrow> list_ex (\<lambda>target. list_ex (\<lambda>v. v = target) values) targets"

record oidcAuthorizer =
  oa_verify :: "string \<Rightarrow> bool + identity"
  oa_requiredRole :: string
  oa_operatorRole :: string

definition oidcAuthorize :: "oidcAuthorizer \<Rightarrow> string \<Rightarrow> string list \<Rightarrow> auth_error option" where
  "oidcAuthorize a header requiredRoles =
     (case oidcBearerToken header of
        Inl e \<Rightarrow> Some e
      | Inr token \<Rightarrow>
          (case oa_verify a token of
             Inl forbidden \<Rightarrow> Some (if forbidden then ErrForbidden else ErrUnauthenticated)
           | Inr identity \<Rightarrow>
               if TrimSpace (id_subject identity) = [] then Some ErrUnauthenticated
               else if \<not> containsAny (id_roles identity) requiredRoles then Some ErrForbidden
               else None))"

definition AuthorizeViewer :: "oidcAuthorizer \<Rightarrow> string \<Rightarrow> auth_error option" where
  "AuthorizeViewer a header = oidcAuthorize a header [oa_requiredRole a, oa_operatorRole a]"

definition AuthorizeOperator :: "oidcAuthorizer \<Rightarrow> string \<Rightarrow> auth_error option" where
  "AuthorizeOperator a header = oidcAuthorize a header [oa_operatorRole a]"

section \<open>Who is let in\<close>

lemma containsAny_iff: "containsAny values targets \<longleftrightarrow> set values \<inter> set targets \<noteq> {}"
  by (auto simp: containsAny_def list_ex_iff)

lemma oidcAuthorize_None_iff:
  "oidcAuthorize a header roles = None \<longleftrightarrow>
     (\<exists>token identity. oidcBearerToken header = Inr token \<and> oa_verify a token = Inr identity \<and>
        TrimSpace (id_subject identity) \<noteq> [] \<and> set (id_roles identity) \<inter> set roles \<noteq> {})"
  by (auto simp: oidcAuthorize_def containsAny_iff split: sum.splits if_splits)

lemma bootstrapAuthorize_None_iff:
  "bootstrapAuthorize (Some a) (Some header) = None \<longleftrightarrow>
     (\<exists>scheme secret. Fields header = [scheme, TrimSpace secret] \<and> EqualFold scheme ''Bearer'' \<and>
        ba_reader a (ba_tokenName a) = Inr secret \<and> TrimSpace secret \<noteq> [])"
  by (auto simp: bootstrapAuthorize_def bootstrapBearerToken_def Let_def split: option.splits sum.splits list.splits if_splits)

text \<open>
  What it means to hold a role: a bearer token that the provider vouches for, of a named subject with
  one of the roles; and to hold the setup token: a bearer token that is the mounted secret.
\<close>

definition bears_role :: "oidcAuthorizer \<Rightarrow> string \<Rightarrow> string set \<Rightarrow> bool" where
  "bears_role a header roles \<longleftrightarrow>
     (case oidcBearerToken header of
        Inl e \<Rightarrow> False
      | Inr token \<Rightarrow>
          (case oa_verify a token of
             Inl forbidden \<Rightarrow> False
           | Inr identity \<Rightarrow> TrimSpace (id_subject identity) \<noteq> [] \<and> set (id_roles identity) \<inter> roles \<noteq> {}))"

definition bears_setup_token :: "'e BootstrapAuthorizer \<Rightarrow> string \<Rightarrow> bool" where
  "bears_setup_token a header \<longleftrightarrow>
     (case Fields header of
        [scheme, token] \<Rightarrow> EqualFold scheme ''Bearer'' \<and> token \<noteq> [] \<and>
          (case ba_reader a (ba_tokenName a) of Inl e \<Rightarrow> False | Inr secret \<Rightarrow> TrimSpace secret = token)
      | _ \<Rightarrow> False)"

lemma AuthorizeViewer_iff: "AuthorizeViewer a header = None \<longleftrightarrow> bears_role a header {oa_requiredRole a, oa_operatorRole a}"
  by (auto simp: AuthorizeViewer_def oidcAuthorize_None_iff bears_role_def split: sum.split)

lemma AuthorizeOperator_iff: "AuthorizeOperator a header = None \<longleftrightarrow> bears_role a header {oa_operatorRole a}"
  by (auto simp: AuthorizeOperator_def oidcAuthorize_None_iff bears_role_def split: sum.split)

lemma bootstrapAuthorize_iff: "bootstrapAuthorize (Some a) (Some header) = None \<longleftrightarrow> bears_setup_token a header"
  by (auto simp: bootstrapAuthorize_def bootstrapBearerToken_def bears_setup_token_def Let_def
      split: option.splits sum.splits list.splits if_splits)

lemma operator_is_viewer: "AuthorizeOperator a header = None \<Longrightarrow> AuthorizeViewer a header = None"
  by (auto simp: AuthorizeOperator_def AuthorizeViewer_def oidcAuthorize_None_iff)

end
