(* ===== verification/Dashboard.thy ===== *)
theory Dashboard
  imports ReconStatus
begin

text \<open>
  The read model of the dashboard, \<open>internal/dashboard/read_model.go\<close>, with the build information
  of \<open>pkg/buildinfo/buildinfo.go\<close>.

  The copies the code makes of what pointers point to are the values themselves.
\<close>

record Info =
  build_Version :: string
  build_Revision :: string

record DashReconciliation =
  dr_InProgress :: bool
  dr_LastOutcome :: "string option"
  dr_LastStartedAt :: "int option"
  dr_LastCompletedAt :: "int option"
  dr_LastSuccessAt :: "int option"
  dr_LastDurationMS :: int
  dr_ConsecutiveFailures :: int
  dr_LastError :: "string option"
  dr_RouteChanges :: ReconciliationResult

record DashSnapshot =
  ds_Build :: Info
  ds_SetupCompleted :: bool
  ds_Ready :: bool
  ds_ReadinessReason :: string
  ds_Reconciliation :: DashReconciliation

text \<open>\<open>string(outcome)\<close>.\<close>

definition outcome_string :: "ReconciliationOutcome \<Rightarrow> string" where
  "outcome_string o' =
     (case o' of OutcomeNotConfigured \<Rightarrow> ''not_configured'' | OutcomeSuccess \<Rightarrow> ''success'' | OutcomeFailure \<Rightarrow> ''failure'')"

definition readyFor :: "bool \<Rightarrow> ReconciliationStatus \<Rightarrow> bool" where
  "readyFor completed status \<longleftrightarrow> completed \<and> LastOutcome status \<noteq> None \<and> LastOutcome status = Some OutcomeSuccess"

definition readinessReasonFor :: "bool \<Rightarrow> ReconciliationStatus \<Rightarrow> string" where
  "readinessReasonFor completed status =
     (if \<not> completed then ''setup_incomplete''
      else if LastOutcome status = None \<or> LastOutcome status = Some OutcomeNotConfigured then ''reconciliation_pending''
      else if LastOutcome status = Some OutcomeFailure then ''reconciliation_failed''
      else if LastOutcome status = Some OutcomeSuccess then ''ready''
      else ''reconciliation_pending'')"

definition reconciliationFrom :: "ReconciliationStatus \<Rightarrow> DashReconciliation" where
  "reconciliationFrom status =
     \<lparr>dr_InProgress = InProgress status, dr_LastOutcome = map_option outcome_string (LastOutcome status),
      dr_LastStartedAt = LastStartedAt status, dr_LastCompletedAt = LastCompletedAt status,
      dr_LastSuccessAt = LastSuccessAt status, dr_LastDurationMS = LastDurationMS status,
      dr_ConsecutiveFailures = ConsecutiveFailures status, dr_LastError = LastError status,
      dr_RouteChanges = RouteChanges status\<rparr>"

text \<open>\<open>Service.Snapshot\<close>: the setup status is read first, then the tracker.\<close>

definition dashboardSnapshot ::
  "Info \<Rightarrow> ('w \<Rightarrow> ('e + bool) \<times> 'w) \<Rightarrow> ReconciliationStatus \<Rightarrow> 'w \<Rightarrow> ('e + DashSnapshot) \<times> 'w" where
  "dashboardSnapshot build isSetupComplete tracker w =
     (case isSetupComplete w of
        (Inl e, w1) \<Rightarrow> (Inl e, w1)
      | (Inr completed, w1) \<Rightarrow>
          let status = Snapshot tracker
          in (Inr \<lparr>ds_Build = build, ds_SetupCompleted = completed, ds_Ready = readyFor completed status,
                   ds_ReadinessReason = readinessReasonFor completed status, ds_Reconciliation = reconciliationFrom status\<rparr>, w1))"

end
