(* ===== verification/SecretFile.thy ===== *)
theory SecretFile
  imports GoPath "HOL-Library.Word"
begin

text \<open>
  Reading mounted secrets, \<open>internal/secretfile/reader.go\<close>.

  The file system is what the system calls answer: \<open>Lstat\<close> on a path, and for the file that
  \<open>Open\<close> opens afterwards its own \<open>Stat\<close> and its content.  The answers are independent of
  each other, so a file that is replaced between the calls is covered.
\<close>

unbundle bit_operations_syntax

record FileInfo =
  fi_symlink :: bool
  fi_regular :: bool
  fi_dir :: bool
  fi_perm :: "32 word"
  fi_file :: int

record opened_file =
  of_Stat :: "FileInfo option"
  of_content :: "string option"

record file_system =
  fs_Lstat :: "string \<Rightarrow> FileInfo option"
  fs_Open :: "string \<Rightarrow> opened_file option"

datatype secret_error = ErrInvalidDirectory | ErrInvalidName | ErrUnavailable | ErrNotRegular | ErrInsecureMode | ErrTooLarge

definition maxSecretSize :: nat where
  "maxSecretSize = 64 * 1024"

definition secret_char :: "char \<Rightarrow> bool" where
  "secret_char c \<longleftrightarrow> is_upper c \<or> is_lower_alpha c \<or> is_digit c"

text \<open>The regular expression \<open>^[A-Za-z0-9][A-Za-z0-9._-]{0,127}$\<close>.\<close>

definition ValidName :: "string \<Rightarrow> bool" where
  "ValidName name \<longleftrightarrow>
     (case name of
        [] \<Rightarrow> False
      | c # cs \<Rightarrow> secret_char c \<and> length cs \<le> 127 \<and>
          list_all (\<lambda>d. secret_char d \<or> d = CHR ''.'' \<or> d = CHR ''_'' \<or> d = CHR ''-'') cs)"

definition isSafeFile :: "FileInfo \<Rightarrow> bool" where
  "isSafeFile info \<longleftrightarrow> \<not> fi_symlink info \<and> fi_regular info"

definition hasSafePermissions :: "FileInfo \<Rightarrow> bool" where
  "hasSafePermissions info \<longleftrightarrow> fi_perm info AND 0x100 \<noteq> 0 \<and> fi_perm info AND 0x3F = 0"

definition secretNew :: "file_system \<Rightarrow> string \<Rightarrow> secret_error + string" where
  "secretNew fs directory =
     (case fs_Lstat fs directory of
        None \<Rightarrow> Inl ErrInvalidDirectory
      | Some info \<Rightarrow> if fi_symlink info \<or> \<not> fi_dir info then Inl ErrInvalidDirectory else Inr directory)"

definition secretRead :: "file_system \<Rightarrow> string option \<Rightarrow> string \<Rightarrow> secret_error + string" where
  "secretRead fs reader name =
     (case reader of
        None \<Rightarrow> Inl ErrInvalidName
      | Some directory \<Rightarrow>
          if \<not> ValidName name then Inl ErrInvalidName
          else let path = path_Join [directory, name]
               in case fs_Lstat fs path of
                    None \<Rightarrow> Inl ErrUnavailable
                  | Some info \<Rightarrow>
                      if \<not> isSafeFile info then Inl ErrNotRegular
                      else if \<not> hasSafePermissions info then Inl ErrInsecureMode
                      else case fs_Open fs path of
                        None \<Rightarrow> Inl ErrUnavailable
                      | Some file \<Rightarrow>
                          (case of_Stat file of
                             None \<Rightarrow> Inl ErrNotRegular
                           | Some openedInfo \<Rightarrow>
                               if \<not> isSafeFile openedInfo \<or> fi_file info \<noteq> fi_file openedInfo then Inl ErrNotRegular
                               else if \<not> hasSafePermissions openedInfo then Inl ErrInsecureMode
                               else case of_content file of
                                 None \<Rightarrow> Inl ErrUnavailable
                               | Some content \<Rightarrow>
                                   let read = take (maxSecretSize + 1) content
                                   in if length read > maxSecretSize then Inl ErrTooLarge else Inr read))"

lemma ValidName_segment:
  assumes "ValidName name"
  shows "path_segment name" and "length name \<le> 128"
proof -
  obtain c cs where n: "name = c # cs" "secret_char c" "length cs \<le> 127"
    "list_all (\<lambda>d. secret_char d \<or> d = CHR ''.'' \<or> d = CHR ''_'' \<or> d = CHR ''-'') cs"
    using assms by (auto simp: ValidName_def split: list.splits)
  have s: "\<not> secret_char (CHR ''/'')" "\<not> secret_char (CHR ''.'')"
    by (simp_all add: secret_char_def is_upper_def is_lower_alpha_def is_digit_def code_point_def)
  have "CHR ''/'' \<notin> set name" using n s(1) by (auto simp: list_all_iff)
  moreover have "c \<noteq> CHR ''.''" using n(2) s(2) by auto
  ultimately show "path_segment name" using n(1) by (simp add: path_segment_def)
  show "length name \<le> 128" using n by simp
qed

section \<open>Properties\<close>

text \<open>
  C36. A secret that is read comes from the secrets directory: its name is a single path segment that
  cannot climb out of the directory, the file that was opened is a regular file that only its owner
  can access and is the one that was inspected before it was opened, and the value is its whole
  content, of at most 64 KiB.
\<close>

theorem secret_read_confined:
  assumes "secretRead fs reader name = Inr content"
  shows "\<exists>directory file info. reader = Some directory \<and> path_segment name \<and>
     fs_Open fs (path_Join [directory, name]) = Some file \<and> of_Stat file = Some info \<and>
     fi_regular info \<and> \<not> fi_symlink info \<and> fi_perm info AND 0x3F = 0 \<and>
     map_option fi_file (fs_Lstat fs (path_Join [directory, name])) = Some (fi_file info) \<and>
     of_content file = Some content \<and> length content \<le> maxSecretSize"
proof -
  have v: "ValidName name"
    using assms by (auto simp: secretRead_def split: option.splits if_splits)
  from assms obtain directory info opened openedInfo bytes where r: "reader = Some directory"
    "fs_Lstat fs (path_Join [directory, name]) = Some info" "fs_Open fs (path_Join [directory, name]) = Some opened"
    "of_Stat opened = Some openedInfo" "isSafeFile openedInfo" "fi_file info = fi_file openedInfo"
    "hasSafePermissions openedInfo" "of_content opened = Some bytes" "take (maxSecretSize + 1) bytes = content"
    "\<not> length content > maxSecretSize"
    by (auto simp: secretRead_def Let_def split: option.splits if_splits)
  have "content = bytes"
  proof (rule ccontr)
    assume "content \<noteq> bytes"
    then have "length content = maxSecretSize + 1" using r(9) by (metis length_take min_def take_all_iff)
    with r(10) show False by simp
  qed
  with r v ValidName_segment show ?thesis by (auto simp: isSafeFile_def hasSafePermissions_def)
qed

definition example_info :: FileInfo where
  "example_info = \<lparr>fi_symlink = False, fi_regular = True, fi_dir = False, fi_perm = 0x100, fi_file = 7\<rparr>"

definition example_fs :: file_system where
  "example_fs = \<lparr>fs_Lstat = (\<lambda>p. if p = ''/run/secrets/pelican_api_key'' then Some example_info else None),
     fs_Open = (\<lambda>p. if p = ''/run/secrets/pelican_api_key''
       then Some \<lparr>of_Stat = Some example_info, of_content = Some ''key''\<rparr> else None)\<rparr>"

theorem secret_read_confined_witness:
  "secretRead example_fs (Some ''/run/secrets'') ''pelican_api_key'' = Inr ''key'' \<and> path_segment ''pelican_api_key''"
proof -
  have p: "path_Join [''/run/secrets'', ''pelican_api_key''] = ''/run/secrets/pelican_api_key''" by code_simp
  have v: "ValidName ''pelican_api_key''"
    by (simp add: ValidName_def secret_char_def is_upper_def is_lower_alpha_def is_digit_def code_point_def)
  have i: "isSafeFile example_info" "hasSafePermissions example_info"
    by (simp_all add: isSafeFile_def hasSafePermissions_def example_info_def)
  have "secretRead example_fs (Some ''/run/secrets'') ''pelican_api_key'' = Inr ''key''"
    by (simp add: secretRead_def p v example_fs_def i maxSecretSize_def)
  with secret_read_confined [OF this] show ?thesis by blast
qed

end
