(* ===== verification/HttpServer.thy ===== *)
theory HttpServer
  imports SetupService RoutePolicy History Limiter Auth Dashboard SecretFile
begin

text \<open>
  The HTTP API, \<open>internal/http/server.go\<close>, \<open>dashboard.go\<close> and \<open>response_models.go\<close>.

  A request is what the handlers read of it: the matched endpoint, the headers, the raw query values,
  the bytes of the body and the clock reading.  Decoding one JSON value into a struct is a parameter;
  the limit on the body and the check for trailing data are modelled.  A response is a status and a body; the encoding of a body as JSON or HTML and
  the formatting of times are not modelled.  Handlers act on the server's state (the runtime and the
  throttle) and on the world; \<open>None\<close> is a request whose handling does not end because the panel
  never stops announcing pages.
\<close>

section \<open>Requests and responses\<close>

datatype endpoint =
    GetRoot | GetHealth | GetMetrics | GetReady | GetStatus | GetDashboard | PostReconcile
  | GetServers | GetRoutes | GetRoutesPreview | GetRoutePolicies | GetOperationalHistory | GetActionHistory
  | PostRoutePolicy | PutRoutePolicy string | DeleteRoutePolicy string
  | GetSetup | PostSetup | PutSettings

record setupRequest =
  sr_pelican_url :: string
  sr_pelican_secret_name :: string
  sr_router_domain :: string

record routePolicyCreateRequest =
  cr_ServerUUID :: "string option"
  cr_PrimaryHostname :: "string option"
  cr_Aliases :: "string list option"
  cr_Excluded :: "bool option"

record routePolicyUpdateRequest =
  ur_PrimaryHostname :: "string option"
  ur_Aliases :: "string list option"
  ur_Excluded :: "bool option"
  ur_Revision :: "int option"

definition create_valid :: "routePolicyCreateRequest \<Rightarrow> bool" where
  "create_valid r \<longleftrightarrow> cr_ServerUUID r \<noteq> None \<and> cr_PrimaryHostname r \<noteq> None \<and> cr_Aliases r \<noteq> None \<and> cr_Excluded r \<noteq> None"

definition update_valid :: "routePolicyUpdateRequest \<Rightarrow> bool" where
  "update_valid r \<longleftrightarrow> ur_PrimaryHostname r \<noteq> None \<and> ur_Aliases r \<noteq> None \<and> ur_Excluded r \<noteq> None \<and> ur_Revision r \<noteq> None"

record request =
  rq_endpoint :: endpoint
  rq_Authorization :: string
  rq_CSRF :: string
  rq_limit :: string
  rq_revision :: string
  rq_body :: string
  rq_now :: int

text \<open>
  A decoder yields the first JSON value of its input, when it fits the struct and has no unknown
  field, and the input after it.  \<open>decodeJSON\<close> reads at most \<open>1<<20\<close> bytes: with a longer body
  the second \<open>Decode\<close> meets the error of the \<open>MaxBytesReader\<close> and not the end of the input.
\<close>

type_synonym 'v json_decoder = "string \<Rightarrow> ('v \<times> string) option"

record json_decoders =
  dec_setup :: "setupRequest json_decoder"
  dec_create :: "routePolicyCreateRequest json_decoder"
  dec_update :: "routePolicyUpdateRequest json_decoder"

definition maxBody :: nat where
  "maxBody = 2 ^ 20"

definition json_space :: "char \<Rightarrow> bool" where
  "json_space ch \<longleftrightarrow> ch = CHR '' '' \<or> ch = CHR 0x09 \<or> ch = CHR 0x0A \<or> ch = CHR 0x0D"

definition decodeJSON :: "'v json_decoder \<Rightarrow> string \<Rightarrow> 'v option" where
  "decodeJSON decode body =
     (case decode (take maxBody body) of
        None \<Rightarrow> None
      | Some (request, rest) \<Rightarrow> if length body \<le> maxBody \<and> list_all json_space rest then Some request else None)"

lemma decodeJSON_accepts:
  "decodeJSON decode body = Some request \<longleftrightarrow>
     length body \<le> maxBody \<and> (\<exists>rest. decode body = Some (request, rest) \<and> list_all json_space rest)"
  by (auto simp: decodeJSON_def split: option.split)

record routeResponseBody =
  rr_ServerID :: string
  rr_Hostname :: string
  rr_BackendHost :: string
  rr_BackendPort :: int

definition routesResponseFor :: "Route list \<Rightarrow> routeResponseBody list" where
  "routesResponseFor values =
     map (\<lambda>v. \<lparr>rr_ServerID = route_ServerID v, rr_Hostname = route_Hostname v,
       rr_BackendHost = backend_Host (route_Backend v), rr_BackendPort = backend_Port (route_Backend v)\<rparr>) values"

record routePolicyResponse =
  pr_ServerUUID :: string
  pr_PrimaryHostname :: string
  pr_Aliases :: "string list"
  pr_Excluded :: bool
  pr_Revision :: int

definition routePolicyResponseFor :: "Policy \<Rightarrow> routePolicyResponse" where
  "routePolicyResponseFor p =
     \<lparr>pr_ServerUUID = pol_ServerUUID p, pr_PrimaryHostname = pol_PrimaryHostname p, pr_Aliases = pol_Aliases p,
      pr_Excluded = pol_Excluded p, pr_Revision = pol_Revision p\<rparr>"

definition routePoliciesResponse :: "Policy list \<Rightarrow> routePolicyResponse list" where
  "routePoliciesResponse values = map routePolicyResponseFor values"

record actionEventResponse =
  ar_OccurredAt :: int
  ar_Action :: string
  ar_Outcome :: string

definition actionEventsResponse :: "ActionEvent row list \<Rightarrow> actionEventResponse list" where
  "actionEventsResponse values =
     map (\<lambda>v. \<lparr>ar_OccurredAt = row_at v, ar_Action = ae_Action (row_event v), ar_Outcome = ae_Outcome (row_event v)\<rparr>) values"

record operationalEventResponse =
  or_OccurredAt :: int
  or_Kind :: string
  or_Outcome :: string
  or_Desired :: int
  or_Created :: int
  or_Updated :: int
  or_Deleted :: int
  or_Changed :: bool

definition operationalEventsResponse :: "Event row list \<Rightarrow> operationalEventResponse list" where
  "operationalEventsResponse values =
     map (\<lambda>v. let e = row_event v in
       \<lparr>or_OccurredAt = row_at v, or_Kind = ev_Kind e, or_Outcome = ev_Outcome e, or_Desired = ev_Desired e,
        or_Created = ev_Created e, or_Updated = ev_Updated e, or_Deleted = ev_Deleted e, or_Changed = ev_Changed e\<rparr>) values"

text \<open>The body of a server is the record itself: the response copies every field.\<close>

definition serversResponseFor :: "MinecraftServer list \<Rightarrow> MinecraftServer list" where
  "serversResponseFor values = map (\<lambda>v. v) values"

datatype body =
    NoBody | TextBody string | ErrorBody string | Redirect string | MetricsBody
  | ReadinessBody bool string
  | StatusBody DashSnapshot
  | PageBody DashSnapshot bool "Event row list"
  | ReconcileBody DashReconciliation
  | ServersBody "MinecraftServer list"
  | RoutesBody "routeResponseBody list"
  | PreviewBody nat "routeResponseBody list"
  | PoliciesBody "routePolicyResponse list"
  | PolicyBody routePolicyResponse
  | OperationalBody "operationalEventResponse list"
  | ActionsBody "actionEventResponse list"
  | SetupBody bool

record response =
  rsp_status :: int
  rsp_body :: body

definition writeJSON :: "int \<Rightarrow> body \<Rightarrow> response" where
  "writeJSON status b = \<lparr>rsp_status = status, rsp_body = b\<rparr>"

definition writeJSONError :: "int \<Rightarrow> string \<Rightarrow> response" where
  "writeJSONError status message = writeJSON status (ErrorBody message)"

definition writeSetupIncomplete :: response where
  "writeSetupIncomplete = writeJSONError 503 ''setup has not been completed''"

text \<open>\<open>strconv.Atoi\<close> and \<open>strconv.ParseInt\<close> in base ten, for 64-bit integers.\<close>

definition ParseInt :: "string \<Rightarrow> int option" where
  "ParseInt s =
     (let negative = HasPrefix s ''-'';
          digits = (if HasPrefix s ''-'' \<or> HasPrefix s ''+'' then tl s else s);
          n = int (foldl (\<lambda>a c. 10 * a + (code_point c - 48)) 0 digits);
          v = (if negative then - n else n)
      in if digits = [] \<or> \<not> list_all is_digit digits \<or> v < - (2 ^ 63) \<or> v \<ge> 2 ^ 63 then None else Some v)"

section \<open>The server\<close>

record 'w policy_store =
  ps_List :: "'w \<Rightarrow> (policy_error + Policy list) \<times> 'w"
  ps_Create :: "Policy \<Rightarrow> 'w \<Rightarrow> (policy_error + Policy) \<times> 'w"
  ps_Update :: "Policy \<Rightarrow> int \<Rightarrow> 'w \<Rightarrow> (policy_error + Policy) \<times> 'w"
  ps_Delete :: "string \<Rightarrow> int \<Rightarrow> 'w \<Rightarrow> policy_error option \<times> 'w"

text \<open>
  Besides the fields of the code's \<open>Server\<close> the record says which of the opaque errors are, or
  wrap, a context error, and how a JSON value is decoded.
\<close>

record ('j, 'w, 'x, 'b) Server =
  srv_setup :: "('j, 'w, 'x, 'b) SetupService"
  srv_build :: Info
  srv_dashboard :: bool
  srv_dashboardAuth :: "oidcAuthorizer option"
  srv_dashboardRefresh :: "('j, 'w, 'x, 'b) RefreshTask option"
  srv_bootstrapAuth :: "'x BootstrapAuthorizer option"
  srv_managementAuth :: "oidcAuthorizer option"
  srv_routePolicies :: "'w policy_store option"
  srv_operationalHistory :: "(int \<Rightarrow> 'w \<Rightarrow> (history_error + Event row list) \<times> 'w) option"
  srv_actionHistoryReader :: "(int \<Rightarrow> 'w \<Rightarrow> (history_error + ActionEvent row list) \<times> 'w) option"
  srv_actionHistory :: "(ActionEvent \<Rightarrow> 'w \<Rightarrow> history_error option \<times> 'w) option"
  srv_canceled :: "'x \<Rightarrow> bool"
  srv_backendCanceled :: "'b \<Rightarrow> bool"
  srv_policyCanceled :: "policy_error \<Rightarrow> bool"
  srv_json :: json_decoders

record ('w, 'x) ServerState =
  sv_runtime :: "('w, 'x) RuntimeState"
  sv_limiter :: "Limiter option"

type_synonym ('w, 'x) handled = "(response \<times> ctx \<times> ('w, 'x) ServerState \<times> 'w) option"
type_synonym ('j, 'w, 'x, 'b) handler =
  "('j, 'w, 'x, 'b) Server \<Rightarrow> ctx \<Rightarrow> request \<Rightarrow> ('w, 'x) ServerState \<Rightarrow> 'w \<Rightarrow> ('w, 'x) handled"

definition recordAction :: "('j, 'w, 'x, 'b) Server \<Rightarrow> string \<Rightarrow> string \<Rightarrow> 'w \<Rightarrow> 'w" where
  "recordAction s action outcome w =
     (case srv_actionHistory s of
        None \<Rightarrow> w
      | Some store_event \<Rightarrow> snd (store_event \<lparr>ae_Action = action, ae_Outcome = outcome\<rparr> w))"

definition allowAction ::
  "('j, 'w, 'x, 'b) Server \<Rightarrow> request \<Rightarrow> nat \<Rightarrow> ('w, 'x) ServerState \<Rightarrow> 'w \<Rightarrow> response option \<times> ('w, 'x) ServerState \<times> 'w" where
  "allowAction s r action st w =
     (case Allow action (rq_now r) (sv_limiter st) of
        (True, l) \<Rightarrow> (None, st\<lparr>sv_limiter := l\<rparr>, w)
      | (False, l) \<Rightarrow>
          (Some (writeJSONError 429 ''action temporarily unavailable''), st\<lparr>sv_limiter := l\<rparr>,
           recordAction s ''rate_limit_rejection'' ''denied'' w))"

text \<open>
  \<open>errors.Is\<close> with the context errors that satisfy \<open>k\<close>, along the wrapped errors; \<open>f\<close> and
  \<open>g\<close> decide for the errors that come from the libraries.
\<close>

fun do_canceled :: "(ctx_error \<Rightarrow> bool) \<Rightarrow> ('x \<Rightarrow> bool) \<Rightarrow> 'x do_error \<Rightarrow> bool" where
  "do_canceled k f (DoCtx e) = k e"
| "do_canceled k f (DoErr x) = f x"

fun pelican_canceled :: "(ctx_error \<Rightarrow> bool) \<Rightarrow> ('x \<Rightarrow> bool) \<Rightarrow> 'x pelican_error \<Rightarrow> bool" where
  "pelican_canceled k f (ExecuteRequest e) = do_canceled k f e"
| "pelican_canceled k f e = False"

fun panel_canceled :: "(ctx_error \<Rightarrow> bool) \<Rightarrow> ('x \<Rightarrow> bool) \<Rightarrow> 'x panel_error \<Rightarrow> bool" where
  "panel_canceled k f (ListServersFailed e) = pelican_canceled k f e"
| "panel_canceled k f (ListEggsFailed e) = pelican_canceled k f e"
| "panel_canceled k f (ListAllocationsFailed n e) = pelican_canceled k f e"
| "panel_canceled k f (AllocationNotFound n m) = False"
| "panel_canceled k f (ResolveFailed m e) = False"

fun route_canceled :: "(ctx_error \<Rightarrow> bool) \<Rightarrow> ('x \<Rightarrow> bool) \<Rightarrow> 'x route_error \<Rightarrow> bool" where
  "route_canceled k f (RoutesPolicies (PolicySource x)) = f x"
| "route_canceled k f e = False"

fun sync_canceled :: "(ctx_error \<Rightarrow> bool) \<Rightarrow> ('x \<Rightarrow> bool) \<Rightarrow> ('b \<Rightarrow> bool) \<Rightarrow> ('x route_error, 'b) sync_error \<Rightarrow> bool" where
  "sync_canceled k f g ErrRouteSourceRequired = False"
| "sync_canceled k f g (SyncCtx e) = k e"
| "sync_canceled k f g (GenerateRoutes e) = route_canceled k f e"
| "sync_canceled k f g (ReconcileRoutes b) = g b"

fun refresh_canceled :: "(ctx_error \<Rightarrow> bool) \<Rightarrow> ('x \<Rightarrow> bool) \<Rightarrow> ('b \<Rightarrow> bool) \<Rightarrow> ('x, 'b) refresh_error \<Rightarrow> bool" where
  "refresh_canceled k f g (AcquireFailed e) = k e"
| "refresh_canceled k f g (ActivationCanceled e) = k e"
| "refresh_canceled k f g (SetupStatusFailed x) = f x"
| "refresh_canceled k f g (LoadSettingsFailed x) = f x"
| "refresh_canceled k f g (SecretResolveFailed x) = f x"
| "refresh_canceled k f g (StageFailed x) = f x"
| "refresh_canceled k f g (PersistFailed x) = f x"
| "refresh_canceled k f g (RefreshInventoryFailed e) = panel_canceled k f e"
| "refresh_canceled k f g (SynchronizeFailed e) = sync_canceled k f g e"
| "refresh_canceled k f g (JoinedErrors a b) = (refresh_canceled k f g a \<or> refresh_canceled k f g b)"
| "refresh_canceled k f g SecretResolverUnavailable = False"
| "refresh_canceled k f g (PelicanClientFailed e) = False"
| "refresh_canceled k f g (RoutingServiceFailed e) = False"

fun setup_canceled :: "(ctx_error \<Rightarrow> bool) \<Rightarrow> ('x \<Rightarrow> bool) \<Rightarrow> ('b \<Rightarrow> bool) \<Rightarrow> ('x, 'b) setup_error \<Rightarrow> bool" where
  "setup_canceled k f g (SetupStatus x) = f x"
| "setup_canceled k f g (SaveSettings x) = f x"
| "setup_canceled k f g (StageSetupError x) = f x"
| "setup_canceled k f g (PromoteSetup x) = f x"
| "setup_canceled k f g (ValidateCredentials (PelicanConnection e)) = pelican_canceled k f e"
| "setup_canceled k f g (ActivateCandidate e) = refresh_canceled k f g e"
| "setup_canceled k f g e = False"

definition outcomeForError :: "bool \<Rightarrow> string" where
  "outcomeForError canceled = (if canceled then ''canceled'' else ''failure'')"

section \<open>Guards\<close>

definition dashboardAuthorizationError :: "auth_error \<Rightarrow> response" where
  "dashboardAuthorizationError err =
     (if err = ErrForbidden then writeJSONError 403 ''dashboard access denied''
      else writeJSONError 401 ''dashboard authentication required'')"

definition managementAuthorize :: "('j, 'w, 'x, 'b) handler \<Rightarrow> bool \<Rightarrow> ('j, 'w, 'x, 'b) handler" where
  "managementAuthorize next operator s c r st w =
     (case srv_managementAuth s of
        None \<Rightarrow> Some (writeJSONError 503 ''management authentication unavailable'', c, st, w)
      | Some a \<Rightarrow>
          (case (if operator then AuthorizeOperator a (rq_Authorization r) else AuthorizeViewer a (rq_Authorization r)) of
             Some err \<Rightarrow> Some (dashboardAuthorizationError err, c, st, w)
           | None \<Rightarrow> next s c r st w))"

definition managementViewer :: "('j, 'w, 'x, 'b) handler \<Rightarrow> ('j, 'w, 'x, 'b) handler" where
  "managementViewer next = managementAuthorize next False"

definition managementOperator :: "('j, 'w, 'x, 'b) handler \<Rightarrow> ('j, 'w, 'x, 'b) handler" where
  "managementOperator next = managementAuthorize next True"

definition bootstrapOnly :: "('j, 'w, 'x, 'b) handler \<Rightarrow> ('j, 'w, 'x, 'b) handler" where
  "bootstrapOnly next s c r st w =
     (case setupIsSetupComplete (srv_setup s) w of
        (Inl e, w1) \<Rightarrow> Some (writeJSONError 503 ''setup status unavailable'', c, st,
                            recordAction s ''bootstrap_authorization'' ''failure'' w1)
      | (Inr True, w1) \<Rightarrow> Some (writeJSONError 404 ''setup is unavailable'', c, st, w1)
      | (Inr False, w1) \<Rightarrow>
          (case srv_bootstrapAuth s of
             None \<Rightarrow> Some (writeJSONError 503 ''bootstrap authentication unavailable'', c, st,
                           recordAction s ''bootstrap_authorization'' ''failure'' w1)
           | Some a \<Rightarrow>
               (case bootstrapAuthorize (Some a) (Some (rq_Authorization r)) of
                  Some e \<Rightarrow> Some (writeJSONError 401 ''bootstrap authentication required'', c, st,
                                 recordAction s ''bootstrap_authorization'' ''denied'' w1)
                | None \<Rightarrow> next s c r st (recordAction s ''bootstrap_authorization'' ''success'' w1))))"

section \<open>Reading\<close>

record readiness =
  rd_Ready :: bool
  rd_Reason :: string

definition readinessFor :: "bool \<Rightarrow> ReconciliationStatus \<Rightarrow> readiness" where
  "readinessFor completed status =
     (if \<not> completed then \<lparr>rd_Ready = False, rd_Reason = ''setup_incomplete''\<rparr>
      else case LastOutcome status of
        None \<Rightarrow> \<lparr>rd_Ready = False, rd_Reason = ''reconciliation_pending''\<rparr>
      | Some OutcomeNotConfigured \<Rightarrow> \<lparr>rd_Ready = False, rd_Reason = ''reconciliation_pending''\<rparr>
      | Some OutcomeFailure \<Rightarrow> \<lparr>rd_Ready = False, rd_Reason = ''reconciliation_failed''\<rparr>
      | Some OutcomeSuccess \<Rightarrow> \<lparr>rd_Ready = True, rd_Reason = ''ready''\<rparr>)"

definition reconciliationResponse :: "ReconciliationStatus \<Rightarrow> DashReconciliation" where
  "reconciliationResponse status =
     \<lparr>dr_InProgress = InProgress status, dr_LastOutcome = map_option outcome_string (LastOutcome status),
      dr_LastStartedAt = LastStartedAt status, dr_LastCompletedAt = LastCompletedAt status,
      dr_LastSuccessAt = LastSuccessAt status, dr_LastDurationMS = LastDurationMS status,
      dr_ConsecutiveFailures = ConsecutiveFailures status, dr_LastError = LastError status,
      dr_RouteChanges = RouteChanges status\<rparr>"

definition sv_status :: "('w, 'x) ServerState \<Rightarrow> ReconciliationStatus" where
  "sv_status st = Snapshot (st_tracker (sv_runtime st))"

definition ready :: "('j, 'w, 'x, 'b) handler" where
  "ready s c r st w =
     (case setupIsSetupComplete (srv_setup s) w of
        (Inl e, w1) \<Rightarrow> Some (writeJSON 503 (ReadinessBody False ''status_unavailable''), c, st, w1)
      | (Inr completed, w1) \<Rightarrow>
          let result = readinessFor completed (sv_status st)
          in Some (writeJSON (if rd_Ready result then 200 else 503) (ReadinessBody (rd_Ready result) (rd_Reason result)), c, st, w1))"

definition status :: "('j, 'w, 'x, 'b) handler" where
  "status s c r st w =
     (case setupIsSetupComplete (srv_setup s) w of
        (Inl e, w1) \<Rightarrow> Some (writeJSONError 503 ''application status unavailable'', c, st, w1)
      | (Inr setupCompleted, w1) \<Rightarrow>
          let result = readinessFor setupCompleted (sv_status st)
          in Some (writeJSON 200 (StatusBody \<lparr>ds_Build = srv_build s, ds_SetupCompleted = setupCompleted,
               ds_Ready = rd_Ready result, ds_ReadinessReason = rd_Reason result,
               ds_Reconciliation = reconciliationResponse (sv_status st)\<rparr>), c, st, w1))"

definition healthHandler :: "('j, 'w, 'x, 'b) handler" where
  "healthHandler s c r st w = Some (writeJSON 200 (TextBody ''OK''), c, st, w)"

definition listServers :: "('j, 'w, 'x, 'b) handler" where
  "listServers s c r st w =
     (case mgr_discovery (st_manager (sv_runtime st)) of
        None \<Rightarrow> Some (writeSetupIncomplete, c, st, w)
      | Some inventory \<Rightarrow>
          (case (invDiscover inventory :: 'x source_error + _) of
             Inl e \<Rightarrow> Some (writeJSONError 500 ''failed to discover Minecraft servers'', c, st, w)
           | Inr servers \<Rightarrow> Some (writeJSON 200 (ServersBody (serversResponseFor servers)), c, st, w)))"

definition listRoutes :: "('j, 'w, 'x, 'b) handler" where
  "listRoutes s c r st w =
     (case mgr_routing (st_manager (sv_runtime st)) of
        None \<Rightarrow> Some (writeSetupIncomplete, c, st, w)
      | Some routing \<Rightarrow>
          (case rsRoutes routing c w of
             (Inl e, c1, w1) \<Rightarrow> Some (writeJSONError 500 ''failed to generate Minecraft routes'', c1, st, w1)
           | (Inr routes, c1, w1) \<Rightarrow> Some (writeJSON 200 (RoutesBody (routesResponseFor routes)), c1, st, w1)))"

definition previewRoutes :: "('j, 'w, 'x, 'b) handler" where
  "previewRoutes s c r st w =
     (case mgr_routing (st_manager (sv_runtime st)) of
        None \<Rightarrow> Some (writeSetupIncomplete, c, st, w)
      | Some routing \<Rightarrow>
          (case rsRoutes routing c w of
             (Inl e, c1, w1) \<Rightarrow> Some (writeJSONError 503 ''route preview unavailable'', c1, st, w1)
           | (Inr routes, c1, w1) \<Rightarrow> Some (writeJSON 200 (PreviewBody (length routes) (routesResponseFor routes)), c1, st, w1)))"

definition getSetupStatus :: "('j, 'w, 'x, 'b) handler" where
  "getSetupStatus s c r st w =
     (case setupIsSetupComplete (srv_setup s) w of
        (Inl e, w1) \<Rightarrow> Some (writeJSONError 500 ''failed to get setup status'', c, st, w1)
      | (Inr completed, w1) \<Rightarrow> Some (writeJSON 200 (SetupBody completed), c, st, w1))"

text \<open>The page size both history handlers read from the query.\<close>

definition history_limit :: "string \<Rightarrow> int option" where
  "history_limit raw =
     (if raw = [] then Some MaxPageSize
      else case ParseInt raw of
        None \<Rightarrow> None
      | Some v \<Rightarrow> if v < 1 \<or> v > MaxPageSize then None else Some v)"

definition listActionHistory :: "('j, 'w, 'x, 'b) handler" where
  "listActionHistory s c r st w =
     (case srv_actionHistoryReader s of
        None \<Rightarrow> Some (writeJSONError 404 ''action history not found'', c, st, w)
      | Some list_events \<Rightarrow>
          (case history_limit (rq_limit r) of
             None \<Rightarrow> Some (writeJSONError 400 ''invalid history limit'', c, st, w)
           | Some limit \<Rightarrow>
               (case list_events limit w of
                  (Inl e, w1) \<Rightarrow> Some (writeJSONError 503 ''action history unavailable'', c, st, w1)
                | (Inr events, w1) \<Rightarrow> Some (writeJSON 200 (ActionsBody (actionEventsResponse events)), c, st, w1))))"

definition listOperationalHistory :: "('j, 'w, 'x, 'b) handler" where
  "listOperationalHistory s c r st w =
     (case srv_operationalHistory s of
        None \<Rightarrow> Some (writeJSONError 404 ''operational history not found'', c, st, w)
      | Some list_events \<Rightarrow>
          (case history_limit (rq_limit r) of
             None \<Rightarrow> Some (writeJSONError 400 ''invalid history limit'', c, st, w)
           | Some limit \<Rightarrow>
               (case list_events limit w of
                  (Inl e, w1) \<Rightarrow> Some (writeJSONError 503 ''operational history unavailable'', c, st, w1)
                | (Inr events, w1) \<Rightarrow> Some (writeJSON 200 (OperationalBody (operationalEventsResponse events)), c, st, w1))))"

definition listRoutePolicies :: "('j, 'w, 'x, 'b) handler" where
  "listRoutePolicies s c r st w =
     (case srv_routePolicies s of
        None \<Rightarrow> Some (writeJSONError 404 ''route policies not found'', c, st, w)
      | Some store \<Rightarrow>
          (case ps_List store w of
             (Inl e, w1) \<Rightarrow> Some (writeJSONError 503 ''route policies unavailable'', c, st, w1)
           | (Inr policies, w1) \<Rightarrow> Some (writeJSON 200 (PoliciesBody (routePoliciesResponse policies)), c, st, w1)))"

definition dashboardPage :: "('j, 'w, 'x, 'b) handler" where
  "dashboardPage s c r st w =
     (if \<not> srv_dashboard s then Some (writeJSON 404 (TextBody ''404 page not found''), c, st, w)
      else case (case srv_dashboardAuth s of None \<Rightarrow> None | Some a \<Rightarrow> AuthorizeViewer a (rq_Authorization r)) of
        Some err \<Rightarrow> Some (dashboardAuthorizationError err, c, st, w)
      | None \<Rightarrow>
          (case dashboardSnapshot (srv_build s) (setupIsSetupComplete (srv_setup s)) (st_tracker (sv_runtime st)) w of
             (Inl e, w1) \<Rightarrow> Some (writeJSONError 503 ''dashboard status unavailable'', c, st, w1)
           | (Inr snapshot, w1) \<Rightarrow>
               (case (case srv_operationalHistory s of None \<Rightarrow> (Inr [], w1) | Some list_events \<Rightarrow> list_events 10 w1) of
                  (Inl e, w2) \<Rightarrow> Some (writeJSONError 503 ''dashboard status unavailable'', c, st, w2)
                | (Inr events, w2) \<Rightarrow>
                    Some (writeJSON 200 (PageBody snapshot
                      (srv_dashboardRefresh s \<noteq> None \<and> srv_dashboardAuth s \<noteq> None) events), c, st, w2))))"

section \<open>Changing\<close>

text \<open>An answer together with the record of the action.\<close>

definition audited ::
  "('j, 'w, 'x, 'b) Server \<Rightarrow> string \<Rightarrow> string \<Rightarrow> response \<Rightarrow> ctx \<Rightarrow> ('w, 'x) ServerState \<Rightarrow> 'w \<Rightarrow> ('w, 'x) handled" where
  "audited s action outcome rsp c st w = Some (rsp, c, st, recordAction s action outcome w)"

definition writeRoutePolicyResult :: "policy_error + Policy \<Rightarrow> response" where
  "writeRoutePolicyResult result =
     (case result of
        Inl ErrNotFound \<Rightarrow> writeJSONError 404 ''route policy not found''
      | Inl ErrConflict \<Rightarrow> writeJSONError 409 ''route policy conflict''
      | Inl ErrInvalid \<Rightarrow> writeJSONError 400 ''invalid route policy''
      | Inl (ErrDB m) \<Rightarrow> writeJSONError 503 ''route policy unavailable''
      | Inr policy \<Rightarrow> writeJSON 200 (PolicyBody (routePolicyResponseFor policy)))"

definition createRoutePolicy :: "('j, 'w, 'x, 'b) handler" where
  "createRoutePolicy s c r st w =
     (let finish = audited s ''route_policy_mutation''
      in case srv_routePolicies s of
           None \<Rightarrow> finish ''failure'' (writeJSONError 404 ''route policies not found'') c st w
         | Some store \<Rightarrow>
             (case decodeJSON (dec_create (srv_json s)) (rq_body r) of
                None \<Rightarrow> finish ''failure'' (writeJSONError 400 ''invalid request body'') c st w
              | Some q \<Rightarrow>
                  if \<not> create_valid q then finish ''failure'' (writeJSONError 400 ''invalid route policy'') c st w
                  else case ps_Create store \<lparr>pol_ServerUUID = the (cr_ServerUUID q),
                      pol_PrimaryHostname = the (cr_PrimaryHostname q), pol_Aliases = the (cr_Aliases q),
                      pol_Excluded = the (cr_Excluded q), pol_Revision = 0\<rparr> w of
                    (Inl e, w1) \<Rightarrow>
                      if e = ErrInvalid then finish ''failure'' (writeJSONError 400 ''invalid route policy'') c st w1
                      else finish (outcomeForError (srv_policyCanceled s e)) (writeJSONError 503 ''route policy unavailable'') c st w1
                  | (Inr policy, w1) \<Rightarrow>
                      finish ''success'' (writeJSON 201 (PolicyBody (routePolicyResponseFor policy))) c st w1))"

definition updateRoutePolicy :: "string \<Rightarrow> ('j, 'w, 'x, 'b) handler" where
  "updateRoutePolicy serverUUID s c r st w =
     (let finish = audited s ''route_policy_mutation''
      in case srv_routePolicies s of
           None \<Rightarrow> finish ''failure'' (writeJSONError 404 ''route policies not found'') c st w
         | Some store \<Rightarrow>
             (case decodeJSON (dec_update (srv_json s)) (rq_body r) of
                None \<Rightarrow> finish ''failure'' (writeJSONError 400 ''invalid request body'') c st w
              | Some q \<Rightarrow>
                  if \<not> update_valid q then finish ''failure'' (writeJSONError 400 ''invalid route policy'') c st w
                  else case ps_Update store \<lparr>pol_ServerUUID = serverUUID,
                      pol_PrimaryHostname = the (ur_PrimaryHostname q), pol_Aliases = the (ur_Aliases q),
                      pol_Excluded = the (ur_Excluded q), pol_Revision = 0\<rparr> (the (ur_Revision q)) w of
                    (Inl e, w1) \<Rightarrow> finish (outcomeForError (srv_policyCanceled s e)) (writeRoutePolicyResult (Inl e)) c st w1
                  | (Inr policy, w1) \<Rightarrow> finish ''success'' (writeRoutePolicyResult (Inr policy)) c st w1))"

definition deleteRoutePolicy :: "string \<Rightarrow> ('j, 'w, 'x, 'b) handler" where
  "deleteRoutePolicy serverUUID s c r st w =
     (let finish = audited s ''route_policy_mutation''
      in case srv_routePolicies s of
           None \<Rightarrow> finish ''failure'' (writeJSONError 404 ''route policies not found'') c st w
         | Some store \<Rightarrow>
             (case ParseInt (rq_revision r) of
                None \<Rightarrow> finish ''failure'' (writeJSONError 400 ''invalid route policy revision'') c st w
              | Some revision \<Rightarrow>
                  (case ps_Delete store serverUUID revision w of
                     (Some ErrNotFound, w1) \<Rightarrow> finish ''failure'' (writeJSONError 404 ''route policy not found'') c st w1
                   | (Some ErrConflict, w1) \<Rightarrow> finish ''failure'' (writeJSONError 409 ''route policy conflict'') c st w1
                   | (Some ErrInvalid, w1) \<Rightarrow> finish ''failure'' (writeJSONError 400 ''invalid route policy'') c st w1
                   | (Some (ErrDB m), w1) \<Rightarrow>
                       finish (outcomeForError (srv_policyCanceled s (ErrDB m))) (writeJSONError 503 ''route policy unavailable'') c st w1
                   | (None, w1) \<Rightarrow> finish ''success'' (writeJSON 204 NoBody) c st w1)))"

text \<open>
  \<open>errors.Is\<close> finds \<open>ErrAlreadyConfigured\<close> also in the error of the staging step under the lock.
\<close>

definition already_configured :: "('j, 'w, 'x, 'b) SetupService \<Rightarrow> ('x, 'b) setup_error \<Rightarrow> bool" where
  "already_configured ss err \<longleftrightarrow>
     (case err of
        ErrAlreadyConfigured \<Rightarrow> True
      | ActivateCandidate (StageFailed x) \<Rightarrow> x = ss_alreadyConfigured ss
      | _ \<Rightarrow> False)"

definition writeSetupError :: "('j, 'w, 'x, 'b) SetupService \<Rightarrow> ('x, 'b) setup_error \<Rightarrow> response option" where
  "writeSetupError ss err =
     (if already_configured ss err then Some (writeJSONError 409 ''setup has already been completed'')
      else if err = ErrMissingRouterDomain then Some (writeJSONError 400 ''router domain is required'')
      else if err = ErrSetupNotActive then Some (writeJSONError 409 ''setup has not been completed'')
      else None)"

definition requested_settings :: "setupRequest \<Rightarrow> Settings" where
  "requested_settings q =
     \<lparr>set_PelicanURL = TrimSpace (sr_pelican_url q), set_PelicanAPIKey = [],
      set_PelicanSecretName = TrimSpace (sr_pelican_secret_name q), set_RouterDomain = TrimSpace (sr_router_domain q)\<rparr>"

text \<open>
  \<open>configureSetup\<close> and \<open>updateSettings\<close> differ in the action, the operation of the setup service
  and the text of the last error.
\<close>

definition changeSettings ::
  "nat \<Rightarrow> string \<Rightarrow> string \<Rightarrow>
   (('j, 'w, 'x, 'b) SetupService \<Rightarrow> ctx \<Rightarrow> Settings \<Rightarrow> ('w, 'x) RuntimeState \<Rightarrow> 'w \<Rightarrow> ('w, 'x, 'b) setup_result) \<Rightarrow>
   ('j, 'w, 'x, 'b) handler" where
  "changeSettings action event message change s c r st w =
     (case allowAction s r action st w of
        (Some rsp, st1, w1) \<Rightarrow> Some (rsp, c, st1, w1)
      | (None, st1, w1) \<Rightarrow>
          (case decodeJSON (dec_setup (srv_json s)) (rq_body r) of
             None \<Rightarrow> audited s event ''failure'' (writeJSONError 400 ''invalid request body'') c st1 w1
           | Some q \<Rightarrow>
               if \<not> ValidName (TrimSpace (sr_pelican_secret_name q)) then
                 audited s event ''failure'' (writeJSONError 400 ''invalid Pelican credential reference'') c st1 w1
               else case change (srv_setup s) c (requested_settings q) (sv_runtime st1) w1 of
                 None \<Rightarrow> None
               | Some (Some err, c1, rt, w2) \<Rightarrow>
                   audited s event (outcomeForError (setup_canceled (\<lambda>e. True) (srv_canceled s) (srv_backendCanceled s) err))
                     (case writeSetupError (srv_setup s) err of Some rsp \<Rightarrow> rsp | None \<Rightarrow> writeJSONError 500 message)
                     c1 (st1\<lparr>sv_runtime := rt\<rparr>) w2
               | Some (None, c1, rt, w2) \<Rightarrow>
                   audited s event ''success'' (writeJSON 204 NoBody) c1 (st1\<lparr>sv_runtime := rt\<rparr>) w2))"

definition configureSetup :: "('j, 'w, 'x, 'b) handler" where
  "configureSetup = changeSettings ActionSetup ''setup'' ''failed to configure setup'' Setup"

definition updateSettings :: "('j, 'w, 'x, 'b) handler" where
  "updateSettings = changeSettings ActionSettings ''settings_update'' ''failed to update settings'' setupUpdate"

definition reconcileDashboard :: "('j, 'w, 'x, 'b) handler" where
  "reconcileDashboard s c r st w =
     (case (srv_dashboardRefresh s, srv_dashboardAuth s) of
        (Some task, Some a) \<Rightarrow>
          (case allowAction s r ActionReconcile st w of
             (Some rsp, st1, w1) \<Rightarrow> Some (rsp, c, st1, w1)
           | (None, st1, w1) \<Rightarrow>
               if rq_CSRF r \<noteq> ''1'' then Some (writeJSONError 403 ''dashboard access denied'', c, st1, w1)
               else case AuthorizeOperator a (rq_Authorization r) of
                 Some err \<Rightarrow> Some (dashboardAuthorizationError err, c, st1, w1)
               | None \<Rightarrow>
                   (case Refresh task c (sv_runtime st1) w1 of
                      None \<Rightarrow> None
                    | Some (Some err, c1, rt, w2) \<Rightarrow>
                        if refresh_canceled (\<lambda>e. True) (srv_canceled s) (srv_backendCanceled s) err then
                          audited s ''manual_reconciliation'' ''canceled'' (writeJSONError 408 ''reconciliation canceled'')
                            c1 (st1\<lparr>sv_runtime := rt\<rparr>) w2
                        else
                          audited s ''manual_reconciliation'' ''failure'' (writeJSONError 503 ''reconciliation unavailable'')
                            c1 (st1\<lparr>sv_runtime := rt\<rparr>) w2
                    | Some (None, c1, rt, w2) \<Rightarrow>
                        audited s ''manual_reconciliation'' ''success''
                          (writeJSON 200 (ReconcileBody (reconciliationResponse (Snapshot (st_tracker rt)))))
                          c1 (st1\<lparr>sv_runtime := rt\<rparr>) w2))
      | _ \<Rightarrow> Some (writeJSONError 404 ''manual reconciliation not found'', c, st, w))"

definition Router :: "('j, 'w, 'x, 'b) handler" where
  "Router s c r st w =
     (case rq_endpoint r of
        GetRoot \<Rightarrow> managementViewer (\<lambda>s c r st w. Some (writeJSON 307 (Redirect ''/dashboard''), c, st, w)) s c r st w
      | GetHealth \<Rightarrow> healthHandler s c r st w
      | GetMetrics \<Rightarrow> Some (writeJSON 200 MetricsBody, c, st, w)
      | GetReady \<Rightarrow> ready s c r st w
      | GetStatus \<Rightarrow> managementViewer status s c r st w
      | GetDashboard \<Rightarrow> managementViewer dashboardPage s c r st w
      | PostReconcile \<Rightarrow> managementOperator reconcileDashboard s c r st w
      | GetServers \<Rightarrow> managementViewer listServers s c r st w
      | GetRoutes \<Rightarrow> managementViewer listRoutes s c r st w
      | GetRoutesPreview \<Rightarrow> managementViewer previewRoutes s c r st w
      | GetRoutePolicies \<Rightarrow> managementViewer listRoutePolicies s c r st w
      | GetOperationalHistory \<Rightarrow> managementViewer listOperationalHistory s c r st w
      | GetActionHistory \<Rightarrow> managementViewer listActionHistory s c r st w
      | PostRoutePolicy \<Rightarrow> managementOperator createRoutePolicy s c r st w
      | PutRoutePolicy serverUUID \<Rightarrow> managementOperator (updateRoutePolicy serverUUID) s c r st w
      | DeleteRoutePolicy serverUUID \<Rightarrow> managementOperator (deleteRoutePolicy serverUUID) s c r st w
      | GetSetup \<Rightarrow> bootstrapOnly getSetupStatus s c r st w
      | PostSetup \<Rightarrow> bootstrapOnly configureSetup s c r st w
      | PutSettings \<Rightarrow> managementOperator updateSettings s c r st w)"

section \<open>Who may do what\<close>

text \<open>The role each endpoint requires, and whether a request holds it.\<close>

datatype required_role = Public | Viewer | Operator | SetupToken

fun required :: "endpoint \<Rightarrow> required_role" where
  "required GetHealth = Public"
| "required GetMetrics = Public"
| "required GetReady = Public"
| "required PostReconcile = Operator"
| "required PostRoutePolicy = Operator"
| "required (PutRoutePolicy u) = Operator"
| "required (DeleteRoutePolicy u) = Operator"
| "required PutSettings = Operator"
| "required GetSetup = SetupToken"
| "required PostSetup = SetupToken"
| "required e = Viewer"

definition permitted :: "('j, 'w, 'x, 'b) Server \<Rightarrow> request \<Rightarrow> bool" where
  "permitted s r \<longleftrightarrow>
     (case required (rq_endpoint r) of
        Public \<Rightarrow> True
      | Viewer \<Rightarrow> (case srv_managementAuth s of
          None \<Rightarrow> False | Some a \<Rightarrow> bears_role a (rq_Authorization r) {oa_requiredRole a, oa_operatorRole a})
      | Operator \<Rightarrow> (case srv_managementAuth s of
          None \<Rightarrow> False | Some a \<Rightarrow> bears_role a (rq_Authorization r) {oa_operatorRole a})
      | SetupToken \<Rightarrow> (case srv_bootstrapAuth s of
          None \<Rightarrow> False | Some a \<Rightarrow> bears_setup_token a (rq_Authorization r)))"

lemma writeJSON_simps [simp]:
  "rsp_status (writeJSON n b) = n" "rsp_body (writeJSON n b) = b"
  "rsp_status (writeJSONError n m) = n" "rsp_body (writeJSONError n m) = ErrorBody m"
  by (simp_all add: writeJSON_def writeJSONError_def)

definition is_error :: "response \<Rightarrow> bool" where
  "is_error rsp \<longleftrightarrow> (\<exists>n m. rsp = writeJSONError n m \<and> 400 \<le> n)"

lemma is_errorI [intro, simp]: "400 \<le> n \<Longrightarrow> is_error (writeJSONError n m)"
  unfolding is_error_def by blast

lemma dashboardAuthorizationError_is [simp]: "is_error (dashboardAuthorizationError e)"
  by (simp add: dashboardAuthorizationError_def)

lemma managementAuthorize_denied:
  assumes "case srv_managementAuth s of None \<Rightarrow> True
    | Some a \<Rightarrow> \<not> bears_role a (rq_Authorization r) (if operator then {oa_operatorRole a} else {oa_requiredRole a, oa_operatorRole a})"
  shows "\<exists>rsp. managementAuthorize next operator s c r st w = Some (rsp, c, st, w) \<and> is_error rsp"
proof (cases "srv_managementAuth s")
  case None
  show ?thesis by (simp add: managementAuthorize_def None)
next
  case (Some a)
  have "(if operator then AuthorizeOperator a (rq_Authorization r) else AuthorizeViewer a (rq_Authorization r)) \<noteq> None"
    using assms Some by (cases operator) (simp_all add: AuthorizeOperator_iff AuthorizeViewer_iff)
  then obtain e where "(if operator then AuthorizeOperator a (rq_Authorization r) else AuthorizeViewer a (rq_Authorization r)) = Some e"
    by blast
  then show ?thesis by (simp add: managementAuthorize_def Some)
qed

text \<open>What a request to a setup endpoint does to the world before it is let through.\<close>

definition bootstrap_trace :: "('j, 'w, 'x, 'b) Server \<Rightarrow> 'w \<Rightarrow> 'w \<Rightarrow> bool" where
  "bootstrap_trace s w w' \<longleftrightarrow>
     (let w1 = snd (ss_IsSetupComplete (srv_setup s) w)
      in w' = w1 \<or> (\<exists>outcome. w' = recordAction s ''bootstrap_authorization'' outcome w1))"

lemma bootstrap_traceI:
  "bootstrap_trace s w (snd (ss_IsSetupComplete (srv_setup s) w))"
  "bootstrap_trace s w (recordAction s ''bootstrap_authorization'' outcome (snd (ss_IsSetupComplete (srv_setup s) w)))"
  unfolding bootstrap_trace_def Let_def by blast+

lemma setup_status_world: "setupIsSetupComplete ss w = (x, w1) \<Longrightarrow> w1 = snd (ss_IsSetupComplete ss w)"
  by (auto simp: setupIsSetupComplete_def split: prod.splits sum.splits)

lemma bootstrapOnly_denied:
  assumes "case srv_bootstrapAuth s of None \<Rightarrow> True | Some a \<Rightarrow> \<not> bears_setup_token a (rq_Authorization r)"
  shows "\<exists>rsp w'. bootstrapOnly next s c r st w = Some (rsp, c, st, w') \<and> is_error rsp \<and> bootstrap_trace s w w'"
proof -
  obtain x w1 where x: "setupIsSetupComplete (srv_setup s) w = (x, w1)" by fastforce
  note w1 = setup_status_world [OF x]
  show ?thesis
  proof (cases x)
    case (Inl e)
    then show ?thesis by (simp add: bootstrapOnly_def x w1 bootstrap_traceI)
  next
    case (Inr completed)
    show ?thesis
    proof (cases "completed \<or> srv_bootstrapAuth s = None")
      case True
      then show ?thesis by (cases completed) (simp_all add: bootstrapOnly_def x w1 Inr bootstrap_traceI)
    next
      case False
      then obtain a e where "srv_bootstrapAuth s = Some a" "bootstrapAuthorize (Some a) (Some (rq_Authorization r)) = Some e" "\<not> completed"
        using assms by (auto simp: bootstrapAuthorize_iff [symmetric])
      then show ?thesis by (simp add: bootstrapOnly_def x w1 Inr bootstrap_traceI)
    qed
  qed
qed

section \<open>Records of actions\<close>

text \<open>The name under which a change through an endpoint is recorded.\<close>

fun audit_name :: "endpoint \<Rightarrow> string" where
  "audit_name PostReconcile = ''manual_reconciliation''"
| "audit_name PostSetup = ''setup''"
| "audit_name PutSettings = ''settings_update''"
| "audit_name e = ''route_policy_mutation''"

text \<open>
  A handler that is recorded exactly once: compared with the run \<open>quiet\<close> of the same handler on a server
  without action history, it gives the same answer and leaves the same state, and its world is that of
  the quiet run to which the store was given one event, of the name of the action, or of a rejection
  when the throttle refused it, and with the outcome that belongs to the status of the answer.
\<close>

definition outcome_fits :: "response \<Rightarrow> string \<Rightarrow> bool" where
  "outcome_fits rsp outcome \<longleftrightarrow>
     (if 200 \<le> rsp_status rsp \<and> rsp_status rsp < 300 then outcome = ''success''
      else if rsp_status rsp = 429 then outcome = ''denied''
      else outcome = ''failure'' \<or> outcome = ''canceled'')"

definition recorded_once ::
  "(ActionEvent \<Rightarrow> 'w \<Rightarrow> 'e \<times> 'w) \<Rightarrow> string \<Rightarrow> ('w, 'x) handled \<Rightarrow> ('w, 'x) handled \<Rightarrow> bool" where
  "recorded_once store_event action quiet res \<longleftrightarrow>
     (case quiet of
        None \<Rightarrow> res = None
      | Some (rsp, c, st, w0) \<Rightarrow>
          \<exists>outcome. outcome_fits rsp outcome \<and>
            res = Some (rsp, c, st, snd (store_event
              \<lparr>ae_Action = (if rsp_status rsp = 429 then ''rate_limit_rejection'' else action), ae_Outcome = outcome\<rparr> w0)))"

abbreviation without_history :: "('j, 'w, 'x, 'b) Server \<Rightarrow> ('j, 'w, 'x, 'b) Server" where
  "without_history s \<equiv> s\<lparr>srv_actionHistory := None\<rparr>"

lemma recorded_once_None [simp]: "recorded_once store_event action None None"
  by (simp add: recorded_once_def)

lemma recorded_onceI:
  assumes "srv_actionHistory s = Some store_event" "rsp_status rsp \<noteq> 429" "outcome_fits rsp outcome"
  shows "recorded_once store_event action (audited (without_history s) action outcome rsp c st w) (audited s action outcome rsp c st w)"
  using assms by (auto simp: recorded_once_def audited_def recordAction_def)

lemma recorded_success:
  "srv_actionHistory s = Some store_event \<Longrightarrow> 200 \<le> rsp_status rsp \<Longrightarrow> rsp_status rsp < 300 \<Longrightarrow>
   recorded_once store_event action (audited (without_history s) action ''success'' rsp c st w) (audited s action ''success'' rsp c st w)"
  by (rule recorded_onceI) (simp_all add: outcome_fits_def)

lemma recorded_failure:
  "srv_actionHistory s = Some store_event \<Longrightarrow> 300 \<le> rsp_status rsp \<Longrightarrow> rsp_status rsp \<noteq> 429 \<Longrightarrow>
   outcome = ''failure'' \<or> outcome = ''canceled'' \<Longrightarrow>
   recorded_once store_event action (audited (without_history s) action outcome rsp c st w) (audited s action outcome rsp c st w)"
  by (rule recorded_onceI) (simp_all add: outcome_fits_def)

lemma outcomeForError_cases: "outcomeForError x = ''failure'' \<or> outcomeForError x = ''canceled''"
  by (simp add: outcomeForError_def)

lemmas audit_intros = recorded_success recorded_failure [OF _ _ _ disjI1 [OF refl]]
  recorded_failure [OF _ _ _ disjI2 [OF refl]] recorded_failure [OF _ _ _ outcomeForError_cases]

lemma policy_result_status:
  "300 \<le> rsp_status (writeRoutePolicyResult (Inl e))" "rsp_status (writeRoutePolicyResult (Inl e)) \<noteq> 429"
  "rsp_status (writeRoutePolicyResult (Inr p)) = 200"
  by (simp_all add: writeRoutePolicyResult_def split: policy_error.split)

lemma createRoutePolicy_audited:
  assumes "srv_actionHistory s = Some store_event"
  shows "recorded_once store_event ''route_policy_mutation'' (createRoutePolicy (without_history s) c r st w) (createRoutePolicy s c r st w)"
  unfolding createRoutePolicy_def Let_def
  using assms by (auto simp: audit_intros policy_result_status split: option.split sum.split prod.split)

lemma updateRoutePolicy_audited:
  assumes "srv_actionHistory s = Some store_event"
  shows "recorded_once store_event ''route_policy_mutation'' (updateRoutePolicy u (without_history s) c r st w) (updateRoutePolicy u s c r st w)"
  unfolding updateRoutePolicy_def Let_def
  using assms by (auto simp: audit_intros policy_result_status split: option.split sum.split prod.split)

lemma deleteRoutePolicy_audited:
  assumes "srv_actionHistory s = Some store_event"
  shows "recorded_once store_event ''route_policy_mutation'' (deleteRoutePolicy u (without_history s) c r st w) (deleteRoutePolicy u s c r st w)"
  unfolding deleteRoutePolicy_def Let_def
  using assms by (auto simp: audit_intros split: option.split prod.split policy_error.split)

lemma setup_error_status: "writeSetupError ss err = Some rsp \<Longrightarrow> 300 \<le> rsp_status rsp \<and> rsp_status rsp \<noteq> 429"
  by (auto simp: writeSetupError_def split: if_splits)

lemma allowAction_audited:
  assumes "srv_actionHistory s = Some store_event"
    and "\<And>st1. recorded_once store_event action (next1 st1 w) (next2 st1 w)"
  shows "recorded_once store_event action
     (case allowAction (without_history s) r a st w of
        (Some rsp, st1, w1) \<Rightarrow> Some (rsp, c, st1, w1) | (None, st1, w1) \<Rightarrow> next1 st1 w1)
     (case allowAction s r a st w of
        (Some rsp, st1, w1) \<Rightarrow> Some (rsp, c, st1, w1) | (None, st1, w1) \<Rightarrow> next2 st1 w1)"
  using assms by (auto simp: allowAction_def recordAction_def recorded_once_def [of _ _ "Some _"] outcome_fits_def split: prod.split bool.split)

lemma changeSettings_audited:
  assumes "srv_actionHistory s = Some store_event"
  shows "recorded_once store_event event (changeSettings action event message change (without_history s) c r st w)
     (changeSettings action event message change s c r st w)"
  unfolding changeSettings_def
  by (rule allowAction_audited [OF assms])
    (use assms in \<open>auto simp: audit_intros setup_error_status split: option.split prod.split\<close>)

lemma reconcileDashboard_audited:
  assumes "srv_actionHistory s = Some store_event" "srv_dashboardRefresh s = Some task" "srv_dashboardAuth s = Some a"
    and "rq_CSRF r = ''1''" "AuthorizeOperator a (rq_Authorization r) = None"
  shows "recorded_once store_event ''manual_reconciliation'' (reconcileDashboard (without_history s) c r st w) (reconcileDashboard s c r st w)"
proof -
  have h: "srv_dashboardRefresh (without_history s) = Some task" "srv_dashboardAuth (without_history s) = Some a"
    using assms by simp_all
  show ?thesis unfolding reconcileDashboard_def h assms(2,3) prod.case option.case
    by (rule allowAction_audited [OF assms(1)]) (use assms in \<open>auto simp: audit_intros split: option.split\<close>)
qed

text \<open>
  When a request to an endpoint that changes policies, settings or routes reaches its handler: it
  holds the role of the endpoint; setup is still open; a manual reconciliation is offered, comes from
  the dashboard's own page and from an operator of the dashboard.
\<close>

definition admitted :: "('j, 'w, 'x, 'b) Server \<Rightarrow> request \<Rightarrow> 'w \<Rightarrow> bool" where
  "admitted s r w \<longleftrightarrow> permitted s r \<and>
     (case rq_endpoint r of
        PostRoutePolicy \<Rightarrow> True
      | PutRoutePolicy u \<Rightarrow> True
      | DeleteRoutePolicy u \<Rightarrow> True
      | PutSettings \<Rightarrow> True
      | PostSetup \<Rightarrow> fst (ss_IsSetupComplete (srv_setup s) w) = Inr False
      | PostReconcile \<Rightarrow> srv_dashboardRefresh s \<noteq> None \<and> rq_CSRF r = ''1'' \<and>
          (case srv_dashboardAuth s of None \<Rightarrow> False | Some a \<Rightarrow> bears_role a (rq_Authorization r) {oa_operatorRole a})
      | _ \<Rightarrow> False)"

lemma managementOperator_admitted:
  assumes "case srv_managementAuth s of None \<Rightarrow> False | Some a \<Rightarrow> AuthorizeOperator a (rq_Authorization r) = None"
  shows "managementOperator next s c r st w = next s c r st w"
  using assms by (simp add: managementOperator_def managementAuthorize_def split: option.splits)

lemma bootstrapOnly_admitted:
  assumes "fst (ss_IsSetupComplete (srv_setup s) w) = Inr False"
    and "case srv_bootstrapAuth s of None \<Rightarrow> False | Some a \<Rightarrow> bootstrapAuthorize (Some a) (Some (rq_Authorization r)) = None"
  shows "bootstrapOnly next s c r st w =
     next s c r st (recordAction s ''bootstrap_authorization'' ''success'' (snd (ss_IsSetupComplete (srv_setup s) w)))"
proof -
  obtain w1 where "ss_IsSetupComplete (srv_setup s) w = (Inr False, w1)" using assms(1) by (metis prod.collapse)
  then have "setupIsSetupComplete (srv_setup s) w = (Inr False, w1)" "snd (ss_IsSetupComplete (srv_setup s) w) = w1"
    by (simp_all add: setupIsSetupComplete_def)
  then show ?thesis using assms(2) by (simp add: bootstrapOnly_def split: option.splits)
qed

text \<open>The handler behind an endpoint that changes something, and the world its guard hands it.\<close>

fun change_handler :: "endpoint \<Rightarrow> ('j, 'w, 'x, 'b) handler" where
  "change_handler PostReconcile = reconcileDashboard"
| "change_handler PostRoutePolicy = createRoutePolicy"
| "change_handler (PutRoutePolicy u) = updateRoutePolicy u"
| "change_handler (DeleteRoutePolicy u) = deleteRoutePolicy u"
| "change_handler PostSetup = configureSetup"
| "change_handler e = updateSettings"

definition guarded_world :: "('j, 'w, 'x, 'b) Server \<Rightarrow> request \<Rightarrow> 'w \<Rightarrow> 'w" where
  "guarded_world s r w =
     (if rq_endpoint r = PostSetup
      then recordAction s ''bootstrap_authorization'' ''success'' (snd (ss_IsSetupComplete (srv_setup s) w)) else w)"

section \<open>Properties\<close>

text \<open>A server before setup whose world is the action history, and a request without credentials.\<close>

definition example_setup :: "(fake_json, ActionEvent log, string, string) SetupService" where
  "example_setup =
     \<lparr>ss_IsSetupComplete = (\<lambda>w. (Inr False, w)), ss_Save = (\<lambda>v w. (None, w)), ss_StageSetup = (\<lambda>v w. (Inr ''0a'', w)),
      ss_PromotePendingSetup = (\<lambda>g w. (None, w)), ss_validator = (\<lambda>c u k w. Some (None, c, w)), ss_refresher = NoRefresher,
      ss_resolver = Some (\<lambda>n w. Inr ''key''), ss_alreadyConfigured = ''already configured''\<rparr>"

definition example_json :: json_decoders where
  "example_json =
     \<lparr>dec_setup = (\<lambda>body. Some (\<lparr>sr_pelican_url = ''https://panel.example.com'', sr_pelican_secret_name = ''pelican_api_key'',
        sr_router_domain = ''mc.example.com''\<rparr>, [])),
      dec_create = (\<lambda>body. None), dec_update = (\<lambda>body. None)\<rparr>"

definition example_server :: "(fake_json, ActionEvent log, string, string) Server" where
  "example_server =
     \<lparr>srv_setup = example_setup, srv_build = \<lparr>build_Version = ''dev'', build_Revision = ''unknown''\<rparr>, srv_dashboard = True,
      srv_dashboardAuth = None, srv_dashboardRefresh = None,
      srv_bootstrapAuth = Some \<lparr>ba_reader = (\<lambda>n. Inr ''token''), ba_tokenName = ''bootstrap-token''\<rparr>,
      srv_managementAuth = None, srv_routePolicies = None, srv_operationalHistory = None, srv_actionHistoryReader = None,
      srv_actionHistory = Some (\<lambda>e l. actionAppend 1000 [] 1 0 e l),
      srv_canceled = (\<lambda>x. False), srv_backendCanceled = (\<lambda>b. False), srv_policyCanceled = (\<lambda>e. False),
      srv_json = example_json\<rparr>"

definition example_request :: "string \<Rightarrow> request" where
  "example_request authorization =
     \<lparr>rq_endpoint = PostSetup, rq_Authorization = authorization, rq_CSRF = [], rq_limit = [], rq_revision = [],
      rq_body = ''{}'', rq_now = 5\<rparr>"

definition example_server_state :: "(ActionEvent log, string) ServerState" where
  "example_server_state =
     \<lparr>sv_runtime = \<lparr>st_manager = runtimeNew, st_tracker = NewReconciliationTracker, st_ticks = 0\<rparr>,
      sv_limiter = Some (limiterNew 1000000000)\<rparr>"

text \<open>
  C3. A request that does not hold the role its endpoint requires is refused and inert.  Reading
  requires the viewer or the operator role, every change and the manual reconciliation the operator
  role, and setup the setup token; a viewer is refused where an operator is required.  The answer is an
  error, which tells nothing about servers, routes, policies, settings or past actions; the runtime and
  the throttle stay as they were, and so does the world, but for the reading of the setup status and one
  record of the refused setup.
\<close>

theorem http_unauthorized_inert:
  assumes "\<not> permitted s r"
  shows "\<exists>rsp w'. Router s c r st w = Some (rsp, c, st, w') \<and> is_error rsp \<and>
     (if required (rq_endpoint r) = SetupToken then bootstrap_trace s w w' else w' = w)"
proof (cases "required (rq_endpoint r)")
  case Public
  then show ?thesis using assms by (simp add: permitted_def)
next
  case Viewer
  have "case srv_managementAuth s of None \<Rightarrow> True
    | Some a \<Rightarrow> \<not> bears_role a (rq_Authorization r) (if False then {oa_operatorRole a} else {oa_requiredRole a, oa_operatorRole a})"
    using assms Viewer by (simp add: permitted_def split: option.splits)
  note d = managementAuthorize_denied [OF this]
  show ?thesis using Viewer
    by (cases "rq_endpoint r") (simp_all add: Router_def managementViewer_def d)
next
  case Operator
  have "case srv_managementAuth s of None \<Rightarrow> True
    | Some a \<Rightarrow> \<not> bears_role a (rq_Authorization r) (if True then {oa_operatorRole a} else {oa_requiredRole a, oa_operatorRole a})"
    using assms Operator by (simp add: permitted_def split: option.splits)
  note d = managementAuthorize_denied [OF this]
  show ?thesis using Operator
    by (cases "rq_endpoint r") (simp_all add: Router_def managementOperator_def d)
next
  case SetupToken
  have "case srv_bootstrapAuth s of None \<Rightarrow> True | Some a \<Rightarrow> \<not> bears_setup_token a (rq_Authorization r)"
    using assms SetupToken by (simp add: permitted_def split: option.splits)
  note d = bootstrapOnly_denied [OF this]
  show ?thesis using SetupToken
    by (cases "rq_endpoint r") (simp_all add: Router_def d)
qed

text \<open>A viewer who tries to change the settings, and a setup request with a wrong token.\<close>

definition example_viewer :: oidcAuthorizer where
  "example_viewer =
     \<lparr>oa_verify = (\<lambda>token. Inr \<lparr>id_subject = ''alice'', id_roles = [''viewer'']\<rparr>), oa_requiredRole = ''viewer'', oa_operatorRole = ''operator''\<rparr>"

theorem http_unauthorized_inert_witness:
  "(\<exists>rsp w'. Router (example_server\<lparr>srv_managementAuth := Some example_viewer\<rparr>) Background
        ((example_request ''Bearer token'')\<lparr>rq_endpoint := PutSettings\<rparr>) example_server_state empty_log =
        Some (rsp, Background, example_server_state, w') \<and> is_error rsp \<and> w' = empty_log) \<and>
   (\<exists>rsp w'. Router example_server Background (example_request ''Bearer wrong'') example_server_state empty_log =
        Some (rsp, Background, example_server_state, w') \<and> is_error rsp \<and> bootstrap_trace example_server empty_log w')"
proof -
  have v: "\<not> permitted (example_server\<lparr>srv_managementAuth := Some example_viewer\<rparr>) ((example_request ''Bearer token'')\<lparr>rq_endpoint := PutSettings\<rparr>)"
    by code_simp
  have t: "\<not> permitted example_server (example_request ''Bearer wrong'')" by code_simp
  from http_unauthorized_inert [OF v] http_unauthorized_inert [OF t] show ?thesis
    by (auto simp: example_request_def)
qed

text \<open>
  C17. Every change of policies or settings, every setup and every manual reconciliation that reaches
  its handler is recorded exactly once and under its own name.  What the server does is what the same
  handler does on a server that keeps no action history, with the same answer and the same state, and
  then one event is handed to the store of the action history: the name of the endpoint's action, or a
  rejection when the throttle refused the request, with outcome success exactly when the answer's status
  is a success.  (The code ignores an error of that store: it does not change the answer.)
\<close>

theorem http_changes_audited:
  assumes "admitted s r w" and "srv_actionHistory s = Some store_event"
  shows "recorded_once store_event (audit_name (rq_endpoint r))
     (change_handler (rq_endpoint r) (without_history s) c r st (guarded_world s r w)) (Router s c r st w)"
proof (cases "rq_endpoint r = PostSetup")
  case True
  have "fst (ss_IsSetupComplete (srv_setup s) w) = Inr False"
    "case srv_bootstrapAuth s of None \<Rightarrow> False | Some a \<Rightarrow> bootstrapAuthorize (Some a) (Some (rq_Authorization r)) = None"
    using assms(1) True by (auto simp: admitted_def permitted_def bootstrapAuthorize_iff split: option.splits)
  note b = bootstrapOnly_admitted [OF this, of configureSetup c st]
  show ?thesis using True changeSettings_audited [OF assms(2)]
    by (simp add: Router_def guarded_world_def b) (simp add: configureSetup_def)
next
  case False
  then have "required (rq_endpoint r) = Operator" using assms(1) by (cases "rq_endpoint r") (simp_all add: admitted_def)
  then have op: "case srv_managementAuth s of None \<Rightarrow> False | Some a \<Rightarrow> AuthorizeOperator a (rq_Authorization r) = None"
    using assms(1) by (auto simp: admitted_def permitted_def AuthorizeOperator_iff split: option.splits)
  have rec: "recorded_once store_event ''manual_reconciliation'' (reconcileDashboard (without_history s) c r st w) (reconcileDashboard s c r st w)"
    if "rq_endpoint r = PostReconcile"
    using assms(1) that by (auto simp: admitted_def AuthorizeOperator_iff [symmetric] split: option.splits
        intro: reconcileDashboard_audited [OF assms(2)])
  note laws = createRoutePolicy_audited updateRoutePolicy_audited deleteRoutePolicy_audited changeSettings_audited
  show ?thesis using assms(1) False
    by (cases "rq_endpoint r") (simp_all add: rec admitted_def Router_def guarded_world_def managementOperator_admitted [OF op]
        updateSettings_def laws [OF assms(2)])
qed

theorem http_changes_audited_witness:
  "\<exists>store_event. srv_actionHistory example_server = Some store_event \<and>
     recorded_once store_event ''setup''
       (configureSetup (without_history example_server) Background (example_request ''Bearer token'') example_server_state
         (guarded_world example_server (example_request ''Bearer token'') empty_log))
       (Router example_server Background (example_request ''Bearer token'') example_server_state empty_log)"
proof -
  have "permitted example_server (example_request ''Bearer token'')" by code_simp
  then have u: "admitted example_server (example_request ''Bearer token'') empty_log"
    by (simp add: admitted_def example_server_def example_setup_def example_request_def)
  have "\<exists>store_event. srv_actionHistory example_server = Some store_event" by (simp add: example_server_def)
  then obtain store_event where h: "srv_actionHistory example_server = Some store_event" ..
  have e: "rq_endpoint (example_request ''Bearer token'') = PostSetup" by (simp add: example_request_def)
  from http_changes_audited [OF u h, of Background example_server_state] h show ?thesis unfolding e by auto
qed

text \<open>
  The three views of readiness agree: the status endpoint answers exactly the snapshot the
  dashboard shows, and the readiness endpoint answers its two fields, with status 200 exactly when it
  says ready.
\<close>

lemma readiness_views_agree:
  "(case dashboardSnapshot (srv_build s) (setupIsSetupComplete (srv_setup s)) (st_tracker (sv_runtime st)) w of
      (Inl e, w1) \<Rightarrow>
        status s c r st w = Some (writeJSONError 503 ''application status unavailable'', c, st, w1) \<and>
        ready s c r st w = Some (writeJSON 503 (ReadinessBody False ''status_unavailable''), c, st, w1)
    | (Inr snapshot, w1) \<Rightarrow>
        status s c r st w = Some (writeJSON 200 (StatusBody snapshot), c, st, w1) \<and>
        ready s c r st w = Some (writeJSON (if ds_Ready snapshot then 200 else 503)
          (ReadinessBody (ds_Ready snapshot) (ds_ReadinessReason snapshot)), c, st, w1))"
proof -
  have agree: "readinessFor completed t = \<lparr>rd_Ready = readyFor completed t, rd_Reason = readinessReasonFor completed t\<rparr>" for completed t
    by (simp add: readinessFor_def readyFor_def readinessReasonFor_def split: option.split ReconciliationOutcome.split)
  have same: "reconciliationResponse t = reconciliationFrom t" for t
    by (simp add: reconciliationResponse_def reconciliationFrom_def)
  show ?thesis
    by (simp add: dashboardSnapshot_def status_def ready_def sv_status_def agree same Let_def split: prod.split sum.split)
qed

end
