(* ===== verification/Observability.thy ===== *)
theory Observability
  imports ReconStatus
begin

text \<open>
  The Prometheus metrics of reconciliations, \<open>internal/observability/reconciliation.go\<close>.

  A counter vector is a map from its label to its count, a histogram the list of its observations, a
  gauge its value.  Durations and times are kept in nanoseconds: the division by a second that the code
  makes in \<open>float64\<close>, and its rounding, are not modelled.  Registration of a collector with the registry is a parameter.
\<close>

record ReconciliationMetrics =
  m_reconciliations :: "string \<Rightarrow> nat"
  m_duration :: "int list"
  m_lastSuccessTimestamp :: int
  m_consecutiveFailures :: int
  m_inProgress :: int

definition metric_names :: "string list" where
  "metric_names = [''pelican_mc_router_reconciliation_total'', ''pelican_mc_router_reconciliation_duration_seconds'',
     ''pelican_mc_router_reconciliation_last_success_timestamp_seconds'',
     ''pelican_mc_router_reconciliation_consecutive_failures'', ''pelican_mc_router_reconciliation_in_progress'']"

definition initial_metrics :: ReconciliationMetrics where
  "initial_metrics = \<lparr>m_reconciliations = (\<lambda>_. 0), m_duration = [], m_lastSuccessTimestamp = 0, m_consecutiveFailures = 0, m_inProgress = 0\<rparr>"

definition NewReconciliationMetrics :: "(string \<Rightarrow> 'e option) \<Rightarrow> 'e + ReconciliationMetrics" where
  "NewReconciliationMetrics register =
     foldE (\<lambda>name m. case register name of Some e \<Rightarrow> Inl e | None \<Rightarrow> Inr m) metric_names initial_metrics"

definition metricResult :: "ReconciliationOutcome \<Rightarrow> string" where
  "metricResult outcome =
     (case outcome of OutcomeNotConfigured \<Rightarrow> ''not_configured'' | OutcomeSuccess \<Rightarrow> ''success'' | OutcomeFailure \<Rightarrow> ''failure'')"

definition ObserveReconciliation :: "ReconciliationStatus \<Rightarrow> ReconciliationMetrics \<Rightarrow> ReconciliationMetrics" where
  "ObserveReconciliation status m =
     (if InProgress status then m\<lparr>m_inProgress := 1\<rparr>
      else let m = m\<lparr>m_inProgress := 0\<rparr>
           in case (LastOutcome status, LastStartedAt status, LastCompletedAt status) of
                (Some outcome, Some started, Some completed) \<Rightarrow>
                  let result = metricResult outcome;
                      duration = (if completed - started < 0 then 0 else completed - started);
                      m = m\<lparr>m_reconciliations := (m_reconciliations m)(result := m_reconciliations m result + 1),
                            m_duration := m_duration m @ [duration],
                            m_consecutiveFailures := ConsecutiveFailures status\<rparr>
                  in if outcome = OutcomeSuccess then m\<lparr>m_lastSuccessTimestamp := completed\<rparr> else m
              | _ \<Rightarrow> m)"

section \<open>Metrics of a history\<close>

text \<open>The refresh task shows the tracker to the metrics after each tracker operation.\<close>

definition observe_event :: "tracker_event \<Rightarrow> ReconciliationStatus \<times> ReconciliationMetrics \<Rightarrow> ReconciliationStatus \<times> ReconciliationMetrics" where
  "observe_event e s = (let t = apply_event e (fst s) in (t, ObserveReconciliation (Snapshot t) (snd s)))"

definition run_observed :: "tracker_event list \<Rightarrow> ReconciliationStatus \<times> ReconciliationMetrics" where
  "run_observed es = fold observe_event es (NewReconciliationTracker, initial_metrics)"

lemma run_observed_snoc [simp]: "run_observed (es @ [e]) = observe_event e (run_observed es)"
  by (simp add: run_observed_def)

lemma run_observed_tracker: "fst (run_observed es) = run_events es"
  by (induction es rule: rev_induct) (simp_all add: observe_event_def Let_def, simp add: run_observed_def)

lemma run_started: "LastStartedAt (run_events (EvStart n0 # es)) \<noteq> None"
proof (induction es rule: rev_induct)
  case Nil
  show ?case by (simp add: run_events_def)
next
  case (snoc e es)
  have "run_events (EvStart n0 # es @ [e]) = apply_event e (run_events (EvStart n0 # es))"
    using run_events_snoc [of "EvStart n0 # es" e] by simp
  with snoc apply_completion [of e] apply_start [of e] show ?case
    by (cases "is_completion e") (auto simp: complete_times)
qed

text \<open>
  The metrics that a history calls for, under the labels Prometheus exports: the number of completed
  attempts per outcome, their durations in order, the time of the last success, the length of the
  failing tail and whether an attempt is running.
\<close>

definition metrics_agree :: "tracker_event list \<Rightarrow> ReconciliationMetrics \<Rightarrow> bool" where
  "metrics_agree es m \<longleftrightarrow>
     m_reconciliations m ''success'' = count_list (outcomes es) OutcomeSuccess \<and>
     m_reconciliations m ''failure'' = count_list (outcomes es) OutcomeFailure \<and>
     m_reconciliations m ''not_configured'' = count_list (outcomes es) OutcomeNotConfigured \<and>
     m_duration m = attempts None es \<and>
     m_lastSuccessTimestamp m = (case last_event is_success es of None \<Rightarrow> 0 | Some e \<Rightarrow> event_time e) \<and>
     m_consecutiveFailures m = int (trailing_failures (outcomes es)) \<and>
     m_inProgress m = (if es \<noteq> [] \<and> \<not> is_completion (last es) then 1 else 0)"

lemma metrics_agree_step:
  assumes IH: "metrics_agree es m" and started: "LastStartedAt (run_events es) \<noteq> None"
  shows "metrics_agree (es @ [e]) (ObserveReconciliation (apply_event e (run_events es)) m)"
proof (cases "is_completion e")
  case False
  then show ?thesis using IH
    by (auto simp: metrics_agree_def apply_start ObserveReconciliation_def is_success_def is_completion_def)
next
  case True
  obtain x where x: "event_outcome e = Some x" using True by (auto simp: is_completion_def)
  obtain s where s: "LastStartedAt (run_events es) = Some s" using started by blast
  then have ls: "last_start None es = Some s" by (auto simp: run_status status_of_def last_start_def)
  have t: "apply_event e (run_events es) = status_of (es @ [e])" using run_status [of "es @ [e]"] by simp
  have st: "LastStartedAt (status_of (es @ [e])) = Some s"
    using s True by (simp add: run_status status_of_def)
  have f: "InProgress (status_of (es @ [e])) = False" "LastOutcome (status_of (es @ [e])) = Some x"
    "LastCompletedAt (status_of (es @ [e])) = Some (event_time e)"
    "ConsecutiveFailures (status_of (es @ [e])) = int (trailing_failures (outcomes (es @ [e])))"
    using True x by (simp_all add: status_of_def)
  show ?thesis
    using IH True x ls
    by (cases x) (simp_all add: metrics_agree_def t ObserveReconciliation_def st f metricResult_def is_success_def max_def)
qed

section \<open>Properties\<close>

text \<open>
  C30. The exported metrics never drift from what happened: after any history that begins with a start,
  the counter of each label is the number of attempts that ended so, the observed durations are those
  of the completed attempts in order, and the gauges show the last success, the failing tail and
  whether an attempt is running.
\<close>

theorem metrics_follow_history: "metrics_agree (EvStart n0 # es) (snd (run_observed (EvStart n0 # es)))"
proof (induction es rule: rev_induct)
  case Nil
  show ?case
    by (simp add: metrics_agree_def run_observed_def observe_event_def Let_def Snapshot_def ObserveReconciliation_def
        last_event_def is_success_def is_completion_def outcomes_def trailing_failures_def map_filter_def initial_metrics_def)
next
  case (snoc e es)
  let ?h = "EvStart n0 # es"
  have "snd (run_observed (?h @ [e])) = ObserveReconciliation (apply_event e (run_events ?h)) (snd (run_observed ?h))"
    by (simp only: run_observed_snoc) (simp add: observe_event_def Let_def Snapshot_def run_observed_tracker)
  then show ?case using metrics_agree_step [OF snoc run_started, of e] by simp
qed

end
