(* ===== verification/Migrate.thy ===== *)
theory Migrate
  imports GoPath "HOL-Library.List_Lexorder" "HOL-Library.Char_ord"
begin

text \<open>
  Opening the database and migrating its schema, \<open>internal/storage/sqlite\<close> (\<open>db.go\<close>,
  \<open>migrate.go\<close>).

  A database is its schema and data of an arbitrary type \<open>'s\<close> and the table
  \<open>schema_migrations\<close>, absent (\<open>None\<close>) or the list of applied versions with their recorded
  checksums.  The embedded files are a list of names and contents; what running a migration's SQL does
  is the parameter \<open>exec\<close>, the SHA-256 digest the parameter \<open>sha\<close>.  Calls fail as the
  \<open>faults\<close> list says; a transaction that does not commit changes nothing.
\<close>

record 's mig_db =
  mig_data :: 's
  schema_migrations :: "(string \<times> string) list option"

datatype migrate_error =
    SchemaNewer | ChecksumMismatch string | ApplyMigration string | MigrationDB string

definition sql_files :: "(string \<times> string) list \<Rightarrow> (string \<times> string) list" where
  "sql_files entries = filter (\<lambda>(name, contents). HasSuffix name ''.sql'') entries"

definition recorded :: "'s mig_db \<Rightarrow> (string \<times> string) list" where
  "recorded db = (case schema_migrations db of None \<Rightarrow> [] | Some rows \<Rightarrow> rows)"

definition rejectUnknownMigrations :: "faults \<Rightarrow> string set \<Rightarrow> 's mig_db \<Rightarrow> migrate_error option \<times> faults" where
  "rejectUnknownMigrations fs known db =
     (if fault fs then (Some (MigrationDB ''check migration table''), tl fs)
      else case schema_migrations db of
        None \<Rightarrow> (None, tl fs)
      | Some rows \<Rightarrow>
          if fault (tl fs) then (Some (MigrationDB ''list applied migrations''), drop 2 fs)
          else if list_ex (\<lambda>(version, checksum). version \<notin> known) rows then (Some SchemaNewer, drop 2 fs)
          else (None, drop 2 fs))"

definition migrationApplied :: "faults \<Rightarrow> string \<Rightarrow> 's mig_db \<Rightarrow> (migrate_error + string option) \<times> faults" where
  "migrationApplied fs version db =
     (if fault fs then (Inl (MigrationDB ''check migration''), tl fs)
      else case map_of (recorded db) version of
        None \<Rightarrow> (Inr None, tl fs)
      | Some checksum \<Rightarrow>
          if fault (tl fs) then (Inl (MigrationDB ''read migration checksum''), drop 2 fs)
          else (Inr (Some checksum), drop 2 fs))"

definition applyMigration ::
  "(string \<Rightarrow> 's \<Rightarrow> 's option) \<Rightarrow> faults \<Rightarrow> string \<Rightarrow> string \<Rightarrow> string \<Rightarrow> 's mig_db \<Rightarrow> (migrate_error option \<times> 's mig_db) \<times> faults" where
  "applyMigration exec fs version contents checksum db =
     (if fault fs then ((Some (MigrationDB ''begin migration''), db), tl fs)
      else case exec contents (mig_data db) of
        None \<Rightarrow> ((Some (ApplyMigration version), db), tl fs)
      | Some data \<Rightarrow>
          if fault (tl fs) then ((Some (MigrationDB ''record migration''), db), drop 2 fs)
          else if fault (drop 2 fs) then ((Some (MigrationDB ''commit migration''), db), drop 3 fs)
          else ((None, \<lparr>mig_data = data, schema_migrations = Some (recorded db @ [(version, checksum)])\<rparr>), drop 3 fs))"

text \<open>One turn of the loop over the migrations.\<close>

definition migrate_one ::
  "(string \<Rightarrow> 's \<Rightarrow> 's option) \<Rightarrow> (string \<Rightarrow> string) \<Rightarrow> faults \<Rightarrow> string \<times> string \<Rightarrow> 's mig_db \<Rightarrow>
   (migrate_error option \<times> 's mig_db) \<times> faults" where
  "migrate_one exec sha fs migration db =
     (case migration of (name, contents) \<Rightarrow>
        if fault fs then ((Some (MigrationDB ''read migration''), db), tl fs)
        else let checksum = sha contents
             in case migrationApplied (tl fs) name db of
                  (Inl e, fs1) \<Rightarrow> ((Some e, db), fs1)
                | (Inr (Some old), fs1) \<Rightarrow>
                    if old \<noteq> [] \<and> old \<noteq> checksum then ((Some (ChecksumMismatch name), db), fs1)
                    else if old = [] then
                      (if fault fs1 then ((Some (MigrationDB ''record migration checksum''), db), tl fs1)
                       else ((None, db\<lparr>schema_migrations := Some (AList.update name checksum (recorded db))\<rparr>), tl fs1))
                    else ((None, db), fs1)
                | (Inr None, fs1) \<Rightarrow> applyMigration exec fs1 name contents checksum db)"

fun migrate_loop ::
  "(string \<Rightarrow> 's \<Rightarrow> 's option) \<Rightarrow> (string \<Rightarrow> string) \<Rightarrow> faults \<Rightarrow> (string \<times> string) list \<Rightarrow> 's mig_db \<Rightarrow>
   migrate_error option \<times> 's mig_db" where
  "migrate_loop exec sha fs [] db = (None, db)"
| "migrate_loop exec sha fs (migration # migrations) db =
     (case migrate_one exec sha fs migration db of
        ((Some e, db'), fs') \<Rightarrow> (Some e, db')
      | ((None, db'), fs') \<Rightarrow> migrate_loop exec sha fs' migrations db')"

definition Migrate ::
  "(string \<Rightarrow> 's \<Rightarrow> 's option) \<Rightarrow> (string \<Rightarrow> string) \<Rightarrow> faults \<Rightarrow> (string \<times> string) list \<Rightarrow> 's mig_db \<Rightarrow>
   migrate_error option \<times> 's mig_db" where
  "Migrate exec sha fs entries db =
     (if fault fs then (Some (MigrationDB ''read embedded migrations''), db)
      else case rejectUnknownMigrations (tl fs) (set (map fst (sql_files entries))) db of
        (Some e, fs1) \<Rightarrow> (Some e, db)
      | (None, fs1) \<Rightarrow>
          if fault fs1 then (Some (MigrationDB ''create schema migrations table''), db)
          else let db1 = db\<lparr>schema_migrations := Some (recorded db)\<rparr>
               in if fault (tl fs1) then (Some (MigrationDB ''add migration checksum column''), db1)
                  else migrate_loop exec sha (drop 2 fs1) (sort_key fst (sql_files entries)) db1)"

datatype open_error = PathRequired | MkdirFailed | OpenFailed | PingFailed | MigrateFailed migrate_error

definition sqliteOpen ::
  "(string \<Rightarrow> 's \<Rightarrow> 's option) \<Rightarrow> (string \<Rightarrow> string) \<Rightarrow> faults \<Rightarrow> (string \<times> string) list \<Rightarrow> string \<Rightarrow> 's mig_db \<Rightarrow>
   open_error option \<times> 's mig_db" where
  "sqliteOpen exec sha fs entries path db =
     (if path = [] then (Some PathRequired, db)
      else if fault fs then (Some MkdirFailed, db)
      else if fault (drop 1 fs) then (Some OpenFailed, db)
      else if fault (drop 2 fs) then (Some PingFailed, db)
      else case Migrate exec sha (drop 3 fs) entries db of (e, db') \<Rightarrow> (map_option MigrateFailed e, db'))"

section \<open>Resuming an interrupted migration\<close>

text \<open>A migration that is recorded with its checksum is not run again.\<close>

definition settled :: "(string \<Rightarrow> string) \<Rightarrow> string \<times> string \<Rightarrow> 's mig_db \<Rightarrow> bool" where
  "settled sha migration db \<longleftrightarrow> map_of (recorded db) (fst migration) = Some (sha (snd migration))"

lemma fault_Nil [simp]: "\<not> fault (tl [])" "\<not> fault (drop n [])"
  by simp_all

lemma migrate_one_failure:
  "migrate_one exec sha fs migration db = ((Some e, db'), fs') \<Longrightarrow> db' = db"
  by (auto simp: migrate_one_def migrationApplied_def applyMigration_def Let_def
      split: prod.splits if_splits option.splits sum.splits)

lemma migrate_one_success:
  assumes "migrate_one exec sha fs migration db = ((None, db'), fs')" and "\<forall>c. sha c \<noteq> []"
  shows "migrate_one exec sha [] migration db = ((None, db'), [])" and "settled sha migration db'"
    and "fst migration \<noteq> n \<Longrightarrow> map_of (recorded db') n = map_of (recorded db) n"
  using assms
  by (auto simp: migrate_one_def migrationApplied_def applyMigration_def Let_def recorded_def settled_def map_add_def
      split: prod.splits if_splits option.splits)

lemma migrate_one_settled:
  assumes "settled sha migration db" "\<forall>c. sha c \<noteq> []"
  shows "migrate_one exec sha [] migration db = ((None, db), [])"
  using assms by (auto simp: settled_def migrate_one_def migrationApplied_def Let_def split: prod.split)

lemma migrate_loop_keeps:
  assumes "migrate_loop exec sha fs ms db = (e, db')" "n \<notin> set (map fst ms)" "\<forall>c. sha c \<noteq> []"
  shows "map_of (recorded db') n = map_of (recorded db) n"
  using assms(1,2)
proof (induction ms arbitrary: fs db)
  case (Cons m ms)
  obtain e1 db1 fs1 where m: "migrate_one exec sha fs m db = ((e1, db1), fs1)" by (metis prod.collapse)
  show ?case
  proof (cases e1)
    case None
    with m Cons.prems have "migrate_loop exec sha fs1 ms db1 = (e, db')" by simp
    moreover have "map_of (recorded db1) n = map_of (recorded db) n"
      by (rule migrate_one_success(3) [OF m [unfolded None] assms(3)]) (use Cons.prems(2) in auto)
    ultimately show ?thesis using Cons.IH Cons.prems(2) by simp
  next
    case (Some x)
    with m Cons.prems(1) migrate_one_failure show ?thesis by fastforce
  qed
qed simp

lemma migrate_loop_resumes:
  assumes "\<forall>c. sha c \<noteq> []" "distinct (map fst ms)"
  shows "migrate_loop exec sha [] ms (snd (migrate_loop exec sha fs ms db)) = migrate_loop exec sha [] ms db"
  using assms(2)
proof (induction ms arbitrary: fs db)
  case (Cons m ms)
  obtain e1 db1 fs1 where m: "migrate_one exec sha fs m db = ((e1, db1), fs1)" by (metis prod.collapse)
  show ?case
  proof (cases e1)
    case None
    let ?db2 = "snd (migrate_loop exec sha fs1 ms db1)"
    have "map_of (recorded ?db2) (fst m) = map_of (recorded db1) (fst m)"
      by (rule migrate_loop_keeps [OF prod.collapse [symmetric] _ assms(1)]) (use Cons.prems in auto)
    then have "settled sha m ?db2"
      using migrate_one_success(2) [OF m [unfolded None] assms(1)] by (simp add: settled_def)
    then have "migrate_loop exec sha [] (m # ms) ?db2 = migrate_loop exec sha [] ms ?db2"
      by (simp add: migrate_one_settled [OF _ assms(1)])
    also have "\<dots> = migrate_loop exec sha [] ms db1" using Cons by simp
    also have "\<dots> = migrate_loop exec sha [] (m # ms) db"
      by (simp add: migrate_one_success(1) [OF m [unfolded None] assms(1)])
    finally show ?thesis using m None by simp
  next
    case (Some x)
    then show ?thesis using m migrate_one_failure [of exec sha fs m db x db1 fs1] by simp
  qed
qed simp

lemma sql_files_distinct: "distinct (map fst entries) \<Longrightarrow> distinct (map fst (sort_key fst (sql_files entries)))"
proof -
  assume "distinct (map fst entries)"
  then have "distinct (map fst (sql_files entries))" by (simp add: sql_files_def distinct_map_filter)
  moreover have "mset (map fst (sort_key fst (sql_files entries))) = mset (map fst (sql_files entries))" by simp
  ultimately show ?thesis by (metis mset_eq_imp_distinct_iff)
qed

text \<open>The versions a run of the loop records are those of its migrations.\<close>

lemma migrate_loop_known:
  assumes "\<forall>c. sha c \<noteq> []" "migrate_loop exec sha fs ms db = (e, db')" "v \<notin> set (map fst ms)"
  shows "v \<in> set (map fst (recorded db')) \<longleftrightarrow> v \<in> set (map fst (recorded db))"
  using migrate_loop_keeps [OF assms(2,3,1)] by (simp add: set_keys_map_of del: set_map list.set_map)

lemma rejectUnknown_iff:
  "fst (rejectUnknownMigrations [] known db) = None \<longleftrightarrow> set (map fst (recorded db)) \<subseteq> known"
  by (auto simp: rejectUnknownMigrations_def recorded_def list_ex_iff split: option.split)

lemma unknown_iff: "list_ex (\<lambda>(version, checksum). version \<notin> known) rows \<longleftrightarrow> \<not> set (map fst rows) \<subseteq> known"
  by (auto simp: list_ex_iff)

lemma Migrate_faultless:
  "Migrate exec sha [] entries db =
     (if set (map fst (recorded db)) \<subseteq> set (map fst (sql_files entries))
      then migrate_loop exec sha [] (sort_key fst (sql_files entries)) (db\<lparr>schema_migrations := Some (recorded db)\<rparr>)
      else (Some SchemaNewer, db))"
  by (simp add: Migrate_def rejectUnknownMigrations_def recorded_def unknown_iff Let_def split: option.split)

lemma migrate_loop_table:
  "schema_migrations db \<noteq> None \<Longrightarrow> schema_migrations (snd (migrate_loop exec sha fs ms db)) \<noteq> None"
proof (induction ms arbitrary: fs db)
  case (Cons m ms)
  obtain e1 db1 fs1 where m: "migrate_one exec sha fs m db = ((e1, db1), fs1)" by (metis prod.collapse)
  have "schema_migrations db1 \<noteq> None"
    using m Cons.prems by (auto simp: migrate_one_def migrationApplied_def applyMigration_def Let_def
        split: prod.splits if_splits option.splits sum.splits)
  with Cons.IH [of db1 fs1] m show ?case by (simp split: option.split)
qed simp

section \<open>Properties\<close>

text \<open>
  C31. An interrupted migration can be resumed: whichever database call fails, opening the database
  again applies what is missing and ends exactly as if the first attempt had not failed; in
  particular migrating a migrated database changes nothing.
\<close>

theorem migration_resumes:
  assumes "distinct (map fst entries)" and "\<forall>c. sha c \<noteq> []"
  shows "Migrate exec sha [] entries (snd (Migrate exec sha fs entries db)) = Migrate exec sha [] entries db"
proof -
  let ?ms = "sort_key fst (sql_files entries)" and ?db1 = "db\<lparr>schema_migrations := Some (recorded db)\<rparr>"
  let ?known = "set (map fst (sql_files entries))"
  have rec: "recorded ?db1 = recorded db" by (simp add: recorded_def)
  have "\<exists>fs2. snd (Migrate exec sha fs entries db) = db \<or>
      set (map fst (recorded db)) \<subseteq> ?known \<and> (snd (Migrate exec sha fs entries db) = ?db1 \<or>
        snd (Migrate exec sha fs entries db) = snd (migrate_loop exec sha fs2 ?ms ?db1))"
    by (auto simp: Migrate_def rejectUnknownMigrations_def recorded_def unknown_iff Let_def
        split: option.splits if_splits)
  then consider "snd (Migrate exec sha fs entries db) = db" | "set (map fst (recorded db)) \<subseteq> ?known" "snd (Migrate exec sha fs entries db) = ?db1"
    | fs2 where "set (map fst (recorded db)) \<subseteq> ?known"
        "snd (Migrate exec sha fs entries db) = snd (migrate_loop exec sha fs2 ?ms ?db1)" by blast
  then show ?thesis
  proof cases
    case 1
    then show ?thesis by simp
  next
    case 2
    then show ?thesis by (simp add: Migrate_faultless rec)
  next
    case 3
    let ?db2 = "snd (migrate_loop exec sha fs2 ?ms ?db1)"
    have keys: "set (map fst (recorded ?db2)) \<subseteq> ?known"
    proof
      fix v
      assume "v \<in> set (map fst (recorded ?db2))"
      with migrate_loop_known [OF assms(2) prod.collapse [symmetric], of v ?ms exec fs2 ?db1] 3(1) rec
      show "v \<in> ?known" by auto
    qed
    have "schema_migrations ?db2 \<noteq> None" by (rule migrate_loop_table) simp
    then have some: "?db2\<lparr>schema_migrations := Some (recorded ?db2)\<rparr> = ?db2" by (auto simp: recorded_def)
    show ?thesis
      using migrate_loop_resumes [OF assms(2) sql_files_distinct [OF assms(1)], of exec fs2 ?db1]
      by (simp add: 3(2) Migrate_faultless keys 3(1) some del: set_map list.set_map)
  qed
qed

definition example_migrations :: "(string \<times> string) list" where
  "example_migrations = [(''0002.sql'', ''b''), (''embed.go'', ''x''), (''0001.sql'', ''a'')]"

theorem migration_resumes_witness:
  "snd (Migrate (\<lambda>sql data. Some (data @ sql)) (\<lambda>c. CHR ''#'' # c) [] example_migrations
     (snd (Migrate (\<lambda>sql data. Some (data @ sql)) (\<lambda>c. CHR ''#'' # c) (replicate 10 False @ [True]) example_migrations
       \<lparr>mig_data = [], schema_migrations = None\<rparr>))) =
   \<lparr>mig_data = ''ab'', schema_migrations = Some [(''0001.sql'', ''#a''), (''0002.sql'', ''#b'')]\<rparr>"
proof -
  have "distinct (map fst example_migrations)" by (simp add: example_migrations_def)
  from migration_resumes [OF this, of "\<lambda>c. CHR ''#'' # c"]
  have "Migrate (\<lambda>sql data. Some (data @ sql)) (\<lambda>c. CHR ''#'' # c) [] example_migrations
     (snd (Migrate (\<lambda>sql data. Some (data @ sql)) (\<lambda>c. CHR ''#'' # c) (replicate 10 False @ [True]) example_migrations
       \<lparr>mig_data = [], schema_migrations = None\<rparr>)) =
     Migrate (\<lambda>sql data. Some (data @ sql)) (\<lambda>c. CHR ''#'' # c) [] example_migrations \<lparr>mig_data = [], schema_migrations = None\<rparr>"
    by simp
  moreover have "snd (Migrate (\<lambda>sql data. Some (data @ sql)) (\<lambda>c. CHR ''#'' # c) [] example_migrations
      \<lparr>mig_data = [], schema_migrations = None\<rparr>) =
    \<lparr>mig_data = ''ab'', schema_migrations = Some [(''0001.sql'', ''#a''), (''0002.sql'', ''#b'')]\<rparr>" by code_simp
  ultimately show ?thesis by simp
qed

end
