(* ===== verification/Lifecycle.thy ===== *)
theory Lifecycle
  imports GoContext
begin

text \<open>
  Start and stop of the program, \<open>internal/app/lifecycle.go\<close>: an HTTP server and the scheduler run
  side by side until the context ends or one of them does; then the other one is stopped and awaited,
  for at most the shutdown timeout.

  Time is counted in nanoseconds.  What the environment decides is an argument: which branch the first
  \<open>select\<close> takes, when each worker's result arrives on its channel, when the server's connections are
  idle, and which branch a later \<open>select\<close> takes when both are ready.  The functions answer with the
  error, the actions they perform and the time at which they return.
\<close>

datatype 'x worker_error = ErrServerClosed | WorkerCtx ctx_error | WorkerError 'x

datatype 'x life_error =
    ServeHTTP "'x worker_error" | RunScheduler "'x worker_error" | WaitForScheduler "'x worker_error"
  | GracefulShutdown "'x worker_error" | WaitForServer "'x worker_error" | CleanupError "'x worker_error"
  | JoinedLife "'x life_error" "'x life_error"

datatype life_action = CancelRuntime | ShutdownServer | AwaitServer | AwaitScheduler

definition shutdownTimeout :: nat where
  "shutdownTimeout = 10 * 10 ^ 9"

text \<open>
  A result channel: when the worker sends its result, if ever.  The server: when its shutdown notices
  that no connection is active any more, if ever (\<open>net/http\<close> polls for it, so this is the time of the
  first poll that finds none), and the error of closing its listeners.
\<close>

type_synonym 'x results = "(nat \<times> 'x worker_error option) option"

record 'x httpServer =
  hs_idle :: "nat option"
  hs_listenerErr :: "'x worker_error option"

text \<open>
  A \<open>select\<close> between an event and a context with a deadline: whether the event is received, and when;
  \<open>tie\<close> is the choice when both are ready.
\<close>

definition select_event :: "bool \<Rightarrow> nat option \<Rightarrow> nat \<Rightarrow> nat \<Rightarrow> bool \<times> nat" where
  "select_event tie event deadline now =
     (let d = max now deadline in
      case event of
        None \<Rightarrow> (False, d)
      | Some t \<Rightarrow> let r = max now t in if r < d \<or> r = d \<and> tie then (True, r) else (False, d))"

text \<open>\<open>http.Server.Shutdown\<close>: wait until no connection is active, for as long as the context is not done.\<close>

definition Shutdown :: "bool \<Rightarrow> 'x httpServer \<Rightarrow> nat \<Rightarrow> nat \<Rightarrow> 'x worker_error option \<times> nat" where
  "Shutdown tie server deadline now =
     (case select_event tie (hs_idle server) deadline now of
        (idle, t) \<Rightarrow> (if idle then hs_listenerErr server else Some (WorkerCtx DeadlineExceeded), t))"

definition joinErrors :: "'x life_error option \<Rightarrow> 'x life_error option \<Rightarrow> 'x life_error option" where
  "joinErrors primary cleanup =
     (case primary of
        None \<Rightarrow> cleanup
      | Some p \<Rightarrow> (case cleanup of None \<Rightarrow> primary | Some c \<Rightarrow> Some (JoinedLife p c)))"

definition wrapError :: "('x worker_error \<Rightarrow> 'x life_error) \<Rightarrow> 'x worker_error option \<Rightarrow> 'x life_error option" where
  "wrapError operation err = map_option operation err"

definition normalizeServerResult :: "'x worker_error option \<Rightarrow> 'x worker_error option" where
  "normalizeServerResult err = (if err = Some ErrServerClosed then None else err)"

definition waitForWorker :: "bool \<Rightarrow> 'x results \<Rightarrow> nat \<Rightarrow> nat \<Rightarrow> 'x worker_error option \<times> nat" where
  "waitForWorker tie results deadline now =
     (case select_event tie (map_option fst results) deadline now of
        (received, t) \<Rightarrow> (if received then snd (the results) else Some (WorkerCtx DeadlineExceeded), t))"

definition waitForWorkerWithTimeout :: "bool \<Rightarrow> 'x results \<Rightarrow> nat \<Rightarrow> nat \<Rightarrow> 'x worker_error option \<times> nat" where
  "waitForWorkerWithTimeout tie results timeout now = waitForWorker tie results (now + timeout) now"

text \<open>The choices of the \<open>select\<close> in \<open>Shutdown\<close>, of the wait for the server and of the wait for the scheduler.\<close>

record ties =
  tie_shutdown :: bool
  tie_server :: bool
  tie_scheduler :: bool

definition shutdownServerWithContext ::
  "ties \<Rightarrow> 'x httpServer \<Rightarrow> 'x results \<Rightarrow> nat \<Rightarrow> nat \<Rightarrow> 'x life_error option \<times> life_action list \<times> nat" where
  "shutdownServerWithContext ties server serverResults deadline now =
     (case Shutdown (tie_shutdown ties) server deadline now of
        (shutdownErr, t1) \<Rightarrow>
          (case waitForWorker (tie_server ties) serverResults deadline t1 of
             (waitErr, t2) \<Rightarrow>
               (if shutdownErr \<noteq> None \<or> (waitErr \<noteq> None \<and> waitErr \<noteq> Some ErrServerClosed)
                then joinErrors (wrapError GracefulShutdown shutdownErr)
                       (wrapError WaitForServer (normalizeServerResult waitErr))
                else None,
                [ShutdownServer, AwaitServer], t2)))"

definition shutdownServer ::
  "ties \<Rightarrow> 'x httpServer \<Rightarrow> 'x results \<Rightarrow> nat \<Rightarrow> nat \<Rightarrow> 'x life_error option \<times> life_action list \<times> nat" where
  "shutdownServer ties server serverResults timeout now =
     shutdownServerWithContext ties server serverResults (now + timeout) now"

definition shutdownLifecycle ::
  "ties \<Rightarrow> 'x httpServer \<Rightarrow> 'x results \<Rightarrow> 'x results \<Rightarrow> nat \<Rightarrow> nat \<Rightarrow> 'x life_error option \<times> life_action list \<times> nat" where
  "shutdownLifecycle ties server serverResults schedulerResults timeout now =
     (let deadline = now + timeout in
      case shutdownServerWithContext ties server serverResults deadline now of
        (shutdownErr, actions, t1) \<Rightarrow>
          (case waitForWorker (tie_scheduler ties) schedulerResults deadline t1 of
             (schedulerErr, t2) \<Rightarrow>
               let schedulerErr' = (if schedulerErr \<noteq> None \<and> schedulerErr \<noteq> Some (WorkerCtx Canceled)
                                    then wrapError WaitForScheduler schedulerErr else None)
               in (joinErrors shutdownErr schedulerErr', [CancelRuntime] @ actions @ [AwaitScheduler], t2)))"

text \<open>
  The branch that the first \<open>select\<close> takes.  In the branch of the server its own channel has been
  read; the channel of the scheduler holds what it sends from then on, and the other way round.
\<close>

datatype 'x trigger = ContextDone | ServerResult "'x worker_error option" | SchedulerResult "'x worker_error option"

definition runLifecycleWithTimeout ::
  "'x trigger \<Rightarrow> ties \<Rightarrow> 'x httpServer \<Rightarrow> 'x results \<Rightarrow> 'x results \<Rightarrow> nat \<Rightarrow> nat \<Rightarrow>
   'x life_error option \<times> life_action list \<times> nat" where
  "runLifecycleWithTimeout trigger ties server serverResults schedulerResults timeout now =
     (case trigger of
        ContextDone \<Rightarrow> shutdownLifecycle ties server serverResults schedulerResults timeout now
      | ServerResult err \<Rightarrow>
          (case waitForWorkerWithTimeout (tie_scheduler ties) schedulerResults timeout now of
             (workerErr, t) \<Rightarrow>
               let cleanupErr = map_option CleanupError workerErr
               in (if err = None \<or> err = Some ErrServerClosed then cleanupErr
                   else joinErrors (wrapError ServeHTTP err) cleanupErr,
                   [CancelRuntime, AwaitScheduler], t))
      | SchedulerResult err \<Rightarrow>
          (case shutdownServer ties server serverResults timeout now of
             (shutdownErr, actions, t) \<Rightarrow>
               (if err \<noteq> None then joinErrors (wrapError RunScheduler err) shutdownErr else shutdownErr,
                [CancelRuntime] @ actions, t)))"

definition runLifecycle ::
  "'x trigger \<Rightarrow> ties \<Rightarrow> 'x httpServer \<Rightarrow> 'x results \<Rightarrow> 'x results \<Rightarrow> nat \<Rightarrow> 'x life_error option \<times> life_action list \<times> nat" where
  "runLifecycle trigger ties server serverResults schedulerResults now =
     runLifecycleWithTimeout trigger ties server serverResults schedulerResults shutdownTimeout now"

section \<open>What counts as a clean end\<close>

text \<open>
  The specification: the program ends without an error when the server's shutdown succeeded where it
  was asked for, every worker that had to be stopped ended while \<open>early\<close> held, and none failed.
\<close>

definition shutdown_clean :: "(nat \<Rightarrow> bool) \<Rightarrow> 'x httpServer \<Rightarrow> bool" where
  "shutdown_clean early server \<longleftrightarrow> (case hs_idle server of None \<Rightarrow> False | Some t \<Rightarrow> early t) \<and> hs_listenerErr server = None"

definition ends_with :: "(nat \<Rightarrow> bool) \<Rightarrow> 'x worker_error option set \<Rightarrow> 'x results \<Rightarrow> bool" where
  "ends_with early ok results \<longleftrightarrow> (case results of None \<Rightarrow> False | Some (t, err) \<Rightarrow> early t \<and> err \<in> ok)"

definition server_ok :: "'x worker_error option set" where
  "server_ok = {None, Some ErrServerClosed}"

definition scheduler_ok :: "'x worker_error option set" where
  "scheduler_ok = {None, Some (WorkerCtx Canceled)}"

fun clean_end :: "(nat \<Rightarrow> bool) \<Rightarrow> 'x trigger \<Rightarrow> 'x httpServer \<Rightarrow> 'x results \<Rightarrow> 'x results \<Rightarrow> bool" where
  "clean_end early ContextDone server serverResults schedulerResults =
     (shutdown_clean early server \<and> ends_with early server_ok serverResults \<and> ends_with early scheduler_ok schedulerResults)"
| "clean_end early (ServerResult err) server serverResults schedulerResults =
     (err \<in> server_ok \<and> ends_with early {None} schedulerResults)"
| "clean_end early (SchedulerResult err) server serverResults schedulerResults =
     (err = None \<and> shutdown_clean early server \<and> ends_with early server_ok serverResults)"

text \<open>The workers that are told to stop and awaited: those that did not end by themselves.\<close>

fun owed_actions :: "'x trigger \<Rightarrow> life_action set" where
  "owed_actions ContextDone = {CancelRuntime, ShutdownServer, AwaitServer, AwaitScheduler}"
| "owed_actions (ServerResult err) = {CancelRuntime, AwaitScheduler}"
| "owed_actions (SchedulerResult err) = {CancelRuntime, ShutdownServer, AwaitServer}"

section \<open>One stopped worker\<close>

text \<open>
  The lemmas follow one judgement: a step that starts at \<open>now\<close> returns between \<open>now\<close> and the deadline; when its answer is clean,
  the worker ended by the deadline; and when the worker ended before the deadline and cleanly, so is
  the answer, and the step returns before the deadline as well.
\<close>

definition stops :: "bool \<Rightarrow> ((nat \<Rightarrow> bool) \<Rightarrow> bool) \<Rightarrow> nat \<Rightarrow> nat \<Rightarrow> nat \<Rightarrow> bool" where
  "stops clean spec deadline now t \<longleftrightarrow>
     now \<le> t \<and> t \<le> deadline \<and> (clean \<longrightarrow> spec (\<lambda>x. x \<le> deadline)) \<and>
     (now < deadline \<and> spec (\<lambda>x. x < deadline) \<longrightarrow> clean \<and> t < deadline)"

lemma stops_seq:
  "stops p P deadline now t1 \<Longrightarrow> stops q Q deadline t1 t2 \<Longrightarrow>
   stops (p \<and> q) (\<lambda>early. P early \<and> Q early) deadline now t2"
  by (auto simp: stops_def)

lemma joinErrors_None [simp]: "joinErrors a b = None \<longleftrightarrow> a = None \<and> b = None"
  by (simp add: joinErrors_def split: option.split)

lemma wrapError_None [simp]: "wrapError f e = None \<longleftrightarrow> e = None"
  by (simp add: wrapError_def)

lemma select_event_stops:
  assumes "now \<le> deadline"
  shows "case select_event tie event deadline now of (received, t) \<Rightarrow>
     stops received (\<lambda>early. case event of None \<Rightarrow> False | Some x \<Rightarrow> early x) deadline now t"
  using assms by (auto simp: select_event_def stops_def Let_def max_def split: option.split)

lemma Shutdown_stops:
  assumes "now \<le> deadline"
  shows "case Shutdown tie server deadline now of (err, t) \<Rightarrow>
     stops (err = None) (\<lambda>early. shutdown_clean early server) deadline now t"
  using select_event_stops [OF assms, where tie = tie and event = "hs_idle server"]
  by (auto simp: Shutdown_def shutdown_clean_def stops_def split: prod.splits option.splits)

lemma waitForWorker_stops:
  assumes "now \<le> deadline" and "Some (WorkerCtx DeadlineExceeded) \<notin> ok"
  shows "case waitForWorker tie results deadline now of (err, t) \<Rightarrow>
     stops (err \<in> ok) (\<lambda>early. ends_with early ok results) deadline now t"
  using select_event_stops [OF assms(1), where tie = tie and event = "map_option fst results"] assms(2)
  by (auto simp: waitForWorker_def ends_with_def stops_def split: prod.splits option.splits)

lemma shutdownServer_stops:
  assumes "now \<le> deadline"
  shows "case shutdownServerWithContext ties server serverResults deadline now of (err, actions, t) \<Rightarrow>
     actions = [ShutdownServer, AwaitServer] \<and>
     stops (err = None) (\<lambda>early. shutdown_clean early server \<and> ends_with early server_ok serverResults) deadline now t"
proof -
  obtain e1 t1 where 1: "Shutdown (tie_shutdown ties) server deadline now = (e1, t1)" by force
  obtain e2 t2 where 2: "waitForWorker (tie_server ties) serverResults deadline t1 = (e2, t2)" by force
  have s1: "stops (e1 = None) (\<lambda>early. shutdown_clean early server) deadline now t1"
    using Shutdown_stops [OF assms, where tie = "tie_shutdown ties" and server = server] 1 by simp
  then have "stops (e2 \<in> server_ok) (\<lambda>early. ends_with early server_ok serverResults) deadline t1 t2"
    using waitForWorker_stops [of t1 deadline server_ok, where tie = "tie_server ties" and results = serverResults] 2
    by (simp add: stops_def server_ok_def)
  then have "stops (e1 = None \<and> e2 \<in> server_ok)
      (\<lambda>early. shutdown_clean early server \<and> ends_with early server_ok serverResults) deadline now t2"
    by (rule stops_seq [OF s1])
  moreover have "(if e1 \<noteq> None \<or> (e2 \<noteq> None \<and> e2 \<noteq> Some ErrServerClosed)
       then joinErrors (wrapError GracefulShutdown e1) (wrapError WaitForServer (normalizeServerResult e2)) else None) = None
     \<longleftrightarrow> e1 = None \<and> e2 \<in> server_ok"
    by (simp add: normalizeServerResult_def server_ok_def)
  ultimately show ?thesis by (simp add: shutdownServerWithContext_def 1 2)
qed

lemma shutdownLifecycle_stops:
  "case shutdownLifecycle ties server serverResults schedulerResults timeout now of (err, actions, t) \<Rightarrow>
     actions = [CancelRuntime, ShutdownServer, AwaitServer, AwaitScheduler] \<and>
     stops (err = None) (\<lambda>early. clean_end early ContextDone server serverResults schedulerResults) (now + timeout) now t"
proof -
  obtain e1 actions t1
    where 1: "shutdownServerWithContext ties server serverResults (now + timeout) now = (e1, actions, t1)"
    by (metis prod_cases3)
  obtain e2 t2 where 2: "waitForWorker (tie_scheduler ties) schedulerResults (now + timeout) t1 = (e2, t2)" by force
  have s1: "actions = [ShutdownServer, AwaitServer]"
      "stops (e1 = None) (\<lambda>early. shutdown_clean early server \<and> ends_with early server_ok serverResults) (now + timeout) now t1"
    using shutdownServer_stops [of now "now + timeout", where ties = ties and server = server and serverResults = serverResults] 1 by simp_all
  then have "stops (e2 \<in> scheduler_ok) (\<lambda>early. ends_with early scheduler_ok schedulerResults) (now + timeout) t1 t2"
    using waitForWorker_stops [of t1 "now + timeout" scheduler_ok, where tie = "tie_scheduler ties" and results = schedulerResults] 2
    by (simp add: stops_def scheduler_ok_def)
  from stops_seq [OF s1(2) this] show ?thesis
    by (cases "e2 = Some (WorkerCtx Canceled)") (auto simp: shutdownLifecycle_def Let_def 1 2 s1(1) scheduler_ok_def conj_ac)
qed

section \<open>Properties\<close>

text \<open>
  C35. However the program comes to its end at time \<open>now\<close>, the scheduler's context is cancelled before
  anything is awaited, every worker that has not ended by itself is told to stop and awaited once, and
  the program returns within the shutdown timeout of ten seconds, even when a worker never ends.  It
  reports no error when everything it stopped ended cleanly before the deadline, and only when
  everything did so by the deadline; the error a stopped server always returns is not reported.
\<close>

theorem lifecycle_stops_cleanly:
  "case runLifecycle trigger ties server serverResults schedulerResults now of (err, actions, t) \<Rightarrow>
     hd actions = CancelRuntime \<and> set actions = owed_actions trigger \<and> distinct actions \<and>
     now \<le> t \<and> t \<le> now + 10 * 10 ^ 9 \<and>
     (clean_end (\<lambda>x. x < now + 10 * 10 ^ 9) trigger server serverResults schedulerResults \<longrightarrow> err = None) \<and>
     (err = None \<longrightarrow> clean_end (\<lambda>x. x \<le> now + 10 * 10 ^ 9) trigger server serverResults schedulerResults)"
proof (cases trigger)
  case ContextDone
  then show ?thesis
    using shutdownLifecycle_stops [where ties = ties and server = server and serverResults = serverResults and schedulerResults = schedulerResults
        and timeout = shutdownTimeout and now = now]
    by (auto simp: runLifecycle_def runLifecycleWithTimeout_def stops_def shutdownTimeout_def split: prod.splits)
next
  case (ServerResult err)
  then show ?thesis
    using waitForWorker_stops [of now "now + shutdownTimeout" "{None}", where tie = "tie_scheduler ties" and results = schedulerResults]
    by (auto simp: runLifecycle_def runLifecycleWithTimeout_def waitForWorkerWithTimeout_def stops_def shutdownTimeout_def
        server_ok_def Let_def split: prod.splits)
next
  case (SchedulerResult err)
  then show ?thesis
    using shutdownServer_stops [of now "now + shutdownTimeout", where ties = ties and server = server and serverResults = serverResults]
    by (auto simp: runLifecycle_def runLifecycleWithTimeout_def shutdownServer_def stops_def shutdownTimeout_def
        split: prod.splits)
qed

theorem lifecycle_stops_cleanly_witness:
  "case runLifecycle (ContextDone :: unit trigger) \<lparr>tie_shutdown = False, tie_server = False, tie_scheduler = False\<rparr>
       \<lparr>hs_idle = Some 20, hs_listenerErr = None\<rparr> (Some (30, Some ErrServerClosed)) (Some (40, None)) 5 of
     (err, actions, t) \<Rightarrow> err = None \<and> hd actions = CancelRuntime \<and> t = 40"
proof -
  let ?ties = "\<lparr>tie_shutdown = False, tie_server = False, tie_scheduler = False\<rparr>"
  let ?server = "\<lparr>hs_idle = Some 20, hs_listenerErr = None\<rparr> :: unit httpServer"
  let ?run = "runLifecycle ContextDone ?ties ?server (Some (30, Some ErrServerClosed)) (Some (40, None)) 5"
  have clean: "clean_end (\<lambda>x. x < 5 + 10 * 10 ^ 9) ContextDone ?server (Some (30, Some ErrServerClosed)) (Some (40, None))"
    by (simp add: shutdown_clean_def ends_with_def server_ok_def scheduler_ok_def)
  have "snd (snd ?run) = 40"
    by (simp add: runLifecycle_def runLifecycleWithTimeout_def shutdownLifecycle_def shutdownServerWithContext_def
        Shutdown_def waitForWorker_def select_event_def shutdownTimeout_def)
  then show ?thesis
    using lifecycle_stops_cleanly [where trigger = ContextDone and ties = ?ties and server = ?server
        and serverResults = "Some (30, Some ErrServerClosed)" and schedulerResults = "Some (40, None)" and now = 5] clean
    by (simp add: case_prod_unfold)
qed

end
