(* ===== verification/Scheduler.thy ===== *)
theory Scheduler
  imports GoContext
begin

text \<open>
  The scheduler, \<open>internal/scheduler/scheduler.go\<close>.

  The loop waits in a \<open>select\<close> for the context or the ticker.  A list of booleans says, moment by
  moment, whether the \<open>select\<close> receives a tick; at a moment without a tick it returns when the
  context is done and waits on otherwise, so a tick that is taken although the context is done is a
  possible run as well.  The loop has not returned when the list is used up.
\<close>

datatype sched_error = ErrInvalidInterval | ErrTaskRequired

type_synonym ('w, 'e) task = "ctx \<Rightarrow> 'w \<Rightarrow> 'e option \<times> ctx \<times> 'w"

fun ticker_loop :: "('w, 'e) task \<Rightarrow> ctx \<Rightarrow> bool list \<Rightarrow> 'w \<Rightarrow> bool \<times> ctx \<times> 'w" where
  "ticker_loop task c [] w = (False, c, w)"
| "ticker_loop task c (tick # ticks) w =
     (if \<not> tick then
        (if ctx_Err c \<noteq> None then (True, ctx_step c, w) else ticker_loop task (ctx_step c) ticks w)
      else case task c w of
        (None, c1, w1) \<Rightarrow> ticker_loop task c1 ticks w1
      | (Some e, c1, w1) \<Rightarrow>
          if ctx_Err c1 \<noteq> None then (True, ctx_step c1, w1) else ticker_loop task (ctx_step c1) ticks w1)"

text \<open>\<open>Ticker.Run\<close>: an error at once, or the run of the loop; a loop that returns answers \<open>nil\<close>.\<close>

definition tickerRun :: "ctx \<Rightarrow> int \<Rightarrow> ('w, 'e) task option \<Rightarrow> bool list \<Rightarrow> 'w \<Rightarrow> sched_error + bool \<times> ctx \<times> 'w" where
  "tickerRun c interval task ticks w =
     (if interval \<le> 0 then Inl ErrInvalidInterval
      else case task of None \<Rightarrow> Inl ErrTaskRequired | Some t \<Rightarrow> Inr (ticker_loop t c ticks w))"

text \<open>A task that counts its runs.\<close>

definition counted :: "('w, 'e) task \<Rightarrow> (nat \<times> 'w, 'e) task" where
  "counted task c w = (case task c (snd w) of (e, c', w') \<Rightarrow> (e, c', (Suc (fst w), w')))"

lemma ticker_loop_alive:
  assumes "\<And>c w e c' w'. never_done c \<Longrightarrow> task c w = (e, c', w') \<Longrightarrow> never_done c'" and "never_done c"
  shows "\<exists>c' w'. ticker_loop (counted task) c ticks (n, w) = (False, c', (n + length (filter id ticks), w')) \<and> never_done c'"
  using assms(2)
proof (induction ticks arbitrary: c n w)
  case (Cons tick ticks)
  show ?case
  proof (cases tick)
    case True
    obtain e c1 w1 where t: "task c w = (e, c1, w1)" by (metis prod.collapse)
    have c1: "never_done c1" by (rule assms(1) [OF Cons.prems t])
    have "ticker_loop (counted task) c (tick # ticks) (n, w) =
        ticker_loop (counted task) (if e = None then c1 else ctx_step c1) ticks (Suc n, w1)"
      using True t c1 by (auto simp: counted_def split: option.split)
    then show ?thesis using Cons.IH [of "if e = None then c1 else ctx_step c1" "Suc n" w1] c1 True by auto
  next
    case False
    then show ?thesis using Cons.IH [of "ctx_step c" n w] Cons.prems by simp
  qed
qed simp

lemma ticker_loop_returns:
  "ticker_loop task c ticks w = (True, c', w') \<Longrightarrow> ctx_Err c' \<noteq> None"
proof (induction task c ticks w rule: ticker_loop.induct)
  case (2 task c tick ticks w)
  then show ?case by (auto dest: ctx_Err_mono split: if_splits prod.splits option.splits)
qed simp

section \<open>Properties\<close>


text \<open>A task that fails on every other run.\<close>

definition example_task :: "(bool, string) task" where
  "example_task c w = ((if w then Some ''refresh failed'' else None), ctx_step c, \<not> w)"


end
