(* ===== verification/App.thy ===== *)
theory App
  imports AppConfig McClient InfraredReload HttpServer Observability Migrate Lifecycle Scheduler
begin

text \<open>
  The program put together, \<open>internal/app\<close>: the choice of the routing backend
  (\<open>router_controller.go\<close>) and the wiring of the components (\<open>app.go\<close>).

  The world holds what the components share: the tables of the database, the metrics, the network
  behind the panel and mc-router, the directories of Infrared and whether a reload is pending.  Each
  call of a store takes its faults from \<open>w_faults\<close>, and staging a candidate takes its random
  generation from \<open>w_generations\<close>.  The record \<open>app_env\<close> holds the libraries and the operating
  system: HTTP, URL parsing, YAML, the mounted secrets, the clock.
\<close>

section \<open>World\<close>

record 'n world =
  w_settings :: settings_db
  w_policies :: policy_db
  w_history :: "Event log"
  w_actions :: "ActionEvent log"
  w_metrics :: ReconciliationMetrics
  w_net :: 'n
  w_ir :: ir_world
  w_reloadPending :: bool
  w_faults :: "faults list"
  w_generations :: "string list"

datatype 'e app_error =
    AppSettings settings_error | AppPolicy policy_error | AppSecret secret_error | AppHistory history_error
  | AppNet 'e | AppAlreadyConfigured

datatype 'e backend_error =
    MCRouterError "'e client_error mc_error" | InfraredError "(infrared_error, reload_error) reloading_error"

record ('j, 'n, 'e) app_env =
  env_http :: "('n, 'e) transport"
  env_Parse :: "string \<Rightarrow> url option"
  env_parse_uri :: parse_uri
  env_rand :: "int \<Rightarrow> Duration \<Rightarrow> Duration"
  env_marshal :: "proxyConfig \<Rightarrow> string option"
  env_timestamp :: string
  env_platform :: "('j, 'n, 'e) platform"
  env_secrets :: file_system
  env_cleanup :: ctx
  env_now :: "nat \<Rightarrow> int"
  env_time :: int

text \<open>The faults of the next call of a store.\<close>

definition call_faults :: "'n world \<Rightarrow> faults" where
  "call_faults w = (case w_faults w of [] \<Rightarrow> [] | fs # _ \<Rightarrow> fs)"

definition after_call :: "'n world \<Rightarrow> 'n world" where
  "after_call w = w\<lparr>w_faults := tl (w_faults w)\<rparr>"

definition appIsSetupComplete :: "'n world \<Rightarrow> ('e app_error + bool) \<times> 'n world" where
  "appIsSetupComplete w = (map_err AppSettings (IsSetupComplete (w_settings w) (call_faults w)), after_call w)"

definition appLoad :: "'n world \<Rightarrow> ('e app_error + Settings) \<times> 'n world" where
  "appLoad w = (map_err AppSettings (Load (w_settings w) (call_faults w)), after_call w)"

definition appSave :: "Settings \<Rightarrow> 'n world \<Rightarrow> 'e app_error option \<times> 'n world" where
  "appSave value w =
     (case Save (w_settings w) (call_faults w) value of
        (e, db) \<Rightarrow> (map_option AppSettings e, (after_call w)\<lparr>w_settings := db\<rparr>))"

definition appStageSetup :: "Settings \<Rightarrow> 'n world \<Rightarrow> ('e app_error + string) \<times> 'n world" where
  "appStageSetup value w =
     (let generation = (case w_generations w of [] \<Rightarrow> [] | g # _ \<Rightarrow> g)
      in case StageSetup (w_settings w) (call_faults w) generation value of
           (r, db) \<Rightarrow> (map_err AppSettings r, (after_call w)\<lparr>w_settings := db, w_generations := tl (w_generations w)\<rparr>))"

definition appPromotePendingSetup :: "string \<Rightarrow> 'n world \<Rightarrow> 'e app_error option \<times> 'n world" where
  "appPromotePendingSetup generation w =
     (case PromotePendingSetup (w_settings w) (call_faults w) generation of
        (e, db) \<Rightarrow> (map_option AppSettings e, (after_call w)\<lparr>w_settings := db\<rparr>))"

definition appPolicies :: "ctx \<Rightarrow> 'n world \<Rightarrow> ('e app_error + Policy list) \<times> ctx \<times> 'n world" where
  "appPolicies c w = (map_err AppPolicy (RoutePolicy.List (w_policies w) (call_faults w)), c, after_call w)"

definition appObserve :: "ReconciliationStatus \<Rightarrow> 'n world \<Rightarrow> 'n world" where
  "appObserve t w = w\<lparr>w_metrics := ObserveReconciliation t (w_metrics w)\<rparr>"

definition appRecord ::
  "int \<Rightarrow> ctx \<Rightarrow> ReconciliationOutcome \<Rightarrow> ReconciliationResult \<Rightarrow> 'n world \<Rightarrow> 'e app_error option \<times> ctx \<times> 'n world" where
  "appRecord now c outcome result w =
     (case RecordReconciliation (NewReconciliationRecorder (historyNewStore [])) (call_faults w) now outcome result (w_history w) of
        (e, l) \<Rightarrow> (map_option AppHistory e, c, (after_call w)\<lparr>w_history := l\<rparr>))"

definition appPlatform :: "('j, 'n, 'e) platform \<Rightarrow> ('j, 'n world, 'e app_error) platform" where
  "appPlatform pf =
     \<lparr>pf_Parse = pf_Parse pf, pf_ParseRequestURI = pf_ParseRequestURI pf, pf_ResolveReference = pf_ResolveReference pf,
      pf_http = (\<lambda>request w. case pf_http pf request (w_net w) of ((response, e), n) \<Rightarrow> ((response, map_option AppNet e), w\<lparr>w_net := n\<rparr>)),
      pf_rand = pf_rand pf, pf_servers = pf_servers pf, pf_eggs = pf_eggs pf, pf_nodes = pf_nodes pf,
      pf_allocations = pf_allocations pf\<rparr>"

section \<open>The routing backend\<close>

datatype controller_error =
    ParseRouterBackend | CreateMCRouterClient new_client_error | CreateMCRouterController
  | CreateInfraredController | CreateMarkerReloader | CreateReloadingController new_reloading_error

definition toRetryConfig :: "AppConfig \<Rightarrow> Config" where
  "toRetryConfig cfg =
     \<lparr>Attempts = cfg_RetryAttempts cfg, InitialBackoff = cfg_RetryInitialBackoff cfg, MaxBackoff = cfg_RetryMaxBackoff cfg\<rparr>"

text \<open>\<open>filepath.Base\<close> of a clean path.\<close>

definition path_base :: "string \<Rightarrow> string" where
  "path_base p = last (Split (CHR ''/'') p)"

definition mcRouteController ::
  "('j, 'n, 'e) app_env \<Rightarrow> Client \<Rightarrow> string \<Rightarrow> ('n world, 'e backend_error) route_controller" where
  "mcRouteController env client domain =
     Diagnostics (\<lambda>c routes w.
       case ReconcileWithResult (mc_controller (env_http env) client c (env_rand env) domain) c routes (w_net w) of
         ((e, result), c1, n) \<Rightarrow> ((map_option MCRouterError e, result), c1, w\<lparr>w_net := n\<rparr>))"

definition irRouteController :: "('j, 'n, 'e) app_env \<Rightarrow> string \<Rightarrow> ('n world, 'e backend_error) route_controller" where
  "irRouteController env markerPath =
     Plain (\<lambda>c routes w.
       case rlReconcile (infrared_backend (env_marshal env) (path_base markerPath) (env_timestamp env) (w_reloadPending w))
              c routes (w_ir w) of
         (e, c1, rl, i) \<Rightarrow> (map_option InfraredError e, c1, w\<lparr>w_ir := i, w_reloadPending := reloadPending rl\<rparr>))"

definition newRouteController ::
  "('j, 'n, 'e) app_env \<Rightarrow> AppConfig \<Rightarrow> controller_error + ('n world, 'e backend_error) route_controller" where
  "newRouteController env cfg =
     (case ParseEngine (ro_Backend (cfg_Router cfg)) of
        None \<Rightarrow> Inl ParseRouterBackend
      | Some EngineMCRouter \<Rightarrow>
          (case NewClient (env_Parse env) \<lparr>cfg_BaseURL = cfg_MCRouterAPIURL cfg, cfg_Retry = toRetryConfig cfg\<rparr> of
             Inl e \<Rightarrow> Inl (CreateMCRouterClient e)
           | Inr client \<Rightarrow> Inr (mcRouteController env client (ro_Domain (cfg_Router cfg))))
      | Some EngineInfrared \<Rightarrow>
          (case irNewController (ir_ProxiesPath (cfg_Infrared cfg)) of
             None \<Rightarrow> Inl CreateInfraredController
           | Some directory \<Rightarrow>
               (case NewMarkerReloader (ir_ReloadMarkerPath (cfg_Infrared cfg)) of
                  None \<Rightarrow> Inl CreateMarkerReloader
                | Some path \<Rightarrow> Inr (irRouteController env path))))"

section \<open>The wiring\<close>

definition appResolve :: "('j, 'n, 'e) app_env \<Rightarrow> string \<Rightarrow> string \<Rightarrow> 'n world \<Rightarrow> 'e app_error + string" where
  "appResolve env directory name w = map_err AppSecret (secretRead (env_secrets env) (Some directory) name)"

definition appTask ::
  "('j, 'n, 'e) app_env \<Rightarrow> AppConfig \<Rightarrow> string \<Rightarrow> ('n world, 'e backend_error) route_controller \<Rightarrow>
   ('j, 'n world, 'e app_error, 'e backend_error) RefreshTask" where
  "appTask env cfg secrets controller =
     WithPolicySource appPolicies
       (WithReconciliationEventRecorder (appRecord (env_time env))
         (WithSecretResolver (appResolve env secrets)
           (NewRefreshTask appIsSetupComplete appLoad (pe_Timeout (cfg_Pelican cfg)) (dc_WildcardBackendHost (cfg_Discovery cfg))
             (Some (Production controller)) (Some appObserve) [toRetryConfig cfg]
             (appPlatform (env_platform env)) (env_cleanup env) (env_now env))))"

definition appSetup ::
  "('j, 'n, 'e) app_env \<Rightarrow> AppConfig \<Rightarrow> string \<Rightarrow> ('n world, 'e backend_error) route_controller \<Rightarrow>
   ('j, 'n world, 'e app_error, 'e backend_error) SetupService" where
  "appSetup env cfg secrets controller =
     setupNewService appIsSetupComplete appSave appStageSetup appPromotePendingSetup AppAlreadyConfigured
       (validatorValidate (appPlatform (env_platform env))
         (NewPelicanValidator (pe_Timeout (cfg_Pelican cfg)) (toRetryConfig cfg)))
       (Activator (appTask env cfg secrets controller)) [appResolve env secrets]"

definition appActionStore :: "int \<Rightarrow> ActionEvent \<Rightarrow> 'n world \<Rightarrow> history_error option \<times> 'n world" where
  "appActionStore now event w =
     (case actionAppend (actionNewStore []) (call_faults w) now 0 event (w_actions w) of
        (e, l) \<Rightarrow> (e, (after_call w)\<lparr>w_actions := l\<rparr>))"

definition appPolicyStore :: "'n world policy_store" where
  "appPolicyStore =
     \<lparr>ps_List = (\<lambda>w. (RoutePolicy.List (w_policies w) (call_faults w), after_call w)),
      ps_Create = (\<lambda>p w. case RoutePolicy.Create (w_policies w) (call_faults w) p of (r, db) \<Rightarrow> (r, (after_call w)\<lparr>w_policies := db\<rparr>)),
      ps_Update = (\<lambda>p n w. case RoutePolicy.Update (w_policies w) (call_faults w) p n of (r, db) \<Rightarrow> (r, (after_call w)\<lparr>w_policies := db\<rparr>)),
      ps_Delete = (\<lambda>u n w. case RoutePolicy.Delete (w_policies w) (call_faults w) u n of (r, db) \<Rightarrow> (r, (after_call w)\<lparr>w_policies := db\<rparr>))\<rparr>"

section \<open>The settings under the runtime\<close>

text \<open>A backend controller that leaves the settings alone, whatever it does to its backend.\<close>

definition settings_safe :: "('n world, 'b) route_controller \<Rightarrow> bool" where
  "settings_safe controller \<longleftrightarrow>
     (case controller of
        Diagnostics reconcile \<Rightarrow> (\<forall>c routes w r c' w'. reconcile c routes w = (r, c', w') \<longrightarrow> w_settings w' = w_settings w)
      | Plain reconcile \<Rightarrow> (\<forall>c routes w r c' w'. reconcile c routes w = (r, c', w') \<longrightarrow> w_settings w' = w_settings w))"

lemma settings_safe_backends:
  "settings_safe (mcRouteController env client domain)"
  "settings_safe (irRouteController env path)"
  by (auto simp: settings_safe_def mcRouteController_def irRouteController_def split: prod.splits)

lemma newRouteController_safe: "newRouteController env cfg = Inr controller \<Longrightarrow> settings_safe controller"
  by (auto simp: newRouteController_def settings_safe_backends split: option.splits Engine.splits sum.splits)

lemma SyncWithResult_keeps:
  assumes "settings_safe controller" "\<And>c w x c' w'. source c w = (x, c', w') \<Longrightarrow> w_settings w' = w_settings w"
    and "SyncWithResult controller c (Some source) w = (y, c', w')"
  shows "w_settings w' = w_settings w"
proof (cases controller)
  case (Diagnostics reconcile)
  then have r: "reconcile c routes w = (r, c', w') \<Longrightarrow> w_settings w' = w_settings w" for c routes w r c' w'
    using assms(1) unfolding settings_safe_def Diagnostics route_controller.case by blast
  show ?thesis using assms(3)
    by (auto simp: SyncWithResult_def Diagnostics dest!: assms(2) r split: option.splits prod.splits sum.splits)
next
  case (Plain reconcile)
  then have r: "reconcile c routes w = (r, c', w') \<Longrightarrow> w_settings w' = w_settings w" for c routes w r c' w'
    using assms(1) by (auto simp: settings_safe_def)
  show ?thesis using assms(3)
    by (auto simp: SyncWithResult_def Plain dest!: assms(2) r split: option.splits prod.splits sum.splits)
qed

lemma after_call_settings [simp]: "w_settings (after_call w) = w_settings w"
  by (simp add: after_call_def)

lemma appTask_eq:
  "appTask env cfg secrets controller =
     \<lparr>rt_IsSetupComplete = appIsSetupComplete, rt_Load = appLoad, rt_timeout = pe_Timeout (cfg_Pelican cfg),
      rt_retry = toRetryConfig cfg, rt_wildcardBackendHost = dc_WildcardBackendHost (cfg_Discovery cfg),
      rt_synchronizer = Some (Production controller), rt_observer = Some appObserve, rt_recorder = Some (appRecord (env_time env)),
      rt_secretResolver = Some (appResolve env secrets), rt_policySource = Some appPolicies,
      rt_platform = appPlatform (env_platform env), rt_cleanup = env_cleanup env, rt_now = env_now env\<rparr>"
  by (simp add: appTask_def NewRefreshTask_def WithPolicySource_def WithSecretResolver_def WithReconciliationEventRecorder_def)

text \<open>What the calls of the stores, the observer, the recorder and the panel leave alone, a refresh only reads.\<close>

lemma app_runtime_reads:
  assumes "\<And>w. obs (after_call w) = obs w" "\<And>m w. obs (w_metrics_update m w) = obs w" "\<And>l w. obs (w_history_update l w) = obs w"
    and "\<And>request. keeps obs (pf_http (appPlatform (env_platform env)) request)"
  shows "runtime_reads (appTask env cfg secrets controller) obs"
proof
  show "keeps obs (rt_IsSetupComplete (appTask env cfg secrets controller))"
    "keeps obs (rt_Load (appTask env cfg secrets controller))"
    by (simp_all add: keeps_def appTask_eq appIsSetupComplete_def appLoad_def assms(1))
  show "obs (observer status w) = obs w"
    if "rt_observer (appTask env cfg secrets controller) = Some observer" for observer status w
    using that by (auto simp: appTask_eq appObserve_def assms(2))
  show "obs w' = obs w"
    if "rt_recorder (appTask env cfg secrets controller) = Some recorder" "recorder c outcome result w = (e, c', w')"
    for recorder c outcome result w e c' w'
    using that by (auto simp: appTask_eq appRecord_def assms(1,3) split: prod.splits)
  show "obs w' = obs w"
    if "rt_policySource (appTask env cfg secrets controller) = Some source" "source c w = (x, c', w')" for source c w x c' w'
    using that by (auto simp: appTask_eq appPolicies_def assms(1))
  show "keeps obs (pf_http (rt_platform (appTask env cfg secrets controller)) request)" for request
    using assms(4) by (simp add: appTask_eq)
qed

lemma appPlatform_keeps: "(\<And>w n. obs (w\<lparr>w_net := n\<rparr>) = obs w) \<Longrightarrow> keeps obs (pf_http (appPlatform pf) request)"
  by (simp add: keeps_def appPlatform_def split: prod.split)

interpretation app_policies: runtime_reads "appTask env cfg secrets controller" w_policies for env cfg secrets controller
  by (rule app_runtime_reads) (simp_all add: after_call_def appPlatform_keeps)

lemma app_runtime_env:
  assumes "settings_safe controller"
  shows "runtime_env (appTask env cfg secrets controller) w_settings"
proof (intro runtime_env.intro runtime_env_axioms.intro app_runtime_reads appPlatform_keeps)
  show "w_settings w' = w_settings w"
    if "rt_synchronizer (appTask env cfg secrets controller) = Some synchronizer"
      "\<And>c w x c' w'. source c w = (x, c', w') \<Longrightarrow> w_settings w' = w_settings w"
      "synchronizeRoutes c synchronizer source w = (y, c', w')" for synchronizer source c w y c' w'
  proof (rule SyncWithResult_keeps [OF assms that(2)])
    show "SyncWithResult controller c (Some source) w = (y, c', w')"
      using that(1,3) by (auto simp: appTask_eq synchronizeRoutes_def)
  qed
qed simp_all

interpretation app_mcrouter: runtime_env "appTask env cfg secrets (mcRouteController env client domain)" w_settings
  for env cfg secrets client domain
  by (rule app_runtime_env) (rule settings_safe_backends)

interpretation app_infrared: runtime_env "appTask env cfg secrets (irRouteController env path)" w_settings
  for env cfg secrets path
  by (rule app_runtime_env) (rule settings_safe_backends)
end
