(* ===== verification/SettingsChange.thy ===== *)
theory SettingsChange
  imports App "HOL-Library.Code_Target_Nat"
begin

text \<open>
  Setup and settings changes of the whole program: the setup service, the refresh task, the settings
  store and the routing backend as \<open>internal/app\<close> wires them.
\<close>

section \<open>Changes of the settings\<close>

text \<open>What the settings store answers when its calls do not fail: the active settings and whether setup is complete.\<close>

definition active :: "'n world \<Rightarrow> (settings_error + Settings) \<times> (settings_error + bool)" where
  "active w = (Load (w_settings w) [], IsSetupComplete (w_settings w) [])"

text \<open>Published services read the policies of the database.\<close>

definition well_published :: "('n world, 'e app_error) RuntimeState \<Rightarrow> bool" where
  "well_published st \<longleftrightarrow> (\<forall>s. mgr_routing (st_manager st) = Some s \<longrightarrow> rs_policies s = Some appPolicies)"

definition published_for ::
  "('j, 'n world, 'e app_error, 'e backend_error) RefreshTask \<Rightarrow> Settings \<Rightarrow> ('n world, 'e app_error) RuntimeState \<Rightarrow> bool" where
  "published_for r value st \<longleftrightarrow>
     (\<exists>s. services_for r value s \<and> mgr_routing (st_manager st) = Some (snd s) \<and> mgr_discovery (st_manager st) = Some (fst s))"

lemma appSetup_fields:
  "ss_IsSetupComplete (appSetup env cfg secrets controller) = appIsSetupComplete"
  "ss_Save (appSetup env cfg secrets controller) = appSave"
  "ss_StageSetup (appSetup env cfg secrets controller) = appStageSetup"
  "ss_PromotePendingSetup (appSetup env cfg secrets controller) = appPromotePendingSetup"
  "ss_refresher (appSetup env cfg secrets controller) = Activator (appTask env cfg secrets controller)"
  by (simp_all add: appSetup_def setupNewService_def)

lemma validator_settings:
  assumes "validatorValidate (appPlatform pf) v c url key w = Some (e, c', w')"
  shows "w_settings w' = w_settings w"
proof -
  have k: "keeps w_settings (pf_http (appPlatform pf) request)" for request
    by (simp add: keeps_def appPlatform_def split: prod.split)
  show ?thesis using assms
    by (auto simp: validatorValidate_def ListNodes_def dest: listAll_keeps [OF k] split: sum.splits option.splits)
qed

lemma setupValidate_settings:
  assumes "setupValidate (appSetup env cfg secrets controller) c input w = Some (r, c', w')"
  shows "w_settings w' = w_settings w" "r = Inr input' \<Longrightarrow> input' = trimmed input"
  using assms
  by (auto simp: setupValidate_def appSetup_def setupNewService_def Let_def dest: validator_settings
      split: if_splits option.splits sum.splits prod.splits)

lemma appPromote_atomic:
  "appPromotePendingSetup g w = (Some e, w') \<Longrightarrow> w_settings w' = w_settings w"
  by (auto simp: appPromotePendingSetup_def dest!: Promote_cases split: prod.splits)

lemma appSave_atomic: "appSave value w = (Some e, w') \<Longrightarrow> w_settings w' = w_settings w"
  by (auto simp: appSave_def Save_def dest!: save_cases split: prod.splits)

lemma app_activateAndTrack:
  assumes "settings_safe controller" "well_published st"
    and "activateAndTrackLocked (appTask env cfg secrets controller) c value persist st w = Some (e, c', st', w')"
    and "\<And>w e w'. persist w = (Some e, w') \<Longrightarrow> w_settings w' = w_settings w"
  shows "if e \<noteq> None then w_settings w' = w_settings w \<and> st_manager st' = st_manager st
     else (\<exists>w0 w1. w_settings w0 = w_settings w \<and> persist w0 = (None, w1) \<and> w_settings w' = w_settings w1 \<and>
       published_for (appTask env cfg secrets controller) value st')"
proof -
  let ?r = "appTask env cfg secrets controller"
  have "if e \<noteq> None
     then w_settings w' = w_settings w \<and> st_manager st' = st_manager st \<and> failed_attempt (st_tracker st) (st_tracker st')
     else (\<exists>w0 w1 s. w_settings w0 = w_settings w \<and> persist w0 = (None, w1) \<and> w_settings w' = w_settings w1 \<and>
       services_for ?r value s \<and> mgr_routing (st_manager st') = Some (snd s) \<and> mgr_discovery (st_manager st') = Some (fst s) \<and>
       succeeded_attempt OutcomeSuccess (st_tracker st'))"
    by (rule runtime_env.activateAndTrack_durable [OF app_runtime_env [OF assms(1)] assms(3)])
      (use assms(2) in \<open>simp add: well_published_def appTask_eq\<close>, erule assms(4))
  then show ?thesis unfolding published_for_def by (cases "e = None") (simp_all, blast)
qed

lemma active_settings: "w_settings v' = w_settings v \<Longrightarrow> active v' = active v"
  by (simp add: active_def)

lemma StageSetup_active:
  assumes "StageSetup db fs g value = (r, db')"
  shows "Load db' [] = Load db []" "IsSetupComplete db' [] = IsSetupComplete db []"
proof -
  have "settings_tbl db' = settings_tbl db" using assms by (auto simp: StageSetup_def split: if_splits)
  then show "Load db' [] = Load db []" "IsSetupComplete db' [] = IsSetupComplete db []"
    unfolding Load_faultless IsSetupComplete_def settingsGet_def by (simp_all only:)
qed

lemma appIsSetupComplete_active: "appIsSetupComplete w = (x, w1) \<Longrightarrow> w_settings w1 = w_settings w"
  by (auto simp: appIsSetupComplete_def)

lemma stageGuarded_app:
  fixes env :: "('j, 'n, 'e) app_env"
  assumes "stageGuarded (appSetup env cfg secrets controller) value w = (r, w')"
  shows "active w' = active w"
    and "r = Inr g \<Longrightarrow> \<exists>fs. StageSetup (w_settings w) fs g value = (Inr g, w_settings w')"
proof -
  obtain x :: "'e app_error + bool" and w1 where x: "appIsSetupComplete w = (x, w1)" by fastforce
  note w1 = appIsSetupComplete_active [OF x]
  have st: "active v' = active v" "\<And>g. r = Inr g \<Longrightarrow> \<exists>fs. StageSetup (w_settings v) fs g value = (Inr g, w_settings v')"
    if a: "appStageSetup value v = (r, v')" for r :: "'e app_error + string" and v v'
  proof -
    obtain gen y db where y: "StageSetup (w_settings v) (call_faults v) gen value = (y, db)" "r = map_err AppSettings y" "w_settings v' = db"
      using a by (auto simp: appStageSetup_def Let_def split: prod.splits)
    show "active v' = active v" using StageSetup_active [OF y(1)] y(3) by (simp add: active_def)
    show "\<exists>fs. StageSetup (w_settings v) fs g value = (Inr g, w_settings v')" if "r = Inr g" for g
    proof -
      have "y = Inr g" using that y(2) by simp
      moreover have "gen = g" using y(1) calculation by (auto simp: StageSetup_def split: if_splits)
      ultimately show ?thesis using y by blast
    qed
  qed
  have c: "(\<exists>e. r = Inl e) \<and> w' = w1 \<or> appStageSetup value w1 = (r, w')"
    using assms x unfolding stageGuarded_def appSetup_fields by (auto split: sum.splits bool.splits)
  then show "active w' = active w" using st(1) active_settings [OF w1] by metis
  show "\<exists>fs. StageSetup (w_settings w) fs g value = (Inr g, w_settings w')" if "r = Inr g"
    using c that st(2) w1 by fastforce
qed

lemma app_ActivateSetup:
  fixes env :: "('j, 'n, 'e) app_env"
  assumes "settings_safe controller" "well_published st"
    and act: "ActivateSetup (appTask env cfg secrets controller) c value (stageGuarded (appSetup env cfg secrets controller) value)
      appPromotePendingSetup st w = Some (e, c', st', w')"
  shows "if e = None
     then active w' = (Inr (value\<lparr>set_PelicanAPIKey := []\<rparr>), Inr True) \<and> published_for (appTask env cfg secrets controller) value st'
     else active w' = active w \<and> st_manager st' = st_manager st"
proof (cases "ctx_Err c")
  case (Some x)
  then show ?thesis using act by (auto simp: ActivateSetup_def acquire_simps fails_def)
next
  case None
  obtain x ws where x: "stageGuarded (appSetup env cfg secrets controller) value w = (x, ws)" by fastforce
  note ws = stageGuarded_app(1) [OF x]
  show ?thesis
  proof (cases x)
    case (Inl err)
    then show ?thesis using act None x ws by (auto simp: ActivateSetup_def acquire_simps fails_def)
  next
    case (Inr g)
    obtain fs where stage: "StageSetup (w_settings w) fs g value = (Inr g, w_settings ws)"
      using stageGuarded_app(2) [OF x Inr] by blast
    have t: "activateAndTrackLocked (appTask env cfg secrets controller) (ctx_step c) value (appPromotePendingSetup g) st ws = Some (e, c', st', w')"
      using act None x Inr by (simp add: ActivateSetup_def acquire_simps)
    have at: "if e \<noteq> None then w_settings w' = w_settings ws \<and> st_manager st' = st_manager st
      else (\<exists>(w0 :: 'n world) w1. w_settings w0 = w_settings ws \<and> appPromotePendingSetup g w0 = (None :: 'e app_error option, w1) \<and> w_settings w' = w_settings w1 \<and>
       published_for (appTask env cfg secrets controller) value st')"
      by (rule app_activateAndTrack [OF assms(1,2) t]) (erule appPromote_atomic)
    show ?thesis
    proof (cases e)
      case None
      with at obtain w0 w1 :: "'n world" where w0: "w_settings w0 = w_settings ws" "appPromotePendingSetup g w0 = (None :: 'e app_error option, w1)"
        "w_settings w' = w_settings w1" "published_for (appTask env cfg secrets controller) value st'" by auto
      have p: "PromotePendingSetup (w_settings ws) (call_faults w0) g = (None, w_settings w')"
        using w0 by (auto simp: appPromotePendingSetup_def split: prod.splits)
      from stage_promote [OF stage p] w0(4) None show ?thesis by (simp add: active_def)
    next
      case (Some err)
      with at ws active_settings [of w' ws] show ?thesis by simp
    qed
  qed
qed

lemma activated_Some:
  "activated res = Some (e, rest) \<Longrightarrow> \<exists>e0. res = Some (e0, rest) \<and> e = map_option ActivateCandidate e0"
  by (auto simp: activated_def)

text \<open>Setup and settings changes of the program either take effect completely or not at all.\<close>

lemma appSetup_atomic:
  fixes env :: "('j, 'n, 'e) app_env"
  assumes "settings_safe controller" "well_published st"
    and run: "Setup (appSetup env cfg secrets controller) c input st w = Some (e, c', st', w')"
  shows "if e = None
     then active w' = (Inr ((trimmed input)\<lparr>set_PelicanAPIKey := []\<rparr>), Inr True) \<and>
       published_for (appTask env cfg secrets controller) (trimmed input) st'
     else active w' = active w \<and> st_manager st' = st_manager st"
proof -
  let ?s = "appSetup env cfg secrets controller" let ?r = "appTask env cfg secrets controller"
  note f = appSetup_fields
  obtain x :: "'e app_error + bool" and w1 where x: "appIsSetupComplete w = (x, w1)" by fastforce
  have w1: "w_settings w1 = w_settings w" by (rule appIsSetupComplete_active [OF x])
  show ?thesis
  proof (cases "x = Inr False")
    case False
    then have "e \<noteq> None" "w' = w1" "st' = st"
      using run x by (auto simp: Setup_def f split: sum.splits bool.splits)
    with active_settings [OF w1] show ?thesis by auto
  next
    case True
    obtain y c1 w2 where y: "setupValidate ?s c input w1 = Some (y, c1, w2)"
      using run x True by (auto simp: Setup_def f split: option.splits)
    have w2: "w_settings w2 = w_settings w" using setupValidate_settings(1) [OF y] w1 by simp
    show ?thesis
    proof (cases y)
      case (Inl err)
      then have "e \<noteq> None" "w' = w2" "st' = st" using run x True y by (auto simp: Setup_def f)
      with active_settings [OF w2] show ?thesis by auto
    next
      case (Inr input')
      then have i: "input' = trimmed input" by (rule setupValidate_settings(2) [OF y])
      have "Setup ?s c input st w = activated (ActivateSetup ?r c1 input' (stageGuarded ?s input') appPromotePendingSetup st w2)"
        using x True y Inr by (simp add: Setup_def f)
      then obtain e0 where e0: "ActivateSetup ?r c1 input' (stageGuarded ?s input') appPromotePendingSetup st w2 = Some (e0, c', st', w')"
        "e = map_option ActivateCandidate e0"
        using activated_Some run by metis
      from app_ActivateSetup [OF assms(1,2) e0(1)] active_settings [OF w2] e0(2) i show ?thesis by (cases e0) simp_all
    qed
  qed
qed

text \<open>
  An update saves what it is given.  A key that is given directly leaves a stored secret name in
  place, and the loaded settings carry both.
\<close>

definition saved_settings :: "Settings \<Rightarrow> 'n world \<Rightarrow> Settings" where
  "saved_settings value w =
     (if set_PelicanSecretName value \<noteq> [] then value\<lparr>set_PelicanAPIKey := []\<rparr>
      else value\<lparr>set_PelicanSecretName :=
        (case map_of (settings_tbl (w_settings w)) KeyPelicanSecretName of None \<Rightarrow> [] | Some n \<Rightarrow> n)\<rparr>)"

lemma appSave_active:
  assumes "appSave value w = (None, w')"
  shows "active w' = (Inr (saved_settings value w), snd (active w))"
proof -
  have "Save (w_settings w) (call_faults w) value = (None, w_settings w')"
    using assms by (auto simp: appSave_def split: prod.splits)
  from save_load [OF this] show ?thesis by (simp add: active_def saved_settings_def)
qed

lemma app_Activate:
  fixes env :: "('j, 'n, 'e) app_env"
  assumes "settings_safe controller" "well_published st"
    and act: "Activate (appTask env cfg secrets controller) c value (appSave value) st w = Some (e, c', st', w')"
  shows "if e = None
     then active w' = (Inr (saved_settings value w), snd (active w)) \<and> published_for (appTask env cfg secrets controller) value st'
     else active w' = active w \<and> st_manager st' = st_manager st"
proof (cases "ctx_Err c")
  case (Some x)
  then show ?thesis using act by (auto simp: Activate_def acquire_simps fails_def)
next
  case None
  then have t: "activateAndTrackLocked (appTask env cfg secrets controller) (ctx_step c) value (appSave value) st w = Some (e, c', st', w')"
    using act by (simp add: Activate_def acquire_simps)
  have at: "if e \<noteq> None then w_settings w' = w_settings w \<and> st_manager st' = st_manager st
    else (\<exists>(w0 :: 'n world) w1. w_settings w0 = w_settings w \<and> appSave value w0 = (None :: 'e app_error option, w1) \<and>
      w_settings w' = w_settings w1 \<and> published_for (appTask env cfg secrets controller) value st')"
    by (rule app_activateAndTrack [OF assms(1,2) t]) (erule appSave_atomic)
  show ?thesis
  proof (cases e)
    case None
    with at obtain w0 w1 :: "'n world" where w0: "w_settings w0 = w_settings w" "appSave value w0 = (None :: 'e app_error option, w1)"
      "w_settings w' = w_settings w1" "published_for (appTask env cfg secrets controller) value st'" by auto
    have "saved_settings value w0 = saved_settings value w" using w0(1) by (simp add: saved_settings_def)
    with appSave_active [OF w0(2)] w0 active_settings [OF w0(1)] active_settings [OF w0(3)] None
    show ?thesis by simp
  next
    case (Some err)
    with at active_settings [of w' w] show ?thesis by simp
  qed
qed

lemma appUpdate_atomic:
  fixes env :: "('j, 'n, 'e) app_env"
  assumes "settings_safe controller" "well_published st"
    and run: "setupUpdate (appSetup env cfg secrets controller) c input st w = Some (e, c', st', w')"
  shows "if e = None
     then active w' = (Inr (saved_settings (trimmed input) w), snd (active w)) \<and>
       published_for (appTask env cfg secrets controller) (trimmed input) st'
     else active w' = active w \<and> st_manager st' = st_manager st"
proof -
  let ?s = "appSetup env cfg secrets controller" let ?r = "appTask env cfg secrets controller"
  note f = appSetup_fields
  obtain x :: "'e app_error + bool" and w1 where x: "appIsSetupComplete w = (x, w1)" by fastforce
  have w1: "w_settings w1 = w_settings w" by (rule appIsSetupComplete_active [OF x])
  show ?thesis
  proof (cases "x = Inr True")
    case False
    then have "e \<noteq> None" "w' = w1" "st' = st"
      using run x by (auto simp: setupUpdate_def f split: sum.splits bool.splits)
    with active_settings [OF w1] show ?thesis by auto
  next
    case True
    obtain y c1 w2 where y: "setupValidate ?s c input w1 = Some (y, c1, w2)"
      using run x True by (auto simp: setupUpdate_def prepareAndPublish_def f split: option.splits)
    have w2: "w_settings w2 = w_settings w" using setupValidate_settings(1) [OF y] w1 by simp
    show ?thesis
    proof (cases y)
      case (Inl err)
      then have "e \<noteq> None" "w' = w2" "st' = st" using run x True y by (auto simp: setupUpdate_def prepareAndPublish_def f)
      with active_settings [OF w2] show ?thesis by auto
    next
      case (Inr input')
      then have i: "input' = trimmed input" by (rule setupValidate_settings(2) [OF y])
      have "setupUpdate ?s c input st w = activated (Activate ?r c1 input' (appSave input') st w2)"
        using x True y Inr by (simp add: setupUpdate_def prepareAndPublish_def f)
      then obtain e0 where e0: "Activate ?r c1 input' (appSave input') st w2 = Some (e0, c', st', w')"
        "e = map_option ActivateCandidate e0"
        using activated_Some run by metis
      have "saved_settings input' w2 = saved_settings input' w" using w2 by (simp add: saved_settings_def)
      with app_Activate [OF assms(1,2) e0(1)] active_settings [OF w2] e0(2) i show ?thesis by (cases e0) simp_all
    qed
  qed
qed

section \<open>An example\<close>

text \<open>
  An example of the whole program: the panel and the mc-router of the repository's own fakes, a mounted
  secret, an empty database and mc-router with one stale and one foreign route.
\<close>

definition example_platform :: "(fake_json, fake_routes, string) platform" where
  "example_platform =
     \<lparr>pf_Parse = pf_Parse fake_platform, pf_ParseRequestURI = pf_ParseRequestURI fake_platform,
      pf_ResolveReference = pf_ResolveReference fake_platform,
      pf_http = (\<lambda>request routes. (fst (fake_panel request ()), routes)), pf_rand = example_rand,
      pf_servers = pf_servers fake_platform, pf_eggs = pf_eggs fake_platform, pf_nodes = pf_nodes fake_platform,
      pf_allocations = pf_allocations fake_platform\<rparr>"

definition example_secrets :: file_system where
  "example_secrets = \<lparr>fs_Lstat = (\<lambda>p. if p = ''/run/secrets'' then Some (example_info\<lparr>fi_dir := True, fi_regular := False\<rparr>)
       else if p = ''/run/secrets/pelican_api_key'' then Some example_info else None),
     fs_Open = (\<lambda>p. if p = ''/run/secrets/pelican_api_key''
       then Some \<lparr>of_Stat = Some example_info, of_content = Some ''lifecycle-pelican-key''\<rparr> else None)\<rparr>"

definition example_env :: "(fake_json, fake_routes, string) app_env" where
  "example_env =
     \<lparr>env_http = fake_http, env_Parse = (\<lambda>s. Some (client_baseURL fake_client)),
      env_parse_uri = (\<lambda>s. Some (''http'', ''127.0.0.1:8080'')), env_rand = example_rand, env_marshal = example_marshal,
      env_timestamp = ''2026-01-01T00:00:00Z'', env_platform = example_platform, env_secrets = example_secrets,
      env_cleanup = Background, env_now = int, env_time = 0\<rparr>"

definition example_cfg :: AppConfig where
  "example_cfg = setDefaults\<lparr>cfg_Router := \<lparr>ro_Backend = ''mc-router'', ro_Domain = ''mc.example.com''\<rparr>,
     cfg_Secrets := \<lparr>se_Directory = ''/run/secrets'', se_BootstrapTokenName = ''bootstrap-token''\<rparr>\<rparr>"

definition example_input :: Settings where
  "example_input = \<lparr>set_PelicanURL = '' http://127.0.0.1:8081/api/application'', set_PelicanAPIKey = [],
     set_PelicanSecretName = ''pelican_api_key'', set_RouterDomain = ''mc.example.com''\<rparr>"

definition example_start :: "fake_routes world" where
  "example_start = \<lparr>w_settings = empty_settings_db, w_policies = \<lparr>policies_tbl = [], aliases_tbl = []\<rparr>, w_history = empty_log,
     w_actions = empty_log, w_metrics = initial_metrics, w_net = example_fake, w_ir = example_world,
     w_reloadPending = False, w_faults = [], w_generations = [''g1'']\<rparr>"

definition example_state :: "(fake_routes world, string app_error) RuntimeState" where
  "example_state = \<lparr>st_manager = runtimeNew, st_tracker = NewReconciliationTracker, st_ticks = 0\<rparr>"

definition example_control :: "(fake_routes world, string backend_error) route_controller" where
  "example_control = projr (newRouteController example_env example_cfg)"

abbreviation example_setup_run where
  "example_setup_run \<equiv> Setup (appSetup example_env example_cfg ''/run/secrets'' example_control) Background
     example_input example_state example_start"

lemma example_controller_ok: "newRouteController example_env example_cfg = Inr example_control"
proof -
  have "case newRouteController example_env example_cfg of Inl e \<Rightarrow> False | Inr c \<Rightarrow> True" by code_simp
  then show ?thesis unfolding example_control_def by (simp split: sum.splits)
qed

lemma example_well_published: "well_published example_state"
  by (simp add: well_published_def example_state_def runtimeNew_def)

definition example_configured :: "fake_routes world" where
  "example_configured = example_start\<lparr>w_settings := \<lparr>settings_tbl =
     [(KeyPelicanURL, ''http://127.0.0.1:8081/api/application''), (KeyPelicanSecretName, ''pelican_api_key''),
      (KeyRouterDomain, ''old.example.com''), (KeySetupCompleted, ''true'')], pending_tbl = None\<rparr>\<rparr>"

end
