(* ===== verification/Composition.thy ===== *)
theory Composition
  imports SettingsChange
begin

text \<open>
  Components put together: what the planner produces and what the two backends accept, and what a
  refresh of the whole program does to the routing table of mc-router.
\<close>

section \<open>Plans and the backends\<close>

lemma mcValidLabel_valid: "mcValidLabel = valid_label"
  unfolding fun_eq_iff mcValidLabel_def valid_label_def label_char_def
  by (simp only: de_Morgan_disj length_0_conv not_less conj_assoc simp_thms)

lemma plan_mc_valid:
  assumes "Plan p servers policies = Inr routes" "list_all (\<lambda>server. srv_BackendPort server \<le> 65535) servers"
  shows "routes_valid routes \<and> map routeKey routes = map route_Hostname routes"
proof -
  from assms(1) have v: "plan_valid p servers policies" and r: "routes = plan_routes p servers policies"
    by (simp_all add: Plan_iff)
  have key: "routeKey x = route_Hostname x \<and> routeValid x" if "x \<in> set routes" for x
  proof -
    have x: "x \<in> set (plan_routes p servers policies)" using that r by simp
    have safe: "route_safe servers x" by (rule plan_valid_route_safe [OF v x])
    then have h: "list_all valid_label (Split (CHR ''.'') (route_Hostname x))" "route_Hostname x \<noteq> []"
      "go_len (route_Hostname x) \<le> 253"
      by (simp_all add: route_safe_def Planner.isValidHostname_def)
    note fixed = valid_hostname_fixed [OF h(1,2)]
    have k: "routeKey x = route_Hostname x" by (simp add: routeKey_def fixed)
    have "list_all mcValidLabel (Split (CHR ''.'') (route_Hostname x))"
      using h(1) by (simp only: mcValidLabel_valid)
    moreover have "\<not> HasSuffix (route_Hostname x) ''.''"
    proof
      assume "HasSuffix (route_Hostname x) ''.''"
      then obtain ys where "route_Hostname x = ys @ ''.''" by (auto simp: HasSuffix_iff suffix_def)
      then have e: "last (Split (CHR ''.'') (route_Hostname x)) = []" by (simp add: last_Split_sep)
      have "valid_label (last (Split (CHR ''.'') (route_Hostname x)))" using h(1) by (simp add: list_all_iff)
      then show False unfolding e by (simp add: valid_label_def)
    qed
    ultimately have "mcIsValidHostname (route_Hostname x)" using h(3) by (simp add: mcIsValidHostname_def)
    moreover obtain server hn where "server \<in> set servers" "x = server_route server hn"
      by (rule plan_routesE [OF x])
    moreover from this have "backend_Port (route_Backend x) \<le> 65535" using assms(2) by (auto simp: list_all_iff server_route_def)
    ultimately show ?thesis using safe k h(2) by (simp add: routeValid_def route_safe_def)
  qed
  have m: "map routeKey routes = map route_Hostname routes" using key by simp
  have "distinct (map routeKey routes)" using v r unfolding m by (simp add: plan_valid_def)
  with m key show ?thesis by (simp add: routes_valid_def list_all_iff)
qed

text \<open>Aliases give several routes one server identifier, which Infrared refuses.\<close>

lemma plan_aliases_repeat:
  assumes "Plan p servers policies = Inr routes" "server \<in> set servers" "\<not> srv_Suspended server"
    "policies (srv_UUID server) = Some policy" "\<not> pol_Excluded policy" "pol_Aliases policy \<noteq> []"
  shows "\<not> distinct (map route_ServerID routes)"
proof -
  obtain a as where a: "pol_Aliases policy = a # as" using assms(6) by (meson neq_Nil_conv)
  obtain h h' hs where hs: "server_hostnames p policies server = h # h' # hs"
    using assms(3-5) a by (simp add: server_hostnames_def)
  obtain xs ys where "servers = xs @ server # ys" using split_list [OF assms(2)] by blast
  then show ?thesis using assms(1) hs by (simp add: Plan_iff plan_routes_def server_route_def)
qed


lemma plan_aliases_unrenderable:
  assumes "\<not> distinct (map route_ServerID routes)"
  shows "render_all marshal routes = None"
proof -
  have "map route_file routes = map (\<lambda>id. route_file \<lparr>route_ServerID = id, route_Hostname = [], route_Backend = undefined\<rparr>)
      (map route_ServerID routes)"
    by (simp add: route_file_def)
  then have "\<not> distinct (map route_file routes)" using assms distinct_map by metis
  then show ?thesis by (simp add: render_all_def)
qed

section \<open>A refresh and mc-router\<close>

lemma mc_controller_domain: "managedDomain (mc_controller http client c rand domain) = Trim (CHR ''.'') (ToLower (TrimSpace domain))"
  by (simp add: mc_controller_def NewController_def WithManagedDomain_def)

lemma converged_ctx:
  "converged (mc_controller http client c rand domain) routes m = converged (mc_controller http client c2 rand domain) routes m"
  by (rule ext) (simp add: converged_def owns_def mc_controller_domain cong: option.case_cong)

text \<open>
  What a refresh reads: the settings and policies stored, and the servers that the panel of these
  settings lists.  The discovery starts from a world with the same network and database.
\<close>

definition refresh_reads ::
  "('j, 'n, 'e) app_env \<Rightarrow> AppConfig \<Rightarrow> string \<Rightarrow> ('n world, 'e backend_error) route_controller \<Rightarrow> 'n world \<Rightarrow>
   Settings \<Rightarrow> MinecraftServer list \<Rightarrow> Policy list \<Rightarrow> bool" where
  "refresh_reads env cfg secrets controller w value servers policies \<longleftrightarrow>
     (\<exists>faults. Load (w_settings w) faults = Inr value) \<and>
     (\<exists>discovery c1 w1 c2 w2. w_net w1 = w_net w \<and> w_settings w1 = w_settings w \<and> w_policies w1 = w_policies w \<and>
        settings_panel (appTask env cfg secrets controller) value w1 discovery \<and>
        Discover discovery c1 w1 = Some (Inr servers, c2, w2)) \<and>
     (\<exists>faults. RoutePolicy.List (w_policies w) faults = Inr policies)"

lemma app_refresh_converges:
  fixes env :: "('j, 'n, 'e) app_env"
  assumes api: "mc_router_http (env_http env) table client"
    and panel: "\<And>request. keeps table (pf_http (env_platform env) request)"
    and segments: "dom (table (w_net w)) \<subseteq> Collect path_segment"
    and run: "Refresh (appTask env cfg secrets (mcRouteController env client domain)) c st w = Some (None, c', st', w')"
    and published: "mgr_routing (st_manager st') = Some s"
  shows "\<exists>value servers policies routes.
     refresh_reads env cfg secrets (mcRouteController env client domain) w value servers policies \<and>
     Plan \<lparr>planner_domain = normalizeDomain (set_RouterDomain value)\<rparr> servers (policy_map policies) = Inr routes \<and>
     table (w_net w') = converged (mc_controller (env_http env) client c (env_rand env) domain) routes (table (w_net w))"
proof -
  let ?obs = "\<lambda>w. (table (w_net w), w_policies w)"
  let ?r = "appTask env cfg secrets (mcRouteController env client domain)"
  have "keeps ?obs (pf_http (appPlatform (env_platform env)) request)" for request
    using panel [of request] by (auto simp: keeps_def appPlatform_def split: prod.splits) (metis snd_conv)
  then have reads: "runtime_reads ?r ?obs" by (intro app_runtime_reads) (simp_all add: after_call_def)
  have "rt_synchronizer ?r = Some (Production (mcRouteController env client domain))" by (simp add: appTask_eq)
  from runtime_reads.Refresh_reconciles [OF reads run this published] obtain routes c1 w1 c2 w2 c3 w3 where
    f: "rsRoutes s c1 w1 = (Inr routes, c2, w2)" "?obs w1 = ?obs w" "?obs w2 = ?obs w"
      "reconcile_step (mcRouteController env client domain) (ctx_step c2) routes w2 = (None, c3, w3)"
      "record_outcome ?r c3 st' (observe ?r st' w3) = (c', w')" "rs_policies s = rt_policySource ?r"
      "\<exists>value w4 w5 discovery c6 w6. rt_IsSetupComplete ?r (observe ?r (track ?r Start st) w) = (Inr True, w4) \<and>
        rt_Load ?r w4 = (Inr value, w5) \<and> settings_panel ?r value w5 discovery \<and>
        planner_domain (rs_planner s) = normalizeDomain (set_RouterDomain value) \<and>
        Discover discovery (ctx_step c) w5 = Some (Inr (inv_servers (rs_inventory s)), c6, w6)" by blast
  from f(7) obtain val w4 w5 discovery c6 w6 where
    g: "rt_IsSetupComplete ?r (observe ?r (track ?r Start st) w) = (Inr True, w4)"
      "rt_Load ?r w4 = (Inr val, w5)" "settings_panel ?r val w5 discovery"
      "planner_domain (rs_planner s) = normalizeDomain (set_RouterDomain val)"
      "Discover discovery (ctx_step c) w5 = Some (Inr (inv_servers (rs_inventory s)), c6, w6)" by blast
  have w4: "w_net w4 = w_net w" "w_settings w4 = w_settings w" "w_policies w4 = w_policies w"
    using g(1) by (auto simp: appTask_eq appIsSetupComplete_def observe_def appObserve_def after_call_def)
  have w5: "w_net w5 = w_net w" "w_settings w5 = w_settings w" "w_policies w5 = w_policies w"
      "Load (w_settings w) (call_faults w4) = Inr val"
    using g(2) w4 by (auto simp: appTask_eq appLoad_def after_call_def)
  have "rs_policies s = Some appPolicies" using f(6) by (simp add: appTask_eq)
  from rsRoutes_policies [OF f(1) this] obtain policies where
    p: "RoutePolicy.List (w_policies w1) (call_faults w1) = Inr policies"
      "Plan (rs_planner s) (inv_servers (rs_inventory s)) (policy_map policies) = Inr routes"
    by (auto simp: appPolicies_def)
  obtain result n where m: "ReconcileWithResult (mc_controller (env_http env) client (ctx_step c2) (env_rand env) domain)
      (ctx_step c2) routes (w_net w2) = ((None, result), c3, n)" "w_net w3 = n"
    using f(4) by (auto simp: mcRouteController_def split: prod.splits)
  have t2: "table (w_net w2) = table (w_net w)" using f(3) by simp
  have "table n = converged (mc_controller (env_http env) client (ctx_step c2) (env_rand env) domain) routes (table (w_net w2))"
    using route_api.reconcile_effect [OF mc_router_http.client_api [OF api] _ _ m(1)] segments t2
    by (simp add: route_api.table_addressable_def [OF mc_router_http.client_api [OF api]])
  moreover have "table (w_net w') = table n"
    using runtime_reads.reports_durable [OF reads f(5)] m(2) by simp
  ultimately have "table (w_net w') = converged (mc_controller (env_http env) client c (env_rand env) domain) routes (table (w_net w))"
    using converged_ctx t2 by metis
  moreover have "w_policies w1 = w_policies w" using f(2) by simp
  ultimately have "refresh_reads env cfg secrets (mcRouteController env client domain) w val (inv_servers (rs_inventory s)) policies"
    and t: "table (w_net w') = converged (mc_controller (env_http env) client c (env_rand env) domain) routes (table (w_net w))"
    using p(1) g(3,5) w5 unfolding refresh_reads_def by metis+
  moreover have "rs_planner s = \<lparr>planner_domain = normalizeDomain (set_RouterDomain val)\<rparr>" using g(4) by (cases "rs_planner s") simp
  ultimately show ?thesis using p(2) by metis
qed


text \<open>With no managed domain configured every hostname counts as managed, so a refresh removes all foreign routes.\<close>

lemma unset_domain_owns_all:
  "converged (mc_controller http client c rand []) routes m = map_of (desired_of routes)"
proof -
  have "managedDomain (mc_controller http client c rand []) = []"
    unfolding mc_controller_domain by (simp add: string_defs)
  then show ?thesis by (auto simp: converged_def owns_def fun_eq_iff split: option.split)
qed

section \<open>An example\<close>

abbreviation example_task where
  "example_task \<equiv> appTask example_env example_cfg ''/run/secrets'' (mcRouteController example_env fake_client ''mc.example.com'')"

definition example_ready :: "fake_routes world" where
  "example_ready = example_start\<lparr>w_settings := \<lparr>settings_tbl =
     [(KeyPelicanURL, ''http://127.0.0.1:8081/api/application''), (KeyPelicanSecretName, ''pelican_api_key''),
      (KeyRouterDomain, ''mc.example.com''), (KeySetupCompleted, ''true'')], pending_tbl = None\<rparr>\<rparr>"

definition example_refreshed :: fake_routes where
  "example_refreshed = [(''other.example.org'', \<lparr>resp_Backend = ''10.0.0.9:25565'', resp_ScalingTarget = []\<rparr>),
     (''lifecycle.mc.example.com'', \<lparr>resp_Backend = ''127.0.0.1:25565'', resp_ScalingTarget = []\<rparr>)]"

lemma example_refresh:
  "map_option (\<lambda>(e, c, st, w). (e, mgr_routing (st_manager st) = None, w_net w))
     (Refresh example_task Background example_state example_ready) = Some (None, False, example_refreshed)"
  by code_simp

lemma example_api:
  "mc_router_http (env_http example_env) fake_table fake_client"
  "keeps fake_table (pf_http (env_platform example_env) request)"
  "dom (fake_table (w_net example_ready)) \<subseteq> Collect path_segment"
  using fake.mc_router_http_axioms example_fake_segments
  by (simp_all add: example_env_def example_platform_def example_ready_def example_start_def keeps_def)

end
