(* ===== verification/Startup.thy ===== *)
theory Startup
  imports Composition
begin

text \<open>
  The start of the program, \<open>app.Run\<close> in \<open>internal/app/app.go\<close>: configuration, database,
  secrets, metrics, backend, the first refresh, and the HTTP server with its authorizers.

  What libraries and the operating system decide is the record \<open>startup\<close>: the configuration that
  viper reads, the opening of the database, the registration of metrics, the discovery of the OIDC
  provider, and which library errors are a cancelled context.  After the start the program is the
  server, the scheduler and their life cycle, which have theories of their own.
\<close>

section \<open>The HTTP server\<close>

record http_server =
  hs_Addr :: string
  hs_ReadHeaderTimeout :: int
  hs_ReadTimeout :: int
  hs_WriteTimeout :: int
  hs_IdleTimeout :: int

definition serverAddress :: "ServerConfig \<Rightarrow> string" where
  "serverAddress cfg = JoinHostPort (sc_Host cfg) (Itoa (sc_Port cfg))"

definition newHTTPServer :: "string \<Rightarrow> ServerConfig \<Rightarrow> http_server" where
  "newHTTPServer address cfg =
     \<lparr>hs_Addr = address, hs_ReadHeaderTimeout = sc_ReadHeaderTimeout cfg, hs_ReadTimeout = sc_ReadTimeout cfg,
      hs_WriteTimeout = sc_WriteTimeout cfg, hs_IdleTimeout = sc_IdleTimeout cfg\<rparr>"

record ('j, 'k, 'e) startup =
  su_Load :: "unit + AppConfig"
  su_Open :: "string \<Rightarrow> open_error option"
  su_Register :: "string \<Rightarrow> string option"
  su_NewProvider :: "string \<Rightarrow> string \<Rightarrow> (string \<Rightarrow> unit + 'k id_token) option"
  su_roles :: "'k \<Rightarrow> string list option"
  su_canceled :: "'e app_error \<Rightarrow> bool"
  su_backendCanceled :: "'e backend_error \<Rightarrow> bool"
  su_policyCanceled :: "policy_error \<Rightarrow> bool"
  su_json :: json_decoders
  su_build :: Info

text \<open>The setters of the server that \<open>app.Run\<close> chains; \<open>canceled\<close> says which opaque errors are cancellations.\<close>

definition NewServer ::
  "('j, 'w, 'x, 'b) SetupService \<Rightarrow> Info \<Rightarrow> ('x \<Rightarrow> bool) \<Rightarrow> ('b \<Rightarrow> bool) \<Rightarrow> (policy_error \<Rightarrow> bool) \<Rightarrow>
   json_decoders \<Rightarrow> ('j, 'w, 'x, 'b) Server" where
  "NewServer setup_service build canceled backendCanceled policyCanceled json =
     \<lparr>srv_setup = setup_service, srv_build = build, srv_dashboard = False, srv_dashboardAuth = None, srv_dashboardRefresh = None,
      srv_bootstrapAuth = None, srv_managementAuth = None, srv_routePolicies = None, srv_operationalHistory = None,
      srv_actionHistoryReader = None, srv_actionHistory = None, srv_canceled = canceled,
      srv_backendCanceled = backendCanceled, srv_policyCanceled = policyCanceled, srv_json = json\<rparr>"

definition WithRoutePolicies :: "'w policy_store \<Rightarrow> ('j, 'w, 'x, 'b) Server \<Rightarrow> ('j, 'w, 'x, 'b) Server" where
  "WithRoutePolicies policies s = s\<lparr>srv_routePolicies := Some policies\<rparr>"

definition WithDashboard :: "('j, 'w, 'x, 'b) Server \<Rightarrow> ('j, 'w, 'x, 'b) Server" where
  "WithDashboard s = s\<lparr>srv_dashboard := True\<rparr>"

definition WithOperationalHistory ::
  "(int \<Rightarrow> 'w \<Rightarrow> (history_error + Event row list) \<times> 'w) \<Rightarrow> ('j, 'w, 'x, 'b) Server \<Rightarrow> ('j, 'w, 'x, 'b) Server" where
  "WithOperationalHistory reader s = s\<lparr>srv_operationalHistory := Some reader\<rparr>"

definition WithActionHistory ::
  "(ActionEvent \<Rightarrow> 'w \<Rightarrow> history_error option \<times> 'w) \<Rightarrow> ('j, 'w, 'x, 'b) Server \<Rightarrow> ('j, 'w, 'x, 'b) Server" where
  "WithActionHistory appender s = s\<lparr>srv_actionHistory := Some appender\<rparr>"

definition WithActionHistoryReader ::
  "(int \<Rightarrow> 'w \<Rightarrow> (history_error + ActionEvent row list) \<times> 'w) \<Rightarrow> ('j, 'w, 'x, 'b) Server \<Rightarrow> ('j, 'w, 'x, 'b) Server" where
  "WithActionHistoryReader reader s = s\<lparr>srv_actionHistoryReader := Some reader\<rparr>"

definition WithBootstrapAuthorization :: "'x BootstrapAuthorizer \<Rightarrow> ('j, 'w, 'x, 'b) Server \<Rightarrow> ('j, 'w, 'x, 'b) Server" where
  "WithBootstrapAuthorization authorizer s = s\<lparr>srv_bootstrapAuth := Some authorizer\<rparr>"

definition WithDashboardAuthorization :: "oidcAuthorizer \<Rightarrow> ('j, 'w, 'x, 'b) Server \<Rightarrow> ('j, 'w, 'x, 'b) Server" where
  "WithDashboardAuthorization authorizer s = s\<lparr>srv_dashboardAuth := Some authorizer\<rparr>"

definition WithManagementAuthorization :: "oidcAuthorizer option \<Rightarrow> ('j, 'w, 'x, 'b) Server \<Rightarrow> ('j, 'w, 'x, 'b) Server" where
  "WithManagementAuthorization authorizer s = s\<lparr>srv_managementAuth := authorizer\<rparr>"

definition WithDashboardActions :: "('j, 'w, 'x, 'b) RefreshTask \<Rightarrow> ('j, 'w, 'x, 'b) Server \<Rightarrow> ('j, 'w, 'x, 'b) Server" where
  "WithDashboardActions refresher s = s\<lparr>srv_dashboardRefresh := Some refresher\<rparr>"

definition WithActionLimiter :: "Limiter \<Rightarrow> ('w, 'x) ServerState \<Rightarrow> ('w, 'x) ServerState" where
  "WithActionLimiter limiter st = st\<lparr>sv_limiter := Some limiter\<rparr>"

text \<open>\<open>dashboardauth.New\<close>; \<open>None\<close> stands for \<open>ErrProviderDiscovery\<close>.\<close>

definition dashboardauthNew ::
  "(string \<Rightarrow> string \<Rightarrow> (string \<Rightarrow> unit + 'k id_token) option) \<Rightarrow> ('k \<Rightarrow> string list option) \<Rightarrow> DashboardAuthConfig \<Rightarrow>
   oidcAuthorizer option" where
  "dashboardauthNew provider roles cfg =
     map_option (\<lambda>verify.
         \<lparr>oa_verify = oidcVerify \<lparr>ov_verify = verify, ov_roles = roles, ov_roleClaim = da_RoleClaim cfg\<rparr>,
          oa_requiredRole = da_RequiredRole cfg, oa_operatorRole = da_OperatorRole cfg\<rparr>)
       (provider (da_IssuerURL cfg) (da_Audience cfg))"

definition NewRegistry :: "(string \<Rightarrow> string option) \<Rightarrow> string + ReconciliationMetrics" where
  "NewRegistry register =
     bindE (NewReconciliationMetrics register) (\<lambda>metrics.
     case register ''go'' of
       Some e \<Rightarrow> Inl e
     | None \<Rightarrow> (case register ''process'' of Some e \<Rightarrow> Inl e | None \<Rightarrow> Inr metrics))"

lemma runtime_WithActionLimiter [simp]: "sv_runtime (WithActionLimiter limiter st) = sv_runtime st"
  by (simp add: WithActionLimiter_def)

section \<open>Start\<close>

datatype 'e startup_error =
    LoadConfiguration | ValidateConfiguration "config_error list" | OpenDatabase open_error
  | CreateSecretReader secret_error | CreateMetricsRegistry string | CreateRouteController controller_error
  | CreateRouteSynchronizer | InitializeRuntime "('e app_error, 'e backend_error) refresh_error"
  | DetermineSetupStatus "'e app_error" | CreateBootstrapAuthorizer bootstrap_error | CreateDashboardAuthorizer

text \<open>Everything before the first refresh: the configuration, the secrets directory, the metrics and the backend.\<close>

definition appWire ::
  "('j, 'n, 'e) app_env \<Rightarrow> ('j, 'k, 'e) startup \<Rightarrow>
   'e startup_error + AppConfig \<times> string \<times> ReconciliationMetrics \<times> ('n world, 'e backend_error) route_controller" where
  "appWire env su =
     bindE (map_err (\<lambda>e. LoadConfiguration) (su_Load su)) (\<lambda>cfg.
     bindE (let errors = ValidateInfrastructure (env_parse_uri env) cfg
            in if errors = [] then Inr () else Inl (ValidateConfiguration errors)) (\<lambda>_.
     bindE (case su_Open su (cfg_DatabasePath cfg) of None \<Rightarrow> Inr () | Some e \<Rightarrow> Inl (OpenDatabase e)) (\<lambda>_.
     bindE (map_err CreateSecretReader (secretNew (env_secrets env) (se_Directory (cfg_Secrets cfg)))) (\<lambda>directory.
     bindE (map_err CreateMetricsRegistry (NewRegistry (su_Register su))) (\<lambda>metrics.
     bindE (map_err CreateRouteController (newRouteController env cfg)) (\<lambda>controller.
     case NewSynchronizer (Some controller) of
       None \<Rightarrow> Inl CreateRouteSynchronizer
     | Some synchronizer \<Rightarrow> Inr (cfg, directory, metrics, synchronizer)))))))"

definition apiServer ::
  "('j, 'n, 'e) app_env \<Rightarrow> ('j, 'k, 'e) startup \<Rightarrow> AppConfig \<Rightarrow> string \<Rightarrow> ('n world, 'e backend_error) route_controller \<Rightarrow>
   ('j, 'n world, 'e app_error, 'e backend_error) Server" where
  "apiServer env su cfg directory controller =
     WithActionHistoryReader (\<lambda>limit w. (actionList (call_faults w) limit (w_actions w), after_call w))
       (WithActionHistory (appActionStore (env_time env))
         (WithOperationalHistory (\<lambda>limit w. (historyList (call_faults w) limit (w_history w), after_call w))
           (WithDashboard
             (WithRoutePolicies appPolicyStore
               (NewServer (appSetup env cfg directory controller) (su_build su) (su_canceled su)
                 (su_backendCanceled su) (su_policyCanceled su) (su_json su))))))"

text \<open>
  The server after the first refresh; the error \<open>None\<close> is a cancelled start that returns
  \<open>nil\<close>.
\<close>

definition appServer ::
  "('j, 'n, 'e) app_env \<Rightarrow> ('j, 'k, 'e) startup \<Rightarrow> AppConfig \<Rightarrow> string \<Rightarrow> ('n world, 'e backend_error) route_controller \<Rightarrow>
   ctx \<Rightarrow> 'n world \<Rightarrow>
   ('e startup_error option + ('j, 'n world, 'e app_error, 'e backend_error) Server) \<times> ctx \<times> 'n world" where
  "appServer env su cfg directory controller c w =
     (let refresher = appTask env cfg directory controller;
          s0 = apiServer env su cfg directory controller
      in case appIsSetupComplete w of
           (Inl e, w1) \<Rightarrow> (Inl (Some (DetermineSetupStatus e)), c, w1)
         | (Inr setupComplete, w1) \<Rightarrow>
             (case (if setupComplete then Inr s0
                    else map_err CreateBootstrapAuthorizer
                      (map_sum id (\<lambda>authorizer. WithBootstrapAuthorization authorizer s0)
                        (bootstrapNew (Some (\<lambda>name. map_err AppSecret (secretRead (env_secrets env) (Some directory) name)))
                          (se_BootstrapTokenName (cfg_Secrets cfg))))) of
                Inl e \<Rightarrow> (Inl (Some e), c, w1)
              | Inr s1 \<Rightarrow>
                  if da_Enabled (cfg_DashboardAuth cfg) then
                    (case dashboardauthNew (su_NewProvider su) (su_roles su) (cfg_DashboardAuth cfg) of
                       None \<Rightarrow> (Inl (if ctx_Err c = Some Canceled then None else Some CreateDashboardAuthorizer), ctx_step c, w1)
                     | Some authorizer \<Rightarrow>
                         (Inr (WithDashboardActions refresher
                                (WithManagementAuthorization (Some authorizer) (WithDashboardAuthorization authorizer s1))), c, w1))
                  else (Inr (WithManagementAuthorization None s1), c, w1)))"

datatype ('j, 'n, 'e) started =
    Returned "'e startup_error option"
  | Serving "('j, 'n world, 'e app_error, 'e backend_error) Server" "('n world, 'e app_error) ServerState" http_server

definition appRun ::
  "('j, 'n, 'e) app_env \<Rightarrow> ('j, 'k, 'e) startup \<Rightarrow> ctx \<Rightarrow> 'n world \<Rightarrow> (('j, 'n, 'e) started \<times> ctx \<times> 'n world) option" where
  "appRun env su c w =
     (case appWire env su of
        Inl e \<Rightarrow> Some (Returned (Some e), c, w)
      | Inr (cfg, directory, metrics, controller) \<Rightarrow>
          (case Refresh (appTask env cfg directory controller) c
                  \<lparr>st_manager = runtimeNew, st_tracker = NewReconciliationTracker, st_ticks = 0\<rparr> (w\<lparr>w_metrics := metrics\<rparr>) of
             None \<Rightarrow> None
           | Some (Some e, c1, st, w1) \<Rightarrow>
               Some (Returned (if refresh_canceled (\<lambda>e. e = Canceled) (su_canceled su) (su_backendCanceled su) e then None
                               else Some (InitializeRuntime e)), c1, w1)
           | Some (None, c1, st, w1) \<Rightarrow>
               if ctx_Err c1 \<noteq> None then Some (Returned None, ctx_step c1, w1)
               else (case appServer env su cfg directory controller (ctx_step c1) w1 of
                       (Inl e, c2, w2) \<Rightarrow> Some (Returned e, c2, w2)
                     | (Inr s, c2, w2) \<Rightarrow>
                         Some (Serving s (WithActionLimiter (limiterNew second) \<lparr>sv_runtime = st, sv_limiter = None\<rparr>)
                                 (newHTTPServer (serverAddress (cfg_Server cfg)) (cfg_Server cfg)), c2, w2))))"

section \<open>The running program\<close>

text \<open>
  Between the start and the end the refresh task is entered by the scheduler, the dashboard and the
  setup service; the lock makes each entry one step.  Meanwhile everything but the settings can change
  at any time: policies, histories, the panel and the backends.
\<close>

inductive app_step ::
  "('j, 'n, 'e) app_env \<Rightarrow> AppConfig \<Rightarrow> string \<Rightarrow> ('n world, 'e backend_error) route_controller \<Rightarrow>
   ('n world, 'e app_error) RuntimeState \<times> 'n world \<Rightarrow> ('n world, 'e app_error) RuntimeState \<times> 'n world \<Rightarrow> bool"
  for env cfg directory controller where
  refreshed: "Refresh (appTask env cfg directory controller) c st w = Some (e, c', st', w') \<Longrightarrow>
    app_step env cfg directory controller (st, w) (st', w')"
| settings_changed: "Activate (appTask env cfg directory controller) c value (appSave value) st w = Some (e, c', st', w') \<Longrightarrow>
    app_step env cfg directory controller (st, w) (st', w')"
| set_up: "ActivateSetup (appTask env cfg directory controller) c value (stageGuarded (appSetup env cfg directory controller) value)
      appPromotePendingSetup st w = Some (e, c', st', w') \<Longrightarrow>
    app_step env cfg directory controller (st, w) (st', w')"
| elsewhere: "w_settings w' = w_settings w \<Longrightarrow> app_step env cfg directory controller (st, w) (st, w')"

inductive app_reachable ::
  "('j, 'n, 'e) app_env \<Rightarrow> ('j, 'k, 'e) startup \<Rightarrow> ('n world, 'e app_error) RuntimeState \<times> 'n world \<Rightarrow> bool"
  for env su where
  started: "appRun env su c w = Some (Serving s st h, c', w') \<Longrightarrow> app_reachable env su (sv_runtime st, w')"
| steps: "app_reachable env su x \<Longrightarrow> appWire env su = Inr (cfg, directory, metrics, controller) \<Longrightarrow>
    app_step env cfg directory controller x y \<Longrightarrow> app_reachable env su y"

text \<open>
  The published services read the policies of the database, have a filled inventory and plan for the
  router domain of the active settings.
\<close>

definition coherent :: "('n world, 'e app_error) RuntimeState \<Rightarrow> 'n world \<Rightarrow> bool" where
  "coherent st w \<longleftrightarrow>
     (case mgr_routing (st_manager st) of
        None \<Rightarrow> True
      | Some s \<Rightarrow> rs_policies s = Some appPolicies \<and> inv_ready (rs_inventory s) \<and>
          (case fst (active w) of
             Inl e \<Rightarrow> False
           | Inr value \<Rightarrow> planner_domain (rs_planner s) = normalizeDomain (set_RouterDomain value)))"

lemma coherent_published: "coherent st w \<Longrightarrow> well_published st"
  by (auto simp: coherent_def well_published_def split: option.splits)

lemma coherentI:
  assumes "services_for (appTask env cfg directory controller) value s" "mgr_routing (st_manager st) = Some (snd s)"
    and "fst (active w) = Inr value'" "set_RouterDomain value' = set_RouterDomain value"
  shows "coherent st w"
  using assms by (simp add: coherent_def services_for_def appTask_eq is_production_def)

lemma coherent_same: "coherent st w \<Longrightarrow> st_manager st' = st_manager st \<Longrightarrow> active w' = active w \<Longrightarrow> coherent st' w'"
  by (auto simp: coherent_def split: option.splits)

lemma saved_settings_domain [simp]: "set_RouterDomain (saved_settings value w) = set_RouterDomain value"
  by (simp add: saved_settings_def)

lemma published_coherent:
  "published_for (appTask env cfg directory controller) value st \<Longrightarrow> fst (active w) = Inr value' \<Longrightarrow>
     set_RouterDomain value' = set_RouterDomain value \<Longrightarrow> coherent st w"
  by (auto simp: published_for_def intro: coherentI)

lemma appTask_Load: "rt_Load (appTask env cfg directory controller) = appLoad"
  by (simp add: appTask_eq)

lemma refresh_coherent:
  fixes env :: "('j, 'n, 'e) app_env"
  assumes "settings_safe controller" "Refresh (appTask env cfg directory controller) c st w = Some (e, c', st', w')"
    and "e = None \<or> coherent st w"
  shows "coherent st' w'"
proof -
  note env = app_runtime_env [OF assms(1), of env cfg directory]
  have w': "w_settings w' = w_settings w" by (rule runtime_env.Refresh_durable [OF env assms(2)])
  show ?thesis
  proof (cases e)
    case (Some err)
    with Refresh_failure [OF assms(2) [unfolded Some]] assms(3) active_settings [OF w'] show ?thesis
      by (auto intro: coherent_same)
  next
    case None
    show ?thesis
    proof (cases "mgr_routing (st_manager st')")
      case (Some s)
      from runtime_reads.Refresh_loads [OF runtime_env.axioms(1) [OF env] assms(2) [unfolded None] Some]
      obtain inventory val and w1 w2 :: "'n world" where l: "w_settings w1 = w_settings w"
        "appLoad w1 = (Inr val :: 'e app_error + Settings, w2)" "services_for (appTask env cfg directory controller) val (inventory, s)"
        by (auto simp: appTask_Load)
      then have "Load (w_settings w) (call_faults w1) = Inr val" by (simp add: appLoad_def)
      then have "fst (active w') = Inr val" using Load_Inr w' by (simp add: active_def)
      with l(3) Some show ?thesis by (auto intro: coherentI)
    qed (simp add: coherent_def)
  qed
qed

lemma step_coherent:
  assumes "app_step env cfg directory controller x y" "settings_safe controller" "coherent (fst x) (snd x)"
  shows "coherent (fst y) (snd y)"
  using assms
proof (cases rule: app_step.cases)
  case (refreshed c st w e c' st' w')
  then show ?thesis using refresh_coherent [OF assms(2) refreshed(3)] assms(3) by simp
next
  case (settings_changed c val st w e c' st' w')
  have pub: "well_published st" using coherent_published assms(3) settings_changed(1) by simp
  note act = app_Activate [OF assms(2) pub settings_changed(3)]
  show ?thesis
  proof (cases e)
    case None
    then have "coherent st' w'" using act by (intro published_coherent [of env cfg directory controller val st' w' "saved_settings val w"]) simp_all
    then show ?thesis using settings_changed(2) by simp
  next
    case (Some err)
    then have "st_manager st' = st_manager st" "active w' = active w" using act by simp_all
    moreover have "coherent st w" using assms(3) settings_changed(1) by simp
    ultimately have "coherent st' w'" by (blast intro: coherent_same)
    then show ?thesis using settings_changed(2) by simp
  qed
next
  case (set_up c val st w e c' st' w')
  have pub: "well_published st" using coherent_published assms(3) set_up(1) by simp
  note act = app_ActivateSetup [OF assms(2) pub set_up(3)]
  show ?thesis
  proof (cases e)
    case None
    then have "coherent st' w'" using act by (intro published_coherent [of env cfg directory controller val st' w' "val\<lparr>set_PelicanAPIKey := []\<rparr>"]) simp_all
    then show ?thesis using set_up(2) by simp
  next
    case (Some err)
    then have "st_manager st' = st_manager st" "active w' = active w" using act by simp_all
    moreover have "coherent st w" using assms(3) set_up(1) by simp
    ultimately have "coherent st' w'" by (blast intro: coherent_same)
    then show ?thesis using set_up(2) by simp
  qed
next
  case (elsewhere w' w st)
  have "coherent st w" using assms(3) elsewhere(1) by simp
  from coherent_same [OF this refl active_settings [OF elsewhere(3)]] have "coherent st w'" .
  then show ?thesis using elsewhere(2) by simp
qed

lemma appWire_controller: "appWire env su = Inr (cfg, directory, metrics, controller) \<Longrightarrow> newRouteController env cfg = Inr controller"
  by (auto simp: appWire_def NewSynchronizer_def Let_def split: option.splits if_splits)

text \<open>A start that serves has validated its configuration and completed a refresh.\<close>

lemma appRun_Serving:
  assumes "appRun env su c w = Some (Serving s st h, c', w')"
  shows "\<exists>cfg directory metrics controller c1 w1. appWire env su = Inr (cfg, directory, metrics, controller) \<and>
     Refresh (appTask env cfg directory controller) c
       \<lparr>st_manager = runtimeNew, st_tracker = NewReconciliationTracker, st_ticks = 0\<rparr> (w\<lparr>w_metrics := metrics\<rparr>) =
         Some (None, c1, sv_runtime st, w1) \<and>
     appServer env su cfg directory controller (ctx_step c1) w1 = (Inr s, c', w')"
  using assms
  by (auto simp: appRun_def split: sum.splits prod.splits option.splits if_splits)

lemma appServer_settings:
  assumes "appServer env su cfg directory controller c w = (x, c', w')"
  shows "w_settings w' = w_settings w"
  using assms
  by (auto simp: appServer_def Let_def appIsSetupComplete_def split: sum.splits option.splits if_splits)

lemma reachable_coherent:
  assumes "app_reachable env su x"
  shows "coherent (fst x) (snd x)"
  using assms
proof (induction rule: app_reachable.induct)
  case (started c w s st h c' w')
  from appRun_Serving [OF this] obtain cfg directory metrics controller c1 w1 where
    r: "appWire env su = Inr (cfg, directory, metrics, controller)"
      "Refresh (appTask env cfg directory controller) c
         \<lparr>st_manager = runtimeNew, st_tracker = NewReconciliationTracker, st_ticks = 0\<rparr> (w\<lparr>w_metrics := metrics\<rparr>) =
           Some (None, c1, sv_runtime st, w1)"
      "appServer env su cfg directory controller (ctx_step c1) w1 = (Inr s, c', w')" by blast
  have "coherent (sv_runtime st) w1"
    by (rule refresh_coherent [OF newRouteController_safe [OF appWire_controller [OF r(1)]] r(2)]) simp
  then show ?case using active_settings [OF appServer_settings [OF r(3)]] by (auto intro: coherent_same)
next
  case (steps x cfg directory metrics controller y)
  show ?case by (rule step_coherent [OF steps(3) newRouteController_safe [OF appWire_controller [OF steps(2)]] steps.IH])
qed

section \<open>Guards and wiring\<close>

definition example_startup :: "(fake_json, fake_json, string) startup" where
  "example_startup =
     \<lparr>su_Load = Inr example_cfg, su_Open = (\<lambda>path. None), su_Register = (\<lambda>name. None),
      su_NewProvider = (\<lambda>issuer audience. None), su_roles = (\<lambda>j. None), su_canceled = (\<lambda>e. False),
      su_backendCanceled = (\<lambda>e. False), su_policyCanceled = (\<lambda>e. False), su_json = example_json,
      su_build = \<lparr>build_Version = ''dev'', build_Revision = ''unknown''\<rparr>\<rparr>"

definition example_published :: "(fake_json, fake_routes, string) started \<Rightarrow> string option" where
  "example_published x =
     (case x of
        Returned e \<Rightarrow> None
      | Serving s st h \<Rightarrow> map_option (\<lambda>s. planner_domain (rs_planner s)) (mgr_routing (st_manager (sv_runtime st))))"

lemma example_start_run:
  "map_option (\<lambda>(x, c, w). example_published x) (appRun example_env example_startup Background example_ready) =
     Some (Some ''mc.example.com'')"
  by code_simp

lemma example_serving:
  "\<exists>s st h c' w'. appRun example_env example_startup Background example_ready = Some (Serving s st h, c', w') \<and>
     mgr_routing (st_manager (sv_runtime st)) \<noteq> None"
proof (cases "appRun example_env example_startup Background example_ready")
  case (Some y)
  obtain x c w where y: "y = (x, c, w)" by (metis prod.collapse)
  have "example_published x = Some ''mc.example.com''" using example_start_run unfolding Some y by simp
  then show ?thesis unfolding Some y by (cases x) (auto simp: example_published_def)
qed (use example_start_run in simp)

definition management_endpoint :: "endpoint \<Rightarrow> bool" where
  "management_endpoint e = (e \<noteq> GetHealth \<and> e \<noteq> GetMetrics \<and> e \<noteq> GetReady \<and> e \<noteq> GetSetup \<and> e \<noteq> PostSetup)"

lemma Router_management_closed:
  assumes "srv_managementAuth s = None" "management_endpoint (rq_endpoint r)"
  shows "Router s c r st w = Some (writeJSONError 503 ''management authentication unavailable'', c, st, w)"
  using assms
  by (cases "rq_endpoint r")
    (simp_all only: Router_def management_endpoint_def managementViewer_def managementOperator_def managementAuthorize_def
      option.case endpoint.case endpoint.distinct simp_thms)

lemma apiServer_guards:
  "srv_managementAuth (apiServer env su cfg directory controller) = None"
  "srv_bootstrapAuth (apiServer env su cfg directory controller) = None"
  by (simp_all add: apiServer_def NewServer_def WithRoutePolicies_def WithDashboard_def WithOperationalHistory_def
      WithActionHistory_def WithActionHistoryReader_def)

lemma appServer_guards:
  fixes env :: "('j, 'n, 'e) app_env"
  assumes "appServer env su cfg directory controller c w = (Inr s, c', w')"
  shows "(\<not> da_Enabled (cfg_DashboardAuth cfg) \<longrightarrow> srv_managementAuth s = None) \<and>
    (srv_bootstrapAuth s \<noteq> None \<longleftrightarrow> fst (appIsSetupComplete w) = (Inr False :: 'e app_error + bool))"
proof -
  obtain x :: "'e app_error + bool" and w1 where x: "appIsSetupComplete w = (x, w1)" by fastforce
  show ?thesis using assms x
    by (cases x)
      (auto simp: appServer_def Let_def apiServer_guards WithBootstrapAuthorization_def WithManagementAuthorization_def
        WithDashboardAuthorization_def WithDashboardActions_def bootstrapNew_def split: option.splits if_splits)
qed

lemma appRun_cfg:
  assumes "appRun env su c w = Some (Serving s st h, c', w')" "su_Load su = Inr cfg"
  shows "\<exists>directory controller c1 w1. appServer env su cfg directory controller c1 w1 = (Inr s, c', w')"
proof -
  from appRun_Serving [OF assms(1)] obtain cfg' directory metrics controller c1 w1 where
    r: "appWire env su = Inr (cfg', directory, metrics, controller)"
      "appServer env su cfg' directory controller (ctx_step c1) w1 = (Inr s, c', w')" by blast
  have "cfg' = cfg" using r(1) assms(2) by (auto simp: appWire_def Let_def split: option.splits if_splits)
  with r(2) show ?thesis by blast
qed

text \<open>The errors of a start that come from building the components of a configuration.\<close>

definition wiring_error :: "'e startup_error \<Rightarrow> bool" where
  "wiring_error e =
     (case e of CreateRouteController x \<Rightarrow> True | CreateRouteSynchronizer \<Rightarrow> True | CreateBootstrapAuthorizer x \<Rightarrow> True | _ \<Rightarrow> False)"

text \<open>
  The configuration is checked with \<open>url.ParseRequestURI\<close>, the client parses the same address with
  \<open>url.Parse\<close>.  The two differ: the latter also parses a fragment and may refuse it.
\<close>

definition url_usable :: "('j, 'n, 'e) app_env \<Rightarrow> string \<Rightarrow> bool" where
  "url_usable env raw \<longleftrightarrow>
     (case env_Parse env raw of
        None \<Rightarrow> False
      | Some u \<Rightarrow> (url_Scheme u = ''http'' \<or> url_Scheme u = ''https'') \<and> url_Host u \<noteq> [])"

definition url_disputed :: "('j, 'n, 'e) app_env \<Rightarrow> AppConfig \<Rightarrow> bool" where
  "url_disputed env cfg \<longleftrightarrow>
     ParseEngine (ro_Backend (cfg_Router cfg)) = Some EngineMCRouter \<and>
     http_url (env_parse_uri env) (TrimSpace (cfg_MCRouterAPIURL cfg)) \<and> \<not> url_usable env (TrimSpace (cfg_MCRouterAPIURL cfg))"

lemma newRouteController_valid:
  assumes "\<not> url_disputed env cfg" "ValidateInfrastructure (env_parse_uri env) cfg = []"
  shows "\<exists>controller. newRouteController env cfg = Inr controller"
proof -
  from valid_backend [OF valid_infrastructure(9) [OF assms(2)]] show ?thesis
  proof (elim disjE conjE)
    assume m: "ParseEngine (ro_Backend (cfg_Router cfg)) = Some EngineMCRouter" "TrimSpace (cfg_MCRouterAPIURL cfg) \<noteq> []"
      "http_url (env_parse_uri env) (TrimSpace (cfg_MCRouterAPIURL cfg))"
    then have "url_usable env (TrimSpace (cfg_MCRouterAPIURL cfg))" using assms(1) by (simp add: url_disputed_def)
    then obtain u where u: "env_Parse env (TrimSpace (cfg_MCRouterAPIURL cfg)) = Some u"
      "url_Scheme u = ''http'' \<or> url_Scheme u = ''https''" "url_Host u \<noteq> []"
      by (auto simp: url_usable_def split: option.splits)
    from u(2) show ?thesis by (elim disjE) (simp_all add: newRouteController_def NewClient_def Let_def m(1,2) u(1,3))
  next
    assume "ParseEngine (ro_Backend (cfg_Router cfg)) = Some EngineInfrared"
      "TrimSpace (ir_ProxiesPath (cfg_Infrared cfg)) \<noteq> []" "TrimSpace (ir_ReloadMarkerPath (cfg_Infrared cfg)) \<noteq> []"
    then show ?thesis by (simp add: newRouteController_def irNewController_def NewMarkerReloader_def Let_def)
  qed
qed

lemma appWire_error:
  assumes "appWire env su = Inl e" "wiring_error e"
  shows "\<exists>cfg x. su_Load su = Inr cfg \<and> url_disputed env cfg \<and> e = CreateRouteController x"
proof -
  obtain cfg x where c: "su_Load su = Inr cfg" "ValidateInfrastructure (env_parse_uri env) cfg = []"
      "newRouteController env cfg = Inl x" "e = CreateRouteController x"
    using assms
    by (fastforce simp: appWire_def bindE_Inl_iff NewSynchronizer_def wiring_error_def Let_def split: option.splits if_splits)
  with newRouteController_valid [OF _ c(2)] show ?thesis by fastforce
qed

lemma appServer_error:
  assumes "appServer env su cfg directory controller c w = (Inl (Some e), c', w')"
    and "TrimSpace (se_BootstrapTokenName (cfg_Secrets cfg)) \<noteq> []"
  shows "\<not> wiring_error e"
  using assms
  by (auto simp: appServer_def Let_def bootstrapNew_def wiring_error_def split: prod.splits sum.splits option.splits if_splits)

end
