(* ===== verification/RefreshLock.thy ===== *)
theory RefreshLock
  imports Main
begin

text \<open>
  The lock of the refresh task, \<open>acquire\<close> and \<open>release\<close> of
  \<open>internal/runtime/refresh_task.go\<close>, with any number of concurrent callers.

  The lock is a channel of capacity one: sending into it takes the lock, receiving from it gives it
  back.  A caller polls its context, then selects between sending and the end of its context; as the
  owner it performs the steps of its operation one by one, interleaved with the steps of all the other
  callers.  The operation of a caller is the list of the changes it makes to the shared state;
  \<open>history\<close> records, for the statements only, who took the lock in which order.  That
  \<open>Refresh\<close>, \<open>Activate\<close> and \<open>ActivateSetup\<close> take the lock before their first step and give it
  back after their last is how a caller is modelled here; their own models in \<open>Runtime\<close> are the
  operation of one owner.
\<close>

datatype 's caller = Polling | Selecting | Owner "('s \<Rightarrow> 's) list" | Finished

record 's lock_state =
  refreshLock :: nat
  callers :: "nat \<Rightarrow> 's caller"
  shared :: 's
  history :: "nat list"

definition capacity :: nat where
  "capacity = 1"

inductive lock_step :: "(nat \<Rightarrow> ('s \<Rightarrow> 's) list) \<Rightarrow> 's lock_state \<Rightarrow> 's lock_state \<Rightarrow> bool" for job where
  poll_done: "callers s t = Polling \<Longrightarrow> lock_step job s (s\<lparr>callers := (callers s)(t := Finished)\<rparr>)"
| poll_alive: "callers s t = Polling \<Longrightarrow> lock_step job s (s\<lparr>callers := (callers s)(t := Selecting)\<rparr>)"
| select_send: "callers s t = Selecting \<Longrightarrow> refreshLock s < capacity \<Longrightarrow>
    lock_step job s (s\<lparr>refreshLock := refreshLock s + 1, callers := (callers s)(t := Owner (job t)), history := history s @ [t]\<rparr>)"
| select_done: "callers s t = Selecting \<Longrightarrow> lock_step job s (s\<lparr>callers := (callers s)(t := Finished)\<rparr>)"
| work: "callers s t = Owner (f # fs) \<Longrightarrow>
    lock_step job s (s\<lparr>callers := (callers s)(t := Owner fs), shared := f (shared s)\<rparr>)"
| release: "callers s t = Owner [] \<Longrightarrow> refreshLock s > 0 \<Longrightarrow>
    lock_step job s (s\<lparr>refreshLock := refreshLock s - 1, callers := (callers s)(t := Finished)\<rparr>)"

inductive_cases lock_stepE: "lock_step job s s'"

definition lock_init :: "'s \<Rightarrow> 's lock_state" where
  "lock_init s0 = \<lparr>refreshLock = 0, callers = (\<lambda>_. Polling), shared = s0, history = []\<rparr>"

inductive lock_reachable :: "(nat \<Rightarrow> ('s \<Rightarrow> 's) list) \<Rightarrow> 's \<Rightarrow> 's lock_state \<Rightarrow> bool" for job s0 where
  start: "lock_reachable job s0 (lock_init s0)"
| more: "lock_reachable job s0 s \<Longrightarrow> lock_step job s s' \<Longrightarrow> lock_reachable job s0 s'"

section \<open>Serialization\<close>

definition perform :: "('s \<Rightarrow> 's) list \<Rightarrow> 's \<Rightarrow> 's" where
  "perform fs s = fold (\<lambda>f. f) fs s"

text \<open>The operations of the callers of a history, each run to its end before the next one.\<close>

definition run_sequentially :: "(nat \<Rightarrow> ('s \<Rightarrow> 's) list) \<Rightarrow> nat list \<Rightarrow> 's \<Rightarrow> 's" where
  "run_sequentially job ts s = fold (\<lambda>t. perform (job t)) ts s"

lemma perform_simps [simp]: "perform [] s = s" "perform (f # fs) s = perform fs (f s)"
  by (simp_all add: perform_def)

lemma sequentially_snoc [simp]: "run_sequentially job (ts @ [t]) s = perform (job t) (run_sequentially job ts s)"
  by (simp add: run_sequentially_def)

lemma sequentially_Nil [simp]: "run_sequentially job [] s = s"
  by (simp add: run_sequentially_def)

definition owners_of :: "(nat \<Rightarrow> 's caller) \<Rightarrow> nat set" where
  "owners_of cs = {t. \<exists>fs. cs t = Owner fs}"

definition owners :: "'s lock_state \<Rightarrow> nat set" where
  "owners s = owners_of (callers s)"

text \<open>
  The invariant: the channel is empty and nobody owns the lock, or it is full and there is one owner,
  and what the owner has still to do turns the shared state into the one of the sequential run.
\<close>

definition lock_inv :: "(nat \<Rightarrow> ('s \<Rightarrow> 's) list) \<Rightarrow> 's \<Rightarrow> 's lock_state \<Rightarrow> bool" where
  "lock_inv job s0 s \<longleftrightarrow>
     refreshLock s = 0 \<and> owners_of (callers s) = {} \<and> shared s = run_sequentially job (history s) s0 \<or>
     (\<exists>t fs. refreshLock s = 1 \<and> owners_of (callers s) = {t} \<and> callers s t = Owner fs \<and>
        perform fs (shared s) = run_sequentially job (history s) s0)"

lemma owners_of_upd [simp]:
  "owners_of (cs(t := Owner fs)) = insert t (owners_of cs)"
  "owners_of (cs(t := Finished)) = owners_of cs - {t}"
  "owners_of (cs(t := Selecting)) = owners_of cs - {t}"
  by (auto simp: owners_of_def)

lemma lock_inv_owner:
  assumes "lock_inv job s0 s" "callers s t = Owner fs"
  shows "refreshLock s = 1" "owners_of (callers s) = {t}" "perform fs (shared s) = run_sequentially job (history s) s0"
proof -
  have "t \<in> owners_of (callers s)" using assms(2) by (auto simp: owners_of_def)
  with assms show "refreshLock s = 1" "owners_of (callers s) = {t}" "perform fs (shared s) = run_sequentially job (history s) s0"
    by (auto simp: lock_inv_def)
qed

lemma lock_inv_waiting:
  assumes "lock_inv job s0 s" "callers s t = Polling \<or> callers s t = Selecting" "p = Finished \<or> p = Selecting"
  shows "lock_inv job s0 (s\<lparr>callers := (callers s)(t := p)\<rparr>)"
proof -
  have "owners_of ((callers s)(t := p)) = owners_of (callers s)"
    using assms(2,3) by (auto simp: owners_of_def)
  with assms show ?thesis by (auto simp: lock_inv_def)
qed

lemma lock_inv_step:
  assumes "lock_inv job s0 s" "lock_step job s s'"
  shows "lock_inv job s0 s'"
  using assms(2)
proof cases
  case (select_send t)
  then have "refreshLock s = 0" by (simp add: capacity_def)
  then show ?thesis using select_send assms(1) by (auto simp: lock_inv_def)
next
  case (work t f fs)
  with lock_inv_owner [OF assms(1) work(2)] show ?thesis by (auto simp: lock_inv_def)
next
  case (release t)
  with lock_inv_owner [OF assms(1) release(2)] show ?thesis by (auto simp: lock_inv_def)
qed (use lock_inv_waiting [OF assms(1)] in simp_all)

lemma lock_inv_reachable: "lock_reachable job s0 s \<Longrightarrow> lock_inv job s0 s"
proof (induction rule: lock_reachable.induct)
  case start
  show ?case by (simp add: lock_inv_def lock_init_def owners_of_def)
qed (rule lock_inv_step)

text \<open>A caller that has not returned can move, unless it waits for the lock; then the owner can.\<close>

lemma lock_progress:
  assumes "lock_inv job s0 s" "callers s t \<noteq> Finished"
  shows "\<exists>s'. lock_step job s s'"
proof (cases "callers s t")
  case (Owner fs)
  then have "refreshLock s > 0" using lock_inv_owner [OF assms(1)] by simp
  then show ?thesis using Owner by (cases fs) (auto intro: lock_step.intros)
qed (use assms(2) in \<open>auto intro: lock_step.intros\<close>)

section \<open>Properties\<close>

text \<open>
  C14. Refreshes and activations are serialized: however their steps interleave, at most one caller is
  between \<open>acquire\<close> and \<open>release\<close>, and whenever none is, the shared state is the one of
  running the operations one after the other in the order in which they took the lock; the owner's
  \<open>release\<close> never blocks, so no reachable state is stuck while a caller has not returned.
\<close>

theorem refresh_serialized:
  assumes "lock_reachable job s0 s"
  shows "(owners s = {} \<and> shared s = run_sequentially job (history s) s0 \<or> (\<exists>t. owners s = {t})) \<and>
     (if \<exists>t. callers s t \<noteq> Finished then \<exists>s'. lock_step job s s' else True)"
proof -
  have inv: "lock_inv job s0 s" by (rule lock_inv_reachable [OF assms])
  then have "owners s = {} \<and> shared s = run_sequentially job (history s) s0 \<or> (\<exists>t. owners s = {t})"
    by (auto simp: lock_inv_def owners_def)
  with lock_progress [OF inv] show ?thesis by auto
qed

definition example_job :: "nat \<Rightarrow> (int \<Rightarrow> int) list" where
  "example_job t = (if t = 0 then [\<lambda>x. x + 1, \<lambda>x. x * 2] else [\<lambda>x. x - 3])"

definition example_callers :: "int caller \<Rightarrow> int caller \<Rightarrow> nat \<Rightarrow> int caller" where
  "example_callers p0 p1 = (\<lambda>t. if t = 0 then p0 else if t = 1 then p1 else Polling)"

abbreviation "example_lock n p0 p1 x h \<equiv> \<lparr>refreshLock = n, callers = example_callers p0 p1, shared = x, history = h\<rparr>"

lemma example_callers_simps [simp]:
  "example_callers p0 p1 0 = p0" "example_callers p0 p1 (Suc 0) = p1"
  "(example_callers p0 p1)(0 := q) = example_callers q p1"
  "(example_callers p0 p1)(Suc 0 := q) = example_callers p0 q"
  by (auto simp: example_callers_def fun_eq_iff)

lemma example_lock_run: "lock_reachable example_job 5 (example_lock 0 Finished Finished 6 [1, 0])"
proof -
  let ?p = "\<lambda>n p0 p1 x h. lock_reachable example_job 5 (example_lock n p0 p1 x h)"
  have "lock_init (5 :: int) = example_lock 0 Polling Polling 5 []"
    by (simp add: lock_init_def example_callers_def fun_eq_iff)
  with start [of example_job 5] have "?p 0 Polling Polling 5 []" by simp
  from more [OF this poll_alive [where t = 0]] have "?p 0 Selecting Polling 5 []" by simp
  from more [OF this poll_alive [where t = 1]] have "?p 0 Selecting Selecting 5 []" by simp
  from more [OF this select_send [where t = 1]] have "?p 1 Selecting (Owner [\<lambda>x. x - 3]) 5 [1]"
    by (simp add: capacity_def example_job_def)
  from more [OF this work [where t = 1 and f = "\<lambda>x. x - 3" and fs = "[]"]] have "?p 1 Selecting (Owner []) 2 [1]" by simp
  from more [OF this release [where t = 1]] have "?p 0 Selecting Finished 2 [1]" by simp
  from more [OF this select_send [where t = 0]] have "?p 1 (Owner [\<lambda>x. x + 1, \<lambda>x. x * 2]) Finished 2 [1, 0]"
    by (simp add: capacity_def example_job_def)
  from more [OF this work [where t = 0 and f = "\<lambda>x. x + 1" and fs = "[\<lambda>x. x * 2]"]]
  have "?p 1 (Owner [\<lambda>x. x * 2]) Finished 3 [1, 0]" by simp
  from more [OF this work [where t = 0 and f = "\<lambda>x. x * 2" and fs = "[]"]] have "?p 1 (Owner []) Finished 6 [1, 0]" by simp
  from more [OF this release [where t = 0]] show ?thesis by simp
qed

theorem refresh_serialized_witness:
  "(owners (example_lock 0 Finished Finished 6 [1, 0]) = {} \<and> 6 = run_sequentially example_job [1, 0] 5 \<or>
      (\<exists>t. owners (example_lock 0 Finished Finished 6 [1, 0]) = {t})) \<and>
   (if \<exists>t. callers (example_lock 0 Finished Finished 6 [1, 0]) t \<noteq> Finished
    then \<exists>s'. lock_step example_job (example_lock 0 Finished Finished 6 [1, 0]) s' else True)"
  using refresh_serialized [OF example_lock_run] unfolding lock_state.simps .

end
