(* ===== verification/Recovery.thy ===== *)
theory Recovery
  imports GoPath
begin

text \<open>
  The commands: the offline SQLite utility, \<open>cmd/sqlite-recovery/main.go\<close>, and the exit status of
  the server command, \<open>cmd/server/main.go\<close>.

  A path leads to a location; the function \<open>locate\<close> is an argument, so two spellings of one path
  may lead to the same location.  A location holds a file, a directory, or a symbolic link together
  with the location it finally leads to.  System calls fail as the \<open>faults\<close> of the disk say; a
  failing write leaves a prefix of the data, whose length is an argument as well.  The SQLite driver is
  a parameter.  File modes are numbers, 384 is \<open>0o600\<close>, before the process's mask is applied.
\<close>

section \<open>Disk\<close>

datatype node = File string nat | Dir | Link string

record disk =
  nodes :: "string \<rightharpoonup> node"
  disk_faults :: faults
  disk_written :: nat

definition disk_call :: "disk \<Rightarrow> bool \<times> disk" where
  "disk_call d = (fault (disk_faults d), d\<lparr>disk_faults := tl (disk_faults d)\<rparr>)"

definition write_node :: "string \<Rightarrow> node \<Rightarrow> disk \<Rightarrow> disk" where
  "write_node l n d = d\<lparr>nodes := (nodes d)(l \<mapsto> n)\<rparr>"

text \<open>What \<open>open\<close> and \<open>stat\<close> find: they follow a link, \<open>lstat\<close> does not.\<close>

definition follow :: "disk \<Rightarrow> string \<Rightarrow> node option" where
  "follow d l = (case nodes d l of Some (Link l') \<Rightarrow> nodes d l' | n \<Rightarrow> n)"

text \<open>The part of a path before its last separator, and \<open>filepath.Dir\<close>.\<close>

definition before_slash :: "string \<Rightarrow> string" where
  "before_slash p = rev (tl (dropWhile (\<lambda>c. c \<noteq> CHR ''/'') (rev p)))"

definition filepath_Dir :: "string \<Rightarrow> string" where
  "filepath_Dir p = path_Clean (if CHR ''/'' \<in> set p then before_slash p @ ''/'' else [])"

lemma length_before_slash: "before_slash p \<noteq> [] \<Longrightarrow> length (before_slash p) < length p"
  using length_dropWhile_le [of "\<lambda>c. c \<noteq> CHR ''/''" "rev p"]
  by (cases "dropWhile (\<lambda>c. c \<noteq> CHR ''/'') (rev p)") (auto simp: before_slash_def)

text \<open>
  \<open>os.MkdirAll\<close>: nothing to do for a directory, an error for another entry; otherwise first the
  parent, then the directory itself, where a directory that turns out to exist is no error.
\<close>

function MkdirAll :: "(string \<Rightarrow> string) \<Rightarrow> string \<Rightarrow> disk \<Rightarrow> bool \<times> disk" where
  "MkdirAll locate path d =
     (case disk_call d of (failed, d1) \<Rightarrow>
        if \<not> failed \<and> follow d1 (locate path) \<noteq> None then (follow d1 (locate path) \<noteq> Some Dir, d1)
        else let parent = before_slash path in
          case (if parent = [] then (False, d1) else MkdirAll locate parent d1) of (failed, d2) \<Rightarrow>
            if failed then (True, d2)
            else case disk_call d2 of (failed, d3) \<Rightarrow>
              if failed \<or> nodes d3 (locate path) \<noteq> None
              then (case disk_call d3 of (failed, d4) \<Rightarrow> (failed \<or> nodes d4 (locate path) \<noteq> Some Dir, d4))
              else (False, write_node (locate path) Dir d3))"
  by pat_completeness auto
termination
  by (relation "measure (\<lambda>(locate, path, d). length path)") (auto simp: length_before_slash)

declare MkdirAll.simps [simp del]

section \<open>The recovery utility\<close>

record sqlite =
  sq_Open :: "string \<Rightarrow> bool"
  sq_IntegrityCheck :: "string \<Rightarrow> disk \<Rightarrow> string option \<times> disk"
  sq_Vacuum :: "string \<Rightarrow> disk \<Rightarrow> bool \<times> disk"

record flags =
  fl_operation :: string
  fl_source :: string
  fl_target :: string

text \<open>\<open>fail\<close> prints its message and ends the process with status 1; the answer is the message or the output.\<close>

definition fail :: "string \<Rightarrow> disk \<Rightarrow> (string + string list) \<times> disk" where
  "fail message d = (Inl message, d)"

definition integrity :: "sqlite \<Rightarrow> string \<Rightarrow> disk \<Rightarrow> (string + string list) \<times> disk" where
  "integrity sq path d =
     (if \<not> sq_Open sq path then fail ''open database'' d
      else case sq_IntegrityCheck sq path d of (answer, d') \<Rightarrow>
        if answer \<noteq> Some ''ok'' then fail ''integrity check failed'' d'
        else (Inr [''integrity check passed''], d'))"

text \<open>
  \<open>copyDatabase\<close>.  The target is created with \<open>O_CREATE|O_EXCL\<close>, which fails when the location
  holds anything, a link included.  A directory can be opened but not read.
\<close>

definition copyDatabase :: "(string \<Rightarrow> string) \<Rightarrow> string \<Rightarrow> string \<Rightarrow> disk \<Rightarrow> (string + string list) \<times> disk" where
  "copyDatabase locate source target d =
     (if target = [] \<or> path_Clean source = path_Clean target then fail ''distinct target path is required'' d
      else case disk_call d of (failed, d1) \<Rightarrow>
        if failed \<or> follow d1 (locate source) = None then fail ''open source database'' d1
        else case MkdirAll locate (filepath_Dir target) d1 of (failed, d2) \<Rightarrow>
          if failed then fail ''create target directory'' d2
          else case disk_call d2 of (failed, d3) \<Rightarrow>
            if failed \<or> nodes d3 (locate target) \<noteq> None then fail ''create target database'' d3
            else case disk_call (write_node (locate target) (File [] 384) d3) of (failed, d4) \<Rightarrow>
              (case follow d3 (locate source) of
                 Some (File content mode) \<Rightarrow>
                   if failed
                   then fail ''copy database'' (write_node (locate target) (File (take (disk_written d4) content) 384) d4)
                   else (Inr [], write_node (locate target) (File content 384) d4)
               | _ \<Rightarrow> fail ''copy database'' d4))"

definition compact :: "sqlite \<Rightarrow> string \<Rightarrow> disk \<Rightarrow> (string + string list) \<times> disk" where
  "compact sq path d =
     (if \<not> sq_Open sq path then fail ''open database'' d
      else case sq_Vacuum sq path d of (failed, d') \<Rightarrow>
        if failed then fail ''compact database'' d' else (Inr [], d'))"

definition recoveryMain :: "sqlite \<Rightarrow> (string \<Rightarrow> string) \<Rightarrow> flags \<Rightarrow> disk \<Rightarrow> (string + string list) \<times> disk" where
  "recoveryMain sq locate fl d =
     (if fl_source fl = [] then fail ''source path is required'' d
      else if fl_operation fl = ''integrity'' then integrity sq (fl_source fl) d
      else if fl_operation fl = ''backup'' \<or> fl_operation fl = ''restore''
        then copyDatabase locate (fl_source fl) (fl_target fl) d
      else if fl_operation fl = ''compact'' then compact sq (fl_source fl) d
      else fail ''unknown operation'' d)"

section \<open>The server command\<close>

text \<open>The status and what is logged, for the error that \<open>app.Run\<close> returns.\<close>

definition cmdRun :: "'e option \<Rightarrow> nat \<times> string list" where
  "cmdRun err =
     (case err of
        Some e \<Rightarrow> (1, [''pelican mc router stopped due to an operational failure''])
      | None \<Rightarrow> (0, []))"

text \<open>What the process prints does not depend on the error, which can hold URLs and credentials.\<close>

lemma cmdRun_discloses_nothing: "(e = None \<longleftrightarrow> e' = None) \<Longrightarrow> cmdRun e = cmdRun e'"
  by (auto simp: cmdRun_def split: option.split)

section \<open>Nothing that exists is touched\<close>

text \<open>The later disk holds everything of the earlier one, and what it holds besides satisfies \<open>new\<close>.\<close>

definition grows :: "(string \<Rightarrow> node \<Rightarrow> bool) \<Rightarrow> disk \<Rightarrow> disk \<Rightarrow> bool" where
  "grows new d d' \<longleftrightarrow> (\<forall>l. nodes d' l = nodes d l \<or> nodes d l = None \<and> (\<exists>n. nodes d' l = Some n \<and> new l n))"

lemma grows_refl [simp, intro]: "grows new d d"
  by (simp add: grows_def)

lemma grows_trans: "grows new d d1 \<Longrightarrow> grows new d1 d2 \<Longrightarrow> grows new d d2"
  unfolding grows_def by (metis option.distinct(1))

lemma grows_mono: "grows new d d' \<Longrightarrow> (\<And>l n. new l n \<Longrightarrow> new' l n) \<Longrightarrow> grows new' d d'"
  unfolding grows_def by blast

lemma disk_call_nodes: "disk_call d = (failed, d') \<Longrightarrow> nodes d' = nodes d"
  by (auto simp: disk_call_def)

lemma follow_call: "disk_call d = (failed, d') \<Longrightarrow> follow d' = follow d"
  by (drule disk_call_nodes) (auto simp: follow_def split: option.split node.split)

lemma nodes_write [simp]: "nodes (write_node l n d) = (nodes d)(l \<mapsto> n)"
  by (simp add: write_node_def)

lemma grows_write: "nodes d l = None \<Longrightarrow> new l n \<Longrightarrow> grows new d (write_node l n d)"
  by (simp add: grows_def write_node_def)

lemma grows_same: "nodes d' = nodes d \<Longrightarrow> grows new d0 d \<Longrightarrow> grows new d0 d'"
  by (simp add: grows_def)

lemma follow_grows: "grows new d d' \<Longrightarrow> follow d l = Some n \<Longrightarrow> follow d' l = Some n"
proof -
  assume g: "grows new d d'" and f: "follow d l = Some n"
  have keep: "nodes d' x = Some m" if "nodes d x = Some m" for x m using g that by (metis grows_def option.distinct(1))
  from f obtain m where "nodes d l = Some m" by (auto simp: follow_def split: option.splits)
  with f show ?thesis by (cases m) (auto simp: follow_def keep)
qed

text \<open>The directories that \<open>MkdirAll\<close> creates: the path and what precedes its separators.\<close>

function ancestors :: "string \<Rightarrow> string list" where
  "ancestors path = path # (if before_slash path = [] then [] else ancestors (before_slash path))"
  by pat_completeness auto
termination
  by (relation "measure length") (auto simp: length_before_slash)

declare ancestors.simps [simp del]

lemma ancestors_parent: "before_slash path \<noteq> [] \<Longrightarrow> set (ancestors (before_slash path)) \<subseteq> set (ancestors path)"
  by (subst (2) ancestors.simps) auto

lemma ancestors_self [simp]: "path \<in> set (ancestors path)"
  by (subst ancestors.simps) simp

text \<open>The parts of a call of \<open>MkdirAll\<close> that gets past its first check.\<close>

definition make_parent :: "(string \<Rightarrow> string) \<Rightarrow> string \<Rightarrow> disk \<Rightarrow> bool \<times> disk" where
  "make_parent locate path d = (if before_slash path = [] then (False, d) else MkdirAll locate (before_slash path) d)"

lemma MkdirAll_missing:
  assumes "disk_call d = (f1, d1)" and "f1 \<or> follow d1 (locate path) = None"
    and "make_parent locate path d1 = (f2, d2)" and "disk_call d2 = (f3, d3)" and "disk_call d3 = (f4, d4)"
  shows "MkdirAll locate path d =
     (if f2 then (True, d2)
      else if f3 \<or> nodes d3 (locate path) \<noteq> None then (f4 \<or> nodes d4 (locate path) \<noteq> Some Dir, d4)
      else (False, write_node (locate path) Dir d3))"
  using assms(2) by (auto simp: MkdirAll.simps [of locate path d] assms(1,3,4,5) make_parent_def [symmetric] Let_def)

lemma MkdirAll_grows:
  "MkdirAll locate path d = (failed, d') \<Longrightarrow> grows (\<lambda>l n. n = Dir \<and> l \<in> locate ` set (ancestors path)) d d'"
proof (induction locate path d arbitrary: failed d' rule: MkdirAll.induct)
  case (1 locate path d)
  obtain f1 d1 where 1: "disk_call d = (f1, d1)" by force
  obtain f2 d2 where 2: "make_parent locate path d1 = (f2, d2)" by force
  obtain f3 d3 where 3: "disk_call d2 = (f3, d3)" by force
  obtain f4 d4 where 4: "disk_call d3 = (f4, d4)" by force
  let ?new = "\<lambda>l n. n = Dir \<and> l \<in> locate ` set (ancestors path)"
  show ?case
  proof (cases "\<not> f1 \<and> follow d1 (locate path) \<noteq> None")
    case True
    then show ?thesis using "1.prems" grows_same [OF disk_call_nodes [OF 1] grows_refl]
      by (simp add: MkdirAll.simps [of locate path d] 1)
  next
    case False
    have "grows ?new d1 d2"
    proof (cases "before_slash path = []")
      case False
      then have "grows (\<lambda>l n. n = Dir \<and> l \<in> locate ` set (ancestors (before_slash path))) d1 d2"
        using "1.IH" [OF 1 [symmetric] \<open>\<not> (\<not> f1 \<and> follow d1 (locate path) \<noteq> None)\<close> refl] 2 by (simp add: make_parent_def)
      then show ?thesis by (rule grows_mono) (use ancestors_parent [OF False] in auto)
    qed (use 2 in \<open>simp add: make_parent_def\<close>)
    then have g: "grows ?new d d2" by (simp add: grows_def disk_call_nodes [OF 1])
    then have g3: "grows ?new d d3" by (rule grows_same [OF disk_call_nodes [OF 3]])
    then have g4: "grows ?new d d4" by (rule grows_same [OF disk_call_nodes [OF 4]])
    have new: "nodes d3 (locate path) = None \<Longrightarrow> grows ?new d (write_node (locate path) Dir d3)"
      by (rule grows_trans [OF g3 grows_write]) simp_all
    show ?thesis
      using "1.prems" MkdirAll_missing [OF 1 _ 2 3 4] False g g4 new by (auto split: if_splits)
  qed
qed

text \<open>Without failing calls, the directories are made when nothing else is in the way.\<close>

lemma disk_call_Nil: "disk_faults d = [] \<Longrightarrow> disk_call d = (False, d)"
  by (simp add: disk_call_def)

lemma MkdirAll_succeeds:
  "disk_faults d = [] \<Longrightarrow> \<forall>p\<in>set (ancestors path). nodes d (locate p) \<in> {None, Some Dir} \<Longrightarrow>
   \<exists>d'. MkdirAll locate path d = (False, d') \<and> disk_faults d' = []"
proof (induction locate path d rule: MkdirAll.induct)
  case (1 locate path d)
  have c: "disk_call d = (False, d)" using "1.prems" by (simp add: disk_call_Nil)
  have self: "nodes d (locate path) \<in> {None, Some Dir}" using "1.prems"(2) ancestors_self by blast
  show ?case
  proof (cases "follow d (locate path) = None")
    case False
    then show ?thesis using "1.prems"(1) self
      by (auto simp: MkdirAll.simps [of locate path d] c follow_def split: option.splits node.splits)
  next
    case True
    obtain d2 where 2: "make_parent locate path d = (False, d2)" and f2: "disk_faults d2 = []"
    proof (cases "before_slash path = []")
      case False
      then show ?thesis
        using "1.IH" [OF c [symmetric] _ refl False] \<open>follow d (locate path) = None\<close> "1.prems" ancestors_parent [OF False] that
        by (auto simp: make_parent_def)
    qed (use "1.prems" that in \<open>simp add: make_parent_def\<close>)
    have c2: "disk_call d2 = (False, d2)" using f2 by (rule disk_call_Nil)
    have "nodes d2 (locate path) \<in> {None, Some Dir}"
    proof (cases "before_slash path = []")
      case False
      then show ?thesis using MkdirAll_grows [of locate "before_slash path" d False d2] 2 self
        by (auto simp: make_parent_def grows_def dest: spec [where x = "locate path"])
    qed (use 2 self in \<open>simp add: make_parent_def\<close>)
    then show ?thesis
      using MkdirAll_missing [OF c _ 2 c2 c2] True f2 by (auto simp: write_node_def)
  qed
qed

text \<open>
  What a copy does to the disk, however it ends: it creates directories above the target and the
  target, and touches nothing else.
\<close>

definition copied :: "(string \<Rightarrow> string) \<Rightarrow> string \<Rightarrow> string \<Rightarrow> node \<Rightarrow> bool" where
  "copied locate target l n \<longleftrightarrow> n = Dir \<and> l \<in> locate ` set (ancestors (filepath_Dir target)) \<or> l = locate target"

lemma copyDatabase_cases:
  assumes "copyDatabase locate source target d = (answer, d')"
  shows "grows (copied locate target) d d' \<and>
     (\<forall>out. answer = Inr out \<longrightarrow> nodes d (locate target) = None \<and>
       (\<exists>content mode. follow d (locate source) = Some (File content mode) \<and>
          nodes d' (locate target) = Some (File content 384)))"
proof (cases "target = [] \<or> path_Clean source = path_Clean target")
  case True
  then show ?thesis using assms by (auto simp: copyDatabase_def fail_def)
next
  case False
  obtain f1 d1 where 1: "disk_call d = (f1, d1)" by force
  obtain f2 d2 where 2: "MkdirAll locate (filepath_Dir target) d1 = (f2, d2)" by force
  obtain f3 d3 where 3: "disk_call d2 = (f3, d3)" by force
  let ?created = "write_node (locate target) (File [] 384) d3"
  obtain f4 d4 where 4: "disk_call ?created = (f4, d4)" by force
  have g1: "grows (copied locate target) d d1" by (rule grows_same [OF disk_call_nodes [OF 1] grows_refl])
  have g2: "grows (copied locate target) d d2"
    by (rule grows_trans [OF g1 grows_mono [OF MkdirAll_grows [OF 2]]]) (simp add: copied_def)
  then have g3: "grows (copied locate target) d d3" by (rule grows_same [OF disk_call_nodes [OF 3]])
  have free: "nodes d (locate target) = None" if "nodes d3 (locate target) = None"
    using g3 that by (metis grows_def option.distinct(1))
  have g4: "grows (copied locate target) d d4" if "nodes d3 (locate target) = None"
    by (rule grows_same [OF disk_call_nodes [OF 4] grows_trans [OF g3 grows_write]]) (simp_all add: that copied_def)
  have g5: "grows (copied locate target) d (write_node (locate target) n d4)" if "nodes d3 (locate target) = None" for n
    using g4 [OF that] free [OF that] by (auto simp: grows_def write_node_def copied_def)
  have source: "follow d3 (locate source) = follow d (locate source)" if "follow d1 (locate source) \<noteq> None"
    using that follow_grows [OF g3] by (auto simp: follow_call [OF 1])
  show ?thesis
    using assms False g1 g2 g3 g4 g5 free source
    by (auto simp: copyDatabase_def fail_def 1 2 3 4 split: if_splits option.splits node.splits)
qed

text \<open>
  A copy that has everything it needs: no call fails, the source is a file, the target is free and
  only directories are above it.
\<close>

definition copy_possible :: "(string \<Rightarrow> string) \<Rightarrow> string \<Rightarrow> string \<Rightarrow> disk \<Rightarrow> bool" where
  "copy_possible locate source target d \<longleftrightarrow>
     disk_faults d = [] \<and> target \<noteq> [] \<and> path_Clean source \<noteq> path_Clean target \<and>
     (case follow d (locate source) of Some (File content mode) \<Rightarrow> True | _ \<Rightarrow> False) \<and>
     nodes d (locate target) = None \<and>
     list_all (\<lambda>p. (nodes d (locate p) = None \<or> nodes d (locate p) = Some Dir) \<and> locate p \<noteq> locate target)
       (ancestors (filepath_Dir target))"

lemma copyDatabase_succeeds:
  assumes "copy_possible locate source target d"
  shows "\<exists>d'. copyDatabase locate source target d = (Inr [], d')"
proof -
  have c1: "disk_call d = (False, d)" using assms by (simp add: copy_possible_def disk_call_Nil)
  obtain d2 where 2: "MkdirAll locate (filepath_Dir target) d = (False, d2)" and f2: "disk_faults d2 = []"
    using MkdirAll_succeeds [of d "filepath_Dir target" locate] assms by (auto simp: copy_possible_def list_all_iff)
  have c2: "disk_call d2 = (False, d2)" using f2 by (rule disk_call_Nil)
  have c3: "disk_call (write_node l n d2) = (False, write_node l n d2)" for l n
    using f2 by (simp add: disk_call_Nil write_node_def)
  have g: "grows (\<lambda>l n. n = Dir \<and> l \<in> locate ` set (ancestors (filepath_Dir target))) d d2"
    by (rule MkdirAll_grows [OF 2])
  have "locate target \<notin> locate ` set (ancestors (filepath_Dir target))"
    using assms by (auto simp: copy_possible_def list_all_iff)
  with g have free: "nodes d2 (locate target) = None"
    using assms by (auto simp: grows_def copy_possible_def dest: spec [where x = "locate target"])
  obtain content mode where "follow d (locate source) = Some (File content mode)"
    using assms by (auto simp: copy_possible_def split: option.splits node.splits)
  then show ?thesis
    using assms free follow_grows [OF g] by (simp add: copyDatabase_def copy_possible_def c1 2 c2 c3)
qed

section \<open>Properties\<close>

text \<open>
  C38. A backup or restore of the offline utility never changes anything that exists, whichever call
  fails and whatever spellings of paths lead to the same file: besides directories above the target it
  creates only the target.  When it succeeds, the target did not exist before and is now a private
  copy of the source; and it succeeds whenever no call fails, source and target are distinct, the
  source is a file, the target is free and only directories are above it.
\<close>

theorem recovery_copy_safe:
  assumes "fl_operation fl = ''backup'' \<or> fl_operation fl = ''restore''"
  shows "case recoveryMain sq locate fl d of (answer, d') \<Rightarrow>
     (\<forall>l. nodes d' l = nodes d l \<or> nodes d l = None \<and> (nodes d' l = Some Dir \<or> l = locate (fl_target fl))) \<and>
     (\<forall>out. answer = Inr out \<longrightarrow> nodes d (locate (fl_target fl)) = None \<and>
        (\<exists>content mode. follow d (locate (fl_source fl)) = Some (File content mode) \<and>
           nodes d' (locate (fl_target fl)) = Some (File content 384))) \<and>
     (fl_source fl \<noteq> [] \<and> copy_possible locate (fl_source fl) (fl_target fl) d \<longrightarrow> answer = Inr [])"
proof -
  obtain answer d' where run: "copyDatabase locate (fl_source fl) (fl_target fl) d = (answer, d')" by force
  have main: "recoveryMain sq locate fl d = (if fl_source fl = [] then fail ''source path is required'' d else (answer, d'))"
    using assms run by (auto simp: recoveryMain_def)
  have "nodes d' l = nodes d l \<or> nodes d l = None \<and> (nodes d' l = Some Dir \<or> l = locate (fl_target fl))" for l
    using copyDatabase_cases [OF run] by (auto simp: grows_def copied_def dest: spec [where x = l])
  then show ?thesis
    using copyDatabase_cases [OF run] copyDatabase_succeeds [of locate "fl_source fl" "fl_target fl" d] run
    by (auto simp: main fail_def)
qed

definition example_disk :: disk where
  "example_disk = \<lparr>nodes = map_of [(''router.db'', File ''data'' 384)], disk_faults = [], disk_written = 0\<rparr>"

definition example_flags :: flags where
  "example_flags = \<lparr>fl_operation = ''backup'', fl_source = ''router.db'', fl_target = ''b/copy.db''\<rparr>"

text \<open>A backup into a directory that does not exist yet.\<close>

theorem recovery_copy_safe_witness:
  "case recoveryMain \<lparr>sq_Open = \<lambda>p. True, sq_IntegrityCheck = \<lambda>p d. (Some ''ok'', d), sq_Vacuum = \<lambda>p d. (False, d)\<rparr>
       id example_flags example_disk of
     (answer, d') \<Rightarrow> answer = Inr [] \<and> nodes d' ''b/copy.db'' = Some (File ''data'' 384) \<and>
       nodes d' ''router.db'' = Some (File ''data'' 384)"
proof -
  have "filepath_Dir ''b/copy.db'' = ''b''" by code_simp
  moreover have "ancestors ''b'' = [''b'']" by (subst ancestors.simps) (simp add: before_slash_def)
  moreover have "path_Clean ''router.db'' \<noteq> path_Clean ''b/copy.db''" by code_simp
  ultimately have "copy_possible id ''router.db'' ''b/copy.db'' example_disk"
    by (simp add: copy_possible_def example_disk_def follow_def)
  then show ?thesis
    using recovery_copy_safe [where fl = example_flags and locate = id and d = example_disk
        and sq = "\<lparr>sq_Open = \<lambda>p. True, sq_IntegrityCheck = \<lambda>p d. (Some ''ok'', d), sq_Vacuum = \<lambda>p d. (False, d)\<rparr>"]
    by (auto simp: example_flags_def example_disk_def follow_def split: prod.splits dest: spec [where x = "''router.db''"])
qed

end
