(* ===== verification/Spec2Isabelle.thy ===== *)
theory Spec2Isabelle
  imports Startup RefreshLock Recovery
begin

text \<open>
  A verification development for pelican-mc-router, a control plane that discovers the Minecraft
  servers of a Pelican panel and keeps a routing proxy (mc-router or Infrared) pointing at them.

  \<^bold>\<open>The program.\<close>  \<open>internal/app\<close> loads the configuration, opens the SQLite database,
  builds the backend controller and starts an HTTP API and a scheduler.  The scheduler and the API
  enter the refresh task (\<open>internal/runtime\<close>), which reads the settings, lists the panel
  (\<open>internal/pelican\<close>, \<open>internal/discovery\<close>), plans routes under the operator's policies
  (\<open>internal/router\<close>, \<open>internal/routepolicy\<close>), reconciles them with the backend
  (\<open>internal/router/mcrouter\<close>, \<open>internal/router/infrared\<close>) and publishes the services the API
  reads.  Setup and settings changes (\<open>internal/setup\<close>, \<open>internal/settings\<close>) activate a
  candidate through the same task, with compensation when a later step fails.

  \<^bold>\<open>The theories\<close>, in the order of their imports:

  \<^item> \<open>Prelude\<close> (results, folds over loops, association lists), \<open>GoStrings\<close>, \<open>GoPath\<close>,
    \<open>GoNet\<close>, \<open>GoContext\<close>: the parts of Go's standard library the code uses.
  \<^item> \<open>Models\<close>, \<open>Planner\<close>: the data model; \<open>planner.go\<close>, \<open>router.go\<close>, \<open>engine.go\<close>.
    The loop of \<open>Plan\<close> agrees with a declarative reference; plans are safe, independent of the
    order of discovery, stable under renaming of configured servers.
  \<^item> \<open>RoutePolicy\<close>: the policy store over its two tables.  Each write is the step of a map
    specification or leaves the database alone; optimistic locking (locale \<open>revision_store\<close>) lets at
    most one of several writers win.
  \<^item> \<open>Retry\<close>: \<open>retry.Do\<close> with 64-bit backoff.  \<open>McRouter\<close>, \<open>McClient\<close>: the mc-router
    controller over the interface \<open>route_api\<close>, and its HTTP client, which provides that interface
    for every server that behaves as \<open>mc_router_http\<close> says (a sublocale); the fake of the
    repository's integration test interprets it.
  \<^item> \<open>Infrared\<close>, \<open>InfraredReload\<close>: the file-based backend over a directory with failing system
    calls, and the marker file whose update asks Infrared to reload (what Infrared does then is not
    part of the model); locale \<open>reloadable\<close>.
  \<^item> \<open>Pelican\<close>, \<open>Discovery\<close>: the panel client with paging, classification and the join with
    allocations.  \<open>SettingsStore\<close>: settings and the two-phase setup.
  \<^item> \<open>Synchronizer\<close>, \<open>ReconStatus\<close>, \<open>Runtime\<close>, \<open>RefreshLock\<close>: one synchronization,
    the status tracker, the inventory, the manager and the refresh task with activation and
    compensation; the lock with several callers as a step relation.  The locales \<open>runtime_reads\<close> and
    \<open>runtime_env\<close> say what the collaborators of a task leave alone.
  \<^item> \<open>SetupService\<close>, \<open>History\<close> (locale \<open>bounded_log\<close> for both stores), \<open>Limiter\<close>,
    \<open>Scheduler\<close>, \<open>Lifecycle\<close>, \<open>Observability\<close>, \<open>SecretFile\<close>, \<open>Auth\<close>,
    \<open>AppConfig\<close>, \<open>Migrate\<close>, \<open>Dashboard\<close>, \<open>HttpServer\<close>: one theory per package of the
    same purpose; \<open>HttpServer\<close> has every handler and guard of \<open>internal/http\<close>, the role each
    endpoint requires, and the one record that each change leaves in the action history.
  \<^item> \<open>App\<close>: the world the components share and their wiring, where \<open>runtime_env\<close> is
    interpreted for both backends.  \<open>SettingsChange\<close>, \<open>Composition\<close>, \<open>Startup\<close>: setup and
    settings changes, refreshes, and the start and the steps of the whole program; this theory states
    what follows.  \<open>Recovery\<close>: the offline copy, check and compaction of the database in
    \<open>cmd/sqlite-recovery\<close> over a file tree with links and failing calls, and the exit status of
    \<open>cmd/server\<close>.

  \<^bold>\<open>Conventions.\<close>  A Go \<open>(T, error)\<close> is a sum, a sole \<open>error\<close> an option.  State is passed
  explicitly: a function that changes something takes and returns it.  Definitions keep the names of
  the source, with a prefix where two packages share a name.  A context is the number of polls that
  still answer \<open>nil\<close>, so every interleaving of a cancellation with the code is a value of it.  Calls
  of the database and the file system take their failures from lists of booleans, in the order in
  which the code makes them; a list that is used up means no further failure.  A mutex makes the
  operation it protects one step; the lock of the refresh task, which callers may give up waiting
  for, is modelled as such.

  \<^bold>\<open>Loops.\<close>  Loops over slices are structural recursion or \<open>foldE\<close>, the doubling of the backoff
  and the IPv6 parser have a measure.  The paging loop of the panel client runs as long as the panel
  announces pages, so it is a \<open>partial_function\<close> with value \<open>None\<close> when it never returns; that
  it returns for bounded announcements is a theorem, and all functions built on it pass \<open>None\<close> on.
  The ticker loop runs over the list of moments it is given.

  \<^bold>\<open>Parameters.\<close>  Code outside the repository is an argument: \<open>net/http\<close> transports, \<open>net/url\<close>,
  JSON and YAML coding, random numbers, clocks, SHA-256, the effect of a migration script, viper,
  Prometheus registration, OIDC verification, the SQLite driver.  Where a theorem relies on such code it says so by a
  named hypothesis (\<open>mc_router_http\<close>, \<open>rand_ok\<close>, ...), and its witness
  instantiates it.

  \<^bold>\<open>Not modelled.\<close> The signal handling of \<open>cmd/server\<close>, command-line parsing, the reading of
  configuration files by viper in \<open>pkg/config/load.go\<close> (its defaults are modelled), the HTML template
  of the dashboard, the exposition format of the metrics, logging, and the decoding of one JSON value
  of a request body into a struct, which is a parameter of the server (the limit on the body and the
  refusal of trailing data are modelled).  The types in
  \<open>pkg/models/route.go\<close>, \<open>enums.go\<close> and \<open>inventory.go\<close> are used by no other file.
\<close>

section \<open>The program as a whole\<close>

text \<open>
  C5. A refresh of the configured program makes mc-router route what Pelican and the operator asked
  for.  When mc-router behaves as its API documents and the panel is another server, a refresh that
  reports success and publishes services has loaded the stored settings, discovered the servers of the
  panel they name, read the stored policies and planned the routes of these servers under these
  policies; and it has left the managed domain of mc-router with exactly these routes and nothing else,
  and every hostname outside it that is not planned as it was.
\<close>

theorem refresh_converges:
  assumes "mc_router_http (env_http env) table client"
    and "\<And>request. keeps table (pf_http (env_platform env) request)"
    and "dom (table (w_net w)) \<subseteq> Collect path_segment"
    and "Refresh (appTask env cfg secrets (mcRouteController env client domain)) c st w = Some (None, c', st', w')"
    and "mgr_routing (st_manager st') = Some s"
  shows "\<exists>value servers policies routes.
     refresh_reads env cfg secrets (mcRouteController env client domain) w value servers policies \<and>
     Plan \<lparr>planner_domain = normalizeDomain (set_RouterDomain value)\<rparr> servers (policy_map policies) = Inr routes \<and>
     managed_converged (mc_controller (env_http env) client c (env_rand env) domain) routes (table (w_net w)) (table (w_net w'))"
  using app_refresh_converges [OF assms] converged_managed by blast

theorem refresh_converges_witness:
  "\<exists>c' st' w' s. Refresh example_task Background example_state example_ready = Some (None, c', st', w') \<and>
     mgr_routing (st_manager st') = Some s \<and> w_net w' = example_refreshed \<and>
     (\<exists>value servers policies routes.
        refresh_reads example_env example_cfg ''/run/secrets'' (mcRouteController example_env fake_client ''mc.example.com'')
          example_ready value servers policies \<and>
        Plan \<lparr>planner_domain = normalizeDomain (set_RouterDomain value)\<rparr> servers (policy_map policies) = Inr routes \<and>
        managed_converged (mc_controller (env_http example_env) fake_client Background (env_rand example_env) ''mc.example.com'')
          routes (fake_table (w_net example_ready)) (fake_table example_refreshed))"
proof -
  obtain c' st' w' s where run: "Refresh example_task Background example_state example_ready = Some (None, c', st', w')"
    "mgr_routing (st_manager st') = Some s" "w_net w' = example_refreshed"
    using example_refresh by (auto simp: not_None_eq)
  from refresh_converges [OF example_api run(1,2)] run show ?thesis by auto
qed

text \<open>
  C6. First-time setup takes effect completely or not at all.  Whatever backend is configured and
  whichever database, network or backend call fails or is cancelled, a setup that reports an error
  leaves the active settings, the setup flag and the published services as they were; one that reports
  success has stored exactly the trimmed candidate without its API key, marked setup as complete and
  published services built for it.
\<close>

theorem setup_atomic:
  assumes "newRouteController env cfg = Inr controller" "well_published st"
    and "Setup (appSetup env cfg secrets controller) c input st w = Some (e, c', st', w')"
  shows "if e = None
     then active w' = (Inr ((trimmed input)\<lparr>set_PelicanAPIKey := []\<rparr>), Inr True) \<and>
       published_for (appTask env cfg secrets controller) (trimmed input) st'
     else active w' = active w \<and> st_manager st' = st_manager st"
  by (rule appSetup_atomic [OF newRouteController_safe [OF assms(1)] assms(2,3)])

theorem setup_atomic_witness:
  "\<exists>c' st' w'. example_setup_run = Some (None, c', st', w') \<and>
     active w' = (Inr (example_input\<lparr>set_PelicanURL := ''http://127.0.0.1:8081/api/application''\<rparr>), Inr True) \<and>
     published_for (appTask example_env example_cfg ''/run/secrets'' example_control) (trimmed example_input) st'"
proof -
  have "map_option fst example_setup_run = Some None" by code_simp
  then obtain c' st' w' where run: "example_setup_run = Some (None, c', st', w')" by auto
  have t: "(trimmed example_input)\<lparr>set_PelicanAPIKey := []\<rparr> =
      example_input\<lparr>set_PelicanURL := ''http://127.0.0.1:8081/api/application''\<rparr>" by code_simp
  from setup_atomic [OF example_controller_ok example_well_published run] run t show ?thesis by auto
qed

text \<open>
  C10. A change of the settings takes effect completely or not at all.  An update that reports an error
  leaves the active settings and the published services as they were; one that reports success has
  saved the trimmed settings and published services built for them, and setup stays complete.  A key
  given in place of a secret name is saved beside a secret name stored earlier.
\<close>

theorem update_atomic:
  assumes "newRouteController env cfg = Inr controller" "well_published st"
    and "setupUpdate (appSetup env cfg secrets controller) c input st w = Some (e, c', st', w')"
  shows "if e = None
     then active w' = (Inr (saved_settings (trimmed input) w), snd (active w)) \<and>
       published_for (appTask env cfg secrets controller) (trimmed input) st'
     else active w' = active w \<and> st_manager st' = st_manager st"
  by (rule appUpdate_atomic [OF newRouteController_safe [OF assms(1)] assms(2,3)])

theorem update_atomic_witness:
  "\<exists>c' st' w'. setupUpdate (appSetup example_env example_cfg ''/run/secrets'' example_control) Background
       example_input example_state example_configured = Some (None, c', st', w') \<and>
     active w' = (Inr (trimmed example_input), Inr True)"
proof -
  have "map_option fst (setupUpdate (appSetup example_env example_cfg ''/run/secrets'' example_control) Background
      example_input example_state example_configured) = Some None" by code_simp
  then obtain c' st' w' where run: "setupUpdate (appSetup example_env example_cfg ''/run/secrets'' example_control) Background
      example_input example_state example_configured = Some (None, c', st', w')" by auto
  have t: "saved_settings (trimmed example_input) example_configured = trimmed example_input"
    "snd (active example_configured) = Inr True" by code_simp+
  from update_atomic [OF example_controller_ok example_well_published run] run t show ?thesis by simp
qed

text \<open>
  C7. The services the running program publishes are always those of the active settings.  In every
  state reachable from the start by refreshes, settings changes and setups, in any order, with any
  failures and cancellations, and with everything but the settings changing in between, the published
  routing service plans for the router domain of the stored settings, reads the policies of the
  database, and has a filled inventory.
\<close>

theorem published_matches_settings:
  assumes "app_reachable env su (st, w)"
  shows "coherent st w"
  using reachable_coherent [OF assms] by simp

theorem published_matches_settings_witness:
  "\<exists>st w. mgr_routing (st_manager st) \<noteq> None \<and> app_reachable example_env example_startup (st, w) \<and> coherent st w"
proof -
  obtain s st h c' w' where run: "appRun example_env example_startup Background example_ready = Some (Serving s st h, c', w')"
    "mgr_routing (st_manager (sv_runtime st)) \<noteq> None" using example_serving by blast
  have reach: "app_reachable example_env example_startup (sv_runtime st, w')" by (rule app_reachable.started [OF run(1)])
  from published_matches_settings [OF reach] reach run(2) show ?thesis by blast
qed

text \<open>
  C18. A program that starts without an identity provider serves no management request: every endpoint
  but the probes, the metrics and the setup answers that authentication is unavailable, and changes
  nothing.
\<close>

theorem startup_management_closed:
  assumes "appRun env su c w = Some (Serving s st h, c', w')" "su_Load su = Inr cfg" "\<not> da_Enabled (cfg_DashboardAuth cfg)"
    and "management_endpoint (rq_endpoint r)"
  shows "Router s c1 r st1 w1 = Some (writeJSONError 503 ''management authentication unavailable'', c1, st1, w1)"
proof (rule Router_management_closed [OF _ assms(4)])
  show "srv_managementAuth s = None" using appRun_cfg [OF assms(1,2)] appServer_guards assms(3) by blast
qed

theorem startup_management_closed_witness:
  "\<exists>s st h c' w'. appRun example_env example_startup Background example_ready = Some (Serving s st h, c', w') \<and>
     Router s Background ((example_request ''Bearer token'')\<lparr>rq_endpoint := PutSettings\<rparr>) st w' =
       Some (writeJSONError 503 ''management authentication unavailable'', Background, st, w')"
proof -
  obtain s st h c' w' where run: "appRun example_env example_startup Background example_ready = Some (Serving s st h, c', w')"
    using example_serving by blast
  have "su_Load example_startup = Inr example_cfg" "\<not> da_Enabled (cfg_DashboardAuth example_cfg)"
    "management_endpoint (rq_endpoint ((example_request ''Bearer token'')\<lparr>rq_endpoint := PutSettings\<rparr>))"
    by (simp_all add: example_startup_def example_cfg_def setDefaults_def management_endpoint_def)
  from startup_management_closed [OF run this] run show ?thesis by blast
qed

text \<open>
  C37. The checks of the configuration are enough for the wiring, with one exception: when a start fails
  because the routing backend, the synchronizer or the bootstrap authorizer cannot be built, then it
  is the client of mc-router that cannot, and its address is one that the check accepts with
  \<open>url.ParseRequestURI\<close> and the client then refuses with \<open>url.Parse\<close>.
\<close>

theorem startup_checks_suffice:
  assumes "appRun env su c w = Some (Returned (Some e), c', w')" and "wiring_error e"
  shows "\<exists>cfg x. su_Load su = Inr cfg \<and> url_disputed env cfg \<and> e = CreateRouteController x"
proof (cases "appWire env su")
  case (Inl x)
  then have "x = e" using assms(1) by (simp add: appRun_def)
  with appWire_error [OF Inl] assms(2) show ?thesis by simp
next
  case (Inr x)
  obtain cfg directory metrics controller where x: "x = (cfg, directory, metrics, controller)" by (metis prod.collapse)
  have "ValidateInfrastructure (env_parse_uri env) cfg = []"
    using Inr x by (auto simp: appWire_def Let_def split: option.splits if_splits)
  then have t: "TrimSpace (se_BootstrapTokenName (cfg_Secrets cfg)) \<noteq> []" by (rule valid_infrastructure(4))
  have "(\<exists>x. e = InitializeRuntime x) \<or> (\<exists>c w. appServer env su cfg directory controller c w = (Inl (Some e), c', w'))"
    using assms(1) Inr x
    by (auto simp: appRun_def split: option.splits prod.splits sum.splits if_splits)
  then have "\<not> wiring_error e"
    by (elim disjE exE) (simp add: wiring_error_def, rule appServer_error [OF _ t])
  with assms(2) show ?thesis by simp
qed

theorem startup_checks_suffice_witness:
  "url_disputed (example_env\<lparr>env_Parse := (\<lambda>raw. None)\<rparr>) example_cfg"
proof -
  let ?env = "example_env\<lparr>env_Parse := (\<lambda>raw. None)\<rparr>"
  have "case appWire ?env example_startup of Inl e \<Rightarrow> wiring_error e | Inr x \<Rightarrow> False" by code_simp
  then obtain e where e: "appWire ?env example_startup = Inl e" "wiring_error e" by (auto split: sum.splits)
  have run: "appRun ?env example_startup Background example_ready = Some (Returned (Some e), Background, example_ready)"
    by (simp add: appRun_def e(1))
  from startup_checks_suffice [OF run e(2)] show ?thesis by (simp add: example_startup_def)
qed

text \<open>
  C22. The planner and the mc-router controller agree on what a route is: a plan for servers with TCP
  ports passes every check of the controller, and the hostnames it plans are the keys the controller
  uses, so no plan is rejected after it was announced as valid.
\<close>

theorem plan_accepted_by_mcrouter:
  assumes "Plan p servers policies = Inr routes" "list_all (\<lambda>server. srv_BackendPort server \<le> 65535) servers"
  shows "routes_valid routes \<and> desired_of routes = map (\<lambda>route. (route_Hostname route, routeTarget route)) routes"
  using plan_mc_valid [OF assms] by (simp add: desired_of_def)

theorem plan_accepted_by_mcrouter_witness:
  "routes_valid [server_route Planner.example_server ''techopolis-smp.mc.example.com'']"
proof -
  have "list_all (\<lambda>server. srv_BackendPort server \<le> 65535) [Planner.example_server]" by code_simp
  from plan_accepted_by_mcrouter [OF example_plan this] show ?thesis by blast
qed

text \<open>
  C23. Hostname aliases cannot be used with Infrared: the planner gives every alias a route of its own
  with the identifier of the same server, and the Infrared controller refuses a server identifier that
  occurs twice.  So with one policy that has an alias, no plan is ever written, and the directory
  stays as it was.
\<close>

theorem infrared_rejects_aliases:
  assumes "Plan p servers policies = Inr routes" "server \<in> set servers" "\<not> srv_Suspended server"
    and "policies (srv_UUID server) = Some policy" "\<not> pol_Excluded policy" "pol_Aliases policy \<noteq> []"
    and "fresh s"
  shows "\<exists>e c'. ReconcileChanges marshal c routes s = (Inl e, c', s)"
  using infrared_rejects [OF assms(7) plan_aliases_unrenderable [OF plan_aliases_repeat [OF assms(1-6)]]] .

theorem infrared_rejects_aliases_witness:
  "\<exists>e c'. ReconcileChanges example_marshal Background
     [server_route Planner.example_server ''play.mc.example.com'', server_route Planner.example_server ''smp.mc.example.com'']
     (Infrared.example_fs []) = (Inl e, c', Infrared.example_fs [])"
  by (rule infrared_rejects_aliases [OF example_policy_plan _ _ _ _ _ fresh_example, where server = Planner.example_server
        and policy = Planner.example_policy])
    (simp_all add: Planner.example_server_def Planner.example_policy_def)

end
